(* ===== verification/Prelude.thy ===== *)
theory Prelude
  imports Main "HOL-Library.AList"
begin

text \<open>
  Shared vocabulary of the development.

  A Go map is modelled by an association list with distinct keys: a lookup is
  \<^term>\<open>map_of\<close>, an assignment \<open>m[k] = v\<close> is \<^term>\<open>AList.update\<close>, and \<open>delete(m, k)\<close> is
  \<^term>\<open>AList.delete\<close>.  Go leaves the order of \<open>for k, v := range m\<close> unspecified, and
  every loop may see another order; \<open>range_order ord m\<close> is the order a loop sees
  when the run time prefers the keys \<open>ord\<close>.  Every permutation of \<open>m\<close> arises from some
  \<open>ord\<close>, and every \<open>ord\<close> gives a permutation, so a statement for all \<open>ord\<close> is a
  statement for all iteration orders.
\<close>

named_theorems go_simps "evaluation rules of the Go run-time model"
named_theorems field_eqs "what an operation writes to a record, field by field"

type_synonym ('k, 'v) gomap = "('k \<times> 'v) list"

definition gomap_ok :: "('k, 'v) gomap \<Rightarrow> bool" where
  "gomap_ok m \<longleftrightarrow> distinct (map fst m)"

definition range_order :: "'k list \<Rightarrow> ('k, 'v) gomap \<Rightarrow> ('k, 'v) gomap" where
  "range_order ord m =
     List.map_filter (\<lambda>k. map_option (Pair k) (map_of m k)) (remdups ord)
     @ filter (\<lambda>(k, v). k \<notin> set ord) m"

lemma gomap_ok_Nil [simp]: "gomap_ok []"
  by (simp add: gomap_ok_def)

lemma gomap_ok_update [simp, intro]: "gomap_ok m \<Longrightarrow> gomap_ok (AList.update k v m)"
  by (simp add: gomap_ok_def distinct_update)

lemma gomap_ok_delete [simp, intro]: "gomap_ok m \<Longrightarrow> gomap_ok (AList.delete k m)"
  by (simp add: gomap_ok_def distinct_delete)

lemma map_of_update [simp]: "map_of (AList.update k v m) = (map_of m)(k \<mapsto> v)"
  by (simp add: update_conv')

lemma map_of_delete [simp]: "map_of (AList.delete k m) = (map_of m)(k := None)"
  by (simp add: delete_conv')

lemma alist_update_new: "k \<notin> fst ` set m \<Longrightarrow> AList.update k v m = m @ [(k, v)]"
  by (induction m) auto

lemma gomap_set_iff: "gomap_ok m \<Longrightarrow> (k, v) \<in> set m \<longleftrightarrow> map_of m k = Some v"
  by (simp add: gomap_ok_def)

lemma set_map_filter_pairs:
  "set (List.map_filter (\<lambda>k. map_option (Pair k) (f k)) ks) =
     {(k, v). k \<in> set ks \<and> f k = Some v}"
  by (force simp: List.map_filter_def image_iff)

lemma set_range_order [simp]:
  assumes "gomap_ok m"
  shows "set (range_order ord m) = set m"
  using assms
  by (auto simp: range_order_def set_map_filter_pairs gomap_set_iff)

lemma distinct_map_filter_fst:
  "distinct ks \<Longrightarrow>
   distinct (map fst (List.map_filter (\<lambda>k. map_option (Pair k) (f k)) ks))"
  by (induction ks)
    (auto simp: List.map_filter_def split: option.splits)

lemma range_order_ok [simp, intro]:
  assumes "gomap_ok m"
  shows "gomap_ok (range_order ord m)"
proof -
  have "distinct (map fst (filter (\<lambda>(k, v). k \<notin> set ord) m))"
    using assms by (auto simp: gomap_ok_def intro: distinct_map_filter)
  then show ?thesis
    unfolding gomap_ok_def range_order_def
    by (auto simp: distinct_map_filter_fst set_map_filter_pairs)
qed

lemma range_order_any_permutation:
  assumes "gomap_ok m" and "gomap_ok m'" and "set m' = set m"
  shows "range_order (map fst m') m = m'"
proof -
  have eq: "map_of m = map_of m'"
    using assms by (metis gomap_ok_def map_of_inject_set)
  have "List.map_filter (\<lambda>k. map_option (Pair k) (map_of m k)) (map fst xs) = xs"
    if "set xs \<subseteq> set m'" for xs
    using that assms(2) unfolding eq
    by (induction xs) (auto simp: List.map_filter_def gomap_set_iff)
  moreover have "filter (\<lambda>(k, v). k \<notin> fst ` set m') m = []"
    using assms(3) by (force simp: filter_empty_conv)
  ultimately show ?thesis
    using assms(2) by (simp add: range_order_def gomap_ok_def distinct_remdups_id)
qed

text \<open>
  A \<open>range\<close> loop that stops once its output holds \<open>limit\<close> items and keeps the items that
  pass a test: Go's \<open>if len(out) >= limit { break }\<close>.
\<close>

fun collect_upto :: "int \<Rightarrow> ('a \<Rightarrow> 'b option) \<Rightarrow> 'b list \<Rightarrow> 'a list \<Rightarrow> 'b list" where
  "collect_upto limit f out [] = out"
| "collect_upto limit f out (x # xs) =
     (if int (length out) \<ge> limit then out
      else case f x of
             None \<Rightarrow> collect_upto limit f out xs
           | Some y \<Rightarrow> collect_upto limit f (out @ [y]) xs)"

lemma collect_upto_eq:
  "int (length out) \<le> limit \<Longrightarrow>
   collect_upto limit f out xs =
     out @ take (nat limit - length out) (List.map_filter f xs)"
proof (induction xs arbitrary: out)
  case Nil
  then show ?case by (simp add: List.map_filter_def)
next
  case (Cons x xs)
  show ?case
  proof (cases "int (length out) \<ge> limit")
    case True
    then show ?thesis by simp
  next
    case False
    then obtain k where k: "nat limit - length out = Suc k"
      by (metis Suc_diff_Suc not_le zless_nat_eq_int_zless)
    then have "nat limit - length (out @ [y]) = k" for y by simp
    with False k Cons show ?thesis
      by (auto simp: List.map_filter_def split: option.splits)
  qed
qed

lemma collect_upto_neg: "limit \<le> 0 \<Longrightarrow> collect_upto limit f [] xs = []"
  by (cases xs) auto

lemma collect_upto_take:
  "collect_upto limit f [] xs = take (nat limit) (List.map_filter f xs)"
proof (cases "limit \<le> 0")
  case True
  then show ?thesis by (simp add: collect_upto_neg)
next
  case False
  then show ?thesis by (simp add: collect_upto_eq)
qed

lemma set_map_filter: "set (List.map_filter f xs) = {y. \<exists>x \<in> set xs. f x = Some y}"
  by (auto simp: List.map_filter_def image_iff) (metis option.sel)+

lemma set_map_filter_prod:
  "set (List.map_filter f xs) = {y. \<exists>k x. (k, x) \<in> set xs \<and> f (k, x) = Some y}"
  by (auto simp: set_map_filter)

lemma distinct_map_filter_prod:
  assumes "distinct (map fst xs)"
    and "\<And>k x k' x' y. \<lbrakk>(k, x) \<in> set xs; (k', x') \<in> set xs; f (k, x) = Some y; f (k', x') = Some y\<rbrakk> \<Longrightarrow> k = k'"
  shows "distinct (List.map_filter f xs)"
  using assms
proof (induction xs)
  case Nil
  then show ?case by (simp add: List.map_filter_def)
next
  case (Cons p xs)
  have IH: "distinct (List.map_filter f xs)"
    using Cons by (metis distinct.simps(2) list.set_intros(2) list.simps(9))
  show ?case
  proof (cases "f p")
    case None
    then show ?thesis using IH by (simp add: List.map_filter_def)
  next
    case (Some y)
    have "y \<notin> set (List.map_filter f xs)"
    proof
      assume "y \<in> set (List.map_filter f xs)"
      then obtain k x where kx: "(k, x) \<in> set xs" "f (k, x) = Some y"
        by (auto simp: set_map_filter_prod)
      have "fst p = k" using Cons.prems(2) [of "fst p" "snd p" k x y] kx Some by simp
      moreover have "k \<in> fst ` set xs" using kx(1) by (metis fst_conv image_eqI)
      ultimately show False using Cons.prems(1) by simp
    qed
    then show ?thesis using IH Some by (simp add: List.map_filter_def)
  qed
qed

text \<open>A table is a list of rows with distinct keys; a query by key is \<^const>\<open>find\<close>.\<close>

lemma find_SomeD: "find P xs = Some x \<Longrightarrow> x \<in> set xs \<and> P x"
  by (induction xs) (auto split: if_splits)

lemma find_distinct_iff:
  "distinct (map f xs) \<Longrightarrow> find (\<lambda>x. f x = k) xs = Some x \<longleftrightarrow> x \<in> set xs \<and> f x = k"
  by (induction xs) auto

lemma find_None_key: "find (\<lambda>x. f x = k) xs = None \<longleftrightarrow> k \<notin> f ` set xs"
  by (auto simp: find_None_iff)

lemma find_key_and:
  "distinct (map f xs) \<Longrightarrow>
   find (\<lambda>x. P x \<and> f x = k) xs =
     (case find (\<lambda>x. f x = k) xs of None \<Rightarrow> None | Some x \<Rightarrow> if P x then Some x else None)"
proof (induction xs)
  case (Cons a xs)
  then have "k = f a \<Longrightarrow> find (\<lambda>x. f x = k) xs = None"
    by (simp add: find_None_key)
  with Cons show ?case by auto
qed simp

lemma find_map_same_key:
  "(\<And>x. f (g x) = f x) \<Longrightarrow>
   find (\<lambda>x. f x = k) (map g xs) = map_option g (find (\<lambda>x. f x = k) xs)"
  by (induction xs) auto

lemma find_append_one:
  "find P (xs @ [x]) = (case find P xs of None \<Rightarrow> if P x then Some x else None | Some y \<Rightarrow> Some y)"
  by (induction xs) auto

lemmas go_splits = if_splits option.splits sum.splits prod.splits

end
