(* ===== verification/Go_Float.thy ===== *)
theory Go_Float
  imports Complex_Main Prelude "HOL-Library.Log_Nat" "HOL-Library.Word"
begin

text \<open>
  Go's \<open>float64\<close>: IEEE 754 binary64 with round to nearest, ties to even.  A finite value is
  \<open>Fin q\<close> with \<open>q\<close> rational (\<open>Fin 0\<close> is +0); \<open>f_round\<close> maps an exact rational to the float
  the hardware would return, with gradual underflow and overflow to an infinity.  Every
  arithmetic operation computes exactly and rounds once.
\<close>

datatype float64 = NaN | PosInf | NegInf | NegZero | Fin rat

section \<open>Rounding\<close>

definition ilog2 :: "rat \<Rightarrow> int" where
  "ilog2 r = (if 1 \<le> r then int (floorlog 2 (nat \<lfloor>r\<rfloor>)) - 1
              else - int (floorlog 2 (nat (\<lceil>1 / r\<rceil> - 1))))"

definition rne :: "rat \<Rightarrow> int" where
  "rne x = (let f = \<lfloor>x\<rfloor>; d = x - of_int f in
            if d < 1 / 2 then f else if 1 / 2 < d then f + 1
            else if even f then f else f + 1)"

definition ulp_exp :: "rat \<Rightarrow> int" where
  "ulp_exp r = max (ilog2 r - 52) (- 1074)"

definition round53 :: "rat \<Rightarrow> rat" where
  "round53 r = (let u = 2 powi ulp_exp r in of_int (rne (r / u)) * u)"

definition f_round :: "rat \<Rightarrow> float64" where
  "f_round r =
     (if r = 0 then Fin 0
      else let m = round53 \<bar>r\<bar> in
           if 2 ^ 1024 \<le> m then (if r < 0 then NegInf else PosInf)
           else if m = 0 then (if r < 0 then NegZero else Fin 0)
           else Fin (if r < 0 then - m else m))"

section \<open>Operations\<close>

fun f_val :: "float64 \<Rightarrow> rat option" where
  "f_val (Fin q) = Some q"
| "f_val NegZero = Some 0"
| "f_val _ = None"

fun f_neg :: "float64 \<Rightarrow> float64" where
  "f_neg NaN = NaN"
| "f_neg PosInf = NegInf"
| "f_neg NegInf = PosInf"
| "f_neg NegZero = Fin 0"
| "f_neg (Fin q) = (if q = 0 then NegZero else Fin (- q))"

fun f_add :: "float64 \<Rightarrow> float64 \<Rightarrow> float64" where
  "f_add NaN _ = NaN"
| "f_add _ NaN = NaN"
| "f_add PosInf NegInf = NaN"
| "f_add NegInf PosInf = NaN"
| "f_add PosInf _ = PosInf"
| "f_add _ PosInf = PosInf"
| "f_add NegInf _ = NegInf"
| "f_add _ NegInf = NegInf"
| "f_add NegZero NegZero = NegZero"
| "f_add NegZero (Fin q) = Fin q"
| "f_add (Fin p) NegZero = Fin p"
| "f_add (Fin p) (Fin q) = f_round (p + q)"

definition f_sub :: "float64 \<Rightarrow> float64 \<Rightarrow> float64" where
  "f_sub x y = f_add x (f_neg y)"

text \<open>The sign bit, \<open>True\<close> for negative; a NaN's sign is not observed by the program.\<close>

fun f_signbit :: "float64 \<Rightarrow> bool" where
  "f_signbit NegInf = True"
| "f_signbit NegZero = True"
| "f_signbit (Fin q) = (q < 0)"
| "f_signbit _ = False"

definition f_zero :: "bool \<Rightarrow> float64" where
  "f_zero neg = (if neg then NegZero else Fin 0)"

definition f_inf :: "bool \<Rightarrow> float64" where
  "f_inf neg = (if neg then NegInf else PosInf)"

definition f_mul :: "float64 \<Rightarrow> float64 \<Rightarrow> float64" where
  "f_mul x y =
     (let neg = (f_signbit x \<noteq> f_signbit y) in
      if x = NaN \<or> y = NaN then NaN
      else case (f_val x, f_val y) of
        (Some p, Some q) \<Rightarrow> if p * q = 0 then f_zero neg else f_round (p * q)
      | (Some p, None) \<Rightarrow> if p = 0 then NaN else f_inf neg
      | (None, Some q) \<Rightarrow> if q = 0 then NaN else f_inf neg
      | (None, None) \<Rightarrow> f_inf neg)"

definition f_div :: "float64 \<Rightarrow> float64 \<Rightarrow> float64" where
  "f_div x y =
     (let neg = (f_signbit x \<noteq> f_signbit y) in
      if x = NaN \<or> y = NaN then NaN
      else case (f_val x, f_val y) of
        (Some p, Some q) \<Rightarrow>
          if q = 0 then (if p = 0 then NaN else f_inf neg)
          else if p = 0 then f_zero neg else f_round (p / q)
      | (Some p, None) \<Rightarrow> f_zero neg
      | (None, Some q) \<Rightarrow> f_inf neg
      | (None, None) \<Rightarrow> NaN)"

fun f_lt :: "float64 \<Rightarrow> float64 \<Rightarrow> bool" where
  "f_lt NaN _ = False"
| "f_lt _ NaN = False"
| "f_lt PosInf _ = False"
| "f_lt _ PosInf = True"
| "f_lt _ NegInf = False"
| "f_lt NegInf _ = True"
| "f_lt x y = (the (f_val x) < the (f_val y))"

definition f_eq :: "float64 \<Rightarrow> float64 \<Rightarrow> bool" where
  "f_eq x y = (x \<noteq> NaN \<and> y \<noteq> NaN \<and>
     (x = y \<or> (case (f_val x, f_val y) of (Some p, Some q) \<Rightarrow> p = q | _ \<Rightarrow> False)))"

definition f_le :: "float64 \<Rightarrow> float64 \<Rightarrow> bool" where
  "f_le x y = (f_lt x y \<or> f_eq x y)"

definition f_of_int :: "int \<Rightarrow> float64" where
  "f_of_int n = f_round (of_int n)"

section \<open>Exactness and sign of rounding\<close>

lemma ilog2_bounds:
  assumes "0 < r"
  shows "2 powi ilog2 r \<le> r" and "r < 2 powi (ilog2 r + 1)"
proof -
  have "2 powi ilog2 r \<le> r \<and> r < 2 powi (ilog2 r + 1)"
  proof (cases "1 \<le> r")
    case True
    define n where "n = nat \<lfloor>r\<rfloor>"
    have n: "0 < n" and nr: "of_nat n \<le> r" "r < of_nat n + 1"
      using True unfolding n_def by (simp_all) linarith+
    have b: "2 ^ (floorlog 2 n - 1) \<le> n" "n < 2 ^ floorlog 2 n"
      using floorlog_bounds [of n 2] n by simp_all
    have pos: "0 < floorlog 2 n"
      using b(2) n by (cases "floorlog 2 n") auto
    have lo: "(2::rat) ^ (floorlog 2 n - 1) \<le> of_nat n"
      using b(1) by (metis of_nat_le_iff of_nat_numeral of_nat_power)
    have hi: "of_nat n + 1 \<le> (2::rat) ^ floorlog 2 n"
    proof -
      have "of_nat (Suc n) \<le> (of_nat (2 ^ floorlog 2 n) :: rat)"
        using b(2) unfolding of_nat_le_iff by simp
      then show ?thesis by (simp add: add.commute)
    qed
    have il: "ilog2 r = int (floorlog 2 n - 1)"
      using True pos by (simp add: ilog2_def n_def of_nat_diff)
    have p1: "2 powi ilog2 r = (2::rat) ^ (floorlog 2 n - 1)"
      unfolding il by (simp add: power_int_def)
    have "ilog2 r + 1 = int (floorlog 2 n)"
      using il pos by simp
    then have p2: "2 powi (ilog2 r + 1) = (2::rat) ^ floorlog 2 n"
      by (simp add: power_int_def)
    show ?thesis unfolding p1 p2 using lo hi nr by linarith
  next
    case False
    define c where "c = nat (\<lceil>1 / r\<rceil> - 1)"
    have s: "1 < 1 / r" using False assms by (simp add: field_simps)
    then have ce: "2 \<le> \<lceil>1 / r\<rceil>" by linarith
    then have c: "0 < c" and cs: "of_nat c < 1 / r" "1 / r \<le> of_nat c + 1"
      unfolding c_def by (simp_all) linarith+
    define L where "L = floorlog 2 c"
    have b: "2 ^ (L - 1) \<le> c" "c < 2 ^ L"
      using floorlog_bounds [of c 2] c unfolding L_def by simp_all
    have pos: "0 < L" using b(2) c by (cases L) auto
    have lo: "(2::rat) ^ (L - 1) \<le> of_nat c"
      using b(1) by (metis of_nat_le_iff of_nat_numeral of_nat_power)
    have "of_nat (Suc c) \<le> (of_nat (2 ^ L) :: rat)"
      using b(2) unfolding of_nat_le_iff by simp
    then have hi: "of_nat c + 1 \<le> (2::rat) ^ L" by (simp add: add.commute)
    have il: "ilog2 r = - int L"
      using False by (simp add: ilog2_def c_def L_def)
    have p1: "2 powi ilog2 r = 1 / (2::rat) ^ L"
      unfolding il by (simp add: power_int_minus power_int_def divide_simps)
    have "ilog2 r + 1 = - int (L - 1)" using il pos by simp
    then have p2: "2 powi (ilog2 r + 1) = 1 / (2::rat) ^ (L - 1)"
      by (simp only: power_int_minus power_int_of_nat divide_inverse mult_1)
    have "1 / r \<le> (2::rat) ^ L" "(2::rat) ^ (L - 1) < 1 / r"
      using lo hi cs by linarith+
    then show ?thesis unfolding p1 p2 using assms
      by (simp add: field_simps)
  qed
  then show "2 powi ilog2 r \<le> r" and "r < 2 powi (ilog2 r + 1)" by simp_all
qed

lemma rne_of_int [simp]: "rne (of_int n) = n"
  by (simp add: rne_def)

lemma rne_nonneg: "0 \<le> x \<Longrightarrow> 0 \<le> rne x"
  by (auto simp: rne_def Let_def)

lemma round53_nonneg: "0 \<le> r \<Longrightarrow> 0 \<le> round53 r"
  by (simp add: round53_def Let_def rne_nonneg)

text \<open>A dyadic rational with a 53-bit significand in range is its own rounding.\<close>

lemma round53_exact:
  assumes "0 < m" and "m < 2 ^ 53" and "- 1074 \<le> k"
  shows "round53 (of_int m * 2 powi k) = of_int m * 2 powi k"
proof -
  define r :: rat where "r = of_int m * 2 powi k"
  have r: "0 < r" using assms(1) by (simp add: r_def)
  have "r < 2 ^ 53 * 2 powi k"
  proof -
    have "(of_int m :: rat) < of_int (2 ^ 53)"
      using assms(2) by (simp only: of_int_less_iff)
    then show ?thesis by (simp add: r_def)
  qed
  also have "(2::rat) ^ 53 * 2 powi k = 2 powi (k + 53)"
    by (simp add: power_int_add)
  finally have "2 powi ilog2 r < (2::rat) powi (k + 53)"
    using ilog2_bounds(1) [OF r] by (meson le_less_trans)
  then have "ilog2 r < k + 53"
    using power_int_increasing [of "k + 53" "ilog2 r" "2::rat"] by fastforce
  then have ue: "ulp_exp r \<le> k" using assms(3) by (simp add: ulp_exp_def)
  define d where "d = nat (k - ulp_exp r)"
  have k: "(2::rat) powi k = 2 ^ d * 2 powi ulp_exp r"
  proof -
    have "(2::rat) powi k = 2 powi (int d + ulp_exp r)"
      using ue by (simp add: d_def)
    then show ?thesis by (simp add: power_int_add)
  qed
  have rm: "r = of_int (m * 2 ^ d) * 2 powi ulp_exp r"
  proof -
    have "r = of_int m * 2 powi k" by (rule r_def)
    also have "\<dots> = of_int m * (2 ^ d * 2 powi ulp_exp r)" by (simp only: k)
    finally show ?thesis
      by (simp only: of_int_mult of_int_power of_int_numeral mult.assoc)
  qed
  then have "r / 2 powi ulp_exp r = of_int (m * 2 ^ d)"
    by (metis nonzero_mult_div_cancel_right power_int_not_zero zero_neq_numeral)
  then have "round53 r = of_int (m * 2 ^ d) * 2 powi ulp_exp r"
    by (simp only: round53_def Let_def rne_of_int)
  also have "\<dots> = r" by (rule rm [symmetric])
  finally show ?thesis by (simp add: r_def)
qed

lemma f_round_dyadic:
  assumes "\<bar>m\<bar> < 2 ^ 53" and "- 1074 \<le> k" and "k \<le> 971"
  shows "f_round (of_int m * 2 powi k) = Fin (of_int m * 2 powi k)"
proof (cases "m = 0")
  case True
  then show ?thesis by (simp add: f_round_def)
next
  case False
  define q :: rat where "q = of_int \<bar>m\<bar> * 2 powi k"
  have abs: "\<bar>of_int m * 2 powi k :: rat\<bar> = q"
    by (simp add: q_def abs_mult)
  have ex: "round53 q = q"
    unfolding q_def using False assms by (intro round53_exact) simp_all
  have pos: "0 < q" using False by (simp add: q_def)
  have "q < 2 ^ 1024"
  proof -
    have "(of_int \<bar>m\<bar> :: rat) < of_int (2 ^ 53)"
      using assms(1) by (simp only: of_int_less_iff)
    then have "q < 2 ^ 53 * 2 powi k" by (simp add: q_def)
    also have "\<dots> = 2 powi (k + 53)" by (simp add: power_int_add)
    also have "\<dots> \<le> 2 powi 1024"
      using assms(3) by (intro power_int_increasing) simp_all
    also have "\<dots> = (2::rat) ^ 1024" by (simp add: power_int_def)
    finally show ?thesis .
  qed
  moreover have "of_int m * 2 powi k \<noteq> (0::rat)" using False by simp
  moreover have "(if of_int m * 2 powi k < (0::rat) then - q else q) = of_int m * 2 powi k"
    unfolding abs [symmetric] by (simp del: mult_less_0_iff)
  ultimately show ?thesis
    using ex pos unfolding f_round_def Let_def abs
    by (simp only: if_False not_le [symmetric]) (simp only: if_False order_less_imp_not_eq2 not_le)
qed

lemma f_round_of_int [simp]:
  assumes "\<bar>n\<bar> < 2 ^ 53"
  shows "f_round (of_int n) = Fin (of_int n)"
  using f_round_dyadic [of n 0] assms by simp

lemma f_of_int_exact [simp]: "\<bar>n\<bar> < 2 ^ 53 \<Longrightarrow> f_of_int n = Fin (of_int n)"
  by (simp add: f_of_int_def)

lemma f_round_nonneg:
  "0 \<le> r \<Longrightarrow> f_round r = PosInf \<or> (\<exists>q. f_round r = Fin q \<and> 0 \<le> q)"
  using round53_nonneg [of r] by (auto simp: f_round_def Let_def)

lemma f_round_not_nan [simp]: "f_round r \<noteq> NaN"
  by (auto simp: f_round_def Let_def)

lemma f_round_nonneg_not_lt: "0 \<le> r \<Longrightarrow> \<not> f_lt (f_round r) (Fin 0)"
  using f_round_nonneg [of r] by auto

end
