(* ===== verification/Go_Strings.thy ===== *)
theory Go_Strings
  imports Prelude
begin

text \<open>
  The parts of Go's \<open>strings\<close> and \<open>strconv\<close> packages the program uses.  A Go string is a
  byte sequence, here a \<open>char list\<close> with one \<open>char\<close> per byte.

  \<open>TrimSpace\<close> removes Unicode white space, so the UTF-8 encodings of the non-ASCII space
  characters are listed.  \<open>ToLower\<close> and \<open>EqualFold\<close> are used by the program only to compare
  with ASCII literals.  The non-ASCII characters that lower to, or fold with, an ASCII letter
  are the Kelvin sign (k), the long s (s, folding only) and the dotted capital I (i, lowering
  only); every other non-ASCII byte never equals an ASCII byte and is left as it is.
\<close>

section \<open>Bytes and white space\<close>

definition byte :: "int \<Rightarrow> char" where
  "byte n = char_of n"

definition code :: "char \<Rightarrow> int" where
  "code c = of_char c"

definition utf8_spaces :: "int list list" where
  "utf8_spaces =
     [[9], [10], [11], [12], [13], [32], [194, 133], [194, 160], [225, 154, 128],
      [226, 128, 168], [226, 128, 169], [226, 128, 175], [226, 129, 159], [227, 128, 128]]
     @ map (\<lambda>i. [226, 128, i]) [128, 129, 130, 131, 132, 133, 134, 135, 136, 137, 138]"

fun drop_one_of :: "int list list \<Rightarrow> int list \<Rightarrow> int list option" where
  "drop_one_of [] s = None"
| "drop_one_of (p # ps) s =
     (if take (length p) s = p then Some (drop (length p) s) else drop_one_of ps s)"

fun trim_left_fuel :: "nat \<Rightarrow> int list list \<Rightarrow> int list \<Rightarrow> int list" where
  "trim_left_fuel 0 ps s = s"
| "trim_left_fuel (Suc n) ps s =
     (case drop_one_of ps s of None \<Rightarrow> s | Some s' \<Rightarrow> trim_left_fuel n ps s')"

definition trim_left :: "int list list \<Rightarrow> int list \<Rightarrow> int list" where
  "trim_left ps s = trim_left_fuel (length s) ps s"

definition TrimSpace :: "string \<Rightarrow> string" where
  "TrimSpace s =
     map byte (rev (trim_left (map rev utf8_spaces)
       (rev (trim_left utf8_spaces (map code s)))))"

section \<open>Case\<close>

definition lower_byte :: "int \<Rightarrow> int" where
  "lower_byte n = (if 65 \<le> n \<and> n \<le> 90 then n + 32 else n)"

fun lower_codes :: "int list \<Rightarrow> int list" where
  "lower_codes [] = []"
| "lower_codes (a # s) =
     (if a = 226 \<and> take 2 s = [132, 170] then 107 # lower_codes (drop 2 s)
      else if a = 196 \<and> take 1 s = [176] then 105 # lower_codes (drop 1 s)
      else lower_byte a # lower_codes s)"

fun fold_codes :: "int list \<Rightarrow> int list" where
  "fold_codes [] = []"
| "fold_codes (a # s) =
     (if a = 226 \<and> take 2 s = [132, 170] then 107 # fold_codes (drop 2 s)
      else if a = 197 \<and> take 1 s = [191] then 115 # fold_codes (drop 1 s)
      else lower_byte a # fold_codes s)"

definition ToLower :: "string \<Rightarrow> string" where
  "ToLower s = map byte (lower_codes (map code s))"

definition EqualFold :: "string \<Rightarrow> string \<Rightarrow> bool" where
  "EqualFold s t \<longleftrightarrow> fold_codes (map code s) = fold_codes (map code t)"

definition HasPrefix :: "string \<Rightarrow> string \<Rightarrow> bool" where
  "HasPrefix s p \<longleftrightarrow> take (length p) s = p"

section \<open>Decimal integers\<close>

definition digit :: "int \<Rightarrow> char" where
  "digit d = char_of (48 + d)"

definition is_digit :: "char \<Rightarrow> bool" where
  "is_digit c \<longleftrightarrow> 48 \<le> code c \<and> code c \<le> 57"

definition digit_val :: "char \<Rightarrow> int" where
  "digit_val c = code c - 48"

function dec :: "int \<Rightarrow> string" where
  "dec n = (if n < 10 then [digit n] else dec (n div 10) @ [digit (n mod 10)])"
  by pat_completeness auto
termination
  by (relation "measure nat") auto

declare dec.simps [simp del]

definition FormatInt :: "int \<Rightarrow> string" where
  "FormatInt i = (if i < 0 then CHR ''-'' # dec (- i) else dec i)"

abbreviation Itoa :: "int \<Rightarrow> string" where
  "Itoa \<equiv> FormatInt"

definition dec_val :: "string \<Rightarrow> int" where
  "dec_val s = foldl (\<lambda>acc c. acc * 10 + digit_val c) 0 s"

text \<open>\<open>strconv.ParseInt(s, 10, bits)\<close>; \<open>None\<close> stands for a syntax or a range error.\<close>

definition ParseInt :: "nat \<Rightarrow> string \<Rightarrow> int option" where
  "ParseInt bits s =
     (let (neg, ds) = (case s of
          [] \<Rightarrow> (False, [])
        | c # cs \<Rightarrow> if c = CHR ''-'' then (True, cs)
                   else if c = CHR ''+'' then (False, cs) else (False, s));
        v = dec_val ds
      in if ds = [] \<or> \<not> list_all is_digit ds then None
         else if neg then (if v \<le> 2 ^ (bits - 1) then Some (- v) else None)
         else (if v < 2 ^ (bits - 1) then Some v else None))"

abbreviation Atoi :: "string \<Rightarrow> int option" where
  "Atoi \<equiv> ParseInt 64"

section \<open>Quoting\<close>

text \<open>The \<open>%q\<close> verb.  Bytes of non-ASCII characters are copied, as Go does when they are printable.\<close>

definition hex_char :: "int \<Rightarrow> char" where
  "hex_char n = (if n < 10 then byte (48 + n) else byte (87 + n))"

definition quote_byte :: "char \<Rightarrow> string" where
  "quote_byte c =
     (let n = code c in
      if n = 34 \<or> n = 92 then [byte 92, c]
      else if n = 7 then [byte 92, CHR ''a''] else if n = 8 then [byte 92, CHR ''b'']
      else if n = 12 then [byte 92, CHR ''f''] else if n = 10 then [byte 92, CHR ''n'']
      else if n = 13 then [byte 92, CHR ''r''] else if n = 9 then [byte 92, CHR ''t'']
      else if n = 11 then [byte 92, CHR ''v'']
      else if n < 32 \<or> n = 127 then [byte 92, CHR ''x'', hex_char (n div 16), hex_char (n mod 16)]
      else [c])"

definition Quote :: "string \<Rightarrow> string" where
  "Quote s = byte 34 # concat (map quote_byte s) @ [byte 34]"

section \<open>Round trip of decimal integers\<close>

lemma code_digit [simp]: "0 \<le> d \<Longrightarrow> d < 10 \<Longrightarrow> code (digit d) = 48 + d"
  by (simp add: code_def digit_def)

lemma is_digit_digit [simp]: "0 \<le> d \<Longrightarrow> d < 10 \<Longrightarrow> is_digit (digit d)"
  by (simp add: is_digit_def)

lemma digit_val_digit [simp]: "0 \<le> d \<Longrightarrow> d < 10 \<Longrightarrow> digit_val (digit d) = d"
  by (simp add: digit_val_def)

lemma dec_digits: "0 \<le> n \<Longrightarrow> list_all is_digit (dec n)"
proof (induction n rule: dec.induct)
  case (1 n)
  then show ?case by (subst dec.simps) auto
qed

lemma dec_not_Nil [simp]: "dec n \<noteq> []"
  by (subst dec.simps) simp

lemma dec_val_snoc: "dec_val (s @ [c]) = dec_val s * 10 + digit_val c"
  by (simp add: dec_val_def)

lemma dec_val_dec [simp]: "0 \<le> n \<Longrightarrow> dec_val (dec n) = n"
proof (induction n rule: dec.induct)
  case (1 n)
  show ?case
  proof (cases "n < 10")
    case True
    with 1 show ?thesis by (subst dec.simps) (simp add: dec_val_def)
  next
    case False
    with 1 show ?thesis by (subst dec.simps) (simp add: dec_val_snoc)
  qed
qed

lemma dec_hd:
  assumes "0 \<le> n"
  shows "\<exists>c cs. dec n = c # cs \<and> is_digit c"
proof -
  obtain c cs where "dec n = c # cs" by (meson dec_not_Nil neq_Nil_conv)
  then show ?thesis using dec_digits [OF assms] by simp
qed

lemma not_digit_sign [simp]: "\<not> is_digit (CHR ''-'')" "\<not> is_digit (CHR ''+'')"
  by (simp_all add: is_digit_def code_def)

lemma ParseInt_FormatInt:
  assumes "- (2 ^ (bits - 1)) \<le> i" and "i < 2 ^ (bits - 1)"
  shows "ParseInt bits (FormatInt i) = Some i"
proof (cases "i < 0")
  case True
  then show ?thesis using assms(1) dec_digits [of "- i"]
    by (simp add: FormatInt_def ParseInt_def Let_def)
next
  case False
  then obtain c cs where c: "dec i = c # cs" "is_digit c"
    using dec_hd [of i] by auto
  then have "c \<noteq> CHR ''-''" "c \<noteq> CHR ''+''" by auto
  with False c(1) assms(2) dec_digits [of i] dec_val_dec [of i] show ?thesis
    by (simp add: FormatInt_def ParseInt_def Let_def)
qed

lemma FormatInt_inject [simp]: "FormatInt a = FormatInt b \<longleftrightarrow> a = b"
proof
  assume eq: "FormatInt a = FormatInt b"
  define n where "n = nat \<bar>a\<bar> + nat \<bar>b\<bar> + 1"
  have "int n \<le> 2 ^ n"
    using less_exp [of n] by (metis less_imp_le of_nat_le_iff of_nat_numeral of_nat_power)
  moreover have "\<bar>a\<bar> < int n" "\<bar>b\<bar> < int n" by (simp_all add: n_def)
  ultimately have "\<bar>a\<bar> < 2 ^ n" "\<bar>b\<bar> < 2 ^ n" by linarith+
  then have "- (2 ^ n) \<le> a" "a < 2 ^ n" "- (2 ^ n) \<le> b" "b < 2 ^ n" by linarith+
  then have "ParseInt (Suc n) (FormatInt a) = Some a" "ParseInt (Suc n) (FormatInt b) = Some b"
    using ParseInt_FormatInt [of "Suc n", unfolded diff_Suc_1] by blast+
  then show "a = b" unfolding eq by simp
qed simp

lemma colon_not_in_FormatInt: "CHR '':'' \<notin> set (FormatInt i)"
proof -
  have "CHR '':'' \<notin> set (dec n)" if "0 \<le> n" for n
    using dec_digits [OF that] by (auto simp: list_all_iff is_digit_def code_def)
  then show ?thesis by (auto simp: FormatInt_def)
qed

lemma FormatInt_not_Nil [simp]: "FormatInt i \<noteq> []"
  by (simp add: FormatInt_def)

section \<open>Trimming twice\<close>

lemma drop_one_of_SomeD: "drop_one_of ps s = Some s' \<Longrightarrow> \<exists>p \<in> set ps. s = p @ s'"
  by (induction ps) (auto split: if_splits intro: append_take_drop_id [symmetric], metis append_take_drop_id)

lemma drop_one_of_prefix: "drop_one_of ps (s @ t) = None \<Longrightarrow> drop_one_of ps s = None"
proof (induction ps)
  case (Cons p ps)
  have "take (length p) s = p \<Longrightarrow> take (length p) (s @ t) = p"
    by (metis append_eq_conv_conj append_take_drop_id append.assoc)
  then show ?case using Cons by (auto split: if_splits)
qed simp

lemma trim_left_fuel_stops:
  "\<forall>p \<in> set ps. p \<noteq> [] \<Longrightarrow> length s \<le> n \<Longrightarrow> drop_one_of ps (trim_left_fuel n ps s) = None"
proof (induction n arbitrary: s)
  case 0
  then show ?case by (induction ps) auto
next
  case (Suc n)
  show ?case
  proof (cases "drop_one_of ps s")
    case (Some s')
    then obtain p where "p \<in> set ps" "s = p @ s'" using drop_one_of_SomeD by blast
    moreover have "0 < length p" using calculation(1) Suc.prems(1) by blast
    moreover have "length s = length p + length s'" using calculation(2) by simp
    ultimately have "length s' \<le> n" using Suc.prems(2) by linarith
    then show ?thesis using Suc Some by simp
  qed simp
qed

lemma trim_left_fuel_suffix: "\<exists>u. s = u @ trim_left_fuel n ps s"
proof (induction n arbitrary: s)
  case (Suc n)
  show ?case
  proof (cases "drop_one_of ps s")
    case (Some s')
    then obtain p where "s = p @ s'" using drop_one_of_SomeD by blast
    moreover obtain u where "s' = u @ trim_left_fuel n ps s'" using Suc by blast
    ultimately have "s = (p @ u) @ trim_left_fuel (Suc n) ps s" using Some by simp
    then show ?thesis by blast
  qed simp
qed simp

lemma trim_left_done: "drop_one_of ps s = None \<Longrightarrow> trim_left ps s = s"
  by (cases "length s") (simp_all add: trim_left_def)

lemma trim_left_stops: "\<forall>p \<in> set ps. p \<noteq> [] \<Longrightarrow> drop_one_of ps (trim_left ps s) = None"
  by (simp add: trim_left_def trim_left_fuel_stops)

lemma code_byte_code [simp]: "code (byte (code c)) = code c"
  by (simp add: code_def byte_def)

lemma byte_code [simp]: "byte (code c) = c"
  by (simp add: code_def byte_def)

lemma TrimSpace_idem [simp]: "TrimSpace (TrimSpace s) = TrimSpace s"
proof -
  define l where "l = trim_left utf8_spaces (map code s)"
  define r where "r = rev (trim_left (map rev utf8_spaces) (rev l))"
  have ne: "\<forall>p \<in> set utf8_spaces. p \<noteq> []" "\<forall>p \<in> set (map rev utf8_spaces). p \<noteq> []"
    by (auto simp: utf8_spaces_def)
  obtain u where u: "map code s = u @ l"
    unfolding l_def trim_left_def using trim_left_fuel_suffix [of "map code s"] by blast
  obtain v where v: "rev l = v @ rev r"
    unfolding r_def trim_left_def rev_rev_ident using trim_left_fuel_suffix [of "rev l"] by blast
  then have l: "l = r @ rev v" by (metis rev_append rev_rev_ident)
  then have codes: "map code (map byte r) = r"
  proof -
    obtain w where "r = map code w" using u l by (metis append_eq_map_conv)
    then show ?thesis by simp
  qed
  have "drop_one_of utf8_spaces l = None" unfolding l_def by (rule trim_left_stops [OF ne(1)])
  then have "drop_one_of utf8_spaces r = None" unfolding l by (rule drop_one_of_prefix)
  then have 1: "trim_left utf8_spaces r = r" by (rule trim_left_done)
  have "drop_one_of (map rev utf8_spaces) (rev r) = None"
    unfolding r_def rev_rev_ident by (rule trim_left_stops [OF ne(2)])
  then have 2: "trim_left (map rev utf8_spaces) (rev r) = rev r" by (rule trim_left_done)
  have t: "TrimSpace s = map byte r" by (simp add: TrimSpace_def l_def r_def)
  show ?thesis unfolding t using codes 1 2 by (simp only: TrimSpace_def rev_rev_ident)
qed

lemma TrimSpace_Nil [simp]: "TrimSpace [] = []"
  by (simp add: TrimSpace_def trim_left_def)

end
