(* ===== verification/Store_Types.thy ===== *)
theory Store_Types
  imports Go_Float Go_Time
begin

text \<open>
  \<open>internal/store/store.go\<close> and \<open>internal/store/util.go\<close>: the rows and inputs of the
  transaction store, the \<open>TransactionStore\<close> interface as a record of methods over a store
  state, and the energy arithmetic.  A Go interface value is its method table, so code written
  against the interface takes the record as an argument.
\<close>

section \<open>Errors\<close>

text \<open>
  \<open>ErrNew\<close> is \<open>errors.New\<close> or \<open>fmt.Errorf\<close> without a cause, \<open>ErrWrap\<close> is
  \<open>fmt.Errorf("...: %w", err)\<close>, \<open>ErrPg\<close> an error of the database driver with its SQLSTATE
  code, \<open>ErrExternal\<close> any other error that comes from outside the program.
\<close>

datatype go_error =
    ErrTransactionNotFound
  | ErrNew string
  | ErrWrap string go_error
  | ErrPg string
  | ErrExternal string

fun error_text :: "go_error \<Rightarrow> string" where
  "error_text ErrTransactionNotFound = ''transaction not found''"
| "error_text (ErrNew m) = m"
| "error_text (ErrWrap m e) = m @ '': '' @ error_text e"
| "error_text (ErrPg c) = ''SQLSTATE '' @ c"
| "error_text (ErrExternal m) = m"

text \<open>\<open>errors.Is(err, ErrTransactionNotFound)\<close>.\<close>

fun is_not_found :: "go_error \<Rightarrow> bool" where
  "is_not_found ErrTransactionNotFound = True"
| "is_not_found (ErrWrap m e) = is_not_found e"
| "is_not_found _ = False"

section \<open>Rows and inputs\<close>

text \<open>
  The \<open>int64\<close> and \<open>int\<close> fields hold identifiers, connector numbers and small counters on which
  the code does no arithmetic that could leave the 64-bit range, so they are \<^typ>\<open>int\<close>; meter
  values are \<^typ>\<open>float64\<close>.  A pointer field that the code only ever copies is an option.
\<close>

type_synonym int64 = int

record Transaction =
  tx_ID :: int64
  tx_UUIDDB :: string
  tx_ChargerID :: string
  tx_ConnectorID :: int
  tx_MeterStart :: float64
  tx_MeterStop :: "float64 option"
  tx_TotalConsumption :: "float64 option"
  tx_StartTime :: time
  tx_StopTime :: "time option"
  tx_IDTag :: string
  tx_TransactionID :: int
  tx_IsSingleSession :: bool
  tx_MaxKWh :: "float64 option"
  tx_LimitStopRequested :: bool

record CreateTransactionInput =
  ct_ChargerID :: string
  ct_ConnectorID :: int
  ct_MeterStart :: float64
  ct_IDTag :: string
  ct_IsSingleSession :: bool

record UpdateLiveMeterInput =
  ul_ChargerID :: string
  ul_TransactionID :: int
  ul_MeterStop :: float64

record StopTransactionInput =
  st_ChargerID :: string
  st_TransactionID :: int
  st_MeterStop :: float64

record ForceCloseTransactionInput =
  fc_ChargerID :: string
  fc_TransactionID :: int
  fc_MeterStop :: float64
  fc_Reason :: string

text \<open>JSON values; a number keeps its literal text, as \<open>json.Number\<close> and \<open>json.RawMessage\<close> do.\<close>

datatype json =
    JNull
  | JBool bool
  | JNum string
  | JStr string
  | JArr "json list"
  | JObj "(string \<times> json) list"

record EnqueueCallbackInput =
  ec_Kind :: string
  ec_DedupeKey :: string
  ec_TransactionID :: "int option"
  ec_UUIDDB :: string
  ec_TargetURL :: string
  ec_Payload :: json
  ec_MaxRetries :: int

record CallbackTask =
  ta_ID :: int64
  ta_Kind :: string
  ta_DedupeKey :: string
  ta_TransactionID :: "int option"
  ta_UUIDDB :: string
  ta_TargetURL :: string
  ta_Payload :: json
  ta_Retries :: int
  ta_MaxRetries :: int

section \<open>The store interface\<close>

text \<open>
  A method takes what the call receives from outside (clock, random draws, iteration orders,
  database faults: type \<open>'e\<close>), the store state (\<open>'s\<close>) and its arguments.
\<close>

type_synonym ('s, 'a) call = "(go_error + 'a) \<times> 's"

record ('e, 's) TransactionStore =
  m_CreateTransaction :: "'e \<Rightarrow> 's \<Rightarrow> CreateTransactionInput \<Rightarrow> ('s, Transaction) call"
  m_UpdateLiveMeter :: "'e \<Rightarrow> 's \<Rightarrow> UpdateLiveMeterInput \<Rightarrow> ('s, Transaction) call"
  m_StopTransaction :: "'e \<Rightarrow> 's \<Rightarrow> StopTransactionInput \<Rightarrow> ('s, Transaction) call"
  m_ForceCloseTransaction :: "'e \<Rightarrow> 's \<Rightarrow> ForceCloseTransactionInput \<Rightarrow> ('s, Transaction) call"
  m_GetByTransactionID :: "'e \<Rightarrow> 's \<Rightarrow> string \<Rightarrow> int \<Rightarrow> ('s, Transaction) call"
  m_GetByTransactionIDAndIDTag :: "'e \<Rightarrow> 's \<Rightarrow> int \<Rightarrow> string \<Rightarrow> ('s, Transaction) call"
  m_ListOpenTransactionsByCharger :: "'e \<Rightarrow> 's \<Rightarrow> string \<Rightarrow> ('s, Transaction list) call"
  m_ListTransactionsMissingStartCallbacks :: "'e \<Rightarrow> 's \<Rightarrow> int \<Rightarrow> ('s, Transaction list) call"
  m_ListTransactionsMissingCompletedCallbacks :: "'e \<Rightarrow> 's \<Rightarrow> int \<Rightarrow> ('s, Transaction list) call"
  m_UpdateTransactionMaxKWh :: "'e \<Rightarrow> 's \<Rightarrow> int \<Rightarrow> float64 \<Rightarrow> ('s, unit) call"
  m_CheckAndMarkLimitStop :: "'e \<Rightarrow> 's \<Rightarrow> string \<Rightarrow> int \<Rightarrow> ('s, bool) call"
  m_ReleaseLimitStopRequest :: "'e \<Rightarrow> 's \<Rightarrow> string \<Rightarrow> int \<Rightarrow> ('s, unit) call"
  m_EnqueueCallback :: "'e \<Rightarrow> 's \<Rightarrow> EnqueueCallbackInput \<Rightarrow> ('s, unit) call"
  m_ClaimDueCallbacks :: "'e \<Rightarrow> 's \<Rightarrow> int \<Rightarrow> ('s, CallbackTask list) call"
  m_MarkCallbackSent :: "'e \<Rightarrow> 's \<Rightarrow> int64 \<Rightarrow> ('s, unit) call"
  m_MarkCallbackRetry :: "'e \<Rightarrow> 's \<Rightarrow> int64 \<Rightarrow> int \<Rightarrow> time \<Rightarrow> string \<Rightarrow> ('s, unit) call"
  m_MarkCallbackFatal :: "'e \<Rightarrow> 's \<Rightarrow> int64 \<Rightarrow> string \<Rightarrow> ('s, unit) call"

section \<open>util.go\<close>

definition maxTransactionID :: int where
  "maxTransactionID = 2147483647"

text \<open>\<open>mathrand.Int63n(n)\<close> brings a draw \<open>r\<close> into \<open>0..<n\<close>; the draw itself comes from outside.\<close>

definition Int63n :: "int \<Rightarrow> int \<Rightarrow> int" where
  "Int63n n r = r mod n"

definition RandomTransactionID :: "int \<Rightarrow> int" where
  "RandomTransactionID r = Int63n maxTransactionID r + 1"

lemma RandomTransactionID_range:
  "1 \<le> RandomTransactionID r \<and> RandomTransactionID r \<le> maxTransactionID"
  by (simp add: RandomTransactionID_def Int63n_def maxTransactionID_def)

text \<open>
  \<open>DeltaWh\<close> of \<open>util.go\<close>, and the function \<open>deltaWh\<close> with the same body in
  \<open>state/registry.go\<close>.  The constant expression \<open>rollover\<close> is exact; the three operations of
  the wrap branch round one after the other.
\<close>

definition rollover :: float64 where
  "rollover = Fin 4294967295"

definition DeltaWh :: "float64 \<Rightarrow> float64 \<Rightarrow> float64" where
  "DeltaWh previous current =
     (let delta = f_sub current previous in
      if f_le (Fin 0) delta then delta
      else f_add (f_add current (f_sub rollover previous)) (Fin 1))"

text \<open>The energy in kWh that every store writes next to a meter reading.\<close>

definition consumption_kwh :: "float64 \<Rightarrow> float64 \<Rightarrow> float64" where
  "consumption_kwh meterStart meterStop = f_div (DeltaWh meterStart meterStop) (Fin 1000)"

text \<open>
  \<open>NewUUIDString\<close>: the version 4 layout over 16 random bytes, and the fallback over the clock
  and a second random source when \<open>crypto/rand\<close> reports an error (\<open>None\<close>).
\<close>

record entropy =
  en_bytes :: "int list option"
  en_nano :: int
  en_rand :: int

definition hex_digit :: "int \<Rightarrow> char" where
  "hex_digit n = (if n < 10 then char_of (48 + n) else char_of (87 + n))"

definition hex_encode :: "int list \<Rightarrow> string" where
  "hex_encode bs = concat (map (\<lambda>b. [hex_digit (b div 16), hex_digit (b mod 16)]) bs)"

definition NewUUIDString :: "entropy \<Rightarrow> string" where
  "NewUUIDString en =
     (case en_bytes en of
        Some bytes \<Rightarrow>
          let b = bytes[6 := bytes ! 6 mod 16 + 64, 8 := bytes ! 8 mod 64 + 128];
              part = (\<lambda>i j. hex_encode (take (j - i) (drop i b)))
          in part 0 4 @ ''-'' @ part 4 6 @ ''-'' @ part 6 8 @ ''-'' @ part 8 10 @ ''-'' @ part 10 16
      | None \<Rightarrow> FormatInt (en_nano en) @ ''-'' @ FormatInt (en_rand en))"

section \<open>Energy arithmetic of 32-bit registers\<close>

definition reading :: "32 word \<Rightarrow> float64" where
  "reading w = f_of_int (uint w)"

lemma reading_Fin [simp]: "reading w = Fin (of_int (uint w))"
proof -
  have "uint w < 2 ^ 32" "0 \<le> uint w" using uint_lt2p [of w] by simp_all
  then have "\<bar>uint w\<bar> < 2 ^ 53" by simp
  then show ?thesis by (simp add: reading_def)
qed

lemma f_le_iff: "f_le (Fin p) (Fin q) \<longleftrightarrow> p \<le> q"
  by (auto simp: f_le_def f_eq_def)

lemma f_add_ints:
  "\<bar>i + j\<bar> < 2 ^ 53 \<Longrightarrow> f_add (Fin (of_int i)) (Fin (of_int j)) = Fin (of_int (i + j))"
  using f_round_of_int [of "i + j"] by simp

lemma f_sub_Fin_ints:
  assumes "\<bar>i - j\<bar> < 2 ^ 53" and "\<bar>i\<bar> < 2 ^ 53"
  shows "f_sub (Fin (of_int i)) (Fin (of_int j)) = Fin (of_int (i - j))"
proof (cases "j = 0")
  case True
  then show ?thesis by (simp add: f_sub_def)
next
  case False
  then show ?thesis
    using f_round_of_int [of "i - j"] assms by (simp add: f_sub_def)
qed

text \<open>
  C19. For meter readings taken from a 32-bit register, \<open>DeltaWh\<close> is exactly the energy that
  flowed modulo \<open>2^32\<close>: it equals the wrapping difference of the registers, so a register
  roll-over between two readings is accounted for and floating point loses nothing.
\<close>

theorem DeltaWh_register_difference:
  "DeltaWh (reading a) (reading b) = reading (b - a)"
proof -
  define i j where "i = uint a" and "j = uint b"
  have r: "0 \<le> i" "i < 2 ^ 32" "0 \<le> j" "j < 2 ^ 32"
    using uint_lt2p [of a] uint_lt2p [of b] by (simp_all add: i_def j_def)
  have d: "f_sub (reading b) (reading a) = Fin (of_int (j - i))"
    using r by (simp only: reading_Fin i_def [symmetric] j_def [symmetric]) (rule f_sub_Fin_ints; simp)
  have u: "uint (b - a) = (j - i) mod 2 ^ 32"
    by (simp add: uint_word_ariths i_def j_def)
  show ?thesis
  proof (cases "i \<le> j")
    case True
    then have "uint (b - a) = j - i" using r u by simp
    with True d show ?thesis by (simp add: DeltaWh_def f_le_iff)
  next
    case False
    have "(j - i) mod 2 ^ 32 = (j - i + 2 ^ 32) mod 2 ^ 32" by simp
    also have "\<dots> = j - i + 2 ^ 32" using False r by (intro mod_pos_pos_trivial) simp_all
    finally have m: "uint (b - a) = j + (4294967295 - i) + 1" using u by simp
    have s: "f_sub rollover (reading a) = Fin (of_int (4294967295 - i))"
      using f_sub_Fin_ints [of 4294967295 i] r
      by (simp add: rollover_def i_def [symmetric])
    have t: "f_add (reading b) (Fin (of_int (4294967295 - i))) = Fin (of_int (j + (4294967295 - i)))"
      using r by (simp only: reading_Fin j_def [symmetric]) (rule f_add_ints; simp)
    have "f_add (Fin (of_int (j + (4294967295 - i)))) (Fin 1) = Fin (of_int (j + (4294967295 - i) + 1))"
      using f_add_ints [of "j + (4294967295 - i)" 1] r by simp
    with False d s t m show ?thesis
      by (simp add: DeltaWh_def f_le_iff)
  qed
qed

end
