(* ===== verification/Registry.thy ===== *)
theory Registry
  imports Store_Types
begin

text \<open>
  \<open>internal/state\<close>: the in-memory picture of the chargers (\<open>registry.go\<close>) and the inactivity
  check (\<open>inactivity.go\<close>).  Every method runs under the registry's lock, so it is one step on the
  map of chargers; the pointers stored in a connector are to fresh copies, so they are values.
  \<open>now k\<close> is the \<open>k\<close>-th reading of the clock in a method: 0 when \<open>ensureLocked\<close> creates the
  charger, 1 for \<open>LastMessageTime\<close>, 2 for \<open>LastMeterReceived\<close>.
\<close>

section \<open>State\<close>

record ConnectorState =
  cs_Status :: string
  cs_LastMeterValue :: "float64 option"
  cs_LastTransactionConsumptionKWh :: float64
  cs_ErrorCode :: string
  cs_TransactionID :: "int option"
  cs_LastMeterReceived :: "string option"

record ChargerState =
  ch_ID :: string
  ch_Online :: bool
  ch_HasError :: bool
  ch_Status :: string
  ch_Connectors :: "(string, ConnectorState) gomap"
  ch_LastMessageTime :: time

type_synonym Registry = "(string, ChargerState) gomap"
type_synonym clock = "nat \<Rightarrow> time"

definition NewRegistry :: Registry where
  "NewRegistry = []"

definition zero_connector :: ConnectorState where
  "zero_connector =
     \<lparr>cs_Status = '''', cs_LastMeterValue = None, cs_LastTransactionConsumptionKWh = Fin 0,
      cs_ErrorCode = '''', cs_TransactionID = None, cs_LastMeterReceived = None\<rparr>"

text \<open>A read of a map entry that may be absent gives the zero value.\<close>

definition connector_at :: "ChargerState \<Rightarrow> string \<Rightarrow> ConnectorState" where
  "connector_at cp key =
     (case map_of (ch_Connectors cp) key of None \<Rightarrow> zero_connector | Some conn \<Rightarrow> conn)"

abbreviation connectorKey :: "int \<Rightarrow> string" where
  "connectorKey connectorID \<equiv> FormatInt connectorID"

section \<open>registry.go\<close>

definition ensureLocked :: "clock \<Rightarrow> Registry \<Rightarrow> string \<Rightarrow> ChargerState" where
  "ensureLocked now r chargerID =
     (case map_of r chargerID of
        None \<Rightarrow> \<lparr>ch_ID = chargerID, ch_Online = True, ch_HasError = False, ch_Status = ''Inactive'',
                 ch_Connectors = [], ch_LastMessageTime = now 0\<rparr>
      | Some cp \<Rightarrow> cp)"

text \<open>The pointer that \<open>ensureLocked\<close> returns is in the map, so what is written through it is stored.\<close>

definition store_charger :: "string \<Rightarrow> ChargerState \<Rightarrow> Registry \<Rightarrow> Registry" where
  "store_charger chargerID cp r = AList.update chargerID cp r"

definition put_connector :: "string \<Rightarrow> ConnectorState \<Rightarrow> ChargerState \<Rightarrow> ChargerState" where
  "put_connector key conn cp = cp\<lparr>ch_Connectors := AList.update key conn (ch_Connectors cp)\<rparr>"

definition deltaWh :: "float64 \<Rightarrow> float64 \<Rightarrow> float64" where
  "deltaWh previous current =
     (let delta = f_sub current previous in
      if f_le (Fin 0) delta then delta
      else f_add (f_add current (f_sub (Fin 4294967295) previous)) (Fin 1))"

definition Touch :: "clock \<Rightarrow> Registry \<Rightarrow> string \<Rightarrow> Registry" where
  "Touch now r chargerID =
     store_charger chargerID
       ((ensureLocked now r chargerID)\<lparr>ch_Online := True, ch_LastMessageTime := now 1\<rparr>) r"

definition MarkOffline :: "clock \<Rightarrow> Registry \<Rightarrow> string \<Rightarrow> Registry" where
  "MarkOffline now r chargerID =
     (case map_of r chargerID of
        None \<Rightarrow> r
      | Some cp \<Rightarrow> store_charger chargerID (cp\<lparr>ch_Online := False, ch_LastMessageTime := now 1\<rparr>) r)"

definition default_status :: "ConnectorState \<Rightarrow> ConnectorState" where
  "default_status conn = (if cs_Status conn = '''' then conn\<lparr>cs_Status := ''Unknown''\<rparr> else conn)"

definition default_error :: "ConnectorState \<Rightarrow> ConnectorState" where
  "default_error conn = (if cs_ErrorCode conn = '''' then conn\<lparr>cs_ErrorCode := ''NoError''\<rparr> else conn)"

definition ApplyStatusNotification ::
  "clock \<Rightarrow> Registry \<Rightarrow> string \<Rightarrow> int \<Rightarrow> string \<Rightarrow> string \<Rightarrow> Registry" where
  "ApplyStatusNotification now r chargerID connectorID status errorCode =
     (let cp = (ensureLocked now r chargerID)\<lparr>ch_Online := True, ch_LastMessageTime := now 1\<rparr>;
          key = connectorKey connectorID;
          conn0 = default_error (default_status (connector_at cp key));
          conn1 = (if status \<noteq> '''' then conn0\<lparr>cs_Status := status\<rparr> else conn0);
          conn2 = (if errorCode \<noteq> '''' then conn1\<lparr>cs_ErrorCode := errorCode\<rparr> else conn1);
          connectorHasError = (cs_ErrorCode conn2 \<noteq> '''' \<and> cs_ErrorCode conn2 \<noteq> ''NoError'')
      in store_charger chargerID
           (put_connector key conn2 (cp\<lparr>ch_HasError := connectorHasError\<rparr>)) r)"

definition ApplyStartTransaction ::
  "clock \<Rightarrow> Registry \<Rightarrow> string \<Rightarrow> int \<Rightarrow> int \<Rightarrow> float64 \<Rightarrow> Registry" where
  "ApplyStartTransaction now r chargerID connectorID transactionID meterStart =
     (let cp = (ensureLocked now r chargerID)
            \<lparr>ch_Online := True, ch_Status := ''Active'', ch_LastMessageTime := now 1\<rparr>;
          key = connectorKey connectorID;
          conn = (default_error (connector_at cp key))
            \<lparr>cs_Status := ''Charging'', cs_LastMeterValue := Some meterStart,
             cs_TransactionID := Some transactionID,
             cs_LastMeterReceived := Some (RFC3339Nano (now 2))\<rparr>
      in store_charger chargerID (put_connector key conn cp) r)"

definition ApplyMeterValue ::
  "clock \<Rightarrow> Registry \<Rightarrow> string \<Rightarrow> int \<Rightarrow> int option \<Rightarrow> float64 \<Rightarrow> Registry" where
  "ApplyMeterValue now r chargerID connectorID transactionID meterValueWh =
     (let cp = (ensureLocked now r chargerID)\<lparr>ch_Online := True, ch_LastMessageTime := now 1\<rparr>;
          key = connectorKey connectorID;
          conn0 = default_error (default_status (connector_at cp key));
          conn1 = (case cs_LastMeterValue conn0 of None \<Rightarrow> conn0
                   | Some m \<Rightarrow> conn0\<lparr>cs_LastTransactionConsumptionKWh :=
                                     f_div (deltaWh m meterValueWh) (Fin 1000)\<rparr>);
          conn2 = conn1\<lparr>cs_LastMeterValue := Some meterValueWh\<rparr>;
          conn3 = (case transactionID of None \<Rightarrow> conn2 | Some t \<Rightarrow> conn2\<lparr>cs_TransactionID := Some t\<rparr>);
          conn4 = conn3\<lparr>cs_LastMeterReceived := Some (RFC3339Nano (now 2))\<rparr>
      in store_charger chargerID (put_connector key conn4 cp) r)"

definition ApplyStopTransaction ::
  "clock \<Rightarrow> Registry \<Rightarrow> string \<Rightarrow> int \<Rightarrow> float64 \<Rightarrow> Registry" where
  "ApplyStopTransaction now r chargerID connectorID meterStop =
     (let cp = (ensureLocked now r chargerID)
            \<lparr>ch_Online := True, ch_Status := ''Inactive'', ch_LastMessageTime := now 1\<rparr>;
          key = connectorKey connectorID;
          conn0 = default_error (connector_at cp key);
          conn1 = (case cs_LastMeterValue conn0 of None \<Rightarrow> conn0
                   | Some m \<Rightarrow> conn0\<lparr>cs_LastTransactionConsumptionKWh :=
                                     f_div (deltaWh m meterStop) (Fin 1000)\<rparr>);
          conn2 = conn1\<lparr>cs_Status := ''Available'', cs_LastMeterValue := Some meterStop,
                        cs_TransactionID := None,
                        cs_LastMeterReceived := Some (RFC3339Nano (now 2))\<rparr>
      in store_charger chargerID (put_connector key conn2 cp) r)"

text \<open>The \<open>range\<close> loop over the connectors runs in the order \<open>ord\<close>; \<open>(0, False)\<close> is \<open>None\<close>.\<close>

fun find_connector :: "int \<Rightarrow> (string \<times> ConnectorState) list \<Rightarrow> int option" where
  "find_connector transactionID [] = None"
| "find_connector transactionID ((connectorID, conn) # rest) =
     (if cs_TransactionID conn = Some transactionID
      then (case Atoi connectorID of Some i \<Rightarrow> Some i | None \<Rightarrow> find_connector transactionID rest)
      else find_connector transactionID rest)"

definition FindConnectorByTransactionID ::
  "string list \<Rightarrow> Registry \<Rightarrow> string \<Rightarrow> int \<Rightarrow> int option" where
  "FindConnectorByTransactionID ord r chargerID transactionID =
     (case map_of r chargerID of
        None \<Rightarrow> None
      | Some cp \<Rightarrow> find_connector transactionID (range_order ord (ch_Connectors cp)))"

definition TransactionIDForConnector :: "Registry \<Rightarrow> string \<Rightarrow> int \<Rightarrow> int option" where
  "TransactionIDForConnector r chargerID connectorID =
     (case map_of r chargerID of
        None \<Rightarrow> None
      | Some cp \<Rightarrow>
          (case map_of (ch_Connectors cp) (connectorKey connectorID) of
             None \<Rightarrow> None
           | Some conn \<Rightarrow> cs_TransactionID conn))"

text \<open>\<open>clone\<close> copies the connector map, so a snapshot is the value at the time of the call.\<close>

definition Snapshot :: "Registry \<Rightarrow> string \<Rightarrow> ChargerState option" where
  "Snapshot r chargerID = map_of r chargerID"

definition SnapshotAll :: "Registry \<Rightarrow> (string, ChargerState) gomap" where
  "SnapshotAll r = r"

section \<open>inactivity.go\<close>

record InactivityResult =
  ir_ChargerID :: string
  ir_Found :: bool
  ir_Inactive :: bool
  ir_Online :: string
  ir_Status :: string
  ir_InactiveSeconds :: float64
  ir_InactivityLimitSeconds :: float64
  ir_LatestMessageReceivedTime :: "string option"
  ir_Action :: string

text \<open>\<open>Duration.Seconds\<close>; Go's \<open>/\<close> and \<open>%\<close> truncate.\<close>

definition Seconds :: "duration \<Rightarrow> float64" where
  "Seconds d =
     (let q = sgn d * (\<bar>d\<bar> div Second); n = d - q * Second
      in f_add (f_of_int q) (f_div (f_of_int n) (Fin 1000000000)))"

text \<open>\<open>time.Since\<close> saturates at the largest and smallest 64-bit duration.\<close>

definition Since :: "time \<Rightarrow> time \<Rightarrow> duration" where
  "Since now t = max (- (2 ^ 63)) (min (2 ^ 63 - 1) (now - t))"

definition CheckInactivity ::
  "clock \<Rightarrow> Registry \<Rightarrow> string \<Rightarrow> duration \<Rightarrow> InactivityResult \<times> Registry" where
  "CheckInactivity now r chargerID limit =
     (case map_of r chargerID of
        None \<Rightarrow>
          (\<lparr>ir_ChargerID = chargerID, ir_Found = False, ir_Inactive = True, ir_Online = ''Offline'',
            ir_Status = ''Offline'', ir_InactiveSeconds = Fin 0,
            ir_InactivityLimitSeconds = Seconds limit, ir_LatestMessageReceivedTime = None,
            ir_Action = ''charger_not_found''\<rparr>, r)
      | Some cp \<Rightarrow>
          let latest = (if IsZero (ch_LastMessageTime cp) then None
                        else Some (RFC3339Nano (ch_LastMessageTime cp)));
              inactiveSeconds = (if IsZero (ch_LastMessageTime cp) then Fin 0
                                 else Seconds (Since (now 1) (ch_LastMessageTime cp)));
              online = (if ch_Online cp \<and> ch_HasError cp then ''Online (with error)''
                        else if ch_Online cp then ''Online'' else ''Offline'');
              result = \<lparr>ir_ChargerID = chargerID, ir_Found = True, ir_Inactive = False,
                        ir_Online = online, ir_Status = ch_Status cp,
                        ir_InactiveSeconds = inactiveSeconds,
                        ir_InactivityLimitSeconds = Seconds limit,
                        ir_LatestMessageReceivedTime = latest, ir_Action = ''no_change''\<rparr>
          in if IsZero (ch_LastMessageTime cp) then (result\<lparr>ir_Action := ''no_messages''\<rparr>, r)
             else if ch_Online cp \<and> f_le (Seconds limit) inactiveSeconds
             then (result\<lparr>ir_Inactive := True, ir_Online := ''Offline'', ir_Status := ''Offline'',
                          ir_Action := ''marked_offline''\<rparr>,
                   store_charger chargerID (cp\<lparr>ch_Online := False, ch_Status := ''Offline''\<rparr>) r)
             else if \<not> ch_Online cp \<and> f_le (Seconds limit) inactiveSeconds
             then (result\<lparr>ir_Inactive := True, ir_Online := ''Offline'', ir_Action := ''already_offline''\<rparr>, r)
             else (result, r))"

section \<open>The session board\<close>

text \<open>
  What the HAL relies on: the registry remembers, per charger and connector, the transaction
  that runs there.  \<open>tx_of\<close> is the lookup; the laws say what each operation does to it.
\<close>

locale session_board =
  fixes tx_of :: "'r \<Rightarrow> string \<Rightarrow> int \<Rightarrow> int option"
    and touch :: "clock \<Rightarrow> 'r \<Rightarrow> string \<Rightarrow> 'r"
    and offline :: "clock \<Rightarrow> 'r \<Rightarrow> string \<Rightarrow> 'r"
    and status :: "clock \<Rightarrow> 'r \<Rightarrow> string \<Rightarrow> int \<Rightarrow> string \<Rightarrow> string \<Rightarrow> 'r"
    and start :: "clock \<Rightarrow> 'r \<Rightarrow> string \<Rightarrow> int \<Rightarrow> int \<Rightarrow> float64 \<Rightarrow> 'r"
    and meter :: "clock \<Rightarrow> 'r \<Rightarrow> string \<Rightarrow> int \<Rightarrow> int option \<Rightarrow> float64 \<Rightarrow> 'r"
    and stop :: "clock \<Rightarrow> 'r \<Rightarrow> string \<Rightarrow> int \<Rightarrow> float64 \<Rightarrow> 'r"
  assumes touch_tx [simp]: "tx_of (touch now r c) c' k' = tx_of r c' k'"
    and offline_tx [simp]: "tx_of (offline now r c) c' k' = tx_of r c' k'"
    and status_tx [simp]: "tx_of (status now r c k s e) c' k' = tx_of r c' k'"
    and start_tx [simp]: "tx_of (start now r c k t m) c' k' = (if c' = c \<and> k' = k then Some t else tx_of r c' k')"
    and meter_tx [simp]: "tx_of (meter now r c k ot m) c' k' =
      (if c' = c \<and> k' = k \<and> ot \<noteq> None then ot else tx_of r c' k')"
    and stop_tx [simp]: "tx_of (stop now r c k m) c' k' = (if c' = c \<and> k' = k then None else tx_of r c' k')"
begin

text \<open>Messages that leave the session of a connector in place, and sequences of them.\<close>

inductive calm_step :: "string \<Rightarrow> int \<Rightarrow> 'r \<Rightarrow> 'r \<Rightarrow> bool" for c k where
  touch_step: "calm_step c k r (touch now r c')"
| offline_step: "calm_step c k r (offline now r c')"
| status_step: "calm_step c k r (status now r c' k' s e)"
| meter_step: "c' \<noteq> c \<or> k' \<noteq> k \<or> t = None \<or> t = tx_of r c k \<Longrightarrow> calm_step c k r (meter now r c' k' t m)"
| start_other: "c' \<noteq> c \<or> k' \<noteq> k \<Longrightarrow> calm_step c k r (start now r c' k' t m)"
| stop_other: "c' \<noteq> c \<or> k' \<noteq> k \<Longrightarrow> calm_step c k r (stop now r c' k' m)"

lemma calm_step_keeps: "calm_step c k r r' \<Longrightarrow> tx_of r' c k = tx_of r c k"
  by (induction rule: calm_step.induct) auto

lemma calm_run_keeps: "(calm_step c k)\<^sup>*\<^sup>* r r' \<Longrightarrow> tx_of r' c k = tx_of r c k"
  by (induction rule: rtranclp_induct) (simp_all add: calm_step_keeps)

lemma session_lives:
  "(calm_step c k)\<^sup>*\<^sup>* (start now r c k t m) r' \<Longrightarrow> tx_of r' c k = Some t"
  by (simp add: calm_run_keeps)

lemma session_gone:
  "(calm_step c k)\<^sup>*\<^sup>* (stop now r c k m) r' \<Longrightarrow> tx_of r' c k = None"
  by (simp add: calm_run_keeps)

end

lemma ensureLocked_tx:
  "(case map_of (ch_Connectors (ensureLocked now r c)) key of None \<Rightarrow> None | Some conn \<Rightarrow> cs_TransactionID conn)
   = (case map_of r c of None \<Rightarrow> None | Some cp \<Rightarrow>
       (case map_of (ch_Connectors cp) key of None \<Rightarrow> None | Some conn \<Rightarrow> cs_TransactionID conn))"
  by (simp add: ensureLocked_def split: option.splits)

lemma default_simps [simp]:
  "cs_TransactionID (default_status conn) = cs_TransactionID conn"
  "cs_TransactionID (default_error conn) = cs_TransactionID conn"
  "cs_LastMeterValue (default_status conn) = cs_LastMeterValue conn"
  "cs_LastMeterValue (default_error conn) = cs_LastMeterValue conn"
  "cs_Status (default_error conn) = cs_Status conn"
  "cs_ErrorCode (default_error conn) \<noteq> []" "cs_Status (default_status conn) \<noteq> []"
  "cs_ErrorCode (default_status conn) = cs_ErrorCode conn"
  by (simp_all add: default_status_def default_error_def)

lemma lookup_store_charger [simp]:
  "map_of (store_charger c cp r) c' = (if c' = c then Some cp else map_of r c')"
  by (simp add: store_charger_def)

lemma put_connector_simps [simp]:
  "map_of (ch_Connectors (put_connector key conn cp)) key' =
     (if key' = key then Some conn else map_of (ch_Connectors cp) key')"
  "ch_ID (put_connector key conn cp) = ch_ID cp"
  by (simp_all add: put_connector_def)

lemma connector_at_tx:
  "cs_TransactionID (connector_at cp key) =
     (case map_of (ch_Connectors cp) key of None \<Rightarrow> None | Some conn \<Rightarrow> cs_TransactionID conn)"
  by (simp add: connector_at_def zero_connector_def split: option.splits)

lemma registry_tx_simps:
  "TransactionIDForConnector (store_charger c cp r) c' k =
     (if c' = c then (case map_of (ch_Connectors cp) (connectorKey k) of None \<Rightarrow> None | Some conn \<Rightarrow> cs_TransactionID conn)
      else TransactionIDForConnector r c' k)"
  by (simp add: TransactionIDForConnector_def)

interpretation registry: session_board TransactionIDForConnector Touch MarkOffline
  ApplyStatusNotification ApplyStartTransaction ApplyMeterValue ApplyStopTransaction
proof (unfold_locales, goal_cases)
  case (1 now r c c' k')
  then show ?case
    by (simp add: Touch_def registry_tx_simps ensureLocked_tx) (simp add: TransactionIDForConnector_def)
next
  case (2 now r c c' k')
  then show ?case
    by (auto simp: MarkOffline_def TransactionIDForConnector_def split: option.splits)
next
  case (3 now r c k s e c' k')
  then show ?case
    by (simp add: ApplyStatusNotification_def Let_def registry_tx_simps ensureLocked_tx connector_at_tx)
      (simp add: TransactionIDForConnector_def)
next
  case (4 now r c k t m c' k')
  then show ?case
    by (simp add: ApplyStartTransaction_def Let_def registry_tx_simps ensureLocked_tx connector_at_tx)
      (simp add: TransactionIDForConnector_def)
next
  case (5 now r c k t m c' k')
  then show ?case
    by (simp add: ApplyMeterValue_def Let_def registry_tx_simps ensureLocked_tx connector_at_tx split: option.splits)
      (auto simp add: TransactionIDForConnector_def split: option.splits)
next
  case (6 now r c k m c' k')
  then show ?case
    by (simp add: ApplyStopTransaction_def Let_def registry_tx_simps ensureLocked_tx connector_at_tx split: option.splits)
      (auto simp add: TransactionIDForConnector_def split: option.splits)
qed

section \<open>Histories of the registry\<close>

datatype registry_event =
    Ev_Touch string
  | Ev_MarkOffline string
  | Ev_Status string int string string
  | Ev_Start string int int float64
  | Ev_Meter string int "int option" float64
  | Ev_Stop string int float64
  | Ev_CheckInactivity string duration

fun registry_apply :: "clock \<Rightarrow> registry_event \<Rightarrow> Registry \<Rightarrow> Registry" where
  "registry_apply now (Ev_Touch c) r = Touch now r c"
| "registry_apply now (Ev_MarkOffline c) r = MarkOffline now r c"
| "registry_apply now (Ev_Status c k s e) r = ApplyStatusNotification now r c k s e"
| "registry_apply now (Ev_Start c k t m) r = ApplyStartTransaction now r c k t m"
| "registry_apply now (Ev_Meter c k t m) r = ApplyMeterValue now r c k t m"
| "registry_apply now (Ev_Stop c k m) r = ApplyStopTransaction now r c k m"
| "registry_apply now (Ev_CheckInactivity c limit) r = snd (CheckInactivity now r c limit)"

definition registry_run :: "(clock \<times> registry_event) list \<Rightarrow> Registry \<Rightarrow> Registry" where
  "registry_run evs r = fold (\<lambda>(now, ev). registry_apply now ev) evs r"

text \<open>The abstract board: which transaction runs on a connector, and what the events do to it.\<close>

fun board_apply :: "registry_event \<Rightarrow> (string \<Rightarrow> int \<Rightarrow> int option) \<Rightarrow> string \<Rightarrow> int \<Rightarrow> int option" where
  "board_apply (Ev_Start c k t m) B = B(c := (B c)(k \<mapsto> t))"
| "board_apply (Ev_Meter c k (Some t) m) B = B(c := (B c)(k \<mapsto> t))"
| "board_apply (Ev_Stop c k m) B = B(c := (B c)(k := None))"
| "board_apply _ B = B"

lemma CheckInactivity_tx:
  "TransactionIDForConnector (snd (CheckInactivity now r c limit)) c' k' = TransactionIDForConnector r c' k'"
  by (auto simp: CheckInactivity_def Let_def TransactionIDForConnector_def split: option.splits)

lemma registry_apply_tx:
  "TransactionIDForConnector (registry_apply now ev r) = board_apply ev (TransactionIDForConnector r)"
proof (cases ev)
  case (Ev_Meter c k t m)
  then show ?thesis by (cases t) (auto simp: fun_eq_iff)
qed (auto simp: fun_eq_iff CheckInactivity_tx)

text \<open>
  C11. Whatever sequence of messages the registry processes, its answer to which transaction runs
  on a connector is that of the abstract board: the last start, or meter value naming a
  transaction, on that very connector since its last stop; status notifications, heartbeats,
  disconnects, inactivity checks and messages of other connectors never change it.
\<close>

theorem registry_refines_board:
  "TransactionIDForConnector (registry_run evs r) =
     fold (\<lambda>(now, ev). board_apply ev) evs (TransactionIDForConnector r)"
  unfolding registry_run_def
  by (induction evs arbitrary: r) (auto simp: registry_apply_tx)

text \<open>Shape of the registry: the keys are connector numbers and no stored field is left empty.\<close>

definition go_int :: "int \<Rightarrow> bool" where
  "go_int k \<longleftrightarrow> - (2 ^ 63) \<le> k \<and> k < 2 ^ 63"

definition connector_ok :: "string \<Rightarrow> ConnectorState \<Rightarrow> bool" where
  "connector_ok key conn \<longleftrightarrow>
     (\<exists>k. go_int k \<and> key = connectorKey k) \<and> cs_Status conn \<noteq> [] \<and> cs_ErrorCode conn \<noteq> []"

definition charger_ok :: "string \<Rightarrow> ChargerState \<Rightarrow> bool" where
  "charger_ok c cp \<longleftrightarrow>
     ch_ID cp = c \<and> gomap_ok (ch_Connectors cp)
     \<and> (\<forall>key conn. map_of (ch_Connectors cp) key = Some conn \<longrightarrow> connector_ok key conn)"

definition registry_inv :: "Registry \<Rightarrow> bool" where
  "registry_inv r \<longleftrightarrow> gomap_ok r \<and> (\<forall>c cp. map_of r c = Some cp \<longrightarrow> charger_ok c cp)"

fun event_ok :: "registry_event \<Rightarrow> bool" where
  "event_ok (Ev_Status c k s e) = go_int k"
| "event_ok (Ev_Start c k t m) = go_int k"
| "event_ok (Ev_Meter c k t m) = go_int k"
| "event_ok (Ev_Stop c k m) = go_int k"
| "event_ok _ = True"

lemma registry_inv_new [simp]: "registry_inv NewRegistry"
  by (simp add: registry_inv_def NewRegistry_def)

lemma registry_inv_store:
  "registry_inv r \<Longrightarrow> charger_ok c cp \<Longrightarrow> registry_inv (store_charger c cp r)"
  by (auto simp: registry_inv_def store_charger_def)

lemma charger_ok_ensure: "registry_inv r \<Longrightarrow> charger_ok c (ensureLocked now r c)"
  by (auto simp: registry_inv_def ensureLocked_def charger_ok_def split: option.splits)

lemma charger_ok_fields [simp]:
  "charger_ok c (cp\<lparr>ch_Online := b\<rparr>) = charger_ok c cp"
  "charger_ok c (cp\<lparr>ch_LastMessageTime := t\<rparr>) = charger_ok c cp"
  "charger_ok c (cp\<lparr>ch_Status := s\<rparr>) = charger_ok c cp"
  "charger_ok c (cp\<lparr>ch_HasError := h\<rparr>) = charger_ok c cp"
  by (simp_all add: charger_ok_def)

lemma charger_ok_put:
  "charger_ok c cp \<Longrightarrow> go_int k \<Longrightarrow> cs_Status conn \<noteq> [] \<Longrightarrow> cs_ErrorCode conn \<noteq> []
   \<Longrightarrow> charger_ok c (put_connector (connectorKey k) conn cp)"
  by (auto simp: charger_ok_def connector_ok_def put_connector_def)

lemma registry_apply_inv:
  assumes "registry_inv r" and "event_ok ev"
  shows "registry_inv (registry_apply now ev r)"
  using assms charger_ok_ensure [OF assms(1)]
proof (cases ev)
  case (Ev_MarkOffline c)
  then show ?thesis using assms
    by (auto simp: MarkOffline_def registry_inv_def store_charger_def split: option.splits)
next
  case (Ev_CheckInactivity c limit)
  then show ?thesis using assms
    by (auto simp: CheckInactivity_def Let_def registry_inv_def store_charger_def split: option.splits)
qed (auto simp: Touch_def ApplyStatusNotification_def ApplyStartTransaction_def ApplyMeterValue_def
      ApplyStopTransaction_def Let_def split: option.splits intro!: registry_inv_store charger_ok_put)

lemma registry_run_inv:
  "registry_inv r \<Longrightarrow> list_all (event_ok \<circ> snd) evs \<Longrightarrow> registry_inv (registry_run evs r)"
  unfolding registry_run_def
  by (induction evs arbitrary: r) (auto simp: registry_apply_inv)

section \<open>Finding the connector of a transaction\<close>

lemma find_connector_Some:
  "find_connector t cs = Some k \<Longrightarrow>
   \<exists>key conn. (key, conn) \<in> set cs \<and> cs_TransactionID conn = Some t \<and> Atoi key = Some k"
  by (induction t cs rule: find_connector.induct) (auto split: if_splits option.splits)

lemma find_connector_None:
  "find_connector t cs = None \<Longrightarrow> (key, conn) \<in> set cs \<Longrightarrow> cs_TransactionID conn = Some t \<Longrightarrow> Atoi key = None"
  by (induction t cs rule: find_connector.induct) (auto split: if_splits option.splits)

lemma Atoi_connectorKey: "go_int k \<Longrightarrow> Atoi (connectorKey k) = Some k"
  by (simp add: go_int_def ParseInt_FormatInt)

lemma find_connector_lookup:
  assumes "registry_inv r"
  shows "case FindConnectorByTransactionID ord r c t of
      Some k \<Rightarrow> TransactionIDForConnector r c k = Some t
    | None \<Rightarrow> (\<forall>k. go_int k \<longrightarrow> TransactionIDForConnector r c k \<noteq> Some t)"
proof (cases "map_of r c")
  case None
  then show ?thesis by (simp add: FindConnectorByTransactionID_def TransactionIDForConnector_def)
next
  case (Some cp)
  then have ok: "gomap_ok (ch_Connectors cp)"
    "\<And>key conn. map_of (ch_Connectors cp) key = Some conn \<Longrightarrow> \<exists>k. go_int k \<and> key = connectorKey k"
    using assms unfolding registry_inv_def charger_ok_def connector_ok_def by blast+
  have iff: "(key, conn) \<in> set (range_order ord (ch_Connectors cp)) \<longleftrightarrow> map_of (ch_Connectors cp) key = Some conn" for key conn
    using ok(1) by (simp add: gomap_set_iff)
  show ?thesis
  proof (cases "find_connector t (range_order ord (ch_Connectors cp))")
    case None
    have "TransactionIDForConnector r c k \<noteq> Some t" if "go_int k" for k
      using find_connector_None [OF None, unfolded iff] Atoi_connectorKey [OF that] Some
      by (auto simp: TransactionIDForConnector_def split: option.splits)
    with None Some show ?thesis by (simp add: FindConnectorByTransactionID_def)
  next
    case k: (Some k)
    then obtain key conn where *: "map_of (ch_Connectors cp) key = Some conn" "cs_TransactionID conn = Some t"
      "Atoi key = Some k"
      using find_connector_Some [OF k] iff by blast
    obtain k' where "go_int k'" "key = connectorKey k'" using ok(2) [OF *(1)] by blast
    then have "key = connectorKey k" using *(3) Atoi_connectorKey by fastforce
    then show ?thesis using * k Some
      by (simp add: FindConnectorByTransactionID_def TransactionIDForConnector_def)
  qed
qed

text \<open>
  C20. For every registry reached by messages with 64-bit connector numbers, and whatever order the
  map iteration takes, a successful \<open>FindConnectorByTransactionID\<close> names a connector whose current
  transaction is the one asked for, and it fails only when no connector of the charger runs it.
\<close>

theorem FindConnector_inverts_lookup:
  assumes "list_all (event_ok \<circ> snd) evs"
  shows "case FindConnectorByTransactionID ord (registry_run evs NewRegistry) c t of
      Some k \<Rightarrow> TransactionIDForConnector (registry_run evs NewRegistry) c k = Some t
    | None \<Rightarrow> (\<forall>k. go_int k \<longrightarrow> TransactionIDForConnector (registry_run evs NewRegistry) c k \<noteq> Some t)"
  by (rule find_connector_lookup) (simp add: registry_run_inv assms)

theorem FindConnector_inverts_lookup_witness:
  "FindConnectorByTransactionID [] (registry_run [(\<lambda>_. 5, Ev_Start ''CP1'' 2 77 (Fin 0))] NewRegistry) ''CP1'' 77 = Some 2"
proof -
  let ?evs = "[(\<lambda>_. 5, Ev_Start ''CP1'' 2 77 (Fin 0))] :: (clock \<times> registry_event) list"
  have board: "TransactionIDForConnector (registry_run ?evs NewRegistry) ''CP1'' k = (if k = 2 then Some 77 else None)" for k
    by (simp add: registry_run_def) (simp add: NewRegistry_def TransactionIDForConnector_def)
  have "list_all (event_ok \<circ> snd) ?evs" by (simp add: go_int_def)
  from FindConnector_inverts_lookup [OF this, where ord = "[]" and c = "''CP1''" and t = 77] show ?thesis
    by (auto simp: board go_int_def split: option.splits if_splits dest: spec [of _ 2])
qed

text \<open>
  C21. Every connector in every snapshot of a reachable registry carries a status and an error
  code, the charger is filed under its own id, and its key is the decimal form of a connector
  number, so the JSON that the API prints from it has no empty field.
\<close>

theorem snapshots_well_formed:
  assumes "list_all (event_ok \<circ> snd) evs"
    and "Snapshot (registry_run evs NewRegistry) c = Some cp"
  shows "ch_ID cp = c \<and> (\<forall>key conn. map_of (ch_Connectors cp) key = Some conn \<longrightarrow>
    cs_Status conn \<noteq> [] \<and> cs_ErrorCode conn \<noteq> [] \<and> (\<exists>k. go_int k \<and> key = connectorKey k))"
  using registry_run_inv [OF registry_inv_new assms(1)] assms(2)
  by (auto simp: registry_inv_def charger_ok_def connector_ok_def Snapshot_def)

theorem snapshots_well_formed_witness:
  "\<exists>cp. Snapshot (registry_run [(\<lambda>_. 5, Ev_Meter ''CP1'' 2 None (Fin 9))] NewRegistry) ''CP1'' = Some cp
     \<and> (\<forall>key conn. map_of (ch_Connectors cp) key = Some conn \<longrightarrow> cs_Status conn \<noteq> [])"
proof -
  let ?evs = "[(\<lambda>_. 5, Ev_Meter ''CP1'' 2 None (Fin 9))] :: (clock \<times> registry_event) list"
  obtain cp where cp: "Snapshot (registry_run ?evs NewRegistry) ''CP1'' = Some cp"
    by (simp add: Snapshot_def registry_run_def ApplyMeterValue_def Let_def)
  have "list_all (event_ok \<circ> snd) ?evs" by (simp add: go_int_def)
  from snapshots_well_formed [OF this cp] show ?thesis using cp by blast
qed

text \<open>
  The \<open>HasError\<close> flag of a charger is the error state of the connector that reported last: a
  healthy report of one connector clears the error another connector still has.
\<close>

lemma HasError_is_last_report:
  "\<exists>cp conn. Snapshot (registry_run
      [(\<lambda>_. 5, Ev_Status ''CP1'' 1 ''Faulted'' ''GroundFailure''),
       (\<lambda>_. 6, Ev_Status ''CP1'' 2 ''Available'' ''NoError'')] NewRegistry) ''CP1'' = Some cp
    \<and> \<not> ch_HasError cp
    \<and> map_of (ch_Connectors cp) (connectorKey 1) = Some conn \<and> cs_ErrorCode conn = ''GroundFailure''"
  by (simp add: Snapshot_def registry_run_def ApplyStatusNotification_def Let_def ensureLocked_def
      put_connector_def)

end
