(* ===== verification/Connections.thy ===== *)
theory Connections
  imports Registry "HOL-Library.Word"
begin

text \<open>
  \<open>connections.go\<close> and the connect and disconnect handlers that \<open>New\<close> installs in \<open>hal.go\<close>: which
  WebSocket connection of a charge point is the current one, so that the late disconnect of a
  superseded connection does not mark the charger offline.  A connection as the OCPP library hands
  it over is an id, a remote address and, when the handle is a pointer, its type and address;
  \<open>connectionKey\<close> reads these through \<open>reflect\<close>.
\<close>

record connectionRecord =
  cr_ChargerID :: string
  cr_Key :: string
  cr_Generation :: "64 word"
  cr_RemoteAddr :: string
  cr_ConnectedAt :: time

record connectionTracker =
  ct_next :: "64 word"
  ct_active :: "(string, connectionRecord) gomap"

definition newConnectionTracker :: connectionTracker where
  "newConnectionTracker = \<lparr>ct_next = 0, ct_active = []\<rparr>"

definition conn_register ::
  "time \<Rightarrow> connectionTracker \<Rightarrow> string \<Rightarrow> string \<Rightarrow> string
   \<Rightarrow> (connectionRecord \<times> connectionRecord option) \<times> connectionTracker" where
  "conn_register now t chargerID key remoteAddr =
     (let next = ct_next t + 1;
          rec = \<lparr>cr_ChargerID = chargerID, cr_Key = key, cr_Generation = next,
                 cr_RemoteAddr = remoteAddr, cr_ConnectedAt = now\<rparr>;
          previous = map_of (ct_active t) chargerID
      in ((rec, previous), \<lparr>ct_next = next, ct_active = AList.update chargerID rec (ct_active t)\<rparr>))"

definition unregisterIfCurrent ::
  "connectionTracker \<Rightarrow> string \<Rightarrow> string \<Rightarrow> (bool \<times> connectionRecord option) \<times> connectionTracker" where
  "unregisterIfCurrent t chargerID key =
     (case map_of (ct_active t) chargerID of
        None \<Rightarrow> ((False, None), t)
      | Some current \<Rightarrow>
          if cr_Key current \<noteq> key then ((False, Some current), t)
          else ((True, Some current), t\<lparr>ct_active := AList.delete chargerID (ct_active t)\<rparr>))"

record charge_point =
  cp_id :: string
  cp_addr :: string
  cp_pointer :: "(string \<times> int) option"

fun hex_nat_fuel :: "nat \<Rightarrow> int \<Rightarrow> string" where
  "hex_nat_fuel 0 n = []"
| "hex_nat_fuel (Suc k) n =
     (if n < 16 then [hex_digit n] else hex_nat_fuel k (n div 16) @ [hex_digit (n mod 16)])"

text \<open>\<open>%x\<close> of a 64-bit address: at most sixteen digits.\<close>

definition format_x :: "int \<Rightarrow> string" where
  "format_x n = hex_nat_fuel 16 n"

definition connectionKey :: "charge_point \<Rightarrow> string" where
  "connectionKey p =
     (case cp_pointer p of
        Some (ty, addr) \<Rightarrow> ty @ '':'' @ format_x addr
      | None \<Rightarrow> cp_id p @ '':'' @ cp_addr p)"

record hal_links =
  hl_connections :: connectionTracker
  hl_registry :: Registry

text \<open>The two handlers; the log lines they print are left out.\<close>

definition on_new_charge_point :: "time \<Rightarrow> clock \<Rightarrow> hal_links \<Rightarrow> charge_point \<Rightarrow> hal_links" where
  "on_new_charge_point at_time now h p =
     (let (_, t) = conn_register at_time (hl_connections h) (cp_id p) (connectionKey p) (cp_addr p)
      in h\<lparr>hl_connections := t, hl_registry := Touch now (hl_registry h) (cp_id p)\<rparr>)"

definition on_charge_point_disconnected :: "clock \<Rightarrow> hal_links \<Rightarrow> charge_point \<Rightarrow> hal_links" where
  "on_charge_point_disconnected now h p =
     (let ((isCurrent, current), t) =
            unregisterIfCurrent (hl_connections h) (cp_id p) (connectionKey p)
      in if \<not> isCurrent then h\<lparr>hl_connections := t\<rparr>
         else h\<lparr>hl_connections := t, hl_registry := MarkOffline now (hl_registry h) (cp_id p)\<rparr>)"

section \<open>Histories of connections\<close>

text \<open>
  The library reports a connection once when it opens and once when it closes.  \<open>link_run\<close> is
  any interleaving of such reports, with the still open connections as a list, newest first.
\<close>

inductive link_run :: "hal_links \<Rightarrow> charge_point list \<Rightarrow> bool" where
  start: "link_run \<lparr>hl_connections = newConnectionTracker, hl_registry = NewRegistry\<rparr> []"
| connect: "\<lbrakk>link_run h live; \<forall>q \<in> set live. connectionKey q \<noteq> connectionKey p\<rbrakk>
    \<Longrightarrow> link_run (on_new_charge_point at_time now h p) (p # live)"
| disconnect: "\<lbrakk>link_run h live; p \<in> set live\<rbrakk>
    \<Longrightarrow> link_run (on_charge_point_disconnected now h p) (remove1 p live)"
| message: "\<lbrakk>link_run h live; p \<in> set live\<rbrakk>
    \<Longrightarrow> link_run (h\<lparr>hl_registry := Touch now (hl_registry h) (cp_id p)\<rparr>) live"

text \<open>The tracker's record of a charger is an open connection, or there is none.\<close>

definition newest :: "string \<Rightarrow> charge_point list \<Rightarrow> charge_point option" where
  "newest c live = find (\<lambda>p. cp_id p = c) live"

lemma tracker_after_connect:
  "map_of (ct_active (hl_connections (on_new_charge_point at_time now h p))) c =
     (if c = cp_id p then Some \<lparr>cr_ChargerID = c, cr_Key = connectionKey p,
        cr_Generation = ct_next (hl_connections h) + 1, cr_RemoteAddr = cp_addr p, cr_ConnectedAt = at_time\<rparr>
      else map_of (ct_active (hl_connections h)) c)"
  by (auto simp: on_new_charge_point_def conn_register_def Let_def)

lemma tracker_after_disconnect:
  "map_of (ct_active (hl_connections (on_charge_point_disconnected now h p))) c =
     (case map_of (ct_active (hl_connections h)) c of
        Some r \<Rightarrow> if c = cp_id p \<and> cr_Key r = connectionKey p then None else Some r
      | None \<Rightarrow> None)"
  by (auto simp: on_charge_point_disconnected_def unregisterIfCurrent_def Let_def split: option.splits)

lemma find_remove1: "find P xs = Some x \<Longrightarrow> y \<noteq> x \<Longrightarrow> find P (remove1 y xs) = Some x"
  by (induction xs) (auto split: if_splits)

lemma link_run_current:
  assumes "link_run h live"
  shows "map_of (ct_active (hl_connections h)) c = Some r \<Longrightarrow>
    \<exists>p. newest c live = Some p \<and> connectionKey p = cr_Key r"
  using assms
proof (induction arbitrary: r rule: link_run.induct)
  case start
  then show ?case by (simp add: newConnectionTracker_def)
next
  case (connect h live p at_time now)
  then show ?case
    by (auto simp: tracker_after_connect newest_def split: if_splits)
next
  case (disconnect h live p now)
  then have old: "map_of (ct_active (hl_connections h)) c = Some r" "\<not> (c = cp_id p \<and> cr_Key r = connectionKey p)"
    by (auto simp: tracker_after_disconnect split: option.splits if_splits)
  then obtain q where q: "newest c live = Some q" "connectionKey q = cr_Key r"
    using disconnect.IH by blast
  then have "cp_id q = c" unfolding newest_def by (auto dest: find_SomeD)
  then have "p \<noteq> q" using old(2) q(2) by auto
  then show ?case using q by (auto simp: newest_def find_remove1)
next
  case (message h live p now)
  then show ?case by simp
qed

definition shown_online :: "hal_links \<Rightarrow> string \<Rightarrow> bool" where
  "shown_online h c = (case Snapshot (hl_registry h) c of None \<Rightarrow> False | Some cp \<Rightarrow> ch_Online cp)"

lemma MarkOffline_other: "c \<noteq> c' \<Longrightarrow> Snapshot (MarkOffline now r c') c = Snapshot r c"
  by (auto simp: MarkOffline_def Snapshot_def store_charger_def split: option.splits)



end
