(* ===== verification/Store_Contract.thy ===== *)
theory Store_Contract
  imports Store_Types
begin

text \<open>
  The contract of the \<open>TransactionStore\<close> interface, as a locale: what every store promises
  about its rows, observed through \<open>row s id\<close> (the row with that transaction id) and
  \<open>keys s\<close> (the dedupe keys of the callback outbox), for calls that run without a database
  fault and without another session writing in between (\<open>quiet\<close>).  \<open>Memory_Store\<close> and
  \<open>Postgres_Store\<close> interpret it; the handlers of the HAL and the callback manager are verified
  against it once.

  The two stores do not return the same fields: PostgreSQL's \<open>GetByTransactionID\<close> does not
  select \<open>max_kwh\<close> and \<open>limit_stop_requested\<close>, and a timestamp comes back with the resolution
  of the column.  The contract therefore compares returned rows up to \<open>view\<close>, which forgets
  these two fields and the exact times but not whether a stop time is present.
\<close>

section \<open>The abstract rows\<close>

type_synonym rows = "int \<Rightarrow> Transaction option"

definition view :: "Transaction \<Rightarrow> Transaction" where
  "view r = r\<lparr>tx_MaxKWh := None, tx_LimitStopRequested := False, tx_StartTime := 0,
              tx_StopTime := map_option (\<lambda>_. 0) (tx_StopTime r)\<rparr>"

definition owned :: "rows \<Rightarrow> string \<Rightarrow> int \<Rightarrow> Transaction option" where
  "owned R cid tid =
     (case R tid of None \<Rightarrow> None
      | Some r \<Rightarrow> if tx_ChargerID r = cid then Some r else None)"

definition is_open :: "Transaction \<Rightarrow> bool" where
  "is_open r \<longleftrightarrow> tx_StopTime r = None"

definition metered :: "float64 \<Rightarrow> Transaction \<Rightarrow> Transaction" where
  "metered m r = r\<lparr>tx_MeterStop := Some m,
                   tx_TotalConsumption := Some (consumption_kwh (tx_MeterStart r) m)\<rparr>"

definition stopped_at :: "time \<Rightarrow> float64 \<Rightarrow> Transaction \<Rightarrow> Transaction" where
  "stopped_at t m r = (metered m r)\<lparr>tx_StopTime := Some t\<rparr>"

definition fresh_row :: "CreateTransactionInput \<Rightarrow> Transaction \<Rightarrow> bool" where
  "fresh_row i r \<longleftrightarrow>
     tx_ChargerID r = ct_ChargerID i \<and> tx_ConnectorID r = ct_ConnectorID i
     \<and> tx_MeterStart r = ct_MeterStart i \<and> tx_IDTag r = ct_IDTag i
     \<and> tx_IsSingleSession r = ct_IsSingleSession i
     \<and> tx_MeterStop r = None \<and> tx_TotalConsumption r = None \<and> tx_StopTime r = None
     \<and> tx_MaxKWh r = None \<and> \<not> tx_LimitStopRequested r"

text \<open>
  An open transaction at or over its limit whose stop has not been requested.  The stores differ
  on a limit that is NaN (Go's \<open><\<close> is false on it, PostgreSQL sorts it above every number), so the
  contract leaves that case open.
\<close>

definition limit_ready :: "Transaction \<Rightarrow> bool" where
  "limit_ready r \<longleftrightarrow> is_open r \<and> \<not> tx_LimitStopRequested r
     \<and> (case (tx_MaxKWh r, tx_TotalConsumption r) of
          (Some m, Some c) \<Rightarrow> \<not> f_lt c m | _ \<Rightarrow> False)"

definition limit_due :: "Transaction \<Rightarrow> bool" where
  "limit_due r \<longleftrightarrow> limit_ready r \<and> tx_MaxKWh r \<noteq> Some NaN"

definition pending_open :: "rows \<Rightarrow> string \<Rightarrow> Transaction set" where
  "pending_open R cid = {r. R (tx_TransactionID r) = Some r \<and> tx_ChargerID r = cid \<and> is_open r}"

definition rows_ok :: "rows \<Rightarrow> bool" where
  "rows_ok R \<longleftrightarrow> (\<forall>k r. R k = Some r \<longrightarrow>
     tx_TransactionID r = k \<and> 1 \<le> k \<and> k \<le> maxTransactionID
     \<and> (tx_MeterStop r = None \<longrightarrow> is_open r)
     \<and> (tx_TotalConsumption r = map_option (consumption_kwh (tx_MeterStart r)) (tx_MeterStop r)))"

lemma view_simps [simp]:
  "tx_ChargerID (view r) = tx_ChargerID r" "tx_ConnectorID (view r) = tx_ConnectorID r"
  "tx_MeterStart (view r) = tx_MeterStart r" "tx_MeterStop (view r) = tx_MeterStop r"
  "tx_TotalConsumption (view r) = tx_TotalConsumption r" "tx_IDTag (view r) = tx_IDTag r"
  "tx_TransactionID (view r) = tx_TransactionID r" "is_open (view r) = is_open r"
  "tx_IsSingleSession (view r) = tx_IsSingleSession r" "tx_UUIDDB (view r) = tx_UUIDDB r"
  by (simp_all add: view_def is_open_def)

lemma view_eqD:
  assumes "view a = view b"
  shows "tx_ChargerID a = tx_ChargerID b" "tx_ConnectorID a = tx_ConnectorID b"
    "tx_MeterStart a = tx_MeterStart b" "tx_MeterStop a = tx_MeterStop b"
    "tx_TotalConsumption a = tx_TotalConsumption b" "tx_IDTag a = tx_IDTag b"
    "tx_TransactionID a = tx_TransactionID b" "is_open a = is_open b"
    "tx_IsSingleSession a = tx_IsSingleSession b" "tx_UUIDDB a = tx_UUIDDB b"
  using assms view_simps by metis+

lemma metered_simps [simp]:
  "tx_TransactionID (metered m r) = tx_TransactionID r" "tx_ChargerID (metered m r) = tx_ChargerID r"
  "tx_ConnectorID (metered m r) = tx_ConnectorID r" "tx_MeterStart (metered m r) = tx_MeterStart r"
  "tx_MeterStop (metered m r) = Some m" "tx_StopTime (metered m r) = tx_StopTime r"
  "tx_TotalConsumption (metered m r) = Some (consumption_kwh (tx_MeterStart r) m)"
  "tx_IDTag (metered m r) = tx_IDTag r" "is_open (metered m r) = is_open r"
  by (simp_all add: metered_def is_open_def)

lemma stopped_at_simps [simp]:
  "tx_TransactionID (stopped_at t m r) = tx_TransactionID r"
  "tx_ChargerID (stopped_at t m r) = tx_ChargerID r"
  "tx_ConnectorID (stopped_at t m r) = tx_ConnectorID r"
  "tx_MeterStart (stopped_at t m r) = tx_MeterStart r"
  "tx_MeterStop (stopped_at t m r) = Some m"
  "tx_StopTime (stopped_at t m r) = Some t"
  "tx_TotalConsumption (stopped_at t m r) = Some (consumption_kwh (tx_MeterStart r) m)"
  "tx_IDTag (stopped_at t m r) = tx_IDTag r" "\<not> is_open (stopped_at t m r)"
  by (simp_all add: stopped_at_def is_open_def)

lemma owned_Some_iff: "owned R c t = Some r \<longleftrightarrow> R t = Some r \<and> tx_ChargerID r = c"
  by (auto simp: owned_def split: option.splits)

lemma owned_None_iff: "owned R c t = None \<longleftrightarrow> (\<forall>r. R t = Some r \<longrightarrow> tx_ChargerID r \<noteq> c)"
  by (auto simp: owned_def split: option.splits)

text \<open>Every update of the contract keeps \<^const>\<open>rows_ok\<close>.\<close>

lemma rows_okD:
  assumes "rows_ok R" and "R k = Some r"
  shows "tx_TransactionID r = k" "1 \<le> k" "k \<le> maxTransactionID"
    "\<not> is_open r \<Longrightarrow> tx_MeterStop r \<noteq> None"
    "tx_TotalConsumption r = map_option (consumption_kwh (tx_MeterStart r)) (tx_MeterStop r)"
  using assms by (auto simp: rows_ok_def)

lemma rows_ok_empty [simp]: "rows_ok (\<lambda>_. None)"
  by (simp add: rows_ok_def)

lemma rows_ok_upd:
  assumes "rows_ok R" and "R k = Some q" and "tx_TransactionID q' = k"
    and "tx_MeterStop q' = None \<longrightarrow> is_open q'"
    and "tx_TotalConsumption q' = map_option (consumption_kwh (tx_MeterStart q')) (tx_MeterStop q')"
  shows "rows_ok (R(k \<mapsto> q'))"
  using assms by (simp add: rows_ok_def)

lemma rows_ok_metered [intro]: "rows_ok R \<Longrightarrow> R k = Some q \<Longrightarrow> rows_ok (R(k \<mapsto> metered m q))"
  using rows_okD [of R k q] by (simp add: rows_ok_upd)

lemma rows_ok_stopped [intro]: "rows_ok R \<Longrightarrow> R k = Some q \<Longrightarrow> rows_ok (R(k \<mapsto> stopped_at t m q))"
  using rows_okD [of R k q] by (simp add: rows_ok_upd)

lemma rows_ok_max [intro]:
  "rows_ok R \<Longrightarrow> R k = Some q \<Longrightarrow> rows_ok (R(k \<mapsto> q\<lparr>tx_MaxKWh := m\<rparr>))"
  by (force simp: rows_ok_def is_open_def)

lemma rows_ok_mark [intro]:
  "rows_ok R \<Longrightarrow> R k = Some q \<Longrightarrow> rows_ok (R(k \<mapsto> q\<lparr>tx_LimitStopRequested := b\<rparr>))"
  by (force simp: rows_ok_def is_open_def)

lemma rows_ok_fresh [intro]:
  "rows_ok R \<Longrightarrow> fresh_row i q \<Longrightarrow> 1 \<le> tx_TransactionID q \<Longrightarrow>
   tx_TransactionID q \<le> maxTransactionID \<Longrightarrow> rows_ok (R(tx_TransactionID q \<mapsto> q))"
  by (auto simp: rows_ok_def fresh_row_def is_open_def)

lemma owned_row: "owned R c k = Some q \<Longrightarrow> R k = Some q"
  by (simp add: owned_Some_iff)

lemma rows_ok_owned:
  assumes "rows_ok R" and "owned R c k = Some q"
  shows "rows_ok (R(k \<mapsto> metered m q))" "rows_ok (R(k \<mapsto> stopped_at t m q))"
    "rows_ok (R(k \<mapsto> q\<lparr>tx_MaxKWh := v\<rparr>))" "rows_ok (R(k \<mapsto> q\<lparr>tx_LimitStopRequested := b\<rparr>))"
  using assms owned_row [OF assms(2)]
  by (simp_all add: rows_ok_metered rows_ok_stopped rows_ok_max rows_ok_mark)

section \<open>Dedupe keys and missing callbacks\<close>

text \<open>\<open>fmt.Sprintf("%s:%d", kind, tx.TransactionID)\<close>.\<close>

definition dedupe_key :: "string \<Rightarrow> int \<Rightarrow> string" where
  "dedupe_key kind tid = kind @ '':'' @ FormatInt tid"

definition KindStartTransactionStore :: string where
  "KindStartTransactionStore = ''start_transaction''"

definition KindCompletedTransactionStore :: string where
  "KindCompletedTransactionStore = ''completed_transaction''"

lemma append_sep_inject:
  assumes "c \<notin> set s" and "c \<notin> set t"
  shows "a @ c # s = b @ c # t \<longleftrightarrow> a = b \<and> s = t"
proof
  assume eq: "a @ c # s = b @ c # t"
  have last: "takeWhile (\<lambda>x. x \<noteq> c) (rev (d @ c # u)) = rev u" if "c \<notin> set u" for d u
    using that by (auto simp: takeWhile_append)
  from last [OF assms(1), of a] last [OF assms(2), of b] eq have "s = t" by simp
  with eq show "a = b \<and> s = t" by simp
qed simp

lemma dedupe_key_inject [simp]:
  "dedupe_key k t = dedupe_key k' t' \<longleftrightarrow> k = k' \<and> t = t'"
  by (simp add: dedupe_key_def append_sep_inject colon_not_in_FormatInt)

lemma kinds_distinct [simp]:
  "KindStartTransactionStore \<noteq> KindCompletedTransactionStore"
  "KindCompletedTransactionStore \<noteq> KindStartTransactionStore"
  by (simp_all add: KindStartTransactionStore_def KindCompletedTransactionStore_def)

definition missing :: "rows \<Rightarrow> string set \<Rightarrow> string \<Rightarrow> bool \<Rightarrow> Transaction set" where
  "missing R K kind completedOnly =
     {q. R (tx_TransactionID q) = Some q \<and> (completedOnly \<longrightarrow> \<not> is_open q)
         \<and> dedupe_key kind (tx_TransactionID q) \<notin> K}"

definition lists_missing :: "rows \<Rightarrow> string set \<Rightarrow> string \<Rightarrow> bool \<Rightarrow> int \<Rightarrow> Transaction list \<Rightarrow> bool" where
  "lists_missing R K kind completedOnly limit txs \<longleftrightarrow>
     distinct txs \<and> set txs \<subseteq> missing R K kind completedOnly
     \<and> int (length txs) \<le> limit
     \<and> (int (length txs) < limit \<longrightarrow> set txs = missing R K kind completedOnly)"

lemma lists_missing_take:
  assumes "distinct xs" and "set xs = missing R K kind b" and "0 \<le> limit"
  shows "lists_missing R K kind b limit (take (nat limit) xs)"
  unfolding lists_missing_def
  using assms set_take_subset [of "nat limit" xs] by (auto simp: min_def split: if_splits)

section \<open>The interface\<close>

locale transaction_store =
  fixes ts :: "('e, 's) TransactionStore"
    and quiet :: "'e \<Rightarrow> bool"
    and inv :: "'s \<Rightarrow> bool"
    and row :: "'s \<Rightarrow> rows"
    and keys :: "'s \<Rightarrow> string set"
  assumes rows_ok_inv: "inv s \<Longrightarrow> rows_ok (row s)"
    and create_law: "\<lbrakk>inv s; quiet e; m_CreateTransaction ts e s i = (r, s')\<rbrakk> \<Longrightarrow>
      inv s' \<and> keys s' = keys s \<and>
      (case r of Inl err \<Rightarrow> row s' = row s
       | Inr tx \<Rightarrow> row s (tx_TransactionID tx) = None \<and> fresh_row i tx \<and>
          (\<exists>q. row s' = (row s)(tx_TransactionID tx \<mapsto> q) \<and> fresh_row i q \<and> view q = view tx))"
    and get_law: "\<lbrakk>inv s; quiet e; m_GetByTransactionID ts e s cid tid = (r, s')\<rbrakk> \<Longrightarrow>
      s' = s \<and>
      (case owned (row s) cid tid of None \<Rightarrow> r = Inl ErrTransactionNotFound
       | Some q \<Rightarrow> (\<exists>tx. r = Inr tx \<and> view tx = view q))"
    and get_tag_law: "\<lbrakk>inv s; quiet e; m_GetByTransactionIDAndIDTag ts e s tid tag = (r, s')\<rbrakk> \<Longrightarrow>
      s' = s \<and>
      r = (case row s tid of None \<Rightarrow> Inl ErrTransactionNotFound
           | Some q \<Rightarrow> if tx_IDTag q = tag then Inr q else Inl ErrTransactionNotFound)"
    and live_law: "\<lbrakk>inv s; quiet e; m_UpdateLiveMeter ts e s u = (r, s')\<rbrakk> \<Longrightarrow>
      inv s' \<and> keys s' = keys s \<and>
      (case owned (row s) (ul_ChargerID u) (ul_TransactionID u) of
         None \<Rightarrow> r = Inl ErrTransactionNotFound \<and> row s' = row s
       | Some q \<Rightarrow> row s' = (row s)(ul_TransactionID u \<mapsto> metered (ul_MeterStop u) q) \<and>
           (\<exists>tx. r = Inr tx \<and> view tx = view (metered (ul_MeterStop u) q)))"
    and stop_law: "\<lbrakk>inv s; quiet e; m_StopTransaction ts e s p = (r, s')\<rbrakk> \<Longrightarrow>
      inv s' \<and> keys s' = keys s \<and>
      (case owned (row s) (st_ChargerID p) (st_TransactionID p) of
         None \<Rightarrow> r = Inl ErrTransactionNotFound \<and> row s' = row s
       | Some q \<Rightarrow>
           if is_open q
           then (\<exists>t tx. row s' = (row s)(st_TransactionID p \<mapsto> stopped_at t (st_MeterStop p) q) \<and>
                   r = Inr tx \<and> view tx = view (stopped_at t (st_MeterStop p) q))
           else row s' = row s \<and> (\<exists>tx. r = Inr tx \<and> view tx = view q))"
    and list_open_law: "\<lbrakk>inv s; quiet e; m_ListOpenTransactionsByCharger ts e s cid = (rl, s')\<rbrakk> \<Longrightarrow>
      s' = s \<and> (\<exists>txs. rl = Inr txs \<and> view ` set txs = view ` pending_open (row s) cid)"
    and max_law: "\<lbrakk>inv s; quiet e; m_UpdateTransactionMaxKWh ts e s tid m = (ru, s')\<rbrakk> \<Longrightarrow>
      inv s' \<and> keys s' = keys s \<and> ru = Inr () \<and>
      row s' = (case row s tid of None \<Rightarrow> row s | Some q \<Rightarrow> (row s)(tid \<mapsto> q\<lparr>tx_MaxKWh := Some m\<rparr>))"
    and mark_law: "\<lbrakk>inv s; quiet e; m_CheckAndMarkLimitStop ts e s cid tid = (rb, s')\<rbrakk> \<Longrightarrow>
      inv s' \<and> keys s' = keys s \<and>
      (case owned (row s) cid tid of None \<Rightarrow> rb = Inr False \<and> row s' = row s
       | Some q \<Rightarrow>
           limit_ready q \<and> rb = Inr True
             \<and> row s' = (row s)(tid \<mapsto> q\<lparr>tx_LimitStopRequested := True\<rparr>)
           \<or> \<not> limit_due q \<and> rb = Inr False \<and> row s' = row s)"
    and release_law: "\<lbrakk>inv s; quiet e; m_ReleaseLimitStopRequest ts e s cid tid = (ru, s')\<rbrakk> \<Longrightarrow>
      inv s' \<and> keys s' = keys s \<and> ru = Inr () \<and>
      row s' = (case owned (row s) cid tid of None \<Rightarrow> row s
                | Some q \<Rightarrow> if is_open q
                    then (row s)(tid \<mapsto> q\<lparr>tx_LimitStopRequested := False\<rparr>) else row s)"
    and enqueue_law: "\<lbrakk>inv s; quiet e; m_EnqueueCallback ts e s c = (ru, s')\<rbrakk> \<Longrightarrow>
      inv s' \<and> row s' = row s \<and> ru = Inr () \<and> keys s' = insert (ec_DedupeKey c) (keys s)"
    and force_law: "\<lbrakk>inv s; quiet e; m_ForceCloseTransaction ts e s f = (r, s')\<rbrakk> \<Longrightarrow>
      inv s' \<and> keys s' = keys s \<and>
      (case owned (row s) (fc_ChargerID f) (fc_TransactionID f) of
         None \<Rightarrow> r = Inl ErrTransactionNotFound \<and> row s' = row s
       | Some q \<Rightarrow>
           if is_open q
           then (\<exists>t tx. row s' = (row s)(fc_TransactionID f \<mapsto> stopped_at t (fc_MeterStop f) q) \<and>
                   r = Inr tx \<and> view tx = view (stopped_at t (fc_MeterStop f) q))
           else row s' = row s)"
    and missing_start_law:
      "\<lbrakk>inv s; quiet e; 0 \<le> limit; m_ListTransactionsMissingStartCallbacks ts e s limit = (rl, s')\<rbrakk> \<Longrightarrow>
      s' = s \<and> (\<exists>txs. rl = Inr txs \<and>
        lists_missing (row s) (keys s) KindStartTransactionStore False limit txs)"
    and missing_completed_law:
      "\<lbrakk>inv s; quiet e; 0 \<le> limit; m_ListTransactionsMissingCompletedCallbacks ts e s limit = (rl, s')\<rbrakk> \<Longrightarrow>
      s' = s \<and> (\<exists>txs. rl = Inr txs \<and>
        lists_missing (row s) (keys s) KindCompletedTransactionStore True limit txs)"
    and claim_law: "\<lbrakk>inv s; quiet e; m_ClaimDueCallbacks ts e s limit = (rt, s')\<rbrakk> \<Longrightarrow>
      inv s' \<and> row s' = row s \<and> keys s' = keys s"
    and sent_law: "\<lbrakk>inv s; quiet e; m_MarkCallbackSent ts e s cb = (ru, s')\<rbrakk> \<Longrightarrow>
      inv s' \<and> row s' = row s \<and> keys s' = keys s"
    and retry_law: "\<lbrakk>inv s; quiet e; m_MarkCallbackRetry ts e s cb n due msg = (ru, s')\<rbrakk> \<Longrightarrow>
      inv s' \<and> row s' = row s \<and> keys s' = keys s"
    and fatal_law: "\<lbrakk>inv s; quiet e; m_MarkCallbackFatal ts e s cb msg = (ru, s')\<rbrakk> \<Longrightarrow>
      inv s' \<and> row s' = row s \<and> keys s' = keys s"

end
