(* ===== verification/Store_History.thy ===== *)
theory Store_History
  imports Store_Contract
begin

text \<open>
  Runs of a store: \<open>store_step\<close> is one call of any method of the interface that can write, with
  any arguments and any quiet environment, and \<open>store_run\<close> is a sequence of calls.  The lemmas
  of the locale say how one row can evolve over a run of any store that keeps the contract.
\<close>

inductive store_step ::
  "('e, 's) TransactionStore \<Rightarrow> ('e \<Rightarrow> bool) \<Rightarrow> 's \<Rightarrow> 's \<Rightarrow> bool" for ts quiet where
  create: "\<lbrakk>quiet e; m_CreateTransaction ts e s i = (r, s')\<rbrakk> \<Longrightarrow> store_step ts quiet s s'"
| live: "\<lbrakk>quiet e; m_UpdateLiveMeter ts e s u = (r, s')\<rbrakk> \<Longrightarrow> store_step ts quiet s s'"
| stop: "\<lbrakk>quiet e; m_StopTransaction ts e s p = (r, s')\<rbrakk> \<Longrightarrow> store_step ts quiet s s'"
| force: "\<lbrakk>quiet e; m_ForceCloseTransaction ts e s f = (r, s')\<rbrakk> \<Longrightarrow> store_step ts quiet s s'"
| max_kwh: "\<lbrakk>quiet e; m_UpdateTransactionMaxKWh ts e s tid m = (ru, s')\<rbrakk> \<Longrightarrow> store_step ts quiet s s'"
| mark: "\<lbrakk>quiet e; m_CheckAndMarkLimitStop ts e s cid tid = (rb, s')\<rbrakk> \<Longrightarrow> store_step ts quiet s s'"
| release: "\<lbrakk>quiet e; m_ReleaseLimitStopRequest ts e s cid tid = (ru, s')\<rbrakk> \<Longrightarrow> store_step ts quiet s s'"
| enqueue: "\<lbrakk>quiet e; m_EnqueueCallback ts e s c = (ru, s')\<rbrakk> \<Longrightarrow> store_step ts quiet s s'"
| claim: "\<lbrakk>quiet e; m_ClaimDueCallbacks ts e s limit = (rt, s')\<rbrakk> \<Longrightarrow> store_step ts quiet s s'"
| sent: "\<lbrakk>quiet e; m_MarkCallbackSent ts e s cb = (ru, s')\<rbrakk> \<Longrightarrow> store_step ts quiet s s'"
| retry: "\<lbrakk>quiet e; m_MarkCallbackRetry ts e s cb n due msg = (ru, s')\<rbrakk> \<Longrightarrow> store_step ts quiet s s'"
| fatal: "\<lbrakk>quiet e; m_MarkCallbackFatal ts e s cb msg = (ru, s')\<rbrakk> \<Longrightarrow> store_step ts quiet s s'"

inductive store_run ::
  "('e, 's) TransactionStore \<Rightarrow> ('e \<Rightarrow> bool) \<Rightarrow> 's \<Rightarrow> 's \<Rightarrow> bool" for ts quiet where
  refl: "store_run ts quiet s s"
| step: "\<lbrakk>store_run ts quiet s s'; store_step ts quiet s' s''\<rbrakk> \<Longrightarrow> store_run ts quiet s s''"

text \<open>
  How a row may change: its identity never does, a stop time is written once, and a closed row
  keeps a meter stop and a total.
\<close>

definition evolves :: "Transaction \<Rightarrow> Transaction \<Rightarrow> bool" where
  "evolves q q' \<longleftrightarrow>
     tx_ID q' = tx_ID q \<and> tx_UUIDDB q' = tx_UUIDDB q \<and> tx_ChargerID q' = tx_ChargerID q
     \<and> tx_ConnectorID q' = tx_ConnectorID q \<and> tx_MeterStart q' = tx_MeterStart q
     \<and> tx_StartTime q' = tx_StartTime q \<and> tx_IDTag q' = tx_IDTag q
     \<and> tx_TransactionID q' = tx_TransactionID q \<and> tx_IsSingleSession q' = tx_IsSingleSession q
     \<and> (\<not> is_open q \<longrightarrow> tx_StopTime q' = tx_StopTime q)
     \<and> (tx_MaxKWh q \<noteq> None \<longrightarrow> tx_MaxKWh q' \<noteq> None)
     \<and> (\<not> is_open q \<longrightarrow> tx_LimitStopRequested q' = tx_LimitStopRequested q)"

lemma evolves_refl [simp, intro]: "evolves q q"
  by (simp add: evolves_def)

lemma evolves_trans [trans]: "evolves a b \<Longrightarrow> evolves b c \<Longrightarrow> evolves a c"
  by (auto simp: evolves_def is_open_def)

lemma evolves_metered [simp, intro]: "evolves q (metered m q)"
  by (simp add: evolves_def metered_def)

lemma evolves_stopped [simp, intro]: "is_open q \<Longrightarrow> evolves q (stopped_at t m q)"
  by (simp add: evolves_def stopped_at_def metered_def)

lemma evolves_max [simp, intro]: "evolves q (q\<lparr>tx_MaxKWh := Some m\<rparr>)"
  by (simp add: evolves_def)

lemma evolves_mark [simp, intro]: "is_open q \<Longrightarrow> evolves q (q\<lparr>tx_LimitStopRequested := b\<rparr>)"
  by (simp add: evolves_def)

definition rows_evolve :: "rows \<Rightarrow> rows \<Rightarrow> bool" where
  "rows_evolve R R' \<longleftrightarrow> (\<forall>k q. R k = Some q \<longrightarrow> (\<exists>q'. R' k = Some q' \<and> evolves q q'))"

lemma rows_evolve_refl [simp, intro]: "rows_evolve R R"
  by (auto simp: rows_evolve_def)

lemma rows_evolve_trans: "rows_evolve A B \<Longrightarrow> rows_evolve B C \<Longrightarrow> rows_evolve A C"
  by (meson evolves_trans rows_evolve_def)

lemma rows_evolve_upd:
  "R k = None \<or> (\<exists>q. R k = Some q \<and> evolves q q') \<Longrightarrow> rows_evolve R (R(k \<mapsto> q'))"
  by (auto simp: rows_evolve_def)

lemma rows_evolve_owned:
  "owned R c k = Some q \<Longrightarrow> evolves q q' \<Longrightarrow> rows_evolve R (R(k \<mapsto> q'))"
  by (auto intro!: rows_evolve_upd dest: owned_row)

context transaction_store begin

lemma step_law:
  assumes "store_step ts quiet s s'" and "inv s"
  shows "inv s' \<and> keys s \<subseteq> keys s' \<and> rows_evolve (row s) (row s')"
  using assms
proof (cases rule: store_step.cases)
  case (create e i r)
  then show ?thesis using create_law [OF assms(2)]
    by (cases r) (fastforce intro!: rows_evolve_upd)+
next
  case (live e u r)
  then show ?thesis using live_law [OF assms(2) live(1,2)]
    by (auto split: option.splits intro!: rows_evolve_owned)
next
  case (stop e p r)
  then show ?thesis using stop_law [OF assms(2) stop(1,2)]
    by (auto split: option.splits if_splits intro!: rows_evolve_owned)
next
  case (force e f r)
  then show ?thesis using force_law [OF assms(2) force(1,2)]
    by (auto split: option.splits if_splits intro!: rows_evolve_owned)
next
  case (max_kwh e tid m ru)
  then show ?thesis using max_law [OF assms(2) max_kwh(1,2)]
    by (auto split: option.splits intro!: rows_evolve_upd)
next
  case (mark e cid tid rb)
  then show ?thesis using mark_law [OF assms(2) mark(1,2)]
    by (auto split: option.splits if_splits intro!: rows_evolve_owned simp: limit_ready_def)
next
  case (release e cid tid ru)
  then show ?thesis using release_law [OF assms(2) release(1,2)]
    by (auto split: option.splits if_splits intro!: rows_evolve_owned)
next
  case (enqueue e c ru)
  then show ?thesis using enqueue_law [OF assms(2) enqueue(1,2)] by auto
next
  case (claim e limit rt)
  then show ?thesis using claim_law [OF assms(2) claim(1,2)] by auto
next
  case (sent e cb ru)
  then show ?thesis using sent_law [OF assms(2) sent(1,2)] by auto
next
  case (retry e cb n due msg ru)
  then show ?thesis using retry_law [OF assms(2) retry(1,2)] by auto
next
  case (fatal e cb msg ru)
  then show ?thesis using fatal_law [OF assms(2) fatal(1,2)] by auto
qed

lemma run_law:
  assumes "store_run ts quiet s s'" and "inv s"
  shows "inv s' \<and> keys s \<subseteq> keys s' \<and> rows_evolve (row s) (row s')"
  using assms
proof (induction rule: store_run.induct)
  case (step s s' s'')
  then show ?case using step_law [of s' s''] by (blast intro: rows_evolve_trans)
qed simp

text \<open>A retried stop reports the stored values of the first one and writes nothing.\<close>

lemma stop_twice:
  assumes "inv s" and "quiet e" and "quiet e'"
    and "m_StopTransaction ts e s p = (Inr tx, s')"
    and "m_StopTransaction ts e' s' (p\<lparr>st_MeterStop := m\<rparr>) = (r, s'')"
  shows "row s'' = row s' \<and> (\<exists>tx'. r = Inr tx' \<and> view tx' = view tx)"
proof -
  have inv': "inv s'" using stop_law [OF assms(1,2,4)] by simp
  obtain q where q: "owned (row s') (st_ChargerID p) (st_TransactionID p) = Some q" "\<not> is_open q"
    "view tx = view q"
    using stop_law [OF assms(1,2,4)]
    by (auto split: option.splits if_splits simp: owned_Some_iff)
  then show ?thesis using stop_law [OF inv' assms(3,5)] by auto
qed

text \<open>The limit is claimed at most once until it is released or the transaction closes.\<close>

lemma mark_claims_once:
  assumes "inv s" and "quiet e" and "quiet e'"
    and "m_CheckAndMarkLimitStop ts e s cid tid = (Inr True, s')"
    and "m_CheckAndMarkLimitStop ts e' s' cid tid = (r, s'')"
  shows "r = Inr False \<and> row s'' = row s'"
proof -
  have inv': "inv s'" using mark_law [OF assms(1,2,4)] by simp
  have "\<exists>q. owned (row s') cid tid = Some q \<and> \<not> limit_ready q"
    using mark_law [OF assms(1,2,4)]
    by (auto split: option.splits if_splits simp: owned_Some_iff limit_ready_def)
  then show ?thesis using mark_law [OF inv' assms(3,5)] by auto
qed

text \<open>A released claim on a transaction that is still open and over its limit can be taken again.\<close>

lemma mark_release_mark:
  assumes "inv s" and "quiet e1" and "quiet e2" and "quiet e3"
    and "owned (row s) cid tid = Some q" and "limit_due q"
    and "m_CheckAndMarkLimitStop ts e1 s cid tid = (r1, s1)"
    and "m_ReleaseLimitStopRequest ts e2 s1 cid tid = (r2, s2)"
    and "m_CheckAndMarkLimitStop ts e3 s2 cid tid = (r3, s3)"
  shows "r1 = Inr True \<and> r3 = Inr True"
proof -
  have s1: "r1 = Inr True" "row s1 = (row s)(tid \<mapsto> q\<lparr>tx_LimitStopRequested := True\<rparr>)" "inv s1"
    using mark_law [OF assms(1,2,7)] assms(5,6) by auto
  have o1: "owned (row s1) cid tid = Some (q\<lparr>tx_LimitStopRequested := True\<rparr>)"
    using assms(5) by (simp add: s1 owned_Some_iff)
  have open_q: "is_open (q\<lparr>tx_LimitStopRequested := True\<rparr>)"
    using assms(6) by (simp add: limit_due_def limit_ready_def is_open_def)
  have s2: "row s2 = (row s1)(tid \<mapsto> q\<lparr>tx_LimitStopRequested := False\<rparr>)" "inv s2"
    using release_law [OF s1(3) assms(3,8)] o1 open_q by simp_all
  have "owned (row s2) cid tid = Some (q\<lparr>tx_LimitStopRequested := False\<rparr>)"
    using assms(5) by (simp add: s2 owned_Some_iff)
  moreover have "limit_due (q\<lparr>tx_LimitStopRequested := False\<rparr>)"
    using assms(6) by (simp add: limit_due_def limit_ready_def is_open_def)
  ultimately show ?thesis using mark_law [OF s2(2) assms(4,9)] s1(1) by simp
qed

end

end
