(* ===== verification/Memory_Store.thy ===== *)
theory Memory_Store
  imports Store_History
begin

text \<open>
  \<open>MemoryStore\<close> (\<open>memory.go\<close>, \<open>outbox_memory.go\<close>, \<open>limit_stop_memory.go\<close>,
  \<open>callback_reconcile_memory.go\<close>).  Every method holds the store's mutex from its first to its
  last statement, so a method is one step of the state.  The package variable
  \<open>memoryOutboxID\<close> is a field of the state.  Maps hold pointers to rows which no other code
  shares (every result is a clone), so a row is stored by value and the assignments through the
  pointer become an update of the entry.
\<close>

section \<open>State\<close>

record memoryCallback =
  cb_ID :: int64
  cb_Kind :: string
  cb_DedupeKey :: string
  cb_TransactionID :: "int option"
  cb_UUIDDB :: string
  cb_TargetURL :: string
  cb_Payload :: json
  cb_Status :: string
  cb_Retries :: int
  cb_MaxRetries :: int
  cb_NextRetryAt :: time
  cb_LastError :: string

record MemoryStore =
  ms_nextRowID :: int64
  ms_transactions :: "(int, Transaction) gomap"
  ms_outbox :: "(int64, memoryCallback) gomap"
  ms_memoryOutboxID :: int64

text \<open>What a call gets from outside: the clock, the random draws, the entropy of the UUID, and
  the iteration orders of the two maps.\<close>

record mem_env =
  me_now :: time
  me_draws :: "nat \<Rightarrow> int"
  me_entropy :: entropy
  me_tx_order :: "int list"
  me_outbox_order :: "int64 list"

definition NewMemoryStore :: MemoryStore where
  "NewMemoryStore = \<lparr>ms_nextRowID = 1, ms_transactions = [], ms_outbox = [], ms_memoryOutboxID = 0\<rparr>"

definition cloneTransaction :: "Transaction \<Rightarrow> Transaction" where
  "cloneTransaction tx = tx"

definition put_tx :: "int \<Rightarrow> Transaction \<Rightarrow> MemoryStore \<Rightarrow> MemoryStore" where
  "put_tx tid tx s = s\<lparr>ms_transactions := AList.update tid tx (ms_transactions s)\<rparr>"

section \<open>Transactions\<close>

fun Mem_create_attempts ::
  "nat \<Rightarrow> nat \<Rightarrow> mem_env \<Rightarrow> MemoryStore \<Rightarrow> CreateTransactionInput \<Rightarrow> (MemoryStore, Transaction) call" where
  "Mem_create_attempts 0 attempts e s input =
     (Inl (ErrNew ''could not allocate unique transaction id after 100 attempts''), s)"
| "Mem_create_attempts (Suc left) attempts e s input =
     (let tid = RandomTransactionID (me_draws e attempts) in
      if map_of (ms_transactions s) tid \<noteq> None
      then Mem_create_attempts left (Suc attempts) e s input
      else
        let tx = \<lparr>tx_ID = ms_nextRowID s,
                  tx_UUIDDB = NewUUIDString (me_entropy e),
                  tx_ChargerID = ct_ChargerID input,
                  tx_ConnectorID = ct_ConnectorID input,
                  tx_MeterStart = ct_MeterStart input,
                  tx_MeterStop = None,
                  tx_TotalConsumption = None,
                  tx_StartTime = me_now e,
                  tx_StopTime = None,
                  tx_IDTag = ct_IDTag input,
                  tx_TransactionID = tid,
                  tx_IsSingleSession = ct_IsSingleSession input,
                  tx_MaxKWh = None,
                  tx_LimitStopRequested = False\<rparr>
        in (Inr (cloneTransaction tx), put_tx tid tx (s\<lparr>ms_nextRowID := ms_nextRowID s + 1\<rparr>)))"

definition Mem_CreateTransaction ::
  "mem_env \<Rightarrow> MemoryStore \<Rightarrow> CreateTransactionInput \<Rightarrow> (MemoryStore, Transaction) call" where
  "Mem_CreateTransaction e s input = Mem_create_attempts 100 0 e s input"

definition Mem_UpdateLiveMeter ::
  "mem_env \<Rightarrow> MemoryStore \<Rightarrow> UpdateLiveMeterInput \<Rightarrow> (MemoryStore, Transaction) call" where
  "Mem_UpdateLiveMeter e s input =
     (case map_of (ms_transactions s) (ul_TransactionID input) of
        None \<Rightarrow> (Inl ErrTransactionNotFound, s)
      | Some tx \<Rightarrow>
          if tx_ChargerID tx \<noteq> ul_ChargerID input then (Inl ErrTransactionNotFound, s)
          else
            let tx1 = tx\<lparr>tx_MeterStop := Some (ul_MeterStop input)\<rparr>;
                total = f_div (DeltaWh (tx_MeterStart tx1) (ul_MeterStop input)) (Fin 1000);
                tx2 = tx1\<lparr>tx_TotalConsumption := Some total\<rparr>
            in (Inr (cloneTransaction tx2), put_tx (ul_TransactionID input) tx2 s))"

definition Mem_StopTransaction ::
  "mem_env \<Rightarrow> MemoryStore \<Rightarrow> StopTransactionInput \<Rightarrow> (MemoryStore, Transaction) call" where
  "Mem_StopTransaction e s input =
     (case map_of (ms_transactions s) (st_TransactionID input) of
        None \<Rightarrow> (Inl ErrTransactionNotFound, s)
      | Some tx \<Rightarrow>
          if tx_ChargerID tx \<noteq> st_ChargerID input then (Inl ErrTransactionNotFound, s)
          else if tx_StopTime tx \<noteq> None then (Inr (cloneTransaction tx), s)
          else
            let now = me_now e;
                tx1 = tx\<lparr>tx_MeterStop := Some (st_MeterStop input)\<rparr>;
                total = f_div (DeltaWh (tx_MeterStart tx1) (st_MeterStop input)) (Fin 1000);
                tx2 = tx1\<lparr>tx_TotalConsumption := Some total, tx_StopTime := Some now\<rparr>
            in (Inr (cloneTransaction tx2), put_tx (st_TransactionID input) tx2 s))"

definition Mem_GetByTransactionID ::
  "mem_env \<Rightarrow> MemoryStore \<Rightarrow> string \<Rightarrow> int \<Rightarrow> (MemoryStore, Transaction) call" where
  "Mem_GetByTransactionID e s chargerID transactionID =
     (case map_of (ms_transactions s) transactionID of
        None \<Rightarrow> (Inl ErrTransactionNotFound, s)
      | Some tx \<Rightarrow>
          if tx_ChargerID tx \<noteq> chargerID then (Inl ErrTransactionNotFound, s)
          else (Inr (cloneTransaction tx), s))"

definition Mem_GetByTransactionIDAndIDTag ::
  "mem_env \<Rightarrow> MemoryStore \<Rightarrow> int \<Rightarrow> string \<Rightarrow> (MemoryStore, Transaction) call" where
  "Mem_GetByTransactionIDAndIDTag e s transactionID idTag =
     (case map_of (ms_transactions s) transactionID of
        None \<Rightarrow> (Inl ErrTransactionNotFound, s)
      | Some tx \<Rightarrow>
          if tx_IDTag tx \<noteq> idTag then (Inl ErrTransactionNotFound, s)
          else (Inr (cloneTransaction tx), s))"

definition Mem_ForceCloseTransaction ::
  "mem_env \<Rightarrow> MemoryStore \<Rightarrow> ForceCloseTransactionInput \<Rightarrow> (MemoryStore, Transaction) call" where
  "Mem_ForceCloseTransaction e s input =
     Mem_StopTransaction e s \<lparr>st_ChargerID = fc_ChargerID input,
                              st_TransactionID = fc_TransactionID input,
                              st_MeterStop = fc_MeterStop input\<rparr>"

definition Mem_ListOpenTransactionsByCharger ::
  "mem_env \<Rightarrow> MemoryStore \<Rightarrow> string \<Rightarrow> (MemoryStore, Transaction list) call" where
  "Mem_ListOpenTransactionsByCharger e s chargerID =
     (Inr (List.map_filter
        (\<lambda>(_, tx). if tx_ChargerID tx \<noteq> chargerID then None
                   else if tx_StopTime tx \<noteq> None then None
                   else Some (cloneTransaction tx))
        (range_order (me_tx_order e) (ms_transactions s))), s)"

section \<open>Limit stop (limit_stop_memory.go, outbox_memory.go)\<close>

definition Mem_CheckAndMarkLimitStop ::
  "mem_env \<Rightarrow> MemoryStore \<Rightarrow> string \<Rightarrow> int \<Rightarrow> (MemoryStore, bool) call" where
  "Mem_CheckAndMarkLimitStop e s chargerID transactionID =
     (case map_of (ms_transactions s) transactionID of
        None \<Rightarrow> (Inr False, s)
      | Some tx \<Rightarrow>
          if tx_ChargerID tx \<noteq> chargerID then (Inr False, s)
          else if tx_StopTime tx \<noteq> None then (Inr False, s)
          else if tx_LimitStopRequested tx then (Inr False, s)
          else (case (tx_MaxKWh tx, tx_TotalConsumption tx) of
                  (Some m, Some c) \<Rightarrow>
                    if f_lt c m then (Inr False, s)
                    else (Inr True, put_tx transactionID (tx\<lparr>tx_LimitStopRequested := True\<rparr>) s)
                | _ \<Rightarrow> (Inr False, s)))"

definition Mem_ReleaseLimitStopRequest ::
  "mem_env \<Rightarrow> MemoryStore \<Rightarrow> string \<Rightarrow> int \<Rightarrow> (MemoryStore, unit) call" where
  "Mem_ReleaseLimitStopRequest e s chargerID transactionID =
     (case map_of (ms_transactions s) transactionID of
        None \<Rightarrow> (Inr (), s)
      | Some tx \<Rightarrow>
          if tx_ChargerID tx = chargerID \<and> tx_StopTime tx = None
          then (Inr (), put_tx transactionID (tx\<lparr>tx_LimitStopRequested := False\<rparr>) s)
          else (Inr (), s))"

definition Mem_UpdateTransactionMaxKWh ::
  "mem_env \<Rightarrow> MemoryStore \<Rightarrow> int \<Rightarrow> float64 \<Rightarrow> (MemoryStore, unit) call" where
  "Mem_UpdateTransactionMaxKWh e s transactionID maxKWh =
     (case map_of (ms_transactions s) transactionID of
        None \<Rightarrow> (Inr (), s)
      | Some tx \<Rightarrow> (Inr (), put_tx transactionID (tx\<lparr>tx_MaxKWh := Some maxKWh\<rparr>) s))"

section \<open>Callback outbox (outbox_memory.go, callback_reconcile_memory.go)\<close>

definition Mem_EnqueueCallback ::
  "mem_env \<Rightarrow> MemoryStore \<Rightarrow> EnqueueCallbackInput \<Rightarrow> (MemoryStore, unit) call" where
  "Mem_EnqueueCallback e s input =
     (if list_ex (\<lambda>(_, existing). cb_DedupeKey existing = ec_DedupeKey input) (ms_outbox s)
      then (Inr (), s)
      else
        let cbid = ms_memoryOutboxID s + 1;
            cb = \<lparr>cb_ID = cbid, cb_Kind = ec_Kind input, cb_DedupeKey = ec_DedupeKey input,
                  cb_TransactionID = ec_TransactionID input, cb_UUIDDB = ec_UUIDDB input,
                  cb_TargetURL = ec_TargetURL input, cb_Payload = ec_Payload input,
                  cb_Status = ''pending'', cb_Retries = 0, cb_MaxRetries = ec_MaxRetries input,
                  cb_NextRetryAt = me_now e, cb_LastError = ''''\<rparr>
        in (Inr (), s\<lparr>ms_memoryOutboxID := cbid,
                       ms_outbox := AList.update cbid cb (ms_outbox s)\<rparr>))"

definition task_of_callback :: "memoryCallback \<Rightarrow> CallbackTask" where
  "task_of_callback item =
     \<lparr>ta_ID = cb_ID item, ta_Kind = cb_Kind item, ta_DedupeKey = cb_DedupeKey item,
      ta_TransactionID = cb_TransactionID item, ta_UUIDDB = cb_UUIDDB item,
      ta_TargetURL = cb_TargetURL item, ta_Payload = cb_Payload item,
      ta_Retries = cb_Retries item, ta_MaxRetries = cb_MaxRetries item\<rparr>"

definition put_cb :: "int64 \<Rightarrow> memoryCallback \<Rightarrow> MemoryStore \<Rightarrow> MemoryStore" where
  "put_cb cbid cb s = s\<lparr>ms_outbox := AList.update cbid cb (ms_outbox s)\<rparr>"

fun Mem_claim_loop ::
  "int \<Rightarrow> time \<Rightarrow> CallbackTask list \<Rightarrow> (int64 \<times> memoryCallback) list \<Rightarrow> MemoryStore
   \<Rightarrow> CallbackTask list \<times> MemoryStore" where
  "Mem_claim_loop limit now tasks [] s = (tasks, s)"
| "Mem_claim_loop limit now tasks ((k, item) # rest) s =
     (if int (length tasks) \<ge> limit then (tasks, s)
      else if cb_Status item \<noteq> ''pending'' \<or> now < cb_NextRetryAt item
      then Mem_claim_loop limit now tasks rest s
      else
        let item' = item\<lparr>cb_Status := ''processing''\<rparr>
        in Mem_claim_loop limit now (tasks @ [task_of_callback item']) rest (put_cb k item' s))"

definition Mem_ClaimDueCallbacks ::
  "mem_env \<Rightarrow> MemoryStore \<Rightarrow> int \<Rightarrow> (MemoryStore, CallbackTask list) call" where
  "Mem_ClaimDueCallbacks e s limit =
     (let (tasks, s') = Mem_claim_loop limit (me_now e) []
                          (range_order (me_outbox_order e) (ms_outbox s)) s
      in (Inr tasks, s'))"

definition Mem_MarkCallbackSent ::
  "mem_env \<Rightarrow> MemoryStore \<Rightarrow> int64 \<Rightarrow> (MemoryStore, unit) call" where
  "Mem_MarkCallbackSent e s cbid =
     (case map_of (ms_outbox s) cbid of
        None \<Rightarrow> (Inr (), s)
      | Some item \<Rightarrow> (Inr (), put_cb cbid (item\<lparr>cb_Status := ''sent''\<rparr>) s))"

definition Mem_MarkCallbackRetry ::
  "mem_env \<Rightarrow> MemoryStore \<Rightarrow> int64 \<Rightarrow> int \<Rightarrow> time \<Rightarrow> string \<Rightarrow> (MemoryStore, unit) call" where
  "Mem_MarkCallbackRetry e s cbid retries nextRetryAt lastError =
     (case map_of (ms_outbox s) cbid of
        None \<Rightarrow> (Inr (), s)
      | Some item \<Rightarrow>
          (Inr (), put_cb cbid (item\<lparr>cb_Status := ''pending'', cb_Retries := retries,
                                   cb_NextRetryAt := nextRetryAt, cb_LastError := lastError\<rparr>) s))"

definition Mem_MarkCallbackFatal ::
  "mem_env \<Rightarrow> MemoryStore \<Rightarrow> int64 \<Rightarrow> string \<Rightarrow> (MemoryStore, unit) call" where
  "Mem_MarkCallbackFatal e s cbid lastError =
     (case map_of (ms_outbox s) cbid of
        None \<Rightarrow> (Inr (), s)
      | Some item \<Rightarrow>
          (Inr (), put_cb cbid (item\<lparr>cb_Status := ''fatal'', cb_LastError := lastError\<rparr>) s))"

definition Mem_listTransactionsMissingCallback ::
  "mem_env \<Rightarrow> MemoryStore \<Rightarrow> string \<Rightarrow> bool \<Rightarrow> int \<Rightarrow> Transaction list" where
  "Mem_listTransactionsMissingCallback e s kind completedOnly limit =
     collect_upto limit
       (\<lambda>(_, tx).
          if completedOnly \<and> tx_StopTime tx = None then None
          else if list_ex (\<lambda>(_, callback). cb_DedupeKey callback = dedupe_key kind (tx_TransactionID tx))
                    (ms_outbox s)
          then None else Some (cloneTransaction tx))
       [] (range_order (me_tx_order e) (ms_transactions s))"

definition Mem_ListTransactionsMissingStartCallbacks ::
  "mem_env \<Rightarrow> MemoryStore \<Rightarrow> int \<Rightarrow> (MemoryStore, Transaction list) call" where
  "Mem_ListTransactionsMissingStartCallbacks e s limit =
     (Inr (Mem_listTransactionsMissingCallback e s KindStartTransactionStore False limit), s)"

definition Mem_ListTransactionsMissingCompletedCallbacks ::
  "mem_env \<Rightarrow> MemoryStore \<Rightarrow> int \<Rightarrow> (MemoryStore, Transaction list) call" where
  "Mem_ListTransactionsMissingCompletedCallbacks e s limit =
     (Inr (Mem_listTransactionsMissingCallback e s KindCompletedTransactionStore True limit), s)"

section \<open>The store satisfies the contract\<close>

definition memory_methods :: "(mem_env, MemoryStore) TransactionStore" where
  "memory_methods =
     \<lparr>m_CreateTransaction = Mem_CreateTransaction,
      m_UpdateLiveMeter = Mem_UpdateLiveMeter,
      m_StopTransaction = Mem_StopTransaction,
      m_ForceCloseTransaction = Mem_ForceCloseTransaction,
      m_GetByTransactionID = Mem_GetByTransactionID,
      m_GetByTransactionIDAndIDTag = Mem_GetByTransactionIDAndIDTag,
      m_ListOpenTransactionsByCharger = Mem_ListOpenTransactionsByCharger,
      m_ListTransactionsMissingStartCallbacks = Mem_ListTransactionsMissingStartCallbacks,
      m_ListTransactionsMissingCompletedCallbacks = Mem_ListTransactionsMissingCompletedCallbacks,
      m_UpdateTransactionMaxKWh = Mem_UpdateTransactionMaxKWh,
      m_CheckAndMarkLimitStop = Mem_CheckAndMarkLimitStop,
      m_ReleaseLimitStopRequest = Mem_ReleaseLimitStopRequest,
      m_EnqueueCallback = Mem_EnqueueCallback,
      m_ClaimDueCallbacks = Mem_ClaimDueCallbacks,
      m_MarkCallbackSent = Mem_MarkCallbackSent,
      m_MarkCallbackRetry = Mem_MarkCallbackRetry,
      m_MarkCallbackFatal = Mem_MarkCallbackFatal\<rparr>"

definition mem_row :: "MemoryStore \<Rightarrow> rows" where
  "mem_row s = map_of (ms_transactions s)"

definition mem_keys :: "MemoryStore \<Rightarrow> string set" where
  "mem_keys s = (cb_DedupeKey \<circ> snd) ` set (ms_outbox s)"

definition outbox_ok :: "MemoryStore \<Rightarrow> bool" where
  "outbox_ok s \<longleftrightarrow> gomap_ok (ms_outbox s)
     \<and> (\<forall>(k, cb) \<in> set (ms_outbox s). cb_ID cb = k \<and> k \<le> ms_memoryOutboxID s)
     \<and> inj_on (cb_DedupeKey \<circ> snd) (set (ms_outbox s))"

definition mem_inv :: "MemoryStore \<Rightarrow> bool" where
  "mem_inv s \<longleftrightarrow> gomap_ok (ms_transactions s) \<and> rows_ok (mem_row s) \<and> outbox_ok s"

lemma put_tx_fields [simp]:
  "mem_row (put_tx k tx s) = (mem_row s)(k \<mapsto> tx)"
  "ms_outbox (put_tx k tx s) = ms_outbox s"
  "mem_keys (put_tx k tx s) = mem_keys s"
  "outbox_ok (put_tx k tx s) = outbox_ok s"
  "ms_memoryOutboxID (put_tx k tx s) = ms_memoryOutboxID s"
  by (simp_all add: put_tx_def mem_row_def mem_keys_def outbox_ok_def)

lemma put_tx_gomap_ok [simp]:
  "gomap_ok (ms_transactions s) \<Longrightarrow> gomap_ok (ms_transactions (put_tx k tx s))"
  by (simp add: put_tx_def)

lemma nextRowID_fields [simp]:
  "mem_row (s\<lparr>ms_nextRowID := n\<rparr>) = mem_row s"
  "mem_keys (s\<lparr>ms_nextRowID := n\<rparr>) = mem_keys s"
  "outbox_ok (s\<lparr>ms_nextRowID := n\<rparr>) = outbox_ok s"
  "mem_inv (s\<lparr>ms_nextRowID := n\<rparr>) = mem_inv s"
  by (simp_all add: mem_row_def mem_keys_def outbox_ok_def mem_inv_def)

lemma mem_inv_put_tx:
  "mem_inv s \<Longrightarrow> rows_ok ((mem_row s)(k \<mapsto> tx)) \<Longrightarrow> mem_inv (put_tx k tx s)"
  by (simp add: mem_inv_def)

lemma put_tx_metered:
  "q\<lparr>tx_MeterStop := Some m,
     tx_TotalConsumption := Some (f_div (DeltaWh (tx_MeterStart q) m) (Fin 1000))\<rparr> = metered m q"
  "q\<lparr>tx_MeterStop := Some m,
     tx_TotalConsumption := Some (f_div (DeltaWh (tx_MeterStart q) m) (Fin 1000)),
     tx_StopTime := Some t\<rparr> = stopped_at t m q"
  by (simp_all add: metered_def stopped_at_def consumption_kwh_def)

lemma Mem_create_attempts_law:
  "Mem_create_attempts left a e s i = (r, s') \<Longrightarrow>
   (\<exists>err. r = Inl err \<and> s' = s) \<or>
   (\<exists>tx. r = Inr tx \<and> mem_row s (tx_TransactionID tx) = None \<and> fresh_row i tx
      \<and> 1 \<le> tx_TransactionID tx \<and> tx_TransactionID tx \<le> maxTransactionID
      \<and> s' = put_tx (tx_TransactionID tx) tx (s\<lparr>ms_nextRowID := ms_nextRowID s + 1\<rparr>))"
proof (induction left a e s i rule: Mem_create_attempts.induct)
  case (1 a e s i)
  then show ?case by auto
next
  case (2 left a e s i)
  show ?case
  proof (cases "map_of (ms_transactions s) (RandomTransactionID (me_draws e a)) = None")
    case True
    then show ?thesis using 2(2) RandomTransactionID_range [of "me_draws e a"]
      by (auto simp: Let_def cloneTransaction_def fresh_row_def mem_row_def)
  next
    case False
    then show ?thesis using 2 by (simp add: Let_def)
  qed
qed

lemma Mem_CreateTransaction_law:
  assumes "mem_inv s" and "Mem_CreateTransaction e s i = (r, s')"
  shows "mem_inv s' \<and> mem_keys s' = mem_keys s \<and>
    (case r of Inl err \<Rightarrow> mem_row s' = mem_row s
     | Inr tx \<Rightarrow> mem_row s (tx_TransactionID tx) = None \<and> fresh_row i tx \<and>
        (\<exists>q. mem_row s' = (mem_row s)(tx_TransactionID tx \<mapsto> q) \<and> fresh_row i q \<and> view q = view tx))"
  using Mem_create_attempts_law [OF assms(2) [unfolded Mem_CreateTransaction_def]] assms(1)
  by (auto intro!: mem_inv_put_tx rows_ok_fresh simp: mem_inv_def)

lemma Mem_list_open_law:
  assumes "mem_inv s" and "Mem_ListOpenTransactionsByCharger e s cid = (r, s')"
  shows "s' = s \<and> (\<exists>txs. r = Inr txs \<and> set txs = pending_open (mem_row s) cid)"
proof -
  have ok: "gomap_ok (ms_transactions s)" "rows_ok (mem_row s)"
    using assms(1) by (simp_all add: mem_inv_def)
  have row: "(k, x) \<in> set (ms_transactions s) \<longleftrightarrow> mem_row s k = Some x \<and> k = tx_TransactionID x" for k x
    using rows_okD(1) [OF ok(2)] ok(1) by (auto simp: gomap_set_iff mem_row_def)
  let ?f = "\<lambda>(_, tx). if tx_ChargerID tx \<noteq> cid then None
                   else if tx_StopTime tx \<noteq> None then None else Some (cloneTransaction tx)"
  have "?f (k, x) = Some y \<longleftrightarrow> y = x \<and> tx_ChargerID x = cid \<and> is_open x" for k x y
    by (auto simp: cloneTransaction_def is_open_def)
  then have "set (List.map_filter ?f (range_order (me_tx_order e) (ms_transactions s)))
      = pending_open (mem_row s) cid"
    using row by (auto simp: set_map_filter_prod ok(1) pending_open_def simp del: split_conv)
  then show ?thesis
    using assms(2) by (auto simp: Mem_ListOpenTransactionsByCharger_def)
qed

lemma Mem_EnqueueCallback_law:
  assumes "mem_inv s" and "Mem_EnqueueCallback e s c = (r, s')"
  shows "mem_inv s' \<and> mem_row s' = mem_row s \<and> r = Inr () \<and>
         mem_keys s' = insert (ec_DedupeKey c) (mem_keys s)"
proof (cases "ec_DedupeKey c \<in> mem_keys s")
  case True
  then have "list_ex (\<lambda>(_, x). cb_DedupeKey x = ec_DedupeKey c) (ms_outbox s)"
    by (fastforce simp: mem_keys_def list_ex_iff)
  then show ?thesis using assms True by (auto simp: Mem_EnqueueCallback_def)
next
  case False
  then have new: "\<not> list_ex (\<lambda>(_, x). cb_DedupeKey x = ec_DedupeKey c) (ms_outbox s)"
    unfolding mem_keys_def list_ex_iff by force
  have "ms_memoryOutboxID s + 1 \<notin> fst ` set (ms_outbox s)"
    using assms(1) by (force simp: mem_inv_def outbox_ok_def)
  then have upd: "AList.update (ms_memoryOutboxID s + 1) x (ms_outbox s) =
      ms_outbox s @ [(ms_memoryOutboxID s + 1, x)]" for x
    by (rule alist_update_new)
  have s': "r = Inr ()" "ms_transactions s' = ms_transactions s"
      "ms_memoryOutboxID s' = ms_memoryOutboxID s + 1"
      "\<exists>cb. ms_outbox s' = ms_outbox s @ [(ms_memoryOutboxID s + 1, cb)]
        \<and> cb_ID cb = ms_memoryOutboxID s + 1 \<and> cb_DedupeKey cb = ec_DedupeKey c"
    using assms(2) new by (auto simp: Mem_EnqueueCallback_def Let_def upd)
  then obtain cb where cb: "ms_outbox s' = ms_outbox s @ [(ms_memoryOutboxID s + 1, cb)]"
      "cb_ID cb = ms_memoryOutboxID s + 1" "cb_DedupeKey cb = ec_DedupeKey c" by blast
  have "gomap_ok (ms_outbox s')"
    using assms(1) \<open>ms_memoryOutboxID s + 1 \<notin> fst ` set (ms_outbox s)\<close>
    by (simp add: cb mem_inv_def outbox_ok_def gomap_ok_def)
  moreover have "\<forall>(k, x) \<in> set (ms_outbox s'). cb_ID x = k \<and> k \<le> ms_memoryOutboxID s'"
    using assms(1) by (force simp: cb s'(3) mem_inv_def outbox_ok_def)
  moreover have "inj_on (cb_DedupeKey \<circ> snd) (set (ms_outbox s'))"
    using assms(1) False by (force simp: cb mem_inv_def outbox_ok_def inj_on_def mem_keys_def)
  moreover have "mem_keys s' = insert (ec_DedupeKey c) (mem_keys s)"
    by (simp add: mem_keys_def cb)
  ultimately show ?thesis
    using assms(1) s'(1,2) by (simp add: mem_inv_def outbox_ok_def mem_row_def)
qed

lemma Mem_laws:
  assumes "mem_inv s"
  shows
    "Mem_GetByTransactionID e s cid tid =
       (case owned (mem_row s) cid tid of None \<Rightarrow> (Inl ErrTransactionNotFound, s) | Some q \<Rightarrow> (Inr q, s))"
    "Mem_UpdateLiveMeter e s u =
       (case owned (mem_row s) (ul_ChargerID u) (ul_TransactionID u) of
          None \<Rightarrow> (Inl ErrTransactionNotFound, s)
        | Some q \<Rightarrow> (Inr (metered (ul_MeterStop u) q),
                     put_tx (ul_TransactionID u) (metered (ul_MeterStop u) q) s))"
    "Mem_StopTransaction e s p =
       (case owned (mem_row s) (st_ChargerID p) (st_TransactionID p) of
          None \<Rightarrow> (Inl ErrTransactionNotFound, s)
        | Some q \<Rightarrow> if is_open q
            then (Inr (stopped_at (me_now e) (st_MeterStop p) q),
                  put_tx (st_TransactionID p) (stopped_at (me_now e) (st_MeterStop p) q) s)
            else (Inr q, s))"
    "Mem_CheckAndMarkLimitStop e s cid tid =
       (case owned (mem_row s) cid tid of
          Some q \<Rightarrow> if limit_ready q then (Inr True, put_tx tid (q\<lparr>tx_LimitStopRequested := True\<rparr>) s)
                     else (Inr False, s)
        | None \<Rightarrow> (Inr False, s))"
    "Mem_ReleaseLimitStopRequest e s cid tid =
       (case owned (mem_row s) cid tid of
          Some q \<Rightarrow> if is_open q then (Inr (), put_tx tid (q\<lparr>tx_LimitStopRequested := False\<rparr>) s)
                     else (Inr (), s)
        | None \<Rightarrow> (Inr (), s))"
  unfolding owned_def mem_row_def is_open_def limit_ready_def
    Mem_GetByTransactionID_def Mem_UpdateLiveMeter_def Mem_StopTransaction_def
    Mem_CheckAndMarkLimitStop_def Mem_ReleaseLimitStopRequest_def cloneTransaction_def Let_def
  by (auto simp: put_tx_metered stopped_at_def split: option.splits)

lemma memory_methods_simps [simp]:
  "m_CreateTransaction memory_methods = Mem_CreateTransaction"
  "m_UpdateLiveMeter memory_methods = Mem_UpdateLiveMeter"
  "m_StopTransaction memory_methods = Mem_StopTransaction"
  "m_ForceCloseTransaction memory_methods = Mem_ForceCloseTransaction"
  "m_GetByTransactionID memory_methods = Mem_GetByTransactionID"
  "m_GetByTransactionIDAndIDTag memory_methods = Mem_GetByTransactionIDAndIDTag"
  "m_ListOpenTransactionsByCharger memory_methods = Mem_ListOpenTransactionsByCharger"
  "m_UpdateTransactionMaxKWh memory_methods = Mem_UpdateTransactionMaxKWh"
  "m_CheckAndMarkLimitStop memory_methods = Mem_CheckAndMarkLimitStop"
  "m_ReleaseLimitStopRequest memory_methods = Mem_ReleaseLimitStopRequest"
  "m_EnqueueCallback memory_methods = Mem_EnqueueCallback"
  "m_ListTransactionsMissingStartCallbacks memory_methods = Mem_ListTransactionsMissingStartCallbacks"
  "m_ListTransactionsMissingCompletedCallbacks memory_methods = Mem_ListTransactionsMissingCompletedCallbacks"
  "m_ClaimDueCallbacks memory_methods = Mem_ClaimDueCallbacks"
  "m_MarkCallbackSent memory_methods = Mem_MarkCallbackSent"
  "m_MarkCallbackRetry memory_methods = Mem_MarkCallbackRetry"
  "m_MarkCallbackFatal memory_methods = Mem_MarkCallbackFatal"
  by (simp_all add: memory_methods_def)

lemma mem_inv_gomap: "mem_inv s \<Longrightarrow> gomap_ok (ms_transactions s)"
  by (simp add: mem_inv_def)

lemma Mem_missing_law:
  assumes "mem_inv s" and "0 \<le> limit"
  shows "lists_missing (mem_row s) (mem_keys s) kind b limit
           (Mem_listTransactionsMissingCallback e s kind b limit)"
proof -
  define f where "f = (\<lambda>(_ :: int, tx).
          if b \<and> tx_StopTime tx = None then None
          else if list_ex (\<lambda>(_, callback). cb_DedupeKey callback = dedupe_key kind (tx_TransactionID tx))
                    (ms_outbox s)
          then None else Some (cloneTransaction tx))"
  let ?xs = "List.map_filter f (range_order (me_tx_order e) (ms_transactions s))"
  have ok: "gomap_ok (ms_transactions s)" "rows_ok (mem_row s)"
    using assms(1) by (simp_all add: mem_inv_def)
  have row: "(k, x) \<in> set (ms_transactions s) \<longleftrightarrow> mem_row s k = Some x \<and> k = tx_TransactionID x" for k x
    using rows_okD(1) [OF ok(2)] ok(1) by (auto simp: gomap_set_iff mem_row_def)
  have key: "list_ex (\<lambda>(_, callback). cb_DedupeKey callback = d) (ms_outbox s) \<longleftrightarrow> d \<in> mem_keys s" for d
    by (force simp: list_ex_iff mem_keys_def)
  have f_iff: "f (k, x) = Some y \<longleftrightarrow>
      y = x \<and> (b \<longrightarrow> \<not> is_open x) \<and> dedupe_key kind (tx_TransactionID x) \<notin> mem_keys s" for k x y
    by (auto simp: f_def cloneTransaction_def is_open_def key)
  have "set ?xs = missing (mem_row s) (mem_keys s) kind b"
    using row by (auto simp: set_map_filter_prod ok(1) missing_def f_iff)
  moreover have "distinct ?xs"
  proof (rule distinct_map_filter_prod)
    show "distinct (map fst (range_order (me_tx_order e) (ms_transactions s)))"
      using range_order_ok [OF ok(1)] by (simp add: gomap_ok_def)
    fix k x k' x' y
    assume "(k, x) \<in> set (range_order (me_tx_order e) (ms_transactions s))"
      "(k', x') \<in> set (range_order (me_tx_order e) (ms_transactions s))"
      "f (k, x) = Some y" "f (k', x') = Some y"
    then show "k = k'" unfolding f_iff set_range_order [OF ok(1)] row by simp
  qed
  ultimately show ?thesis
    unfolding Mem_listTransactionsMissingCallback_def collect_upto_take f_def [symmetric]
    using assms(2) by (intro lists_missing_take)
qed

text \<open>The outbox operations that change a callback in place keep its id and its dedupe key.\<close>

definition same_callback :: "memoryCallback \<Rightarrow> memoryCallback \<Rightarrow> bool" where
  "same_callback a b \<longleftrightarrow> cb_ID a = cb_ID b \<and> cb_DedupeKey a = cb_DedupeKey b"

lemma put_cb_same:
  assumes inv: "mem_inv s" and cb: "map_of (ms_outbox s) k = Some cb" and same: "same_callback cb' cb"
  shows "mem_inv (put_cb k cb' s) \<and> mem_row (put_cb k cb' s) = mem_row s
       \<and> mem_keys (put_cb k cb' s) = mem_keys s"
proof -
  have ok: "gomap_ok (ms_outbox s)" and inj: "inj_on (cb_DedupeKey \<circ> snd) (set (ms_outbox s))"
    and ids: "\<forall>(k, cb) \<in> set (ms_outbox s). cb_ID cb = k \<and> k \<le> ms_memoryOutboxID s"
    using inv by (simp_all add: mem_inv_def outbox_ok_def)
  let ?o = "AList.update k cb' (ms_outbox s)"
  have old: "(k, cb) \<in> set (ms_outbox s)" using cb ok by (simp add: gomap_set_iff)
  have set_o: "(j, x) \<in> set ?o \<longleftrightarrow> (if j = k then x = cb' else (j, x) \<in> set (ms_outbox s))" for j x
    using ok by (auto simp: gomap_set_iff)
  have keys: "(cb_DedupeKey \<circ> snd) ` set ?o = (cb_DedupeKey \<circ> snd) ` set (ms_outbox s)"
  proof (intro equalityI subsetI)
    fix d assume "d \<in> (cb_DedupeKey \<circ> snd) ` set ?o"
    then obtain j x where "(j, x) \<in> set ?o" "d = cb_DedupeKey x" by auto
    then show "d \<in> (cb_DedupeKey \<circ> snd) ` set (ms_outbox s)"
      using old same unfolding set_o same_callback_def by (force split: if_splits)
  next
    fix d assume "d \<in> (cb_DedupeKey \<circ> snd) ` set (ms_outbox s)"
    then obtain j x where jx: "(j, x) \<in> set (ms_outbox s)" "d = cb_DedupeKey x" by auto
    then have "(if j = k then (k, cb') else (j, x)) \<in> set ?o" unfolding set_o by (auto simp: set_o)
    moreover have "j = k \<Longrightarrow> x = cb" using jx(1) cb ok by (simp add: gomap_set_iff)
    ultimately show "d \<in> (cb_DedupeKey \<circ> snd) ` set ?o"
      using jx same unfolding same_callback_def by (force split: if_splits)
  qed
  have "inj_on (cb_DedupeKey \<circ> snd) (set ?o)"
  proof (rule inj_onI)
    fix p q assume p: "p \<in> set ?o" and q: "q \<in> set ?o" and eq: "(cb_DedupeKey \<circ> snd) p = (cb_DedupeKey \<circ> snd) q"
    have orig: "\<exists>z. (j, z) \<in> set (ms_outbox s) \<and> cb_DedupeKey z = cb_DedupeKey x"
      if "(j, x) \<in> set ?o" for j x
      using that old same unfolding set_o same_callback_def by (auto split: if_splits)
    obtain y z where "(fst p, y) \<in> set (ms_outbox s)" "cb_DedupeKey y = cb_DedupeKey (snd p)"
      "(fst q, z) \<in> set (ms_outbox s)" "cb_DedupeKey z = cb_DedupeKey (snd q)"
      using orig [of "fst p" "snd p"] orig [of "fst q" "snd q"] p q by auto
    then have "fst p = fst q" using inj eq by (force simp: inj_on_def)
    moreover have "gomap_ok ?o" using ok by simp
    ultimately show "p = q" using p q by (cases p, cases q) (auto simp: gomap_set_iff)
  qed
  moreover have "\<forall>(j, x) \<in> set ?o. cb_ID x = j \<and> j \<le> ms_memoryOutboxID s"
    using ids old same by (auto simp: set_o same_callback_def split: if_splits)
  ultimately show ?thesis
    using inv ok keys by (simp add: mem_inv_def outbox_ok_def put_cb_def mem_row_def mem_keys_def)
qed

lemma Mem_claim_loop_law:
  assumes "mem_inv s" and "\<forall>(k, x) \<in> set items. map_of (ms_outbox s) k = Some x"
    and "distinct (map fst items)" and "Mem_claim_loop limit now tasks items s = (tasks', s')"
  shows "mem_inv s' \<and> mem_row s' = mem_row s \<and> mem_keys s' = mem_keys s"
  using assms
proof (induction limit now tasks items s rule: Mem_claim_loop.induct)
  case (2 limit now tasks k item rest s)
  let ?i = "item\<lparr>cb_Status := ''processing''\<rparr>"
  have put: "mem_inv (put_cb k ?i s) \<and> mem_row (put_cb k ?i s) = mem_row s
      \<and> mem_keys (put_cb k ?i s) = mem_keys s"
    using 2(3,4) by (intro put_cb_same [of s k item]) (auto simp: same_callback_def)
  have rest: "\<forall>(j, x) \<in> set rest. map_of (ms_outbox (put_cb k ?i s)) j = Some x"
    using 2(4,5) by (force simp: put_cb_def)
  show ?case
    using 2 put rest by (auto simp: Let_def split: if_splits)
qed simp

lemma Mem_ClaimDueCallbacks_law:
  assumes "mem_inv s" and "Mem_ClaimDueCallbacks e s limit = (rt, s')"
  shows "mem_inv s' \<and> mem_row s' = mem_row s \<and> mem_keys s' = mem_keys s"
proof -
  have ok: "gomap_ok (ms_outbox s)" using assms(1) by (simp add: mem_inv_def outbox_ok_def)
  obtain tasks where "Mem_claim_loop limit (me_now e) [] (range_order (me_outbox_order e) (ms_outbox s)) s
      = (tasks, s')"
    using assms(2) by (auto simp: Mem_ClaimDueCallbacks_def split: prod.splits)
  then show ?thesis
    using assms(1) ok range_order_ok [OF ok]
    by (intro Mem_claim_loop_law) (auto simp: gomap_set_iff [symmetric] gomap_ok_def [symmetric])
qed

interpretation mem: transaction_store memory_methods "\<lambda>_. True" mem_inv mem_row mem_keys
proof (unfold_locales, goal_cases)
  case 1
  then show ?case by (simp add: mem_inv_def)
next
  case 2
  then show ?case by (simp add: Mem_CreateTransaction_law)
next
  case (3 s e cid tid r s')
  then show ?case by (auto simp: Mem_laws split: option.splits)
next
  case (4 s e tid tag r s')
  then show ?case
    by (auto simp: Mem_GetByTransactionIDAndIDTag_def mem_row_def cloneTransaction_def
        split: option.splits if_splits)
next
  case (5 s e u r s')
  then show ?case
    by (cases "owned (mem_row s) (ul_ChargerID u) (ul_TransactionID u)")
      (auto simp: Mem_laws mem_inv_def intro: rows_ok_owned)
next
  case (6 s e p r s')
  then show ?case
    by (cases "owned (mem_row s) (st_ChargerID p) (st_TransactionID p)")
      (auto simp: Mem_laws mem_inv_def split: if_splits intro: rows_ok_owned)
next
  case (7 s e cid rl s')
  then show ?case using Mem_list_open_law [of s e cid rl s'] by auto
next
  case (8 s e tid m ru s')
  then show ?case
    by (auto simp: Mem_UpdateTransactionMaxKWh_def mem_inv_def mem_row_def [symmetric]
        split: option.splits intro!: rows_ok_max)
next
  case (9 s e cid tid rb s')
  then show ?case
    by (cases "owned (mem_row s) cid tid")
      (auto simp: Mem_laws mem_inv_def limit_due_def split: if_splits intro: rows_ok_owned)
next
  case (10 s e cid tid ru s')
  then show ?case
    by (cases "owned (mem_row s) cid tid")
      (auto simp: Mem_laws mem_inv_def split: if_splits intro: rows_ok_owned)
next
  case (11 s e c ru s')
  then show ?case by (simp add: Mem_EnqueueCallback_law)
next
  case (12 s e f r s')
  then show ?case
    by (cases "owned (mem_row s) (fc_ChargerID f) (fc_TransactionID f)")
      (auto simp: Mem_ForceCloseTransaction_def Mem_laws mem_inv_def split: if_splits intro: rows_ok_owned)
next
  case (13 s e limit rl s')
  then show ?case
    using Mem_missing_law by (auto simp: Mem_ListTransactionsMissingStartCallbacks_def)
next
  case (14 s e limit rl s')
  then show ?case
    using Mem_missing_law by (auto simp: Mem_ListTransactionsMissingCompletedCallbacks_def)
next
  case (15 s e limit rt s')
  then show ?case using Mem_ClaimDueCallbacks_law by simp
next
  case (16 s e cb ru s')
  then show ?case using put_cb_same [of s cb]
    by (auto simp: Mem_MarkCallbackSent_def same_callback_def split: option.splits)
next
  case (17 s e cb n due msg ru s')
  then show ?case using put_cb_same [of s cb]
    by (auto simp: Mem_MarkCallbackRetry_def same_callback_def split: option.splits)
next
  case (18 s e cb msg ru s')
  then show ?case using put_cb_same [of s cb]
    by (auto simp: Mem_MarkCallbackFatal_def same_callback_def split: option.splits)
qed

end
