(* ===== verification/Postgres_Store.thy ===== *)
theory Postgres_Store
  imports Store_History
begin

text \<open>
  \<open>PostgresStore\<close> (\<open>postgres.go\<close>, \<open>outbox_postgres.go\<close>, \<open>limit_stop_postgres.go\<close>,
  \<open>callback_reconcile_postgres.go\<close>) over the schema of \<open>migrations/\<close>.  The database is a list
  of rows per table plus the sequences of the \<open>BIGSERIAL\<close> columns, and every SQL text of the
  code is a function on it.  Each statement is atomic.  From outside come: the clocks of the
  program and of the server, the faults of single statements (refused, or executed with the
  reply lost), and \<open>pe_between\<close>, what other sessions commit between two statements of one
  method.  \<open>pe_stamp\<close> is the resolution at which the column keeps a timestamp.  Two rows that
  tie in an \<open>ORDER BY\<close> come in table order.
\<close>

section \<open>Tables and statements\<close>

record pg_callback =
  pc_id :: int64
  pc_kind :: string
  pc_dedupe_key :: string
  pc_transaction_id :: "int option"
  pc_uuiddb :: string
  pc_target_url :: string
  pc_payload :: json
  pc_status :: string
  pc_retries :: int
  pc_max_retries :: int
  pc_next_retry_at :: time
  pc_last_error :: "string option"
  pc_created_at :: time
  pc_updated_at :: time
  pc_sent_at :: "time option"

record PgDB =
  pg_transactions :: "Transaction list"
  pg_tx_seq :: int64
  pg_outbox :: "pg_callback list"
  pg_outbox_seq :: int64

datatype pg_fault = Refused go_error | Reply_lost go_error

record pg_env =
  pe_now :: time
  pe_db_now :: time
  pe_draws :: "nat \<Rightarrow> int"
  pe_entropy :: "nat \<Rightarrow> entropy"
  pe_fault :: "nat \<Rightarrow> pg_fault option"
  pe_between :: "PgDB \<Rightarrow> PgDB"
  pe_stamp :: "time \<Rightarrow> time"
  pe_locked :: "int64 \<Rightarrow> bool"

text \<open>The \<open>n\<close>-th statement of a method.\<close>

definition pg_exec :: "pg_env \<Rightarrow> nat \<Rightarrow> (PgDB \<Rightarrow> (PgDB, 'a) call) \<Rightarrow> PgDB \<Rightarrow> (PgDB, 'a) call" where
  "pg_exec e n stmt db =
     (case pe_fault e n of
        None \<Rightarrow> stmt db
      | Some (Refused err) \<Rightarrow> (Inl err, db)
      | Some (Reply_lost err) \<Rightarrow> (Inl err, snd (stmt db)))"

definition pg_update_tx ::
  "(Transaction \<Rightarrow> bool) \<Rightarrow> (Transaction \<Rightarrow> Transaction) \<Rightarrow> PgDB \<Rightarrow> (PgDB, nat) call" where
  "pg_update_tx P f db =
     (Inr (length (filter P (pg_transactions db))),
      db\<lparr>pg_transactions := map (\<lambda>r. if P r then f r else r) (pg_transactions db)\<rparr>)"

definition pg_update_cb :: "int64 \<Rightarrow> (pg_callback \<Rightarrow> pg_callback) \<Rightarrow> PgDB \<Rightarrow> (PgDB, unit) call" where
  "pg_update_cb cbid f db =
     (Inr (), db\<lparr>pg_outbox := map (\<lambda>c. if pc_id c = cbid then f c else c) (pg_outbox db)\<rparr>)"

fun isDuplicate :: "go_error \<Rightarrow> bool" where
  "isDuplicate (ErrPg c) = (c = ''23505'')"
| "isDuplicate (ErrWrap m e) = isDuplicate e"
| "isDuplicate _ = False"

text \<open>A row as the twelve-column queries return it: the two limit columns are not selected.\<close>

definition strip_limit :: "Transaction \<Rightarrow> Transaction" where
  "strip_limit r = r\<lparr>tx_MaxKWh := None, tx_LimitStopRequested := False\<rparr>"

section \<open>postgres.go\<close>

text \<open>\<open>INSERT INTO transactions ... RETURNING id\<close>; \<open>transaction_id\<close> is \<open>UNIQUE\<close>.\<close>

definition pg_insert_tx ::
  "pg_env \<Rightarrow> int \<Rightarrow> string \<Rightarrow> time \<Rightarrow> CreateTransactionInput \<Rightarrow> PgDB \<Rightarrow> (PgDB, int64) call" where
  "pg_insert_tx e tid uuiddb startTime input db =
     (let rowID = pg_tx_seq db + 1; db1 = db\<lparr>pg_tx_seq := rowID\<rparr> in
      if list_ex (\<lambda>r. tx_TransactionID r = tid) (pg_transactions db)
      then (Inl (ErrPg ''23505''), db1)
      else
        (Inr rowID, db1\<lparr>pg_transactions := pg_transactions db @
          [\<lparr>tx_ID = rowID, tx_UUIDDB = uuiddb, tx_ChargerID = ct_ChargerID input,
            tx_ConnectorID = ct_ConnectorID input, tx_MeterStart = ct_MeterStart input,
            tx_MeterStop = None, tx_TotalConsumption = None,
            tx_StartTime = pe_stamp e startTime, tx_StopTime = None,
            tx_IDTag = ct_IDTag input, tx_TransactionID = tid,
            tx_IsSingleSession = ct_IsSingleSession input,
            tx_MaxKWh = None, tx_LimitStopRequested = False\<rparr>]\<rparr>))"

fun Pg_create_attempts ::
  "nat \<Rightarrow> nat \<Rightarrow> pg_env \<Rightarrow> PgDB \<Rightarrow> CreateTransactionInput \<Rightarrow> (PgDB, Transaction) call" where
  "Pg_create_attempts 0 attempts e db input =
     (Inl (ErrNew ''could not allocate unique transaction id after 100 attempts''), db)"
| "Pg_create_attempts (Suc left) attempts e db input =
     (let tid = RandomTransactionID (pe_draws e attempts);
          uuiddb = NewUUIDString (pe_entropy e attempts);
          startTime = pe_now e
      in case pg_exec e attempts (pg_insert_tx e tid uuiddb startTime input) db of
           (Inl err, db') \<Rightarrow>
             if isDuplicate err then Pg_create_attempts left (Suc attempts) e db' input
             else (Inl err, db')
         | (Inr rowID, db') \<Rightarrow>
             (Inr \<lparr>tx_ID = rowID, tx_UUIDDB = uuiddb, tx_ChargerID = ct_ChargerID input,
                   tx_ConnectorID = ct_ConnectorID input, tx_MeterStart = ct_MeterStart input,
                   tx_MeterStop = None, tx_TotalConsumption = None,
                   tx_StartTime = startTime, tx_StopTime = None,
                   tx_IDTag = ct_IDTag input, tx_TransactionID = tid,
                   tx_IsSingleSession = ct_IsSingleSession input,
                   tx_MaxKWh = None, tx_LimitStopRequested = False\<rparr>, db'))"

definition Pg_CreateTransaction ::
  "pg_env \<Rightarrow> PgDB \<Rightarrow> CreateTransactionInput \<Rightarrow> (PgDB, Transaction) call" where
  "Pg_CreateTransaction e db input = Pg_create_attempts 100 0 e db input"

definition pg_get :: "pg_env \<Rightarrow> nat \<Rightarrow> PgDB \<Rightarrow> string \<Rightarrow> int \<Rightarrow> (PgDB, Transaction) call" where
  "pg_get e n db chargerID transactionID =
     pg_exec e n
       (\<lambda>db. (case find (\<lambda>r. tx_ChargerID r = chargerID \<and> tx_TransactionID r = transactionID)
                     (pg_transactions db) of
                None \<Rightarrow> Inl ErrTransactionNotFound
              | Some r \<Rightarrow> Inr (strip_limit r), db)) db"

definition Pg_GetByTransactionID :: "pg_env \<Rightarrow> PgDB \<Rightarrow> string \<Rightarrow> int \<Rightarrow> (PgDB, Transaction) call" where
  "Pg_GetByTransactionID e db chargerID transactionID = pg_get e 0 db chargerID transactionID"

definition Pg_UpdateLiveMeter ::
  "pg_env \<Rightarrow> PgDB \<Rightarrow> UpdateLiveMeterInput \<Rightarrow> (PgDB, Transaction) call" where
  "Pg_UpdateLiveMeter e db input =
     (case pg_get e 0 db (ul_ChargerID input) (ul_TransactionID input) of
        (Inl err, db0) \<Rightarrow> (Inl err, db0)
      | (Inr tx, db0) \<Rightarrow>
          let total = f_div (DeltaWh (tx_MeterStart tx) (ul_MeterStop input)) (Fin 1000) in
          case pg_exec e 1
                 (pg_update_tx
                    (\<lambda>r. tx_ChargerID r = ul_ChargerID input \<and> tx_TransactionID r = ul_TransactionID input)
                    (\<lambda>r. r\<lparr>tx_MeterStop := Some (ul_MeterStop input), tx_TotalConsumption := Some total\<rparr>))
                 (pe_between e db0) of
            (Inl err, db1) \<Rightarrow> (Inl err, db1)
          | (Inr _, db1) \<Rightarrow>
              (Inr (tx\<lparr>tx_MeterStop := Some (ul_MeterStop input), tx_TotalConsumption := Some total\<rparr>), db1))"

text \<open>The guarded \<open>UPDATE ... WHERE ... AND stop_time IS NULL\<close> shared by the two closing methods.\<close>

definition pg_close ::
  "pg_env \<Rightarrow> string \<Rightarrow> int \<Rightarrow> float64 \<Rightarrow> float64 \<Rightarrow> time \<Rightarrow> PgDB \<Rightarrow> (PgDB, nat) call" where
  "pg_close e chargerID transactionID meterStop kwh stopTime =
     pg_update_tx
       (\<lambda>r. tx_ChargerID r = chargerID \<and> tx_TransactionID r = transactionID \<and> tx_StopTime r = None)
       (\<lambda>r. r\<lparr>tx_MeterStop := Some meterStop, tx_TotalConsumption := Some kwh,
              tx_StopTime := Some (pe_stamp e stopTime)\<rparr>)"

definition Pg_StopTransaction ::
  "pg_env \<Rightarrow> PgDB \<Rightarrow> StopTransactionInput \<Rightarrow> (PgDB, Transaction) call" where
  "Pg_StopTransaction e db input =
     (case pg_get e 0 db (st_ChargerID input) (st_TransactionID input) of
        (Inl err, db0) \<Rightarrow> (Inl err, db0)
      | (Inr tx, db0) \<Rightarrow>
          if tx_StopTime tx \<noteq> None then (Inr tx, db0)
          else
            let stopTime = pe_now e;
                total = f_div (DeltaWh (tx_MeterStart tx) (st_MeterStop input)) (Fin 1000) in
            case pg_exec e 1
                   (pg_close e (st_ChargerID input) (st_TransactionID input)
                      (st_MeterStop input) total stopTime) (pe_between e db0) of
              (Inl err, db1) \<Rightarrow> (Inl err, db1)
            | (Inr rowsAffected, db1) \<Rightarrow>
                if rowsAffected = 0
                then pg_get e 2 db1 (st_ChargerID input) (st_TransactionID input)
                else (Inr (tx\<lparr>tx_MeterStop := Some (st_MeterStop input),
                              tx_TotalConsumption := Some total,
                              tx_StopTime := Some stopTime\<rparr>), db1))"

definition Pg_ForceCloseTransaction ::
  "pg_env \<Rightarrow> PgDB \<Rightarrow> ForceCloseTransactionInput \<Rightarrow> (PgDB, Transaction) call" where
  "Pg_ForceCloseTransaction e db input =
     (case pg_get e 0 db (fc_ChargerID input) (fc_TransactionID input) of
        (Inl err, db0) \<Rightarrow> (Inl err, db0)
      | (Inr tx, db0) \<Rightarrow>
          let stopTime = pe_now e;
              total = f_div (DeltaWh (tx_MeterStart tx) (fc_MeterStop input)) (Fin 1000) in
          case pg_exec e 1
                 (pg_close e (fc_ChargerID input) (fc_TransactionID input)
                    (fc_MeterStop input) total stopTime) (pe_between e db0) of
            (Inl err, db1) \<Rightarrow> (Inl err, db1)
          | (Inr _, db1) \<Rightarrow>
              (Inr (tx\<lparr>tx_MeterStop := Some (fc_MeterStop input),
                       tx_TotalConsumption := Some total,
                       tx_StopTime := Some stopTime\<rparr>), db1))"

definition Pg_GetByTransactionIDAndIDTag ::
  "pg_env \<Rightarrow> PgDB \<Rightarrow> int \<Rightarrow> string \<Rightarrow> (PgDB, Transaction) call" where
  "Pg_GetByTransactionIDAndIDTag e db transactionID idTag =
     pg_exec e 0
       (\<lambda>db. (case find (\<lambda>r. tx_TransactionID r = transactionID \<and> tx_IDTag r = idTag)
                     (pg_transactions db) of
                None \<Rightarrow> Inl ErrTransactionNotFound
              | Some r \<Rightarrow> Inr r, db)) db"

definition Pg_ListOpenTransactionsByCharger ::
  "pg_env \<Rightarrow> PgDB \<Rightarrow> string \<Rightarrow> (PgDB, Transaction list) call" where
  "Pg_ListOpenTransactionsByCharger e db chargerID =
     pg_exec e 0
       (\<lambda>db. (Inr (map strip_limit
                (sort_key (\<lambda>r. - tx_StartTime r)
                  (filter (\<lambda>r. tx_ChargerID r = chargerID \<and> tx_StopTime r = None)
                    (pg_transactions db)))), db)) db"

section \<open>limit_stop_postgres.go and the limit column of outbox_postgres.go\<close>

text \<open>\<open>>=\<close> on \<open>DOUBLE PRECISION\<close>: PostgreSQL takes NaN as equal to itself and above every number.\<close>

definition pg_ge :: "float64 \<Rightarrow> float64 \<Rightarrow> bool" where
  "pg_ge c m \<longleftrightarrow> c = NaN \<or> (m \<noteq> NaN \<and> f_le m c)"

definition Pg_CheckAndMarkLimitStop :: "pg_env \<Rightarrow> PgDB \<Rightarrow> string \<Rightarrow> int \<Rightarrow> (PgDB, bool) call" where
  "Pg_CheckAndMarkLimitStop e db chargerID transactionID =
     (case pg_exec e 0
             (pg_update_tx
                (\<lambda>r. tx_ChargerID r = chargerID \<and> tx_TransactionID r = transactionID
                     \<and> tx_StopTime r = None \<and> \<not> tx_LimitStopRequested r
                     \<and> (case (tx_MaxKWh r, tx_TotalConsumption r) of
                          (Some m, Some c) \<Rightarrow> pg_ge c m | _ \<Rightarrow> False))
                (\<lambda>r. r\<lparr>tx_LimitStopRequested := True\<rparr>)) db of
        (Inl err, db') \<Rightarrow> (Inl err, db')
      | (Inr n, db') \<Rightarrow> (Inr (n \<noteq> 0), db'))"

definition pg_ok :: "(PgDB, 'a) call \<Rightarrow> (PgDB, unit) call" where
  "pg_ok c = (map_sum id (\<lambda>_. ()) (fst c), snd c)"

definition Pg_ReleaseLimitStopRequest :: "pg_env \<Rightarrow> PgDB \<Rightarrow> string \<Rightarrow> int \<Rightarrow> (PgDB, unit) call" where
  "Pg_ReleaseLimitStopRequest e db chargerID transactionID =
     pg_ok (pg_exec e 0
       (pg_update_tx
          (\<lambda>r. tx_ChargerID r = chargerID \<and> tx_TransactionID r = transactionID \<and> tx_StopTime r = None)
          (\<lambda>r. r\<lparr>tx_LimitStopRequested := False\<rparr>)) db)"

definition Pg_UpdateTransactionMaxKWh :: "pg_env \<Rightarrow> PgDB \<Rightarrow> int \<Rightarrow> float64 \<Rightarrow> (PgDB, unit) call" where
  "Pg_UpdateTransactionMaxKWh e db transactionID maxKWh =
     pg_ok (pg_exec e 0
       (pg_update_tx (\<lambda>r. tx_TransactionID r = transactionID)
          (\<lambda>r. r\<lparr>tx_MaxKWh := Some maxKWh\<rparr>)) db)"

section \<open>outbox_postgres.go\<close>

text \<open>\<open>INSERT ... ON CONFLICT (dedupe_key) DO NOTHING\<close>; the other columns take their defaults.\<close>

definition Pg_EnqueueCallback :: "pg_env \<Rightarrow> PgDB \<Rightarrow> EnqueueCallbackInput \<Rightarrow> (PgDB, unit) call" where
  "Pg_EnqueueCallback e db input =
     pg_exec e 0
       (\<lambda>db. let cbid = pg_outbox_seq db + 1; db1 = db\<lparr>pg_outbox_seq := cbid\<rparr> in
          if list_ex (\<lambda>c. pc_dedupe_key c = ec_DedupeKey input) (pg_outbox db) then (Inr (), db1)
          else (Inr (), db1\<lparr>pg_outbox := pg_outbox db @
            [\<lparr>pc_id = cbid, pc_kind = ec_Kind input, pc_dedupe_key = ec_DedupeKey input,
              pc_transaction_id = ec_TransactionID input, pc_uuiddb = ec_UUIDDB input,
              pc_target_url = ec_TargetURL input, pc_payload = ec_Payload input,
              pc_status = ''pending'', pc_retries = 0, pc_max_retries = ec_MaxRetries input,
              pc_next_retry_at = pe_db_now e, pc_last_error = None,
              pc_created_at = pe_db_now e, pc_updated_at = pe_db_now e, pc_sent_at = None\<rparr>]\<rparr>)) db"

definition pg_due :: "pg_env \<Rightarrow> pg_callback \<Rightarrow> bool" where
  "pg_due e c \<longleftrightarrow>
     (pc_status c = ''pending'' \<and> pc_next_retry_at c \<le> pe_db_now e)
     \<or> (pc_status c = ''processing'' \<and> pc_updated_at c \<le> pe_db_now e - 2 * Minute)"

definition pg_task :: "pg_callback \<Rightarrow> CallbackTask" where
  "pg_task c =
     \<lparr>ta_ID = pc_id c, ta_Kind = pc_kind c, ta_DedupeKey = pc_dedupe_key c,
      ta_TransactionID = pc_transaction_id c, ta_UUIDDB = pc_uuiddb c,
      ta_TargetURL = pc_target_url c, ta_Payload = pc_payload c,
      ta_Retries = pc_retries c, ta_MaxRetries = pc_max_retries c\<rparr>"

fun pg_mark_processing :: "pg_env \<Rightarrow> nat \<Rightarrow> int64 list \<Rightarrow> PgDB \<Rightarrow> (PgDB, unit) call" where
  "pg_mark_processing e n [] db = (Inr (), db)"
| "pg_mark_processing e n (i # ids) db =
     (case pg_exec e n
             (pg_update_cb i (\<lambda>c. c\<lparr>pc_status := ''processing'', pc_updated_at := pe_db_now e\<rparr>)) db of
        (Inl err, db') \<Rightarrow> (Inl err, db')
      | (Inr _, db') \<Rightarrow> pg_mark_processing e (Suc n) ids db')"

text \<open>
  \<open>ClaimDueCallbacks\<close> runs in one database transaction: begin (statement 0), the locking
  \<open>SELECT\<close> (1), one \<open>UPDATE\<close> per task, commit.  An error before the commit rolls everything
  back; when the reply to the commit is lost the updates stay.
\<close>

definition Pg_ClaimDueCallbacks :: "pg_env \<Rightarrow> PgDB \<Rightarrow> int \<Rightarrow> (PgDB, CallbackTask list) call" where
  "Pg_ClaimDueCallbacks e db limit =
     (case pg_exec e 0 (\<lambda>db. (Inr (), db)) db of
        (Inl err, _) \<Rightarrow> (Inl err, db)
      | (Inr _, _) \<Rightarrow>
         (case pg_exec e 1
                 (\<lambda>db. (if limit < 0 then Inl (ErrPg ''2201W'')
                        else Inr (take (nat limit)
                          (sort_key pc_id
                            (filter (\<lambda>c. pg_due e c \<and> \<not> pe_locked e (pc_id c)) (pg_outbox db)))), db)) db of
            (Inl err, _) \<Rightarrow> (Inl err, db)
          | (Inr rows, _) \<Rightarrow>
             (case pg_mark_processing e 2 (map pc_id rows) db of
                (Inl err, _) \<Rightarrow> (Inl err, db)
              | (Inr _, db') \<Rightarrow>
                 (case pe_fault e (2 + length rows) of
                    None \<Rightarrow> (Inr (map pg_task rows), db')
                  | Some (Refused err) \<Rightarrow> (Inl err, db)
                  | Some (Reply_lost err) \<Rightarrow> (Inl err, db')))))"

definition Pg_MarkCallbackSent :: "pg_env \<Rightarrow> PgDB \<Rightarrow> int64 \<Rightarrow> (PgDB, unit) call" where
  "Pg_MarkCallbackSent e db cbid =
     pg_exec e 0 (pg_update_cb cbid
       (\<lambda>c. c\<lparr>pc_status := ''sent'', pc_sent_at := Some (pe_db_now e), pc_updated_at := pe_db_now e,
              pc_last_error := None\<rparr>)) db"

definition Pg_MarkCallbackRetry ::
  "pg_env \<Rightarrow> PgDB \<Rightarrow> int64 \<Rightarrow> int \<Rightarrow> time \<Rightarrow> string \<Rightarrow> (PgDB, unit) call" where
  "Pg_MarkCallbackRetry e db cbid retries nextRetryAt lastError =
     pg_exec e 0 (pg_update_cb cbid
       (\<lambda>c. c\<lparr>pc_status := ''pending'', pc_retries := retries,
              pc_next_retry_at := pe_stamp e nextRetryAt, pc_last_error := Some lastError,
              pc_updated_at := pe_db_now e\<rparr>)) db"

definition Pg_MarkCallbackFatal :: "pg_env \<Rightarrow> PgDB \<Rightarrow> int64 \<Rightarrow> string \<Rightarrow> (PgDB, unit) call" where
  "Pg_MarkCallbackFatal e db cbid lastError =
     pg_exec e 0 (pg_update_cb cbid
       (\<lambda>c. c\<lparr>pc_status := ''fatal'', pc_last_error := Some lastError, pc_updated_at := pe_db_now e\<rparr>)) db"

section \<open>callback_reconcile_postgres.go\<close>

definition Pg_listTransactionsMissingCallback ::
  "pg_env \<Rightarrow> PgDB \<Rightarrow> string \<Rightarrow> bool \<Rightarrow> int \<Rightarrow> (PgDB, Transaction list) call" where
  "Pg_listTransactionsMissingCallback e db kind completedOnly limit =
     pg_exec e 0
       (\<lambda>db. (if limit < 0 then Inl (ErrPg ''2201W'')
              else Inr (take (nat limit)
                (sort_key tx_ID
                  (filter (\<lambda>t. \<not> list_ex (\<lambda>c. pc_dedupe_key c = dedupe_key kind (tx_TransactionID t))
                                     (pg_outbox db)
                               \<and> (completedOnly \<longrightarrow> tx_StopTime t \<noteq> None))
                    (pg_transactions db)))), db)) db"

definition Pg_ListTransactionsMissingStartCallbacks ::
  "pg_env \<Rightarrow> PgDB \<Rightarrow> int \<Rightarrow> (PgDB, Transaction list) call" where
  "Pg_ListTransactionsMissingStartCallbacks e db limit =
     Pg_listTransactionsMissingCallback e db ''start_transaction'' False limit"

definition Pg_ListTransactionsMissingCompletedCallbacks ::
  "pg_env \<Rightarrow> PgDB \<Rightarrow> int \<Rightarrow> (PgDB, Transaction list) call" where
  "Pg_ListTransactionsMissingCompletedCallbacks e db limit =
     Pg_listTransactionsMissingCallback e db ''completed_transaction'' True limit"

section \<open>The contract\<close>

definition postgres_methods :: "(pg_env, PgDB) TransactionStore" where
  "postgres_methods =
     \<lparr>m_CreateTransaction = Pg_CreateTransaction,
      m_UpdateLiveMeter = Pg_UpdateLiveMeter,
      m_StopTransaction = Pg_StopTransaction,
      m_ForceCloseTransaction = Pg_ForceCloseTransaction,
      m_GetByTransactionID = Pg_GetByTransactionID,
      m_GetByTransactionIDAndIDTag = Pg_GetByTransactionIDAndIDTag,
      m_ListOpenTransactionsByCharger = Pg_ListOpenTransactionsByCharger,
      m_ListTransactionsMissingStartCallbacks = Pg_ListTransactionsMissingStartCallbacks,
      m_ListTransactionsMissingCompletedCallbacks = Pg_ListTransactionsMissingCompletedCallbacks,
      m_UpdateTransactionMaxKWh = Pg_UpdateTransactionMaxKWh,
      m_CheckAndMarkLimitStop = Pg_CheckAndMarkLimitStop,
      m_ReleaseLimitStopRequest = Pg_ReleaseLimitStopRequest,
      m_EnqueueCallback = Pg_EnqueueCallback,
      m_ClaimDueCallbacks = Pg_ClaimDueCallbacks,
      m_MarkCallbackSent = Pg_MarkCallbackSent,
      m_MarkCallbackRetry = Pg_MarkCallbackRetry,
      m_MarkCallbackFatal = Pg_MarkCallbackFatal\<rparr>"

lemma postgres_methods_simps [simp]:
  "m_CreateTransaction postgres_methods = Pg_CreateTransaction"
  "m_UpdateLiveMeter postgres_methods = Pg_UpdateLiveMeter"
  "m_StopTransaction postgres_methods = Pg_StopTransaction"
  "m_ForceCloseTransaction postgres_methods = Pg_ForceCloseTransaction"
  "m_GetByTransactionID postgres_methods = Pg_GetByTransactionID"
  "m_GetByTransactionIDAndIDTag postgres_methods = Pg_GetByTransactionIDAndIDTag"
  "m_ListOpenTransactionsByCharger postgres_methods = Pg_ListOpenTransactionsByCharger"
  "m_ListTransactionsMissingStartCallbacks postgres_methods = Pg_ListTransactionsMissingStartCallbacks"
  "m_ListTransactionsMissingCompletedCallbacks postgres_methods = Pg_ListTransactionsMissingCompletedCallbacks"
  "m_UpdateTransactionMaxKWh postgres_methods = Pg_UpdateTransactionMaxKWh"
  "m_CheckAndMarkLimitStop postgres_methods = Pg_CheckAndMarkLimitStop"
  "m_ReleaseLimitStopRequest postgres_methods = Pg_ReleaseLimitStopRequest"
  "m_EnqueueCallback postgres_methods = Pg_EnqueueCallback"
  "m_ClaimDueCallbacks postgres_methods = Pg_ClaimDueCallbacks"
  "m_MarkCallbackSent postgres_methods = Pg_MarkCallbackSent"
  "m_MarkCallbackRetry postgres_methods = Pg_MarkCallbackRetry"
  "m_MarkCallbackFatal postgres_methods = Pg_MarkCallbackFatal"
  by (simp_all add: postgres_methods_def)

definition pg_row :: "PgDB \<Rightarrow> rows" where
  "pg_row db t = find (\<lambda>r. tx_TransactionID r = t) (pg_transactions db)"

definition pg_keys :: "PgDB \<Rightarrow> string set" where
  "pg_keys db = pc_dedupe_key ` set (pg_outbox db)"

definition pg_outbox_ok :: "PgDB \<Rightarrow> bool" where
  "pg_outbox_ok db \<longleftrightarrow>
     distinct (map pc_id (pg_outbox db)) \<and> distinct (map pc_dedupe_key (pg_outbox db))
     \<and> (\<forall>c \<in> set (pg_outbox db). pc_id c \<le> pg_outbox_seq db)"

definition pg_inv :: "PgDB \<Rightarrow> bool" where
  "pg_inv db \<longleftrightarrow>
     distinct (map tx_TransactionID (pg_transactions db)) \<and> rows_ok (pg_row db) \<and> pg_outbox_ok db"

definition pg_quiet :: "pg_env \<Rightarrow> bool" where
  "pg_quiet e \<longleftrightarrow> pe_fault e = (\<lambda>_. None) \<and> pe_between e = id"

lemma pg_exec_quiet [simp]: "pg_quiet e \<Longrightarrow> pg_exec e n stmt db = stmt db"
  by (simp add: pg_exec_def pg_quiet_def)

lemma pg_between_quiet [simp]: "pg_quiet e \<Longrightarrow> pe_between e db = db"
  by (simp add: pg_quiet_def)

abbreviation pg_distinct :: "PgDB \<Rightarrow> bool" where
  "pg_distinct db \<equiv> distinct (map tx_TransactionID (pg_transactions db))"

lemma pg_row_Some_iff:
  "pg_distinct db \<Longrightarrow> pg_row db t = Some r \<longleftrightarrow> r \<in> set (pg_transactions db) \<and> tx_TransactionID r = t"
  by (simp add: pg_row_def find_distinct_iff)

lemma pg_owned:
  "pg_distinct db \<Longrightarrow>
   find (\<lambda>r. tx_ChargerID r = cid \<and> tx_TransactionID r = t) (pg_transactions db) = owned (pg_row db) cid t"
  by (simp add: find_key_and owned_def pg_row_def)

lemma pg_tagged:
  "pg_distinct db \<Longrightarrow>
   find (\<lambda>r. tx_TransactionID r = t \<and> tx_IDTag r = tag) (pg_transactions db) =
     (case pg_row db t of None \<Rightarrow> None | Some r \<Rightarrow> if tx_IDTag r = tag then Some r else None)"
  using find_key_and [of tx_TransactionID "pg_transactions db" "\<lambda>r. tx_IDTag r = tag" t]
  by (simp add: pg_row_def conj_commute)

text \<open>An \<open>UPDATE\<close> that keeps the transaction ids changes the matching rows and nothing else.\<close>

lemma pg_update_tx_row:
  assumes "\<And>r. tx_TransactionID (f r) = tx_TransactionID r"
  shows "pg_row (snd (pg_update_tx P f db)) t = map_option (\<lambda>r. if P r then f r else r) (pg_row db t)"
  unfolding pg_row_def pg_update_tx_def
  by (simp add: find_map_same_key assms)

lemma pg_update_tx_one:
  assumes d: "pg_distinct db" and f: "\<And>r. tx_TransactionID (f r) = tx_TransactionID r"
    and P: "\<And>r. P r \<Longrightarrow> tx_TransactionID r = t"
  shows "pg_row (snd (pg_update_tx P f db)) =
    (case pg_row db t of None \<Rightarrow> pg_row db
     | Some q \<Rightarrow> if P q then (pg_row db)(t \<mapsto> f q) else pg_row db)"
proof
  fix k
  have other: "map_option (\<lambda>r. if P r then f r else r) (pg_row db k) = pg_row db k" if "k \<noteq> t"
  proof (cases "pg_row db k")
    case (Some r)
    then have "\<not> P r" using that P [of r] d pg_row_Some_iff [of db k r] by blast
    then show ?thesis using Some by simp
  qed simp
  show "pg_row (snd (pg_update_tx P f db)) k =
    (case pg_row db t of None \<Rightarrow> pg_row db
     | Some q \<Rightarrow> if P q then (pg_row db)(t \<mapsto> f q) else pg_row db) k"
    unfolding pg_update_tx_row [of f, OF f]
    using other by (cases "k = t"; cases "pg_row db t") simp_all
qed

lemma pg_update_tx_count:
  assumes d: "pg_distinct db" and P: "\<And>r. P r \<Longrightarrow> tx_TransactionID r = t"
    and n: "fst (pg_update_tx P f db) = Inr n"
  shows "n \<noteq> 0 \<longleftrightarrow> (\<exists>q. pg_row db t = Some q \<and> P q)"
proof -
  have "n \<noteq> 0 \<longleftrightarrow> (\<exists>q \<in> set (pg_transactions db). P q)"
    using n filter_empty_conv [of P "pg_transactions db"] by (auto simp: pg_update_tx_def)
  then show ?thesis using P pg_row_Some_iff [OF d] by blast
qed

lemma pg_update_tx_frame:
  assumes "\<And>r. tx_TransactionID (f r) = tx_TransactionID r"
  shows "pg_distinct (snd (pg_update_tx P f db)) = pg_distinct db"
    "pg_keys (snd (pg_update_tx P f db)) = pg_keys db"
    "pg_outbox_ok (snd (pg_update_tx P f db)) = pg_outbox_ok db"
    "pg_outbox (snd (pg_update_tx P f db)) = pg_outbox db"
proof -
  have "map tx_TransactionID (map (\<lambda>r. if P r then f r else r) xs) = map tx_TransactionID xs" for xs
    using assms by simp
  then show "pg_distinct (snd (pg_update_tx P f db)) = pg_distinct db"
    by (simp add: pg_update_tx_def del: map_map)
qed (simp_all add: pg_update_tx_def pg_keys_def pg_outbox_ok_def)

text \<open>The three facts of one guarded \<open>UPDATE\<close> of the row \<open>t\<close>, in the form the methods use.\<close>

lemma pg_update_cases:
  assumes inv: "pg_inv db" and upd: "pg_update_tx P f db = (r, db')"
    and f: "\<And>r. tx_TransactionID (f r) = tx_TransactionID r"
    and P: "\<And>r. P r \<Longrightarrow> tx_TransactionID r = t"
    and ok: "\<And>q. pg_row db t = Some q \<Longrightarrow> P q \<Longrightarrow> rows_ok ((pg_row db)(t \<mapsto> f q))"
  shows "\<exists>n. r = Inr n \<and> pg_inv db' \<and> pg_keys db' = pg_keys db
    \<and> (case pg_row db t of
         Some q \<Rightarrow> if P q then n \<noteq> 0 \<and> pg_row db' = (pg_row db)(t \<mapsto> f q) else n = 0 \<and> pg_row db' = pg_row db
       | None \<Rightarrow> n = 0 \<and> pg_row db' = pg_row db)"
proof -
  have d: "pg_distinct db" using inv by (simp add: pg_inv_def)
  have db': "db' = snd (pg_update_tx P f db)" and r: "r = fst (pg_update_tx P f db)" using upd by simp_all
  then obtain n where n: "r = Inr n" by (simp add: pg_update_tx_def)
  have count: "n \<noteq> 0 \<longleftrightarrow> (\<exists>q. pg_row db t = Some q \<and> P q)"
    using pg_update_tx_count [OF d P] n r by simp
  have row: "pg_row db' = (case pg_row db t of None \<Rightarrow> pg_row db
     | Some q \<Rightarrow> if P q then (pg_row db)(t \<mapsto> f q) else pg_row db)"
    unfolding db' by (rule pg_update_tx_one [OF d f P])
  have "rows_ok (pg_row db')"
    using inv ok unfolding row by (cases "pg_row db t") (auto simp: pg_inv_def)
  then have "pg_inv db' \<and> pg_keys db' = pg_keys db"
    using inv pg_update_tx_frame [of f P db, OF f] by (simp add: pg_inv_def db')
  then show ?thesis using n count row by (auto split: option.splits)
qed

lemma pg_ge_Fin: "pg_ge c m \<Longrightarrow> \<not> f_lt c m" "m \<noteq> NaN \<Longrightarrow> pg_ge c m \<longleftrightarrow> \<not> f_lt c m"
  by (cases c; cases m; auto simp: pg_ge_def f_le_def f_eq_def)+

text \<open>One method at a time against the contract.\<close>

lemma pg_get_law:
  "\<lbrakk>pg_inv db; pg_quiet e\<rbrakk> \<Longrightarrow> pg_get e n db cid t =
     (case owned (pg_row db) cid t of None \<Rightarrow> (Inl ErrTransactionNotFound, db)
      | Some q \<Rightarrow> (Inr (strip_limit q), db))"
  by (simp add: pg_get_def pg_inv_def pg_owned split: option.splits)

lemma view_strip_limit [simp]: "view (strip_limit q) = view q"
  by (simp add: view_def strip_limit_def)

lemma strip_limit_simps [simp]:
  "tx_MeterStart (strip_limit q) = tx_MeterStart q" "tx_StopTime (strip_limit q) = tx_StopTime q"
  by (simp_all add: strip_limit_def)

lemma Pg_UpdateLiveMeter_law:
  assumes "pg_inv db" and "pg_quiet e" and "Pg_UpdateLiveMeter e db u = (r, db')"
  shows "pg_inv db' \<and> pg_keys db' = pg_keys db \<and>
    (case owned (pg_row db) (ul_ChargerID u) (ul_TransactionID u) of
       None \<Rightarrow> r = Inl ErrTransactionNotFound \<and> pg_row db' = pg_row db
     | Some q \<Rightarrow> pg_row db' = (pg_row db)(ul_TransactionID u \<mapsto> metered (ul_MeterStop u) q) \<and>
         (\<exists>tx. r = Inr tx \<and> view tx = view (metered (ul_MeterStop u) q)))"
proof (cases "owned (pg_row db) (ul_ChargerID u) (ul_TransactionID u)")
  case None
  then show ?thesis using assms by (simp add: Pg_UpdateLiveMeter_def pg_get_law)
next
  case (Some q)
  let ?P = "\<lambda>r. tx_ChargerID r = ul_ChargerID u \<and> tx_TransactionID r = ul_TransactionID u"
  let ?t = "f_div (DeltaWh (tx_MeterStart q) (ul_MeterStop u)) (Fin 1000)"
  let ?f = "\<lambda>r. r\<lparr>tx_MeterStop := Some (ul_MeterStop u), tx_TotalConsumption := Some ?t\<rparr>"
  obtain c db1 where upd: "pg_update_tx ?P ?f db = (c, db1)" by fastforce
  have q: "pg_row db (ul_TransactionID u) = Some q" "tx_ChargerID q = ul_ChargerID u"
    using Some by (simp_all add: owned_Some_iff)
  have ro: "rows_ok (pg_row db)" using assms(1) by (simp add: pg_inv_def)
  have f: "?f q = metered (ul_MeterStop u) q" by (simp add: metered_def consumption_kwh_def)
  have "?P q" using rows_okD(1) [OF ro q(1)] q(2) by simp
  then obtain n where n: "c = Inr n" "pg_inv db1" "pg_keys db1 = pg_keys db"
    "pg_row db1 = (pg_row db)(ul_TransactionID u \<mapsto> metered (ul_MeterStop u) q)"
    using pg_update_cases [OF assms(1) upd] q ro f by (fastforce intro: rows_ok_metered)
  have "r = Inr (?f (strip_limit q)) \<and> db' = db1"
    using assms Some n(1) upd by (simp add: Pg_UpdateLiveMeter_def pg_get_law)
  then show ?thesis using Some n
    by (simp add: metered_def consumption_kwh_def view_def strip_limit_def)
qed

lemma pg_close_cases:
  assumes inv: "pg_inv db" and upd: "pg_close e cid t m (consumption_kwh (tx_MeterStart q) m) stop db = (r, db')"
    and own: "owned (pg_row db) cid t = Some q"
  shows "\<exists>n. r = Inr n \<and> pg_inv db' \<and> pg_keys db' = pg_keys db \<and>
    (if is_open q then n \<noteq> 0 \<and> pg_row db' = (pg_row db)(t \<mapsto> stopped_at (pe_stamp e stop) m q)
     else n = 0 \<and> pg_row db' = pg_row db)"
proof -
  let ?P = "\<lambda>r. tx_ChargerID r = cid \<and> tx_TransactionID r = t \<and> tx_StopTime r = None"
  let ?f = "\<lambda>r. r\<lparr>tx_MeterStop := Some m,
      tx_TotalConsumption := Some (consumption_kwh (tx_MeterStart q) m),
      tx_StopTime := Some (pe_stamp e stop)\<rparr>"
  have q: "pg_row db t = Some q" "tx_ChargerID q = cid" using own by (simp_all add: owned_Some_iff)
  have ro: "rows_ok (pg_row db)" using inv by (simp add: pg_inv_def)
  have P: "?P q \<longleftrightarrow> is_open q" using rows_okD(1) [OF ro q(1)] q(2) by (simp add: is_open_def)
  have f: "?f q = stopped_at (pe_stamp e stop) m q" by (simp add: stopped_at_def metered_def)
  have upd': "pg_update_tx ?P ?f db = (r, db')" using upd by (simp add: pg_close_def)
  have ok: "rows_ok ((pg_row db)(t \<mapsto> ?f x))" if "pg_row db t = Some x" "?P x" for x
    using that q(1) f rows_ok_stopped [OF ro q(1)] by simp
  have "\<exists>n. r = Inr n \<and> pg_inv db' \<and> pg_keys db' = pg_keys db
    \<and> (case pg_row db t of
         Some q \<Rightarrow> if ?P q then n \<noteq> 0 \<and> pg_row db' = (pg_row db)(t \<mapsto> ?f q) else n = 0 \<and> pg_row db' = pg_row db
       | None \<Rightarrow> n = 0 \<and> pg_row db' = pg_row db)"
    by (rule pg_update_cases [OF inv upd' _ _ ok]) simp_all
  then show ?thesis unfolding q(1) option.case P f .
qed

lemma stripped_stop_view:
  "view ((strip_limit q)\<lparr>tx_MeterStop := Some m,
      tx_TotalConsumption := Some (consumption_kwh (tx_MeterStart q) m), tx_StopTime := Some t\<rparr>)
   = view (stopped_at t' m q)"
  by (simp add: view_def strip_limit_def stopped_at_def metered_def)

lemma Pg_StopTransaction_law:
  assumes "pg_inv db" and "pg_quiet e" and "Pg_StopTransaction e db p = (r, db')"
  shows "pg_inv db' \<and> pg_keys db' = pg_keys db \<and>
    (case owned (pg_row db) (st_ChargerID p) (st_TransactionID p) of
       None \<Rightarrow> r = Inl ErrTransactionNotFound \<and> pg_row db' = pg_row db
     | Some q \<Rightarrow>
         if is_open q
         then (\<exists>t tx. pg_row db' = (pg_row db)(st_TransactionID p \<mapsto> stopped_at t (st_MeterStop p) q) \<and>
                 r = Inr tx \<and> view tx = view (stopped_at t (st_MeterStop p) q))
         else pg_row db' = pg_row db \<and> (\<exists>tx. r = Inr tx \<and> view tx = view q))"
proof (cases "owned (pg_row db) (st_ChargerID p) (st_TransactionID p)")
  case None
  then show ?thesis using assms by (simp add: Pg_StopTransaction_def pg_get_law)
next
  case (Some q)
  obtain c db1 where upd: "pg_close e (st_ChargerID p) (st_TransactionID p) (st_MeterStop p)
    (consumption_kwh (tx_MeterStart q) (st_MeterStop p)) (pe_now e) db = (c, db1)" by fastforce
  show ?thesis
  proof (cases "is_open q")
    case True
    then obtain n where n: "c = Inr n" "n \<noteq> 0" "pg_inv db1" "pg_keys db1 = pg_keys db"
      "pg_row db1 = (pg_row db)(st_TransactionID p \<mapsto> stopped_at (pe_stamp e (pe_now e)) (st_MeterStop p) q)"
      using pg_close_cases [OF assms(1) upd Some] by auto
    then have "db' = db1 \<and> r = Inr ((strip_limit q)\<lparr>tx_MeterStop := Some (st_MeterStop p),
        tx_TotalConsumption := Some (consumption_kwh (tx_MeterStart q) (st_MeterStop p)),
        tx_StopTime := Some (pe_now e)\<rparr>)"
      using assms Some upd True
      by (simp add: Pg_StopTransaction_def pg_get_law is_open_def consumption_kwh_def)
    then show ?thesis using n Some True stripped_stop_view by auto
  next
    case False
    then show ?thesis using assms Some by (auto simp: Pg_StopTransaction_def pg_get_law is_open_def)
  qed
qed

lemma Pg_ForceCloseTransaction_law:
  assumes "pg_inv db" and "pg_quiet e" and "Pg_ForceCloseTransaction e db p = (r, db')"
  shows "pg_inv db' \<and> pg_keys db' = pg_keys db \<and>
    (case owned (pg_row db) (fc_ChargerID p) (fc_TransactionID p) of
       None \<Rightarrow> r = Inl ErrTransactionNotFound \<and> pg_row db' = pg_row db
     | Some q \<Rightarrow>
         if is_open q
         then (\<exists>t tx. pg_row db' = (pg_row db)(fc_TransactionID p \<mapsto> stopped_at t (fc_MeterStop p) q) \<and>
                 r = Inr tx \<and> view tx = view (stopped_at t (fc_MeterStop p) q))
         else pg_row db' = pg_row db)"
proof (cases "owned (pg_row db) (fc_ChargerID p) (fc_TransactionID p)")
  case None
  then show ?thesis using assms by (simp add: Pg_ForceCloseTransaction_def pg_get_law)
next
  case (Some q)
  obtain c db1 where upd: "pg_close e (fc_ChargerID p) (fc_TransactionID p) (fc_MeterStop p)
    (consumption_kwh (tx_MeterStart q) (fc_MeterStop p)) (pe_now e) db = (c, db1)" by fastforce
  note close = pg_close_cases [OF assms(1) upd Some]
  have "db' = db1 \<and> r = Inr ((strip_limit q)\<lparr>tx_MeterStop := Some (fc_MeterStop p),
      tx_TotalConsumption := Some (consumption_kwh (tx_MeterStart q) (fc_MeterStop p)),
      tx_StopTime := Some (pe_now e)\<rparr>)"
    using assms Some upd close
    by (auto simp: Pg_ForceCloseTransaction_def pg_get_law consumption_kwh_def)
  then show ?thesis using close Some stripped_stop_view by (auto split: if_splits)
qed

text \<open>A single guarded \<open>UPDATE\<close> of one owned row: the limit marks.\<close>

lemma pg_owned_update:
  assumes inv: "pg_inv db" and upd: "pg_update_tx P f db = (r, db')"
    and P: "\<And>r. P r \<longleftrightarrow> tx_ChargerID r = cid \<and> tx_TransactionID r = t \<and> Q r"
    and f: "\<And>r. tx_TransactionID (f r) = tx_TransactionID r"
    and ok: "\<And>q. owned (pg_row db) cid t = Some q \<Longrightarrow> rows_ok ((pg_row db)(t \<mapsto> f q))"
  shows "\<exists>n. r = Inr n \<and> pg_inv db' \<and> pg_keys db' = pg_keys db
    \<and> (case owned (pg_row db) cid t of
         Some q \<Rightarrow> if Q q then n \<noteq> 0 \<and> pg_row db' = (pg_row db)(t \<mapsto> f q) else n = 0 \<and> pg_row db' = pg_row db
       | None \<Rightarrow> n = 0 \<and> pg_row db' = pg_row db)"
proof -
  have ro: "rows_ok (pg_row db)" using inv by (simp add: pg_inv_def)
  have Pq: "P q \<longleftrightarrow> tx_ChargerID q = cid \<and> Q q" if "pg_row db t = Some q" for q
    using rows_okD(1) [OF ro that] by (simp add: P)
  have ok': "rows_ok ((pg_row db)(t \<mapsto> f q))" if "pg_row db t = Some q" "P q" for q
    using ok [of q] that by (simp add: P owned_Some_iff)
  note upd_cases = pg_update_cases [OF inv upd f _ ok']
  have "\<exists>n. r = Inr n \<and> pg_inv db' \<and> pg_keys db' = pg_keys db
    \<and> (case pg_row db t of
         Some q \<Rightarrow> if P q then n \<noteq> 0 \<and> pg_row db' = (pg_row db)(t \<mapsto> f q) else n = 0 \<and> pg_row db' = pg_row db
       | None \<Rightarrow> n = 0 \<and> pg_row db' = pg_row db)"
    by (rule upd_cases) (simp_all add: P)
  then show ?thesis
    by (cases "pg_row db t") (auto simp: owned_def Pq split: if_splits)
qed

lemma Pg_CheckAndMarkLimitStop_law:
  assumes "pg_inv db" and "pg_quiet e" and "Pg_CheckAndMarkLimitStop e db cid t = (rb, db')"
  shows "pg_inv db' \<and> pg_keys db' = pg_keys db \<and>
    (case owned (pg_row db) cid t of None \<Rightarrow> rb = Inr False \<and> pg_row db' = pg_row db
     | Some q \<Rightarrow>
         limit_ready q \<and> rb = Inr True
           \<and> pg_row db' = (pg_row db)(t \<mapsto> q\<lparr>tx_LimitStopRequested := True\<rparr>)
         \<or> \<not> limit_due q \<and> rb = Inr False \<and> pg_row db' = pg_row db)"
proof -
  define Q where "Q = (\<lambda>r :: Transaction. tx_StopTime r = None \<and> \<not> tx_LimitStopRequested r
      \<and> (case (tx_MaxKWh r, tx_TotalConsumption r) of (Some m, Some c) \<Rightarrow> pg_ge c m | _ \<Rightarrow> False))"
  have Q: "Q q \<Longrightarrow> limit_ready q" "limit_due q \<Longrightarrow> Q q" for q
    by (auto simp: Q_def limit_ready_def limit_due_def is_open_def pg_ge_Fin split: option.splits)
  obtain c db1 where upd: "pg_update_tx
      (\<lambda>r. tx_ChargerID r = cid \<and> tx_TransactionID r = t \<and> tx_StopTime r = None \<and> \<not> tx_LimitStopRequested r
        \<and> (case (tx_MaxKWh r, tx_TotalConsumption r) of (Some m, Some c) \<Rightarrow> pg_ge c m | _ \<Rightarrow> False))
      (\<lambda>r. r\<lparr>tx_LimitStopRequested := True\<rparr>) db = (c, db1)" by fastforce
  have "\<exists>n. c = Inr n \<and> pg_inv db1 \<and> pg_keys db1 = pg_keys db
    \<and> (case owned (pg_row db) cid t of
         Some q \<Rightarrow> if Q q then n \<noteq> 0 \<and> pg_row db1 = (pg_row db)(t \<mapsto> q\<lparr>tx_LimitStopRequested := True\<rparr>)
                   else n = 0 \<and> pg_row db1 = pg_row db
       | None \<Rightarrow> n = 0 \<and> pg_row db1 = pg_row db)"
    using assms(1) by (intro pg_owned_update [OF assms(1) upd])
      (auto simp: Q_def pg_inv_def intro: rows_ok_owned)
  then show ?thesis
    using assms(2,3) upd Q
    by (cases "owned (pg_row db) cid t") (auto simp: Pg_CheckAndMarkLimitStop_def split: if_splits)
qed

lemma Pg_ReleaseLimitStopRequest_law:
  assumes "pg_inv db" and "pg_quiet e" and "Pg_ReleaseLimitStopRequest e db cid t = (ru, db')"
  shows "pg_inv db' \<and> pg_keys db' = pg_keys db \<and> ru = Inr () \<and>
    pg_row db' = (case owned (pg_row db) cid t of None \<Rightarrow> pg_row db
      | Some q \<Rightarrow> if is_open q then (pg_row db)(t \<mapsto> q\<lparr>tx_LimitStopRequested := False\<rparr>) else pg_row db)"
proof -
  obtain c db1 where upd: "pg_update_tx
      (\<lambda>r. tx_ChargerID r = cid \<and> tx_TransactionID r = t \<and> tx_StopTime r = None)
      (\<lambda>r. r\<lparr>tx_LimitStopRequested := False\<rparr>) db = (c, db1)" by fastforce
  have "\<exists>n. c = Inr n \<and> pg_inv db1 \<and> pg_keys db1 = pg_keys db
    \<and> (case owned (pg_row db) cid t of
         Some q \<Rightarrow> if is_open q then n \<noteq> 0 \<and> pg_row db1 = (pg_row db)(t \<mapsto> q\<lparr>tx_LimitStopRequested := False\<rparr>)
                   else n = 0 \<and> pg_row db1 = pg_row db
       | None \<Rightarrow> n = 0 \<and> pg_row db1 = pg_row db)"
    using assms(1) by (intro pg_owned_update [OF assms(1) upd])
      (auto simp: is_open_def pg_inv_def intro: rows_ok_owned)
  then show ?thesis
    using assms(2,3) upd
    by (cases "owned (pg_row db) cid t") (auto simp: Pg_ReleaseLimitStopRequest_def pg_ok_def split: if_splits)
qed

lemma Pg_UpdateTransactionMaxKWh_law:
  assumes "pg_inv db" and "pg_quiet e" and "Pg_UpdateTransactionMaxKWh e db t m = (ru, db')"
  shows "pg_inv db' \<and> pg_keys db' = pg_keys db \<and> ru = Inr () \<and>
    pg_row db' = (case pg_row db t of None \<Rightarrow> pg_row db
      | Some q \<Rightarrow> (pg_row db)(t \<mapsto> q\<lparr>tx_MaxKWh := Some m\<rparr>))"
proof -
  have ro: "rows_ok (pg_row db)" using assms(1) by (simp add: pg_inv_def)
  obtain c db1 where upd: "pg_update_tx (\<lambda>r. tx_TransactionID r = t)
      (\<lambda>r. r\<lparr>tx_MaxKWh := Some m\<rparr>) db = (c, db1)" by fastforce
  have "\<exists>n. c = Inr n \<and> pg_inv db1 \<and> pg_keys db1 = pg_keys db
    \<and> (case pg_row db t of
         Some q \<Rightarrow> if tx_TransactionID q = t
           then n \<noteq> 0 \<and> pg_row db1 = (pg_row db)(t \<mapsto> q\<lparr>tx_MaxKWh := Some m\<rparr>)
           else n = 0 \<and> pg_row db1 = pg_row db
       | None \<Rightarrow> n = 0 \<and> pg_row db1 = pg_row db)"
    using ro by (intro pg_update_cases [OF assms(1) upd]) (auto intro: rows_ok_max)
  then show ?thesis
    using assms(2,3) upd rows_okD(1) [OF ro, of t]
    by (cases "pg_row db t") (auto simp: Pg_UpdateTransactionMaxKWh_def pg_ok_def)
qed

lemma pg_row_frame [simp]:
  "pg_row (db\<lparr>pg_outbox := cs\<rparr>) = pg_row db" "pg_row (db\<lparr>pg_outbox_seq := n\<rparr>) = pg_row db"
  "pg_row (db\<lparr>pg_tx_seq := m\<rparr>) = pg_row db"
  by (simp_all add: fun_eq_iff pg_row_def)

text \<open>The outbox.\<close>

definition pg_frame :: "PgDB \<Rightarrow> PgDB \<Rightarrow> bool" where
  "pg_frame db db' \<longleftrightarrow> (pg_inv db \<longrightarrow> pg_inv db') \<and> pg_row db' = pg_row db \<and> pg_keys db' = pg_keys db"

lemma pg_frame_refl [simp]: "pg_frame db db"
  by (simp add: pg_frame_def)

lemma pg_frame_trans: "pg_frame a b \<Longrightarrow> pg_frame b c \<Longrightarrow> pg_frame a c"
  by (simp add: pg_frame_def)

lemma pg_update_cb_frame:
  assumes "\<And>c. pc_id (f c) = pc_id c" and "\<And>c. pc_dedupe_key (f c) = pc_dedupe_key c"
  shows "pg_frame db (snd (pg_update_cb i f db))"
proof -
  let ?g = "\<lambda>c. if pc_id c = i then f c else c"
  have maps: "map pc_id (map ?g cs) = map pc_id cs" "map pc_dedupe_key (map ?g cs) = map pc_dedupe_key cs" for cs
    using assms by simp_all
  then have "pc_dedupe_key ` set (map ?g cs) = pc_dedupe_key ` set cs" for cs
    by (metis list.set_map)
  moreover note maps
  moreover have "(\<forall>c \<in> set (map ?g cs). pc_id c \<le> n) \<longleftrightarrow> (\<forall>c \<in> set cs. pc_id c \<le> n)" for cs n
  proof -
    have "pc_id (?g c) = pc_id c" for c using assms by simp
    then show ?thesis by (simp only: list.set_map ball_simps)
  qed
  moreover have "snd (pg_update_cb i f db) = db\<lparr>pg_outbox := map ?g (pg_outbox db)\<rparr>"
    by (simp add: pg_update_cb_def)
  ultimately show ?thesis
    by (simp add: pg_frame_def pg_inv_def pg_outbox_ok_def pg_keys_def del: map_map set_map)
qed

lemma pg_mark_processing_frame:
  assumes "pg_quiet e"
  shows "pg_frame db (snd (pg_mark_processing e n ids db))"
  using assms
proof (induction ids arbitrary: n db)
  case (Cons i ids)
  let ?f = "\<lambda>c. c\<lparr>pc_status := ''processing'', pc_updated_at := pe_db_now e\<rparr>"
  have "pg_frame db (snd (pg_update_cb i ?f db))" by (rule pg_update_cb_frame) simp_all
  then show ?case using Cons by (auto simp: pg_update_cb_def intro: pg_frame_trans)
qed simp

lemma pg_mark_processing_ok: "pg_quiet e \<Longrightarrow> fst (pg_mark_processing e n ids db) = Inr ()"
  by (induction ids arbitrary: n db) (auto simp: pg_update_cb_def)

lemma Pg_ClaimDueCallbacks_law:
  assumes "pg_quiet e" and "Pg_ClaimDueCallbacks e db limit = (rt, db')"
  shows "pg_frame db db'"
proof (cases "limit < 0")
  case True
  then show ?thesis using assms by (simp add: Pg_ClaimDueCallbacks_def)
next
  case False
  let ?rows = "take (nat limit) (sort_key pc_id
      (filter (\<lambda>c. pg_due e c \<and> \<not> pe_locked e (pc_id c)) (pg_outbox db)))"
  obtain r db1 where mark: "pg_mark_processing e 2 (map pc_id ?rows) db = (r, db1)" by fastforce
  then have "r = Inr ()" "pg_frame db db1"
    using pg_mark_processing_ok [OF assms(1), of 2 "map pc_id ?rows" db]
      pg_mark_processing_frame [OF assms(1), of db 2 "map pc_id ?rows"] by simp_all
  then show ?thesis using assms False mark by (simp add: Pg_ClaimDueCallbacks_def pg_quiet_def)
qed

lemma Pg_EnqueueCallback_law:
  assumes "pg_inv db" and "pg_quiet e" and "Pg_EnqueueCallback e db c = (ru, db')"
  shows "pg_inv db' \<and> pg_row db' = pg_row db \<and> ru = Inr () \<and>
    pg_keys db' = insert (ec_DedupeKey c) (pg_keys db)"
proof -
  have old: "\<forall>x \<in> set (pg_outbox db). pc_id x < pg_outbox_seq db + 1 \<and> pc_id x \<le> pg_outbox_seq db + 1"
    using assms(1) by (force simp: pg_inv_def pg_outbox_ok_def)
  have hit: "list_ex (\<lambda>x. pc_dedupe_key x = ec_DedupeKey c) (pg_outbox db)
      \<longleftrightarrow> ec_DedupeKey c \<in> pc_dedupe_key ` set (pg_outbox db)"
    by (force simp: list_ex_iff)
  show ?thesis
  proof (cases "ec_DedupeKey c \<in> pc_dedupe_key ` set (pg_outbox db)")
    case True
    then show ?thesis using assms old
      by (auto simp: Pg_EnqueueCallback_def hit Let_def pg_inv_def pg_outbox_ok_def pg_keys_def)
  next
    case False
    have "pg_outbox_seq db + 1 \<notin> pc_id ` set (pg_outbox db)" using old by force
    with False show ?thesis using assms old
      by (auto simp: Pg_EnqueueCallback_def hit Let_def pg_inv_def pg_outbox_ok_def pg_keys_def)
  qed
qed

section \<open>Listing and creating\<close>

lemma Pg_missing_law:
  assumes "pg_inv db" and "pg_quiet e" and "0 \<le> limit"
    and "Pg_listTransactionsMissingCallback e db kind b limit = (rl, db')"
  shows "db' = db \<and> (\<exists>txs. rl = Inr txs \<and> lists_missing (pg_row db) (pg_keys db) kind b limit txs)"
proof -
  let ?xs = "sort_key tx_ID (filter (\<lambda>t. \<not> list_ex (\<lambda>c. pc_dedupe_key c = dedupe_key kind (tx_TransactionID t)) (pg_outbox db)
                               \<and> (b \<longrightarrow> tx_StopTime t \<noteq> None)) (pg_transactions db))"
  have d: "pg_distinct db" using assms(1) by (simp add: pg_inv_def)
  have "distinct ?xs" using d by (simp add: distinct_map)
  moreover have "set ?xs = missing (pg_row db) (pg_keys db) kind b"
    using pg_row_Some_iff [OF d]
    by (auto simp: missing_def is_open_def pg_keys_def list_ex_iff image_iff)
  ultimately have "lists_missing (pg_row db) (pg_keys db) kind b limit (take (nat limit) ?xs)"
    using assms(3) by (rule lists_missing_take)
  then show ?thesis using assms(2-) by (auto simp: Pg_listTransactionsMissingCallback_def)
qed

lemma Pg_list_open_law:
  assumes "pg_inv db" and "pg_quiet e" and "Pg_ListOpenTransactionsByCharger e db cid = (rl, db')"
  shows "db' = db \<and> (\<exists>txs. rl = Inr txs \<and> view ` set txs = view ` pending_open (pg_row db) cid)"
proof -
  have d: "pg_distinct db" using assms(1) by (simp add: pg_inv_def)
  have "pending_open (pg_row db) cid = {r \<in> set (pg_transactions db). tx_ChargerID r = cid \<and> tx_StopTime r = None}"
    using pg_row_Some_iff [OF d] by (auto simp: pending_open_def is_open_def)
  then show ?thesis using assms(2,3)
    by (auto simp: Pg_ListOpenTransactionsByCharger_def image_image)
qed

lemma pg_insert_tx_cases:
  assumes inv: "pg_inv db" and t: "t = RandomTransactionID r"
    and run: "pg_insert_tx e t u st i db = (x, db')"
  shows "pg_inv db' \<and> pg_keys db' = pg_keys db \<and>
    (if pg_row db t \<noteq> None then x = Inl (ErrPg ''23505'') \<and> pg_row db' = pg_row db
     else \<exists>q. x = Inr (tx_ID q) \<and> pg_row db' = (pg_row db)(t \<mapsto> q) \<and> fresh_row i q
            \<and> tx_TransactionID q = t \<and> tx_UUIDDB q = u)"
proof (cases "pg_row db t = None")
  case False
  then have "list_ex (\<lambda>r. tx_TransactionID r = t) (pg_transactions db)"
    by (auto simp: pg_row_def list_ex_iff dest: find_SomeD)
  then show ?thesis using False run inv
    by (auto simp: pg_insert_tx_def Let_def pg_inv_def pg_outbox_ok_def pg_keys_def)
next
  case True
  define row where "row = \<lparr>tx_ID = pg_tx_seq db + 1, tx_UUIDDB = u,
    tx_ChargerID = ct_ChargerID i, tx_ConnectorID = ct_ConnectorID i, tx_MeterStart = ct_MeterStart i,
    tx_MeterStop = None, tx_TotalConsumption = None, tx_StartTime = pe_stamp e st, tx_StopTime = None,
    tx_IDTag = ct_IDTag i, tx_TransactionID = t, tx_IsSingleSession = ct_IsSingleSession i,
    tx_MaxKWh = None, tx_LimitStopRequested = False\<rparr>"
  have fresh: "fresh_row i row" "tx_TransactionID row = t" "tx_UUIDDB row = u" "tx_ID row = pg_tx_seq db + 1"
    by (simp_all add: row_def fresh_row_def)
  have new: "t \<notin> tx_TransactionID ` set (pg_transactions db)"
    using True by (simp add: pg_row_def find_None_key)
  then have "\<not> list_ex (\<lambda>r. tx_TransactionID r = t) (pg_transactions db)" by (auto simp: list_ex_iff)
  then have run': "x = Inr (tx_ID row)"
    "db' = db\<lparr>pg_tx_seq := pg_tx_seq db + 1, pg_transactions := pg_transactions db @ [row]\<rparr>"
    using run by (simp_all add: pg_insert_tx_def Let_def row_def)
  have upd: "pg_row db' = (pg_row db)(t \<mapsto> row)"
    using True fresh(2) unfolding run' by (auto simp: fun_eq_iff pg_row_def find_append_one split: option.splits)
  have "rows_ok ((pg_row db)(t \<mapsto> row))"
    using rows_ok_fresh [of "pg_row db" i row] inv fresh RandomTransactionID_range [of r] t by (simp add: pg_inv_def)
  then have "pg_inv db'"
    using inv new fresh(2) upd unfolding pg_inv_def by (simp add: run' pg_outbox_ok_def)
  moreover have "pg_keys db' = pg_keys db" by (simp add: run' pg_keys_def)
  ultimately show ?thesis using True run'(1) upd fresh by (simp, intro exI [of _ row]) simp
qed

lemma Pg_create_attempts_law:
  assumes "pg_inv db" and "pg_quiet e" and "Pg_create_attempts k a e db i = (r, db')"
  shows "pg_inv db' \<and> pg_keys db' = pg_keys db \<and>
    (case r of Inl err \<Rightarrow> pg_row db' = pg_row db
     | Inr tx \<Rightarrow> pg_row db (tx_TransactionID tx) = None \<and> fresh_row i tx \<and>
        (\<exists>q. pg_row db' = (pg_row db)(tx_TransactionID tx \<mapsto> q) \<and> fresh_row i q \<and> view q = view tx))"
  using assms
proof (induction k a e db i rule: Pg_create_attempts.induct)
  case (2 k a e db i)
  let ?t = "RandomTransactionID (pe_draws e a)"
  obtain x db1 where ins: "pg_insert_tx e ?t (NewUUIDString (pe_entropy e a)) (pe_now e) i db = (x, db1)"
    by fastforce
  note cases = pg_insert_tx_cases [OF 2(2) HOL.refl ins]
  show ?case
  proof (cases "pg_row db ?t = None")
    case False
    then have x: "x = Inl (ErrPg ''23505'')" "pg_inv db1" "pg_row db1 = pg_row db" "pg_keys db1 = pg_keys db"
      using cases by auto
    then have "Pg_create_attempts k (Suc a) e db1 i = (r, db')"
      using 2(3,4) ins by (simp add: Let_def)
    then show ?thesis
      using 2(1) [of ?t "NewUUIDString (pe_entropy e a)" "pe_now e"] ins x 2(3)
      by (simp split: sum.splits)
  next
    case True
    then obtain q where q: "x = Inr (tx_ID q)" "pg_row db1 = (pg_row db)(?t \<mapsto> q)" "fresh_row i q"
      "tx_TransactionID q = ?t" "tx_UUIDDB q = NewUUIDString (pe_entropy e a)"
      using cases by auto
    have "db' = db1" "r = Inr (q\<lparr>tx_StartTime := pe_now e\<rparr>)"
      using 2(3,4) ins q by (cases q; simp add: Let_def fresh_row_def)+
    then show ?thesis using q True cases by (auto simp: fresh_row_def view_def)
  qed
qed auto

interpretation pg: transaction_store postgres_methods pg_quiet pg_inv pg_row pg_keys
proof (unfold_locales, goal_cases)
  case 1
  then show ?case by (simp add: pg_inv_def)
next
  case (2 s e i r s')
  then show ?case using Pg_create_attempts_law [of s e 100 0 i r s']
    by (simp add: Pg_CreateTransaction_def)
next
  case (3 s e cid tid r s')
  then show ?case
    by (auto simp: Pg_GetByTransactionID_def pg_get_law split: option.splits)
next
  case (4 s e tid tag r s')
  then show ?case
    by (auto simp: Pg_GetByTransactionIDAndIDTag_def pg_inv_def pg_tagged split: option.splits if_splits)
next
  case 5
  then show ?case using Pg_UpdateLiveMeter_law by simp
next
  case 6
  then show ?case using Pg_StopTransaction_law by simp
next
  case 7
  then show ?case using Pg_list_open_law by simp
next
  case 8
  then show ?case using Pg_UpdateTransactionMaxKWh_law by simp
next
  case 9
  then show ?case using Pg_CheckAndMarkLimitStop_law by simp
next
  case 10
  then show ?case using Pg_ReleaseLimitStopRequest_law by simp
next
  case 11
  then show ?case using Pg_EnqueueCallback_law by simp
next
  case 12
  then show ?case using Pg_ForceCloseTransaction_law by simp
next
  case 13
  then show ?case using Pg_missing_law
    by (simp add: Pg_ListTransactionsMissingStartCallbacks_def KindStartTransactionStore_def)
next
  case 14
  then show ?case using Pg_missing_law
    by (simp add: Pg_ListTransactionsMissingCompletedCallbacks_def KindCompletedTransactionStore_def)
next
  case (15 s e limit rt s')
  then show ?case using Pg_ClaimDueCallbacks_law [of e s limit rt s'] by (simp add: pg_frame_def)
next
  case (16 s e cb ru s')
  then have "s' = snd (pg_update_cb cb (\<lambda>c. c\<lparr>pc_status := ''sent'', pc_sent_at := Some (pe_db_now e),
      pc_updated_at := pe_db_now e, pc_last_error := None\<rparr>) s)"
    by (simp add: Pg_MarkCallbackSent_def)
  then have "pg_frame s s'" by (simp add: pg_update_cb_frame)
  then show ?case using 16 by (simp add: pg_frame_def)
next
  case (17 s e cb n due msg ru s')
  then have "s' = snd (pg_update_cb cb (\<lambda>c. c\<lparr>pc_status := ''pending'', pc_retries := n,
      pc_next_retry_at := pe_stamp e due, pc_last_error := Some msg, pc_updated_at := pe_db_now e\<rparr>) s)"
    by (simp add: Pg_MarkCallbackRetry_def)
  then have "pg_frame s s'" by (simp add: pg_update_cb_frame)
  then show ?case using 17 by (simp add: pg_frame_def)
next
  case (18 s e cb msg ru s')
  then have "s' = snd (pg_update_cb cb (\<lambda>c. c\<lparr>pc_status := ''fatal'', pc_last_error := Some msg,
      pc_updated_at := pe_db_now e\<rparr>) s)"
    by (simp add: Pg_MarkCallbackFatal_def)
  then have "pg_frame s s'" by (simp add: pg_update_cb_frame)
  then show ?case using 18 by (simp add: pg_frame_def)
qed

section \<open>A database to start from\<close>

definition empty_db :: PgDB where
  "empty_db = \<lparr>pg_transactions = [], pg_tx_seq = 0, pg_outbox = [], pg_outbox_seq = 0\<rparr>"

text \<open>A quiet environment whose draws give the transaction id \<open>n\<close>, at time \<open>t\<close>.\<close>

definition calm :: "int \<Rightarrow> time \<Rightarrow> pg_env" where
  "calm n t = \<lparr>pe_now = t, pe_db_now = t, pe_draws = (\<lambda>_. n - 1),
     pe_entropy = (\<lambda>_. \<lparr>en_bytes = None, en_nano = 0, en_rand = 0\<rparr>),
     pe_fault = (\<lambda>_. None), pe_between = id, pe_stamp = id, pe_locked = (\<lambda>_. False)\<rparr>"

lemma calm_quiet [simp]: "pg_quiet (calm n t)"
  by (simp add: pg_quiet_def calm_def)

lemma calm_simps [simp]:
  "pe_now (calm n t) = t" "pe_db_now (calm n t) = t" "pe_draws (calm n t) k = n - 1"
  "pe_entropy (calm n t) k = \<lparr>en_bytes = None, en_nano = 0, en_rand = 0\<rparr>"
  "pe_fault (calm n t) k = None" "pe_stamp (calm n t) v = v" "pe_locked (calm n t) c = False"
  by (simp_all add: calm_def)

lemma empty_db_inv [simp]: "pg_inv empty_db"
  by (simp add: pg_inv_def empty_db_def pg_outbox_ok_def rows_ok_def pg_row_def)

lemma pg_row_empty [simp]: "pg_row empty_db k = None"
  by (simp add: pg_row_def empty_db_def)

lemma Pg_CreateTransaction_first:
  "Pg_CreateTransaction e db i =
     (let tid = RandomTransactionID (pe_draws e 0); uuiddb = NewUUIDString (pe_entropy e 0) in
      case pg_exec e 0 (pg_insert_tx e tid uuiddb (pe_now e) i) db of
        (Inl err, db') \<Rightarrow> if isDuplicate err then Pg_create_attempts 99 1 e db' i else (Inl err, db')
      | (Inr rowID, db') \<Rightarrow>
          (Inr \<lparr>tx_ID = rowID, tx_UUIDDB = uuiddb, tx_ChargerID = ct_ChargerID i,
                tx_ConnectorID = ct_ConnectorID i, tx_MeterStart = ct_MeterStart i,
                tx_MeterStop = None, tx_TotalConsumption = None,
                tx_StartTime = pe_now e, tx_StopTime = None,
                tx_IDTag = ct_IDTag i, tx_TransactionID = tid,
                tx_IsSingleSession = ct_IsSingleSession i,
                tx_MaxKWh = None, tx_LimitStopRequested = False\<rparr>, db'))"
proof -
  have "(100 :: nat) = Suc 99" by simp
  then show ?thesis unfolding Pg_CreateTransaction_def by (simp only: Pg_create_attempts.simps Let_def One_nat_def)
qed

lemma calm_create:
  assumes "1 \<le> n" and "n \<le> maxTransactionID" and "pg_row db n = None"
  shows "\<exists>tx db'. Pg_CreateTransaction (calm n t) db i = (Inr tx, db') \<and> tx_TransactionID tx = n"
proof -
  have "RandomTransactionID (n - 1) = n"
    using assms by (simp add: RandomTransactionID_def Int63n_def maxTransactionID_def)
  moreover have "\<not> list_ex (\<lambda>r. tx_TransactionID r = n) (pg_transactions db)"
    using assms(3) by (auto simp: pg_row_def find_None_key list_ex_iff)
  ultimately show ?thesis
    by (simp add: Pg_CreateTransaction_first pg_insert_tx_def Let_def)
qed

end
