(* ===== verification/Tx_Updates.thy ===== *)
theory Tx_Updates
  imports Memory_Store Postgres_Store "HOL-Library.Word"
begin

text \<open>
  \<open>transaction_updates.go\<close>: the fan-out of transaction changes and the store wrapper that
  feeds it.  A channel of capacity one is a flag (is a signal pending?) in a heap cell; the
  cell also holds the \<open>sync.Once\<close> of the subscription's cancel function.  Every method runs
  under the mutex, so it is one step.  A nil inner map reads as the empty map.
\<close>

section \<open>TransactionUpdates\<close>

record sub_cell =
  sc_full :: bool
  sc_once :: bool

record TransactionUpdates =
  tu_nextID :: "64 word"
  tu_subscribers :: "(int64, (64 word, nat) gomap) gomap"
  tu_heap :: "sub_cell list"

record subscription =
  su_ch :: nat
  su_transactionID :: int64
  su_subscriptionID :: "64 word"

definition NewTransactionUpdates :: TransactionUpdates where
  "NewTransactionUpdates = \<lparr>tu_nextID = 0, tu_subscribers = [], tu_heap = []\<rparr>"

definition subs_of :: "TransactionUpdates \<Rightarrow> int64 \<Rightarrow> (64 word, nat) gomap" where
  "subs_of u t = (case map_of (tu_subscribers u) t of None \<Rightarrow> [] | Some m \<Rightarrow> m)"

definition Subscribe :: "TransactionUpdates \<Rightarrow> int64 \<Rightarrow> subscription \<times> TransactionUpdates" where
  "Subscribe u transactionID =
     (let subscriptionID = tu_nextID u + 1; ch = length (tu_heap u) in
      (\<lparr>su_ch = ch, su_transactionID = transactionID, su_subscriptionID = subscriptionID\<rparr>,
       u\<lparr>tu_nextID := subscriptionID,
         tu_subscribers := AList.update transactionID
           (AList.update subscriptionID ch (subs_of u transactionID)) (tu_subscribers u),
         tu_heap := tu_heap u @ [\<lparr>sc_full = False, sc_once = False\<rparr>]\<rparr>))"

definition set_cell :: "nat \<Rightarrow> (sub_cell \<Rightarrow> sub_cell) \<Rightarrow> TransactionUpdates \<Rightarrow> TransactionUpdates" where
  "set_cell ch f u = u\<lparr>tu_heap := (tu_heap u)[ch := f (tu_heap u ! ch)]\<rparr>"

text \<open>The cancel function of a subscription; \<open>delete\<close> on an absent inner map does nothing.\<close>

definition cancel_sub :: "TransactionUpdates \<Rightarrow> subscription \<Rightarrow> TransactionUpdates" where
  "cancel_sub u su =
     (if sc_once (tu_heap u ! su_ch su) then u
      else
        let u1 = set_cell (su_ch su) (\<lambda>c. c\<lparr>sc_once := True\<rparr>) u;
            rest = AList.delete (su_subscriptionID su) (subs_of u1 (su_transactionID su));
            m1 = (if map_of (tu_subscribers u1) (su_transactionID su) = None then tu_subscribers u1
                  else AList.update (su_transactionID su) rest (tu_subscribers u1))
        in u1\<lparr>tu_subscribers := if rest = [] then AList.delete (su_transactionID su) m1 else m1\<rparr>)"

text \<open>\<open>select { case ch <- struct{}{}: default: }\<close> leaves a signal pending either way.\<close>

definition Publish :: "TransactionUpdates \<Rightarrow> int64 \<Rightarrow> TransactionUpdates" where
  "Publish u transactionID =
     fold (\<lambda>(_, ch). set_cell ch (\<lambda>c. c\<lparr>sc_full := True\<rparr>)) (subs_of u transactionID) u"

text \<open>A receive by the subscriber: \<open>None\<close> blocks.\<close>

definition receive :: "TransactionUpdates \<Rightarrow> subscription \<Rightarrow> TransactionUpdates option" where
  "receive u su =
     (if sc_full (tu_heap u ! su_ch su) then Some (set_cell (su_ch su) (\<lambda>c. c\<lparr>sc_full := False\<rparr>) u)
      else None)"

section \<open>The observable store\<close>

definition publish_ok ::
  "('s, 'a) call \<Rightarrow> TransactionUpdates \<Rightarrow> ('a \<Rightarrow> int64 option) \<Rightarrow> ('s \<times> TransactionUpdates, 'a) call" where
  "publish_ok c u topic =
     (case fst c of
        Inl err \<Rightarrow> (Inl err, (snd c, u))
      | Inr v \<Rightarrow> (Inr v, (snd c, case topic v of None \<Rightarrow> u | Some t \<Rightarrow> Publish u t)))"

definition WithTransactionUpdates ::
  "('e, 's) TransactionStore \<Rightarrow> ('e, 's \<times> TransactionUpdates) TransactionStore" where
  "WithTransactionUpdates inner =
     \<lparr>m_CreateTransaction = (\<lambda>e (s, u) input.
        publish_ok (m_CreateTransaction inner e s input) u (\<lambda>tx. Some (tx_TransactionID tx))),
      m_UpdateLiveMeter = (\<lambda>e (s, u) input.
        publish_ok (m_UpdateLiveMeter inner e s input) u (\<lambda>_. Some (ul_TransactionID input))),
      m_StopTransaction = (\<lambda>e (s, u) input.
        publish_ok (m_StopTransaction inner e s input) u (\<lambda>_. Some (st_TransactionID input))),
      m_ForceCloseTransaction = (\<lambda>e (s, u) input.
        publish_ok (m_ForceCloseTransaction inner e s input) u (\<lambda>_. Some (fc_TransactionID input))),
      m_GetByTransactionID = (\<lambda>e (s, u) cid t. publish_ok (m_GetByTransactionID inner e s cid t) u (\<lambda>_. None)),
      m_GetByTransactionIDAndIDTag = (\<lambda>e (s, u) t tag.
        publish_ok (m_GetByTransactionIDAndIDTag inner e s t tag) u (\<lambda>_. None)),
      m_ListOpenTransactionsByCharger = (\<lambda>e (s, u) cid.
        publish_ok (m_ListOpenTransactionsByCharger inner e s cid) u (\<lambda>_. None)),
      m_ListTransactionsMissingStartCallbacks = (\<lambda>e (s, u) limit.
        publish_ok (m_ListTransactionsMissingStartCallbacks inner e s limit) u (\<lambda>_. None)),
      m_ListTransactionsMissingCompletedCallbacks = (\<lambda>e (s, u) limit.
        publish_ok (m_ListTransactionsMissingCompletedCallbacks inner e s limit) u (\<lambda>_. None)),
      m_UpdateTransactionMaxKWh = (\<lambda>e (s, u) t m.
        publish_ok (m_UpdateTransactionMaxKWh inner e s t m) u (\<lambda>_. Some t)),
      m_CheckAndMarkLimitStop = (\<lambda>e (s, u) cid t.
        publish_ok (m_CheckAndMarkLimitStop inner e s cid t) u (\<lambda>claimed. if claimed then Some t else None)),
      m_ReleaseLimitStopRequest = (\<lambda>e (s, u) cid t.
        publish_ok (m_ReleaseLimitStopRequest inner e s cid t) u (\<lambda>_. Some t)),
      m_EnqueueCallback = (\<lambda>e (s, u) c. publish_ok (m_EnqueueCallback inner e s c) u (\<lambda>_. None)),
      m_ClaimDueCallbacks = (\<lambda>e (s, u) limit. publish_ok (m_ClaimDueCallbacks inner e s limit) u (\<lambda>_. None)),
      m_MarkCallbackSent = (\<lambda>e (s, u) cb. publish_ok (m_MarkCallbackSent inner e s cb) u (\<lambda>_. None)),
      m_MarkCallbackRetry = (\<lambda>e (s, u) cb n due msg.
        publish_ok (m_MarkCallbackRetry inner e s cb n due msg) u (\<lambda>_. None)),
      m_MarkCallbackFatal = (\<lambda>e (s, u) cb msg.
        publish_ok (m_MarkCallbackFatal inner e s cb msg) u (\<lambda>_. None))\<rparr>"

lemma publish_ok_eq:
  "publish_ok c u topic = (r, su) \<longleftrightarrow>
     c = (r, fst su) \<and>
     snd su = (case r of Inl _ \<Rightarrow> u | Inr v \<Rightarrow> (case topic v of None \<Rightarrow> u | Some t \<Rightarrow> Publish u t))"
  by (cases c; cases su) (auto simp: publish_ok_def split: sum.splits)

context transaction_store begin

lemma observable: "transaction_store (WithTransactionUpdates ts) quiet (\<lambda>s. inv (fst s)) (\<lambda>s. row (fst s)) (\<lambda>s. keys (fst s))"
proof (unfold_locales, goal_cases)
  case 1 then show ?case by (rule rows_ok_inv)
next
  case (2 s e i r s') then show ?case using create_law [of "fst s" e i r "fst s'"]
    by (cases s) (simp add: WithTransactionUpdates_def publish_ok_eq)
next
  case (3 s e cid tid r s') then show ?case using get_law [of "fst s" e cid tid r "fst s'"]
    by (cases s; cases s') (auto simp: WithTransactionUpdates_def publish_ok_eq split: sum.splits)
next
  case (4 s e tid tag r s') then show ?case using get_tag_law [of "fst s" e tid tag r "fst s'"]
    by (cases s; cases s') (auto simp: WithTransactionUpdates_def publish_ok_eq split: sum.splits)
next
  case (5 s e u r s') then show ?case using live_law [of "fst s" e u r "fst s'"]
    by (cases s) (simp add: WithTransactionUpdates_def publish_ok_eq)
next
  case (6 s e p r s') then show ?case using stop_law [of "fst s" e p r "fst s'"]
    by (cases s) (simp add: WithTransactionUpdates_def publish_ok_eq)
next
  case (7 s e cid rl s') then show ?case using list_open_law [of "fst s" e cid rl "fst s'"]
    by (cases s; cases s') (auto simp: WithTransactionUpdates_def publish_ok_eq split: sum.splits)
next
  case (8 s e tid m ru s') then show ?case using max_law [of "fst s" e tid m ru "fst s'"]
    by (cases s) (simp add: WithTransactionUpdates_def publish_ok_eq)
next
  case (9 s e cid tid rb s') then show ?case using mark_law [of "fst s" e cid tid rb "fst s'"]
    by (cases s) (simp add: WithTransactionUpdates_def publish_ok_eq)
next
  case (10 s e cid tid ru s') then show ?case using release_law [of "fst s" e cid tid ru "fst s'"]
    by (cases s) (simp add: WithTransactionUpdates_def publish_ok_eq)
next
  case (11 s e c ru s') then show ?case using enqueue_law [of "fst s" e c ru "fst s'"]
    by (cases s) (simp add: WithTransactionUpdates_def publish_ok_eq)
next
  case (12 s e f r s') then show ?case using force_law [of "fst s" e f r "fst s'"]
    by (cases s) (simp add: WithTransactionUpdates_def publish_ok_eq)
next
  case (13 s e limit rl s') then show ?case using missing_start_law [of "fst s" e limit rl "fst s'"]
    by (cases s; cases s') (auto simp: WithTransactionUpdates_def publish_ok_eq split: sum.splits)
next
  case (14 s e limit rl s') then show ?case using missing_completed_law [of "fst s" e limit rl "fst s'"]
    by (cases s; cases s') (auto simp: WithTransactionUpdates_def publish_ok_eq split: sum.splits)
next
  case (15 s e limit rt s') then show ?case using claim_law [of "fst s" e limit rt "fst s'"]
    by (cases s) (simp add: WithTransactionUpdates_def publish_ok_eq)
next
  case (16 s e cb ru s') then show ?case using sent_law [of "fst s" e cb ru "fst s'"]
    by (cases s) (simp add: WithTransactionUpdates_def publish_ok_eq)
next
  case (17 s e cb n due msg ru s') then show ?case using retry_law [of "fst s" e cb n due msg ru "fst s'"]
    by (cases s) (simp add: WithTransactionUpdates_def publish_ok_eq)
next
  case (18 s e cb msg ru s') then show ?case using fatal_law [of "fst s" e cb msg ru "fst s'"]
    by (cases s) (simp add: WithTransactionUpdates_def publish_ok_eq)
qed

end

interpretation obs_mem: transaction_store "WithTransactionUpdates memory_methods" "\<lambda>_. True"
  "\<lambda>s. mem_inv (fst s)" "\<lambda>s. mem_row (fst s)" "\<lambda>s. mem_keys (fst s)"
  by (rule mem.observable)

interpretation obs_pg: transaction_store "WithTransactionUpdates postgres_methods" pg_quiet
  "\<lambda>s. pg_inv (fst s)" "\<lambda>s. pg_row (fst s)" "\<lambda>s. pg_keys (fst s)"
  by (rule pg.observable)

section \<open>The subscriptions\<close>

text \<open>
  Histories of the fan-out: \<open>tu_reach u hs\<close> when \<open>u\<close> arises from a new one by any calls, with
  \<open>hs\<close> the subscriptions issued so far, in order.
\<close>

inductive tu_reach :: "TransactionUpdates \<Rightarrow> subscription list \<Rightarrow> bool" where
  init: "tu_reach NewTransactionUpdates []"
| subscribe: "\<lbrakk>tu_reach u hs; Subscribe u t = (su, u')\<rbrakk> \<Longrightarrow> tu_reach u' (hs @ [su])"
| cancel: "\<lbrakk>tu_reach u hs; su \<in> set hs\<rbrakk> \<Longrightarrow> tu_reach (cancel_sub u su) hs"
| publish: "tu_reach u hs \<Longrightarrow> tu_reach (Publish u t) hs"
| receive: "\<lbrakk>tu_reach u hs; su \<in> set hs; receive u su = Some u'\<rbrakk> \<Longrightarrow> tu_reach u' hs"

definition active :: "TransactionUpdates \<Rightarrow> subscription \<Rightarrow> bool" where
  "active u su \<longleftrightarrow> \<not> sc_once (tu_heap u ! su_ch su)"

definition tu_inv :: "TransactionUpdates \<Rightarrow> subscription list \<Rightarrow> bool" where
  "tu_inv u hs \<longleftrightarrow>
     length (tu_heap u) = length hs \<and> tu_nextID u = of_nat (length hs)
     \<and> (\<forall>i < length hs. su_ch (hs ! i) = i \<and> su_subscriptionID (hs ! i) = of_nat (Suc i))
     \<and> gomap_ok (tu_subscribers u)
     \<and> (\<forall>t m. map_of (tu_subscribers u) t = Some m \<longrightarrow> gomap_ok m \<and> m \<noteq> [])
     \<and> (\<forall>t k ch. map_of (subs_of u t) k = Some ch \<longleftrightarrow>
          ch < length hs \<and> su_transactionID (hs ! ch) = t \<and> su_subscriptionID (hs ! ch) = k
          \<and> active u (hs ! ch))"

lemma set_cell_simps [simp]:
  "tu_nextID (set_cell ch f u) = tu_nextID u" "tu_subscribers (set_cell ch f u) = tu_subscribers u"
  "subs_of (set_cell ch f u) t = subs_of u t" "length (tu_heap (set_cell ch f u)) = length (tu_heap u)"
  by (simp_all add: set_cell_def subs_of_def)

lemma set_cell_nth: "ch < length (tu_heap u) \<Longrightarrow>
    tu_heap (set_cell ch f u) ! i = (if i = ch then f (tu_heap u ! ch) else tu_heap u ! i)"
  by (auto simp: set_cell_def)

lemma fold_signal:
  defines "f \<equiv> \<lambda>(_ :: 64 word, ch). set_cell ch (\<lambda>c. c\<lparr>sc_full := True\<rparr>)"
  assumes "\<forall>(k, ch) \<in> set m. ch < length (tu_heap u)"
  shows "tu_nextID (fold f m u) = tu_nextID u \<and> tu_subscribers (fold f m u) = tu_subscribers u
    \<and> length (tu_heap (fold f m u)) = length (tu_heap u)
    \<and> tu_heap (fold f m u) ! i = (if i \<in> snd ` set m then (tu_heap u ! i)\<lparr>sc_full := True\<rparr> else tu_heap u ! i)"
  using assms(2)
proof (induction m arbitrary: u)
  case (Cons p m)
  obtain k ch where p: "p = (k, ch)" by fastforce
  have "\<forall>(k, ch) \<in> set m. ch < length (tu_heap (f p u))"
    using Cons.prems by (auto simp: f_def p)
  from Cons.IH [OF this] Cons.prems show ?case
    by (auto simp: p f_def set_cell_nth)
qed simp

lemma tu_inv_channel:
  assumes "tu_inv u hs" and "(k, ch) \<in> set (subs_of u t)"
  shows "ch < length (tu_heap u)" "map_of (subs_of u t) k = Some ch"
proof -
  have "gomap_ok (subs_of u t)" using assms(1) by (auto simp: tu_inv_def subs_of_def split: option.splits)
  then show k: "map_of (subs_of u t) k = Some ch" using assms(2) by (simp add: gomap_set_iff)
  then show "ch < length (tu_heap u)" using assms(1) by (simp add: tu_inv_def)
qed

lemma Publish_frame:
  assumes "tu_inv u hs"
  shows "tu_nextID (Publish u t) = tu_nextID u" "tu_subscribers (Publish u t) = tu_subscribers u"
    "length (tu_heap (Publish u t)) = length (tu_heap u)"
    "tu_heap (Publish u t) ! i =
       (if i \<in> snd ` set (subs_of u t) then (tu_heap u ! i)\<lparr>sc_full := True\<rparr> else tu_heap u ! i)"
proof -
  have "\<forall>(k, ch) \<in> set (subs_of u t). ch < length (tu_heap u)"
    using tu_inv_channel(1) [OF assms] by auto
  note fold_signal [OF this, of i]
  then show "tu_nextID (Publish u t) = tu_nextID u" "tu_subscribers (Publish u t) = tu_subscribers u"
    "length (tu_heap (Publish u t)) = length (tu_heap u)"
    "tu_heap (Publish u t) ! i =
       (if i \<in> snd ` set (subs_of u t) then (tu_heap u ! i)\<lparr>sc_full := True\<rparr> else tu_heap u ! i)"
    by (simp_all only: Publish_def)
qed

lemma active_cong:
  "sc_once (tu_heap u' ! su_ch su) = sc_once (tu_heap u ! su_ch su) \<Longrightarrow> active u' su = active u su"
  by (simp add: active_def)

lemma tu_inv_frame:
  assumes "tu_inv u hs" and "tu_nextID u' = tu_nextID u" and "tu_subscribers u' = tu_subscribers u"
    and "length (tu_heap u') = length (tu_heap u)"
    and "\<And>i. sc_once (tu_heap u' ! i) = sc_once (tu_heap u ! i)"
  shows "tu_inv u' hs"
proof -
  have "active u' su = active u su" "subs_of u' t = subs_of u t" for su t
    using assms(3,5) by (simp_all add: active_def subs_of_def)
  then show ?thesis using assms(1-4) by (simp add: tu_inv_def)
qed

lemma tu_inv_publish: "tu_inv u hs \<Longrightarrow> tu_inv (Publish u t) hs"
  by (rule tu_inv_frame) (simp_all add: Publish_frame)

lemma tu_inv_receive:
  assumes "tu_inv u hs" and "su \<in> set hs" and "receive u su = Some u'"
  shows "tu_inv u' hs"
proof -
  have "su_ch su < length (tu_heap u)"
    using assms(1,2) by (auto simp: tu_inv_def in_set_conv_nth)
  then show ?thesis
    using assms by (intro tu_inv_frame [OF assms(1)])
      (auto simp: receive_def set_cell_nth split: if_splits)
qed

lemma tu_inv_issued:
  assumes "tu_inv u hs" and "su \<in> set hs"
  shows "su_ch su < length hs" "hs ! su_ch su = su"
  using assms by (auto simp: tu_inv_def in_set_conv_nth)

text \<open>Two subscriptions have different ids as long as the 64-bit counter has not wrapped.\<close>

lemma of_nat_64_inject:
  "\<lbrakk>a < 2 ^ 64; b < 2 ^ 64\<rbrakk> \<Longrightarrow> (of_nat a :: 64 word) = of_nat b \<longleftrightarrow> a = b"
  by (simp add: word_of_nat_eq_iff take_bit_nat_eq_self)

lemma tu_inv_subscribe:
  assumes inv: "tu_inv u hs" and sub: "Subscribe u t = (su, u')" and len: "Suc (length hs) < 2 ^ 64"
  shows "tu_inv u' (hs @ [su])"
proof -
  have u': "tu_nextID u' = tu_nextID u + 1" "length (tu_heap u') = Suc (length hs)"
    "tu_heap u' = tu_heap u @ [\<lparr>sc_full = False, sc_once = False\<rparr>]"
    "tu_subscribers u' = AList.update t (AList.update (tu_nextID u + 1) (length hs) (subs_of u t)) (tu_subscribers u)"
    and su: "su = \<lparr>su_ch = length hs, su_transactionID = t, su_subscriptionID = tu_nextID u + 1\<rparr>"
    using sub inv by (auto simp: Subscribe_def Let_def tu_inv_def)
  have next_id: "tu_nextID u + 1 = of_nat (Suc (length hs))"
    using inv by (simp add: tu_inv_def)
  have old: "su_subscriptionID (hs ! i) \<noteq> tu_nextID u + 1" if "i < length hs" for i
    using inv that len unfolding next_id
    by (simp add: tu_inv_def of_nat_64_inject del: of_nat_Suc)
  have subs: "map_of (subs_of u' t') k =
      (if t' = t \<and> k = tu_nextID u + 1 then Some (length hs) else map_of (subs_of u t') k)" for t' k
    by (simp add: subs_of_def u'(4))
  have act: "active u' (hs ! i) = active u (hs ! i)" if "i < length hs" for i
    using inv that by (simp add: active_def tu_inv_def u'(3) nth_append)
  have act': "active u' su" using inv by (simp add: active_def su tu_inv_def u'(3) nth_append)
  have nth: "(hs @ [su]) ! i = (if i < length hs then hs ! i else su)" if "i < Suc (length hs)" for i
    using that by (auto simp: nth_append less_Suc_eq)
  have maps: "gomap_ok m \<and> m \<noteq> []" if "map_of (tu_subscribers u') t' = Some m" for t' m
  proof (cases "t' = t")
    case True
    moreover have "gomap_ok (subs_of u t)"
      using inv by (auto simp: tu_inv_def subs_of_def split: option.splits)
    ultimately show ?thesis using that by (auto simp: u'(4) update_nonempty)
  next
    case False
    then show ?thesis using that inv by (auto simp: u'(4) tu_inv_def)
  qed
  have subs_iff: "map_of (subs_of u' t') k = Some ch \<longleftrightarrow>
      ch < length (hs @ [su]) \<and> su_transactionID ((hs @ [su]) ! ch) = t'
      \<and> su_subscriptionID ((hs @ [su]) ! ch) = k \<and> active u' ((hs @ [su]) ! ch)" for t' k ch
  proof (cases "ch < length hs")
    case True
    then have "map_of (subs_of u' t') k = Some ch \<longleftrightarrow> map_of (subs_of u t') k = Some ch"
      using old [OF True] inv by (auto simp: subs tu_inv_def)
    then show ?thesis using True inv act [OF True] by (simp add: tu_inv_def nth_append)
  next
    case False
    then have "map_of (subs_of u t') k \<noteq> Some ch" using inv by (simp add: tu_inv_def)
    with False show ?thesis using act' by (auto simp: subs nth_append su less_Suc_eq)
  qed
  have "\<forall>i < length (hs @ [su]). su_ch ((hs @ [su]) ! i) = i \<and> su_subscriptionID ((hs @ [su]) ! i) = of_nat (Suc i)"
    using inv next_id by (auto simp: tu_inv_def nth_append su less_Suc_eq)
  moreover have "gomap_ok (tu_subscribers u')"
    using inv by (simp add: u'(4) tu_inv_def)
  ultimately show ?thesis
    using next_id maps subs_iff unfolding tu_inv_def u'(1,2) by simp
qed

lemma alist_delete_other:
  assumes "map_of m k' = Some v" and "k' \<noteq> k"
  shows "AList.delete k m \<noteq> []"
proof
  assume "AList.delete k m = []"
  then have "map_of (AList.delete k m) k' = None" by simp
  then show False using assms by simp
qed

lemma cancel_sub_subs:
  assumes inv: "tu_inv u hs" and su: "su \<in> set hs" and act: "active u su"
  shows "map_of (subs_of (cancel_sub u su) t) k =
      (if t = su_transactionID su \<and> k = su_subscriptionID su then None else map_of (subs_of u t) k)"
    and "gomap_ok (tu_subscribers (cancel_sub u su))"
    and "map_of (tu_subscribers (cancel_sub u su)) t = Some m \<Longrightarrow> gomap_ok m \<and> m \<noteq> []"
proof -
  let ?t = "su_transactionID su" and ?k = "su_subscriptionID su"
  have entry: "map_of (subs_of u ?t) ?k = Some (su_ch su)"
    using inv act tu_inv_issued [OF inv su] by (simp add: tu_inv_def)
  then obtain m0 where m0: "map_of (tu_subscribers u) ?t = Some m0" "subs_of u ?t = m0"
    by (auto simp: subs_of_def split: option.splits)
  have ok: "gomap_ok (tu_subscribers u)" "gomap_ok m0"
    "\<And>t' m'. map_of (tu_subscribers u) t' = Some m' \<Longrightarrow> gomap_ok m' \<and> m' \<noteq> []"
    using inv m0 by (auto simp: tu_inv_def)
  have c: "tu_subscribers (cancel_sub u su) =
      (if AList.delete ?k m0 = [] then AList.delete ?t (AList.update ?t [] (tu_subscribers u))
       else AList.update ?t (AList.delete ?k m0) (tu_subscribers u))"
    using act by (simp add: cancel_sub_def active_def Let_def m0)
  show "gomap_ok (tu_subscribers (cancel_sub u su))"
    unfolding c using ok(1) by simp
  show "map_of (tu_subscribers (cancel_sub u su)) t = Some m \<Longrightarrow> gomap_ok m \<and> m \<noteq> []"
    unfolding c using ok by (auto split: if_splits)
  show "map_of (subs_of (cancel_sub u su) t) k =
      (if t = ?t \<and> k = ?k then None else map_of (subs_of u t) k)"
  proof (cases "t = ?t")
    case True
    have "map_of (subs_of (cancel_sub u su) ?t) k = map_of (AList.delete ?k m0) k"
      using alist_delete_other [of m0 k _ ?k]
      by (cases "map_of m0 k") (auto simp: subs_of_def [of "cancel_sub u su"] c)
    then show ?thesis using True m0 by simp
  next
    case False
    then show ?thesis by (simp add: subs_of_def c)
  qed
qed

lemma cancel_sub_heap:
  assumes "tu_inv u hs" and "su \<in> set hs" and "active u su"
  shows "tu_nextID (cancel_sub u su) = tu_nextID u"
    "length (tu_heap (cancel_sub u su)) = length (tu_heap u)"
    "tu_heap (cancel_sub u su) ! i =
      (if i = su_ch su then (tu_heap u ! i)\<lparr>sc_once := True\<rparr> else tu_heap u ! i)"
proof -
  have "su_ch su < length (tu_heap u)"
    using assms tu_inv_issued [OF assms(1,2)] by (simp add: tu_inv_def)
  then show "tu_nextID (cancel_sub u su) = tu_nextID u"
    "length (tu_heap (cancel_sub u su)) = length (tu_heap u)"
    "tu_heap (cancel_sub u su) ! i =
      (if i = su_ch su then (tu_heap u ! i)\<lparr>sc_once := True\<rparr> else tu_heap u ! i)"
    using assms(3) by (simp_all add: cancel_sub_def active_def Let_def set_cell_nth)
qed

lemma tu_inv_cancel:
  assumes inv: "tu_inv u hs" and su: "su \<in> set hs"
  shows "tu_inv (cancel_sub u su) hs"
proof (cases "active u su")
  case False
  then show ?thesis using inv by (simp add: cancel_sub_def active_def)
next
  case act: True
  let ?u = "cancel_sub u su"
  note heap = cancel_sub_heap [OF inv su act] and subs = cancel_sub_subs [OF inv su act]
  have ch: "su_ch (hs ! i) = i" if "i < length hs" for i
    using inv that by (simp add: tu_inv_def)
  have acts: "active ?u (hs ! i) \<longleftrightarrow> active u (hs ! i) \<and> i \<noteq> su_ch su" if "i < length hs" for i
    using ch [OF that] by (simp add: active_def heap)
  have iff: "map_of (subs_of u t) k = Some c \<longleftrightarrow> c < length hs \<and> su_transactionID (hs ! c) = t
      \<and> su_subscriptionID (hs ! c) = k \<and> active u (hs ! c)" for t k c
    using inv by (simp add: tu_inv_def)
  have entry: "map_of (subs_of u (su_transactionID su)) (su_subscriptionID su) = Some (su_ch su)"
    using act tu_inv_issued [OF inv su] by (simp add: iff)
  have iff': "map_of (subs_of ?u t) k = Some c \<longleftrightarrow> c < length hs \<and> su_transactionID (hs ! c) = t
      \<and> su_subscriptionID (hs ! c) = k \<and> active ?u (hs ! c)" for t k c
  proof (cases "t = su_transactionID su \<and> k = su_subscriptionID su")
    case True
    have "c = su_ch su" if "c < length hs" "su_transactionID (hs ! c) = t"
        "su_subscriptionID (hs ! c) = k" "active u (hs ! c)"
      using that iff [of t k c] entry True by simp
    then show ?thesis using True acts by (auto simp: subs(1))
  next
    case False
    then have "c \<noteq> su_ch su" if "su_transactionID (hs ! c) = t" "su_subscriptionID (hs ! c) = k"
      using that tu_inv_issued(2) [OF inv su] by auto
    then show ?thesis using False acts by (auto simp: subs(1) iff)
  qed
  have old: "length (tu_heap u) = length hs" "tu_nextID u = of_nat (length hs)"
    "\<forall>i < length hs. su_ch (hs ! i) = i \<and> su_subscriptionID (hs ! i) = of_nat (Suc i)"
    using inv unfolding tu_inv_def by blast+
  show ?thesis
    unfolding tu_inv_def heap(1,2)
    by (intro conjI allI impI subs(2) old iff') (auto dest: subs(3) simp: old)
qed

lemma tu_reach_inv:
  assumes "tu_reach u hs" and "length hs < 2 ^ 64"
  shows "tu_inv u hs"
  using assms
proof (induction rule: tu_reach.induct)
  case init
  then show ?case by (simp add: tu_inv_def NewTransactionUpdates_def subs_of_def)
next
  case (subscribe u hs t su u')
  then show ?case using tu_inv_subscribe [of u hs t su u'] by simp
qed (simp_all add: tu_inv_cancel tu_inv_publish tu_inv_receive)

lemma subs_of_iff:
  assumes "tu_inv u hs" and "su \<in> set hs"
  shows "su_ch su \<in> snd ` set (subs_of u t) \<longleftrightarrow> su_transactionID su = t \<and> active u su"
proof
  assume "su_ch su \<in> snd ` set (subs_of u t)"
  then obtain k where "(k, su_ch su) \<in> set (subs_of u t)" by auto
  then have "map_of (subs_of u t) k = Some (su_ch su)" by (rule tu_inv_channel(2) [OF assms(1)])
  then have "su_transactionID (hs ! su_ch su) = t" "active u (hs ! su_ch su)"
    using assms(1) by (simp_all add: tu_inv_def)
  then show "su_transactionID su = t \<and> active u su"
    by (simp add: tu_inv_issued(2) [OF assms])
next
  assume "su_transactionID su = t \<and> active u su"
  then have "map_of (subs_of u t) (su_subscriptionID su) = Some (su_ch su)"
    using assms(1) tu_inv_issued [OF assms] by (simp add: tu_inv_def)
  then show "su_ch su \<in> snd ` set (subs_of u t)" by (force dest: map_of_SomeD)
qed

text \<open>
  C14. In every history of subscribe, cancel, publish and receive calls, publishing a transaction
  leaves a signal pending for exactly the subscriptions of that transaction that have not been
  cancelled, and touches no other channel: no wake-up is lost and none is misdirected.
\<close>

theorem Publish_signals:
  assumes "tu_reach u hs" and "length hs < 2 ^ 64" and "su \<in> set hs"
  shows "sc_full (tu_heap (Publish u t) ! su_ch su) \<longleftrightarrow>
    sc_full (tu_heap u ! su_ch su) \<or> (su_transactionID su = t \<and> active u su)"
proof -
  have inv: "tu_inv u hs" using assms tu_reach_inv by blast
  show ?thesis
    using subs_of_iff [OF inv assms(3), of t] by (auto simp: Publish_frame(4) [OF inv])
qed

theorem Publish_signals_witness:
  "sc_full (tu_heap (Publish (snd (Subscribe NewTransactionUpdates 7)) 7) ! 0)"
proof -
  define su where "su = \<lparr>su_ch = 0, su_transactionID = 7, su_subscriptionID = 1\<rparr>"
  have "tu_reach (snd (Subscribe NewTransactionUpdates 7)) ([] @ [su])"
    by (rule tu_reach.subscribe [OF tu_reach.init, of 7])
      (simp add: Subscribe_def NewTransactionUpdates_def su_def)
  then have "sc_full (tu_heap (Publish (snd (Subscribe NewTransactionUpdates 7)) 7) ! su_ch su)"
    using Publish_signals [of "snd (Subscribe NewTransactionUpdates 7)" "[su]" su 7]
    by (simp add: su_def active_def Subscribe_def NewTransactionUpdates_def)
  then show ?thesis by (simp add: su_def)
qed

text \<open>
  C13. The subscriber table holds an entry for exactly the transactions that have a subscription
  that was not cancelled, so cancelled subscriptions leave nothing behind.
\<close>

theorem subscriber_table_exact:
  assumes "tu_reach u hs" and "length hs < 2 ^ 64"
  shows "map_of (tu_subscribers u) t \<noteq> None \<longleftrightarrow>
    (\<exists>su \<in> set hs. su_transactionID su = t \<and> active u su)"
proof -
  have inv: "tu_inv u hs" using assms tu_reach_inv by blast
  show ?thesis
  proof
    assume "map_of (tu_subscribers u) t \<noteq> None"
    then obtain m where m: "map_of (tu_subscribers u) t = Some m" by blast
    then have "m \<noteq> []" "subs_of u t = m" using inv by (auto simp: tu_inv_def subs_of_def)
    then obtain k ch where "(k, ch) \<in> set (subs_of u t)" by (cases m) auto
    then have "map_of (subs_of u t) k = Some ch" using tu_inv_channel(2) [OF inv] by blast
    then have "ch < length hs" "su_transactionID (hs ! ch) = t" "active u (hs ! ch)"
      using inv by (simp_all add: tu_inv_def)
    then show "\<exists>su \<in> set hs. su_transactionID su = t \<and> active u su" using nth_mem by blast
  next
    assume "\<exists>su \<in> set hs. su_transactionID su = t \<and> active u su"
    then obtain su where "su \<in> set hs" "su_transactionID su = t \<and> active u su" by blast
    then have "subs_of u t \<noteq> []" using subs_of_iff [OF inv, of su t] by auto
    then show "map_of (tu_subscribers u) t \<noteq> None" by (cases "map_of (tu_subscribers u) t") (simp_all add: subs_of_def)
  qed
qed

theorem subscriber_table_exact_witness:
  "map_of (tu_subscribers (snd (Subscribe NewTransactionUpdates 7))) 7 \<noteq> None"
proof -
  define su where "su = \<lparr>su_ch = 0, su_transactionID = 7, su_subscriptionID = 1\<rparr>"
  have "tu_reach (snd (Subscribe NewTransactionUpdates 7)) ([] @ [su])"
    by (rule tu_reach.subscribe [OF tu_reach.init, of 7])
      (simp add: Subscribe_def NewTransactionUpdates_def su_def)
  then show ?thesis
    using subscriber_table_exact [of "snd (Subscribe NewTransactionUpdates 7)" "[su]" 7]
    by (simp add: su_def active_def Subscribe_def NewTransactionUpdates_def)
qed

context transaction_store begin

text \<open>A call that changes a row publishes that row's transaction.\<close>

lemma observable_signals:
  assumes "store_step (WithTransactionUpdates ts) quiet su su'" and "inv (fst su)"
    and "row (fst su') t \<noteq> row (fst su) t"
  shows "snd su' = Publish (snd su) t"
  using assms
proof (cases rule: store_step.cases)
  case (create e i r)
  then show ?thesis using create_law [of "fst su" e i r "fst su'"] assms(2,3)
    by (cases su) (auto simp: WithTransactionUpdates_def publish_ok_eq split: sum.splits if_splits)
next
  case (live e u r)
  then show ?thesis using live_law [of "fst su" e u r "fst su'"] assms(2,3)
    by (cases su) (auto simp: WithTransactionUpdates_def publish_ok_eq split: sum.splits if_splits option.splits)
next
  case (stop e p r)
  then show ?thesis using stop_law [of "fst su" e p r "fst su'"] assms(2,3)
    by (cases su) (auto simp: WithTransactionUpdates_def publish_ok_eq split: sum.splits if_splits option.splits)
next
  case (force e f r)
  then show ?thesis using force_law [of "fst su" e f r "fst su'"] assms(2,3)
    by (cases su) (auto simp: WithTransactionUpdates_def publish_ok_eq split: sum.splits if_splits option.splits)
next
  case (max_kwh e tid m ru)
  then show ?thesis using max_law [of "fst su" e tid m ru "fst su'"] assms(2,3)
    by (cases su) (auto simp: WithTransactionUpdates_def publish_ok_eq split: sum.splits if_splits option.splits)
next
  case (mark e cid tid rb)
  then show ?thesis using mark_law [of "fst su" e cid tid rb "fst su'"] assms(2,3)
    by (cases su) (auto simp: WithTransactionUpdates_def publish_ok_eq split: sum.splits if_splits option.splits)
next
  case (release e cid tid ru)
  then show ?thesis using release_law [of "fst su" e cid tid ru "fst su'"] assms(2,3)
    by (cases su) (auto simp: WithTransactionUpdates_def publish_ok_eq split: sum.splits if_splits option.splits)
next
  case (enqueue e c ru)
  then show ?thesis using enqueue_law [of "fst su" e c ru "fst su'"] assms(2,3)
    by (cases su) (auto simp: WithTransactionUpdates_def publish_ok_eq)
next
  case (claim e limit rt)
  then show ?thesis using claim_law [of "fst su" e limit rt "fst su'"] assms(2,3)
    by (cases su) (auto simp: WithTransactionUpdates_def publish_ok_eq)
next
  case (sent e cb ru)
  then show ?thesis using sent_law [of "fst su" e cb ru "fst su'"] assms(2,3)
    by (cases su) (auto simp: WithTransactionUpdates_def publish_ok_eq)
next
  case (retry e cb n due msg ru)
  then show ?thesis using retry_law [of "fst su" e cb n due msg ru "fst su'"] assms(2,3)
    by (cases su) (auto simp: WithTransactionUpdates_def publish_ok_eq)
next
  case (fatal e cb msg ru)
  then show ?thesis using fatal_law [of "fst su" e cb msg ru "fst su'"] assms(2,3)
    by (cases su) (auto simp: WithTransactionUpdates_def publish_ok_eq)
qed

end



end
