(* ===== verification/Remote_Commands.thy ===== *)
theory Remote_Commands
  imports Store_Types
begin

text \<open>
  The requests the HAL sends to a charger (\<open>hal.go\<close> 128-488, \<open>extra.go\<close>).  Each method passes a
  callback to the OCPP library, which puts its result on a channel of capacity one, and then
  waits for the channel or for the end of the context.  The library and the charger are outside:
  what one call did is an \<open>answer\<close>, with what was sent recorded as a \<open>request\<close>.
\<close>

text \<open>
  \<open>Send_error\<close>: the library refused to send.  \<open>Done_first\<close>: the context ended and the select took
  its branch; the callback may run later, on a channel nobody reads.  \<open>Reply conf err\<close>: the
  callback ran with these arguments and the select took its branch.
\<close>

datatype 'c answer =
    Send_error go_error
  | Done_first go_error
  | Reply "'c option" "go_error option"

datatype request =
    ReqRemoteStartTransaction string string "int option"
  | ReqRemoteStopTransaction string int
  | ReqChangeAvailability string int string
  | ReqChangeConfiguration string string string
  | ReqClearCache string
  | ReqUnlockConnector string int
  | ReqReset string string
  | ReqGetConfiguration string "string list"
  | ReqGetDiagnostics string string "time option" "time option" "int option" "int option"
  | ReqUpdateFirmware string string time "int option" "int option"
  | ReqTriggerMessage string string "int option"

record config_item =
  ci_Key :: string
  ci_Value :: "string option"

text \<open>The library and the charger behind it: the answer to each request, by kind of confirmation.\<close>

record central =
  ce_status :: "request \<Rightarrow> string answer"
  ce_configuration :: "request \<Rightarrow> config_item list answer"
  ce_diagnostics :: "request \<Rightarrow> string answer"
  ce_firmware :: "request \<Rightarrow> unit answer"

text \<open>The callback of the methods that return the status of the confirmation, and their select.\<close>

definition status_callback :: "string \<Rightarrow> string option \<Rightarrow> go_error option \<Rightarrow> string \<times> go_error option" where
  "status_callback name conf err =
     (case err of
        Some e \<Rightarrow> ('''', Some e)
      | None \<Rightarrow>
          (case conf of
             None \<Rightarrow> ('''', Some (ErrNew (''nil '' @ name @ '' confirmation'')))
           | Some st \<Rightarrow> (st, None)))"

definition await_status :: "string \<Rightarrow> string answer \<Rightarrow> string \<times> go_error option" where
  "await_status name a =
     (case a of
        Send_error e \<Rightarrow> ('''', Some e)
      | Done_first e \<Rightarrow> ('''', Some e)
      | Reply conf err \<Rightarrow> status_callback name conf err)"

text \<open>A method's result: status and error, with the request it sent, if any.\<close>

type_synonym sent = "(string \<times> go_error option) \<times> request list"

definition RemoteStartTransaction :: "central \<Rightarrow> string \<Rightarrow> string \<Rightarrow> int \<Rightarrow> sent" where
  "RemoteStartTransaction cs chargerID idTag connectorID =
     (let req = ReqRemoteStartTransaction chargerID idTag
                  (if connectorID > 0 then Some connectorID else None)
      in (await_status ''RemoteStartTransaction'' (ce_status cs req), [req]))"

definition RemoteStopTransaction :: "central \<Rightarrow> string \<Rightarrow> int \<Rightarrow> sent" where
  "RemoteStopTransaction cs chargerID transactionID =
     (let req = ReqRemoteStopTransaction chargerID transactionID
      in (await_status ''RemoteStopTransaction'' (ce_status cs req), [req]))"

definition ChangeAvailability :: "central \<Rightarrow> string \<Rightarrow> int \<Rightarrow> string \<Rightarrow> sent" where
  "ChangeAvailability cs chargerID connectorID availabilityType =
     (let send = (\<lambda>t. let req = ReqChangeAvailability chargerID connectorID t
                      in (await_status ''ChangeAvailability'' (ce_status cs req), [req]));
          lower = ToLower (TrimSpace availabilityType)
      in if lower = ''operative'' then send ''Operative''
         else if lower = ''inoperative'' then send ''Inoperative''
         else (('''', Some (ErrNew (''invalid availability type '' @ Quote availabilityType))), []))"

definition ChangeConfiguration :: "central \<Rightarrow> string \<Rightarrow> string \<Rightarrow> string \<Rightarrow> sent" where
  "ChangeConfiguration cs chargerID key val =
     (let req = ReqChangeConfiguration chargerID key val
      in (await_status ''ChangeConfiguration'' (ce_status cs req), [req]))"

definition ClearCache :: "central \<Rightarrow> string \<Rightarrow> sent" where
  "ClearCache cs chargerID =
     (let req = ReqClearCache chargerID in (await_status ''ClearCache'' (ce_status cs req), [req]))"

definition UnlockConnector :: "central \<Rightarrow> string \<Rightarrow> int \<Rightarrow> sent" where
  "UnlockConnector cs chargerID connectorID =
     (let req = ReqUnlockConnector chargerID connectorID
      in (await_status ''UnlockConnector'' (ce_status cs req), [req]))"

definition Reset :: "central \<Rightarrow> string \<Rightarrow> string \<Rightarrow> sent" where
  "Reset cs chargerID resetType =
     (let send = (\<lambda>t. let req = ReqReset chargerID t in (await_status ''Reset'' (ce_status cs req), [req]));
          lower = ToLower (TrimSpace resetType)
      in if lower = ''soft'' then send ''Soft''
         else if lower = ''hard'' then send ''Hard''
         else (('''', Some (ErrNew (''invalid reset type '' @ Quote resetType))), []))"

definition TriggerMessage :: "central \<Rightarrow> string \<Rightarrow> string \<Rightarrow> int \<Rightarrow> sent" where
  "TriggerMessage cs chargerID requestedMessage connectorID =
     (let req = ReqTriggerMessage chargerID requestedMessage
                  (if connectorID > 0 then Some connectorID else None)
      in (await_status ''TriggerMessage'' (ce_status cs req), [req]))"

text \<open>The methods that hand the confirmation itself to the caller check it after the select.\<close>

definition await_conf :: "string \<Rightarrow> 'c answer \<Rightarrow> go_error + 'c" where
  "await_conf name a =
     (case a of
        Send_error e \<Rightarrow> Inl e
      | Done_first e \<Rightarrow> Inl e
      | Reply conf (Some e) \<Rightarrow> Inl e
      | Reply None None \<Rightarrow> Inl (ErrNew (''nil '' @ name @ '' confirmation''))
      | Reply (Some c) None \<Rightarrow> Inr c)"

definition GetConfiguration ::
  "central \<Rightarrow> string \<Rightarrow> string list \<Rightarrow> (go_error + config_item list) \<times> request list" where
  "GetConfiguration cs chargerID keys =
     (let req = ReqGetConfiguration chargerID keys
      in (await_conf ''GetConfiguration'' (ce_configuration cs req), [req]))"

text \<open>The error of \<open>time.Parse\<close> is only passed on; its text is shortened to the quoted input.\<close>

definition parseOptionalDateTime :: "string \<Rightarrow> go_error + time option" where
  "parseOptionalDateTime raw =
     (let raw = TrimSpace raw in
      if raw = '''' then Inr None
      else case ParseRFC3339Nano raw of
             None \<Rightarrow> Inl (ErrExternal (''parsing time '' @ Quote raw))
           | Some t \<Rightarrow> Inr (Some t))"

definition parseRequiredDateTime :: "string \<Rightarrow> go_error + time" where
  "parseRequiredDateTime raw =
     (case parseOptionalDateTime raw of
        Inl err \<Rightarrow> Inl err
      | Inr None \<Rightarrow> Inl (ErrNew ''missing datetime'')
      | Inr (Some t) \<Rightarrow> Inr t)"

definition GetDiagnostics ::
  "central \<Rightarrow> string \<Rightarrow> string \<Rightarrow> string \<Rightarrow> string \<Rightarrow> int option \<Rightarrow> int option
   \<Rightarrow> (go_error + string) \<times> request list" where
  "GetDiagnostics cs chargerID location startTime stopTime retries retryInterval =
     (case parseOptionalDateTime startTime of
        Inl err \<Rightarrow> (Inl (ErrWrap ''invalid start_time'' err), [])
      | Inr start \<Rightarrow>
         (case parseOptionalDateTime stopTime of
            Inl err \<Rightarrow> (Inl (ErrWrap ''invalid stop_time'' err), [])
          | Inr stop \<Rightarrow>
             let req = ReqGetDiagnostics chargerID location start stop retries retryInterval
             in (await_conf ''GetDiagnostics'' (ce_diagnostics cs req), [req])))"

definition UpdateFirmware ::
  "central \<Rightarrow> string \<Rightarrow> string \<Rightarrow> string \<Rightarrow> int option \<Rightarrow> int option
   \<Rightarrow> go_error option \<times> request list" where
  "UpdateFirmware cs chargerID location retrieveDateRaw retries retryInterval =
     (case parseRequiredDateTime retrieveDateRaw of
        Inl err \<Rightarrow> (Some (ErrWrap ''invalid retrieve_date'' err), [])
      | Inr retrieveDate \<Rightarrow>
         let req = ReqUpdateFirmware chargerID location retrieveDate retries retryInterval
         in (case await_conf ''UpdateFirmware'' (ce_firmware cs req) of
               Inl err \<Rightarrow> Some err | Inr _ \<Rightarrow> None, [req]))"

section \<open>The rendezvous of callback and caller\<close>

text \<open>
  The goroutines behind one sent request, step by step: the callback of the library runs at most
  once and puts its result on the channel, the context may end at any time, and the select takes
  a branch that is ready.  \<open>wt_cb\<close> is true once the callback has finished.
\<close>

record 'r wait_state =
  wt_ch :: "'r option"
  wt_cb :: bool
  wt_done :: "go_error option"
  wt_ret :: "(go_error + 'r) option"

definition wait_init :: "'r wait_state" where
  "wait_init = \<lparr>wt_ch = None, wt_cb = False, wt_done = None, wt_ret = None\<rparr>"

inductive wait_step :: "'r wait_state \<Rightarrow> 'r wait_state \<Rightarrow> bool" where
  callback: "\<lbrakk>\<not> wt_cb w; wt_ch w = None\<rbrakk> \<Longrightarrow> wait_step w (w\<lparr>wt_ch := Some v, wt_cb := True\<rparr>)"
| ctx_done: "wt_done w = None \<Longrightarrow> wait_step w (w\<lparr>wt_done := Some e\<rparr>)"
| take_result: "\<lbrakk>wt_ret w = None; wt_ch w = Some v\<rbrakk> \<Longrightarrow> wait_step w (w\<lparr>wt_ret := Some (Inr v), wt_ch := None\<rparr>)"
| take_done: "\<lbrakk>wt_ret w = None; wt_done w = Some e\<rbrakk> \<Longrightarrow> wait_step w (w\<lparr>wt_ret := Some (Inl e)\<rparr>)"

inductive_cases wait_stepE: "wait_step w w'"

lemma wait_inv:
  assumes "wait_step\<^sup>*\<^sup>* (wait_init :: 'r wait_state) w"
  shows "(\<not> wt_cb w \<longrightarrow> wt_ch w = None) \<and> (wt_cb w \<and> wt_ret w = None \<longrightarrow> wt_ch w \<noteq> None)"
  using assms
proof (induction rule: rtranclp_induct)
  case base
  then show ?case by (simp add: wait_init_def)
next
  case (step w w')
  from step(2,3) show ?case by (elim wait_stepE) auto
qed

text \<open>
  C23. Whatever the interleaving, the library's callback never blocks on the result channel, also
  when the caller gave up long ago, so a late confirmation cannot stall the library or leak its
  goroutine; and a caller that is still waiting can proceed once the callback has run or the
  context has ended.
\<close>

theorem callback_never_blocks:
  assumes "wait_step\<^sup>*\<^sup>* (wait_init :: 'r wait_state) w"
  shows "(\<not> wt_cb w \<longrightarrow> (\<forall>v. wait_step w (w\<lparr>wt_ch := Some v, wt_cb := True\<rparr>))) \<and>
    (wt_ret w = None \<and> (wt_cb w \<or> wt_done w \<noteq> None) \<longrightarrow> (\<exists>w'. wait_step w w' \<and> wt_ret w' \<noteq> None))"
proof -
  note inv = wait_inv [OF assms]
  have "\<exists>w'. wait_step w w' \<and> wt_ret w' \<noteq> None" if ret: "wt_ret w = None" and ready: "wt_cb w \<or> wt_done w \<noteq> None"
  proof (cases "wt_cb w")
    case True
    then obtain v where "wt_ch w = Some v" using inv ret by auto
    then have "wait_step w (w\<lparr>wt_ret := Some (Inr v), wt_ch := None\<rparr>)"
      using ret by (rule wait_step.take_result [rotated])
    then show ?thesis by (intro exI conjI) auto
  next
    case False
    then obtain e where "wt_done w = Some e" using ready by auto
    then have "wait_step w (w\<lparr>wt_ret := Some (Inl e)\<rparr>)"
      using ret by (rule wait_step.take_done [rotated])
    then show ?thesis by (intro exI conjI) auto
  qed
  with inv show ?thesis by (auto intro: wait_step.callback)
qed

theorem callback_never_blocks_witness:
  "\<exists>w :: string wait_state. wait_step\<^sup>*\<^sup>* wait_init w \<and> wt_ret w = Some (Inl (ErrExternal ''deadline''))
     \<and> (\<forall>v. wait_step w (w\<lparr>wt_ch := Some v, wt_cb := True\<rparr>))"
proof -
  let ?w1 = "(wait_init :: string wait_state)\<lparr>wt_done := Some (ErrExternal ''deadline'')\<rparr>"
  let ?w2 = "?w1\<lparr>wt_ret := Some (Inl (ErrExternal ''deadline''))\<rparr>"
  have "wait_step wait_init ?w1" by (rule wait_step.ctx_done) (simp add: wait_init_def)
  moreover have "wait_step ?w1 ?w2" by (rule wait_step.take_done) (simp_all add: wait_init_def)
  ultimately have run: "wait_step\<^sup>*\<^sup>* wait_init ?w2" by simp
  have "\<not> wt_cb ?w2" by (simp add: wait_init_def)
  then have "\<forall>v. wait_step ?w2 (?w2\<lparr>wt_ch := Some v, wt_cb := True\<rparr>)"
    using callback_never_blocks [OF run] by blast
  moreover have "wt_ret ?w2 = Some (Inl (ErrExternal ''deadline''))" by simp
  ultimately show ?thesis using run by blast
qed

end
