(* ===== verification/Single_Session.thy ===== *)
theory Single_Session
  imports Remote_Commands
begin

text \<open>
  \<open>single_session.go\<close>: remote starts that were asked to be single sessions are remembered until
  the charger's StartTransaction arrives and consumes the mark.  The map and its lock are global,
  so every access is one step.
\<close>

type_synonym pendingRemoteStartKey = "string \<times> int \<times> string"
type_synonym pending_sessions = "(pendingRemoteStartKey, bool) gomap"

definition recordPendingSingleSession :: "pending_sessions \<Rightarrow> string \<Rightarrow> int \<Rightarrow> string \<Rightarrow> pending_sessions" where
  "recordPendingSingleSession m chargerID connectorID idTag =
     AList.update (chargerID, connectorID, idTag) True m"

definition clearPendingSingleSession :: "pending_sessions \<Rightarrow> string \<Rightarrow> int \<Rightarrow> string \<Rightarrow> pending_sessions" where
  "clearPendingSingleSession m chargerID connectorID idTag =
     AList.delete (chargerID, connectorID, idTag) m"

text \<open>The fallback loop runs over the map in the order \<open>ord\<close> and takes the first candidate.\<close>

definition consumePendingSingleSession ::
  "pendingRemoteStartKey list \<Rightarrow> pending_sessions \<Rightarrow> string \<Rightarrow> int \<Rightarrow> string \<Rightarrow> bool \<times> pending_sessions" where
  "consumePendingSingleSession ord m chargerID connectorID idTag =
     (let key = (chargerID, connectorID, idTag) in
      if map_of m key = Some True then (True, AList.delete key m)
      else
        (case find (\<lambda>(c, k, t). c = chargerID \<and> t = idTag) (map fst (range_order ord m)) of
           Some candidate \<Rightarrow> (True, AList.delete candidate m)
         | None \<Rightarrow> (False, m)))"

text \<open>
  \<open>other\<close> is what other goroutines do to the map while the request is out.  An error is returned
  only for single sessions; for the others the method returns the status and no error.
\<close>

definition RemoteStartTransactionWithOptions ::
  "central \<Rightarrow> (pending_sessions \<Rightarrow> pending_sessions) \<Rightarrow> pending_sessions
   \<Rightarrow> string \<Rightarrow> string \<Rightarrow> int \<Rightarrow> bool \<Rightarrow> sent \<times> pending_sessions" where
  "RemoteStartTransactionWithOptions cs other m chargerID idTag connectorID isSingleSession =
     (let m1 = (if isSingleSession then recordPendingSingleSession m chargerID connectorID idTag else m);
          ((status, err), reqs) = RemoteStartTransaction cs chargerID idTag connectorID;
          m2 = other m1
      in if err \<noteq> None \<and> isSingleSession
         then (((('''', err), reqs), clearPendingSingleSession m2 chargerID connectorID idTag))
         else (((status, None), reqs), m2))"

section \<open>Consuming a mark\<close>

lemma consume_direct:
  "map_of m (c, k, t) = Some True \<Longrightarrow>
   consumePendingSingleSession ord m c k t = (True, AList.delete (c, k, t) m)"
  by (simp add: consumePendingSingleSession_def)

lemma range_order_keys:
  assumes "gomap_ok m"
  shows "set (map fst (range_order ord m)) = fst ` set m"
  using assms by simp

lemma consume_iff:
  assumes "gomap_ok m" and "\<forall>(k, b) \<in> set m. b"
  shows "fst (consumePendingSingleSession ord m c k t) \<longleftrightarrow> (\<exists>k'. map_of m (c, k', t) \<noteq> None)"
proof -
  let ?ks = "map fst (range_order ord m)"
  have keys: "x \<in> set ?ks \<longleftrightarrow> map_of m x \<noteq> None" for x
    unfolding range_order_keys [OF assms(1)] by (simp add: map_of_eq_None_iff)
  have "find (\<lambda>(c', k', t'). c' = c \<and> t' = t) ?ks = None \<longleftrightarrow> \<not> (\<exists>k'. map_of m (c, k', t) \<noteq> None)"
    unfolding find_None_iff keys by auto
  then show ?thesis
    by (auto simp: consumePendingSingleSession_def Let_def split: option.splits)
qed



end
