(* ===== verification/Hal_State.thy ===== *)
theory Hal_State
  imports Tx_Updates Registry Single_Session
begin

text \<open>
  The state behind the HAL's handlers (\<open>hal.go\<close>: struct \<open>HAL\<close>, and the package's global maps) and
  the \<open>HookSink\<close> interface.  Goroutines that a handler starts are recorded as jobs.  The handlers
  are written against the \<open>TransactionStore\<close> and \<open>HookSink\<close> method tables; each call of a store
  method gets its own environment, and each registry call its own clock.
\<close>

record 's hal =
  hal_store :: 's
  hal_registry :: Registry
  hal_pending :: pending_sessions
  hal_limit_jobs :: "(string \<times> int) list"
  hal_boot_running :: "string list"
  hal_boot_jobs :: "(string \<times> Transaction list) list"
  hal_sync_once :: "string list"
  hal_sync_jobs :: "string list"

record ('e, 's) HookSink =
  hk_EnqueueStartTransaction :: "'e \<Rightarrow> 's \<Rightarrow> Transaction \<Rightarrow> ('s, unit) call"
  hk_EnqueueCompletedTransaction :: "'e \<Rightarrow> 's \<Rightarrow> Transaction \<Rightarrow> ('s, unit) call"

record 'e hal_env =
  he_store :: "nat \<Rightarrow> 'e"
  he_now :: "nat \<Rightarrow> clock"
  he_order :: "pendingRemoteStartKey list"

text \<open>
  What a hook sink promises to the HAL: it only appends to the outbox, and a success means the
  callback of the transaction is in it.
\<close>

locale hook_sink = transaction_store ts quiet inv row keys
  for ts :: "('e, 's) TransactionStore"
    and quiet :: "'e \<Rightarrow> bool"
    and inv :: "'s \<Rightarrow> bool"
    and row :: "'s \<Rightarrow> rows"
    and keys :: "'s \<Rightarrow> string set" +
  fixes hooks :: "('e, 's) HookSink"
  assumes start_hook_law: "\<lbrakk>inv s; quiet e; hk_EnqueueStartTransaction hooks e s tx = (ru, s')\<rbrakk> \<Longrightarrow>
      inv s' \<and> row s' = row s \<and> keys s \<subseteq> keys s' \<and>
      (ru = Inr () \<longrightarrow> dedupe_key KindStartTransactionStore (tx_TransactionID tx) \<in> keys s')"
    and completed_hook_law: "\<lbrakk>inv s; quiet e; hk_EnqueueCompletedTransaction hooks e s tx = (ru, s')\<rbrakk> \<Longrightarrow>
      inv s' \<and> row s' = row s \<and> keys s \<subseteq> keys s' \<and>
      (ru = Inr () \<longrightarrow> dedupe_key KindCompletedTransactionStore (tx_TransactionID tx) \<in> keys s'
         \<and> tx_StopTime tx \<noteq> None \<and> tx_MeterStop tx \<noteq> None)"

end
