(* ===== verification/Limit_Stop.thy ===== *)
theory Limit_Stop
  imports Hal_State
begin

text \<open>
  \<open>limit_stop.go\<close>: claiming a crossed energy limit and the goroutine that asks the charger to stop
  until the transaction is closed.  The goroutine runs beside everything else: before its
  \<open>n\<close>-th access to the store other goroutines do \<open>lw_other n\<close>, its \<open>n\<close>-th remote stop is answered by
  \<open>lw_central n\<close>, and each of its steps takes \<open>lw_lag\<close> extra nanoseconds.
\<close>

section \<open>The claim\<close>

definition CheckAndRequestLimitStop ::
  "('e, 's) TransactionStore \<Rightarrow> 'e \<Rightarrow> 's hal \<Rightarrow> string \<Rightarrow> int \<Rightarrow> 's hal" where
  "CheckAndRequestLimitStop ts e h chargerID transactionID =
     (case m_CheckAndMarkLimitStop ts e (hal_store h) chargerID transactionID of
        (Inl err, s) \<Rightarrow> h\<lparr>hal_store := s\<rparr>
      | (Inr shouldStop, s) \<Rightarrow>
          if \<not> shouldStop then h\<lparr>hal_store := s\<rparr>
          else h\<lparr>hal_store := s, hal_limit_jobs := hal_limit_jobs h @ [(chargerID, transactionID)]\<rparr>)"

section \<open>The goroutine\<close>

definition limitStopMaxAttempts :: nat where "limitStopMaxAttempts = 6"
definition limitStopInitialRetry :: duration where "limitStopInitialRetry = 2 * Second"
definition limitStopMaxRetry :: duration where "limitStopMaxRetry = 30 * Second"
definition limitStopConfirmationWait :: duration where "limitStopConfirmationWait = 30 * Second"
definition limitStopPollInterval :: duration where "limitStopPollInterval = 2 * Second"

record ('e, 's) limit_world =
  lw_store :: "nat \<Rightarrow> 'e"
  lw_other :: "nat \<Rightarrow> 's \<Rightarrow> 's"
  lw_central :: "nat \<Rightarrow> central"
  lw_lag :: "nat \<Rightarrow> nat"

record 's job =
  jb_store :: 's
  jb_n :: nat
  jb_calls :: nat
  jb_time :: time
  jb_sent :: "(time \<times> request) list"

definition transactionClosed ::
  "('e, 's) TransactionStore \<Rightarrow> ('e, 's) limit_world \<Rightarrow> string \<Rightarrow> int \<Rightarrow> 's job
   \<Rightarrow> (go_error + bool) \<times> 's job" where
  "transactionClosed ts w chargerID transactionID j =
     (let s = lw_other w (jb_n j) (jb_store j) in
      case m_GetByTransactionID ts (lw_store w (jb_n j)) s chargerID transactionID of
        (r, s') \<Rightarrow>
          (map_sum id (\<lambda>tx. tx_StopTime tx \<noteq> None) r,
           j\<lparr>jb_store := s', jb_n := Suc (jb_n j), jb_time := jb_time j + int (lw_lag w (jb_n j))\<rparr>))"

text \<open>\<open>time.Sleep(d)\<close> advances the clock by \<open>d\<close>; later readings of the clock are not earlier.\<close>

definition sleep :: "duration \<Rightarrow> 's job \<Rightarrow> 's job" where
  "sleep d j = j\<lparr>jb_time := jb_time j + d\<rparr>"

lemma transactionClosed_time: "transactionClosed ts w c t j = (r, j') \<Longrightarrow> jb_time j \<le> jb_time j'"
  by (auto simp: transactionClosed_def Let_def split: prod.splits)

function poll_closed ::
  "('e, 's) TransactionStore \<Rightarrow> ('e, 's) limit_world \<Rightarrow> string \<Rightarrow> int \<Rightarrow> time \<Rightarrow> 's job \<Rightarrow> bool \<times> 's job" where
  "poll_closed ts w chargerID transactionID deadline j =
     (if jb_time j < deadline then
        (case transactionClosed ts w chargerID transactionID j of
           (Inr True, j') \<Rightarrow> (True, j')
         | (_, j') \<Rightarrow> poll_closed ts w chargerID transactionID deadline (sleep limitStopPollInterval j'))
      else (False, j))"
  by pat_completeness auto
termination
  by (relation "measure (\<lambda>(ts, w, c, t, deadline, j). nat (deadline - jb_time j))")
    (auto simp: sleep_def limitStopPollInterval_def duration_defs dest!: transactionClosed_time [OF sym])

declare poll_closed.simps [simp del]

definition waitForTransactionClosed ::
  "('e, 's) TransactionStore \<Rightarrow> ('e, 's) limit_world \<Rightarrow> string \<Rightarrow> int \<Rightarrow> duration \<Rightarrow> 's job \<Rightarrow> bool \<times> 's job" where
  "waitForTransactionClosed ts w chargerID transactionID wait j =
     poll_closed ts w chargerID transactionID (jb_time j + wait) j"

definition send_stop :: "('e, 's) limit_world \<Rightarrow> string \<Rightarrow> int \<Rightarrow> 's job \<Rightarrow> (string \<times> go_error option) \<times> 's job" where
  "send_stop w chargerID transactionID j =
     (let (res, reqs) = RemoteStopTransaction (lw_central w (jb_calls j)) chargerID transactionID
      in (res, j\<lparr>jb_calls := Suc (jb_calls j), jb_sent := jb_sent j @ map (Pair (jb_time j)) reqs\<rparr>))"

text \<open>The attempts; \<open>True\<close> means the goroutine saw the transaction closed.\<close>

fun limit_attempts ::
  "('e, 's) TransactionStore \<Rightarrow> ('e, 's) limit_world \<Rightarrow> string \<Rightarrow> int \<Rightarrow> nat \<Rightarrow> duration \<Rightarrow> 's job \<Rightarrow> bool \<times> 's job" where
  "limit_attempts ts w chargerID transactionID 0 delay j = (False, j)"
| "limit_attempts ts w chargerID transactionID (Suc left) delay j =
     (case transactionClosed ts w chargerID transactionID j of
        (isClosed, j1) \<Rightarrow>
          if isClosed = Inr True then (True, j1)
          else
            (case send_stop w chargerID transactionID j1 of
               ((status, stopErr), j2) \<Rightarrow>
                 (case (if stopErr = None \<and> EqualFold (TrimSpace status) ''Accepted''
                        then waitForTransactionClosed ts w chargerID transactionID limitStopConfirmationWait j2
                        else (False, j2)) of
                    (True, j3) \<Rightarrow> (True, j3)
                  | (False, j3) \<Rightarrow>
                      if left = 0 then (False, j3)
                      else limit_attempts ts w chargerID transactionID left
                             (min limitStopMaxRetry (delay * 2)) (sleep delay j3))))"

definition requestLimitStopUntilClosed ::
  "('e, 's) TransactionStore \<Rightarrow> ('e, 's) limit_world \<Rightarrow> string \<Rightarrow> int \<Rightarrow> 's job \<Rightarrow> bool \<times> 's job" where
  "requestLimitStopUntilClosed ts w chargerID transactionID j =
     (case limit_attempts ts w chargerID transactionID limitStopMaxAttempts limitStopInitialRetry j of
        (True, j') \<Rightarrow> (True, j')
      | (False, j') \<Rightarrow>
          let s = lw_other w (jb_n j') (jb_store j');
              (_, s') = m_ReleaseLimitStopRequest ts (lw_store w (jb_n j')) s chargerID transactionID
          in (False, j'\<lparr>jb_store := s', jb_n := Suc (jb_n j')\<rparr>))"

section \<open>What the goroutine does\<close>

definition world_ok :: "('e \<Rightarrow> bool) \<Rightarrow> ('s \<Rightarrow> bool) \<Rightarrow> ('e, 's) limit_world \<Rightarrow> bool" where
  "world_ok Q I w \<longleftrightarrow> (\<forall>n. Q (lw_store w n)) \<and> (\<forall>n s. I s \<longrightarrow> I (lw_other w n s))"

context transaction_store begin

lemma transactionClosed_law:
  assumes "inv (jb_store j)" and "world_ok quiet inv w" and "transactionClosed ts w c t j = (r, j')"
  shows "inv (jb_store j') \<and> (r = Inr True \<longrightarrow> (\<exists>q. owned (row (jb_store j')) c t = Some q \<and> \<not> is_open q))"
proof -
  let ?s = "lw_other w (jb_n j) (jb_store j)"
  obtain g s' where g: "m_GetByTransactionID ts (lw_store w (jb_n j)) ?s c t = (g, s')" by fastforce
  have "inv ?s" "quiet (lw_store w (jb_n j))" using assms(1,2) by (simp_all add: world_ok_def)
  note law = get_law [OF this g]
  have j': "jb_store j' = s'" "r = map_sum id (\<lambda>tx. tx_StopTime tx \<noteq> None) g"
    using assms(3) g by (auto simp: transactionClosed_def Let_def)
  show ?thesis
  proof (cases "owned (row ?s) c t")
    case None
    then show ?thesis using law j' \<open>inv ?s\<close> by simp
  next
    case (Some q)
    then obtain tx where tx: "g = Inr tx" "view tx = view q" "s' = ?s" using law by auto
    have "tx_StopTime tx \<noteq> None \<longleftrightarrow> \<not> is_open q"
      using view_eqD(8) [OF tx(2)] by (simp add: is_open_def)
    then show ?thesis using Some tx j' \<open>inv ?s\<close> by simp
  qed
qed

lemma poll_closed_law:
  assumes "inv (jb_store j)" and "world_ok quiet inv w" and "poll_closed ts w c t d j = (r, j')"
  shows "inv (jb_store j') \<and> (r \<longrightarrow> (\<exists>q. owned (row (jb_store j')) c t = Some q \<and> \<not> is_open q))"
  using assms
proof (induction "nat (d - jb_time j)" arbitrary: j rule: less_induct)
  case less
  show ?case
  proof (cases "jb_time j < d")
    case True
    obtain res j1 where one: "transactionClosed ts w c t j = (res, j1)" by fastforce
    note law = transactionClosed_law [OF less.prems(1,2) one]
    show ?thesis
    proof (cases "res = Inr True")
      case stop: True
      then show ?thesis using less.prems(3) True one law
        by (simp add: poll_closed.simps [of ts w c t d j])
    next
      case False
      then have "poll_closed ts w c t d (sleep limitStopPollInterval j1) = (r, j')"
        using less.prems(3) True one
        by (auto simp: poll_closed.simps [of ts w c t d j] split: sum.splits bool.splits)
      moreover have "nat (d - jb_time (sleep limitStopPollInterval j1)) < nat (d - jb_time j)"
        using True transactionClosed_time [OF one]
        by (simp add: sleep_def limitStopPollInterval_def duration_defs)
      ultimately show ?thesis
        using less.hyps [of "sleep limitStopPollInterval j1"] law less.prems(2) by (simp add: sleep_def)
    qed
  next
    case False
    then show ?thesis using less.prems by (simp add: poll_closed.simps [of ts w c t d j])
  qed
qed

lemma send_stop_store: "send_stop w c t j = (r, j') \<Longrightarrow> jb_store j' = jb_store j \<and> jb_time j' = jb_time j"
  by (auto simp: send_stop_def RemoteStopTransaction_def Let_def)

lemma limit_attempts_law:
  assumes "inv (jb_store j)" and "world_ok quiet inv w" and "limit_attempts ts w c t n d j = (r, j')"
  shows "inv (jb_store j') \<and> (r \<longrightarrow> (\<exists>q. owned (row (jb_store j')) c t = Some q \<and> \<not> is_open q))"
  using assms(1,3)
proof (induction n arbitrary: d j)
  case (Suc n)
  obtain cl j1 where one: "transactionClosed ts w c t j = (cl, j1)" by fastforce
  note law = transactionClosed_law [OF Suc.prems(1) assms(2) one]
  show ?case
  proof (cases "cl = Inr True")
    case True
    then show ?thesis using Suc.prems(2) one law by simp
  next
    case False
    obtain st err j2 where two: "send_stop w c t j1 = ((st, err), j2)" by (metis prod.exhaust)
    then have inv2: "inv (jb_store j2)" using law send_stop_store by metis
    define step where "step = (if err = None \<and> EqualFold (TrimSpace st) ''Accepted''
      then waitForTransactionClosed ts w c t limitStopConfirmationWait j2 else (False, j2))"
    obtain b j3 where three: "step = (b, j3)" by fastforce
    have "inv (jb_store j3) \<and> (b \<longrightarrow> (\<exists>q. owned (row (jb_store j3)) c t = Some q \<and> \<not> is_open q))"
      using three inv2 poll_closed_law [OF inv2 assms(2)]
      by (auto simp: step_def waitForTransactionClosed_def split: if_splits)
    then show ?thesis
      using Suc.prems(2) one two False three Suc.IH [of "sleep d j3"]
      by (auto simp: step_def [symmetric] sleep_def split: bool.splits if_splits)
  qed
qed simp

lemma limit_job_outcome:
  assumes "inv (jb_store j)" and "world_ok quiet inv w"
    and "requestLimitStopUntilClosed ts w c t j = (r, j')"
  shows "inv (jb_store j') \<and>
    (if r then \<exists>q. owned (row (jb_store j')) c t = Some q \<and> \<not> is_open q
     else \<forall>q. owned (row (jb_store j')) c t = Some q \<and> is_open q \<longrightarrow> \<not> tx_LimitStopRequested q)"
proof -
  obtain b j1 where at: "limit_attempts ts w c t limitStopMaxAttempts limitStopInitialRetry j = (b, j1)"
    by fastforce
  note law = limit_attempts_law [OF assms(1,2) at]
  show ?thesis
  proof (cases b)
    case True
    then show ?thesis using assms(3) at law by (simp add: requestLimitStopUntilClosed_def)
  next
    case False
    let ?s = "lw_other w (jb_n j1) (jb_store j1)"
    obtain ru s' where rel: "m_ReleaseLimitStopRequest ts (lw_store w (jb_n j1)) ?s c t = (ru, s')" by fastforce
    have "inv ?s" "quiet (lw_store w (jb_n j1))" using law assms(2) by (simp_all add: world_ok_def)
    note rl = release_law [OF this rel]
    have j': "r = False" "jb_store j' = s'"
      using assms(3) at False rel by (auto simp: requestLimitStopUntilClosed_def Let_def)
    have "\<not> tx_LimitStopRequested q" if "owned (row s') c t = Some q" "is_open q" for q
      using that rl by (cases "owned (row ?s) c t") (auto simp: owned_Some_iff is_open_def split: if_splits)
    then show ?thesis using rl j' by auto
  qed
qed

end

text \<open>The pace of the requests.\<close>

fun spaced :: "duration \<Rightarrow> time list \<Rightarrow> bool" where
  "spaced d (x # y # ts) \<longleftrightarrow> x + d \<le> y \<and> spaced (min limitStopMaxRetry (d * 2)) (y # ts)"
| "spaced d _ \<longleftrightarrow> True"

lemma spaced_Cons:
  "\<lbrakk>spaced (min limitStopMaxRetry (d * 2)) ts; \<forall>y \<in> set ts. x + d \<le> y\<rbrakk> \<Longrightarrow> spaced d (x # ts)"
  by (cases ts) auto

lemma poll_closed_sent:
  "poll_closed ts w c t d j = (r, j') \<Longrightarrow> jb_sent j' = jb_sent j \<and> jb_time j \<le> jb_time j'"
proof (induction "nat (d - jb_time j)" arbitrary: j rule: less_induct)
  case less
  show ?case
  proof (cases "jb_time j < d")
    case True
    obtain res j1 where one: "transactionClosed ts w c t j = (res, j1)" by fastforce
    have j1: "jb_sent j1 = jb_sent j" "jb_time j \<le> jb_time j1"
      using one by (auto simp: transactionClosed_def Let_def split: prod.splits)
    show ?thesis
    proof (cases "res = Inr True")
      case stop: True
      then show ?thesis using less.prems True one j1 by (simp add: poll_closed.simps [of ts w c t d j])
    next
      case False
      then have "poll_closed ts w c t d (sleep limitStopPollInterval j1) = (r, j')"
        using less.prems True one
        by (auto simp: poll_closed.simps [of ts w c t d j] split: sum.splits bool.splits)
      then show ?thesis
        using less.hyps [of "sleep limitStopPollInterval j1"] True j1
        by (force simp: sleep_def limitStopPollInterval_def duration_defs)
    qed
  next
    case False
    then show ?thesis using less.prems by (simp add: poll_closed.simps [of ts w c t d j])
  qed
qed

definition stop_requests :: "string \<Rightarrow> int \<Rightarrow> time list \<Rightarrow> (time \<times> request) list" where
  "stop_requests c t = map (\<lambda>x. (x, ReqRemoteStopTransaction c t))"

lemma limit_attempts_pace:
  assumes "limit_attempts ts w c t n d j = (r, j')" and "0 \<le> d"
  shows "\<exists>xs. jb_sent j' = jb_sent j @ stop_requests c t xs \<and> length xs \<le> n
    \<and> (\<forall>x \<in> set xs. jb_time j \<le> x) \<and> spaced d xs"
  using assms
proof (induction n arbitrary: d j)
  case 0
  then show ?case by (auto simp: stop_requests_def)
next
  case (Suc n)
  obtain cl j1 where one: "transactionClosed ts w c t j = (cl, j1)" by fastforce
  have j1: "jb_sent j1 = jb_sent j" "jb_time j \<le> jb_time j1"
    using one by (auto simp: transactionClosed_def Let_def split: prod.splits)
  show ?case
  proof (cases "cl = Inr True")
    case True
    then show ?thesis using Suc.prems(1) one j1 by (auto simp: stop_requests_def intro!: exI [of _ "[]"])
  next
    case False
    obtain st err j2 where two: "send_stop w c t j1 = ((st, err), j2)" by (metis prod.exhaust)
    have j2: "jb_sent j2 = jb_sent j @ stop_requests c t [jb_time j1]" "jb_time j2 = jb_time j1"
      using two j1 by (auto simp: send_stop_def RemoteStopTransaction_def Let_def stop_requests_def)
    define step where "step = (if err = None \<and> EqualFold (TrimSpace st) ''Accepted''
      then waitForTransactionClosed ts w c t limitStopConfirmationWait j2 else (False, j2))"
    obtain b j3 where three: "step = (b, j3)" by fastforce
    have j3: "jb_sent j3 = jb_sent j @ stop_requests c t [jb_time j1]" "jb_time j1 \<le> jb_time j3"
      using three j2 poll_closed_sent [of ts w c t _ j2 b j3]
      by (auto simp: step_def waitForTransactionClosed_def split: if_splits)
    show ?thesis
    proof (cases "b \<or> n = 0")
      case True
      then have "j' = j3"
        using Suc.prems(1) one two False three by (auto simp: step_def [symmetric] split: bool.splits)
      then show ?thesis using j3 j1 by (intro exI [of _ "[jb_time j1]"]) simp
    next
      case more: False
      then have rest: "limit_attempts ts w c t n (min limitStopMaxRetry (d * 2)) (sleep d j3) = (r, j')"
        using Suc.prems(1) one two False three by (auto simp: step_def [symmetric])
      have "0 \<le> min limitStopMaxRetry (d * 2)"
        using Suc.prems(2) by (simp add: limitStopMaxRetry_def duration_defs)
      from Suc.IH [OF rest this] obtain xs where xs: "jb_sent j' = jb_sent j3 @ stop_requests c t xs"
        "length xs \<le> n" "\<forall>x \<in> set xs. jb_time j3 + d \<le> x" "spaced (min limitStopMaxRetry (d * 2)) xs"
        by (auto simp: sleep_def)
      have "spaced d (jb_time j1 # xs)" using xs(3,4) j3(2) by (intro spaced_Cons) auto
      then show ?thesis using xs j3 j1 Suc.prems(2)
        by (intro exI [of _ "jb_time j1 # xs"]) (auto simp: stop_requests_def)
    qed
  qed
qed

text \<open>
  C25. Whatever the store, the other goroutines, the charger and the clock do, the limit-stop
  goroutine returns, and it has sent nothing but remote stops of its own transaction, at most six
  of them, the gaps between them at least 2, 4, 8, 16 and 30 seconds.
\<close>

theorem limit_stop_pace:
  "\<exists>xs. jb_sent (snd (requestLimitStopUntilClosed ts w c t j)) = jb_sent j @ stop_requests c t xs
     \<and> length xs \<le> 6 \<and> spaced (2 * Second) xs"
proof -
  obtain b j1 where at: "limit_attempts ts w c t limitStopMaxAttempts limitStopInitialRetry j = (b, j1)"
    by fastforce
  have "jb_sent (snd (requestLimitStopUntilClosed ts w c t j)) = jb_sent j1"
    using at by (simp add: requestLimitStopUntilClosed_def Let_def split: bool.splits prod.splits)
  moreover have "0 \<le> limitStopInitialRetry" by (simp add: limitStopInitialRetry_def duration_defs)
  ultimately show ?thesis
    using limit_attempts_pace [OF at] by (auto simp: limitStopMaxAttempts_def limitStopInitialRetry_def)
qed

end
