(* ===== verification/Recovery.thy ===== *)
theory Recovery
  imports Limit_Stop
begin

text \<open>
  \<open>recovery.go\<close> and \<open>remote_only.go\<close>: what a BootNotification sets off.  The open transactions of
  the charger are listed at once and handed to a goroutine, which closes those whose connector is
  idle and asks the charger to stop the others.  The goroutine runs beside everything else: before
  its \<open>n\<close>-th step other goroutines do \<open>rw_other n\<close>, the step takes \<open>rw_lag n\<close>, and its requests are
  answered by \<open>rw_central n\<close>.  Its context ends at a deadline on the same clock.
\<close>

section \<open>Scheduling\<close>

definition scheduleBootRecovery ::
  "('e, 's) TransactionStore \<Rightarrow> 'e \<Rightarrow> 's hal \<Rightarrow> string \<Rightarrow> 's hal" where
  "scheduleBootRecovery ts e h chargerID =
     (if chargerID \<in> set (hal_boot_running h) then h
      else
        (case m_ListOpenTransactionsByCharger ts e (hal_store h) chargerID of
           (Inl err, s) \<Rightarrow> h\<lparr>hal_store := s\<rparr>
         | (Inr openTxs, s) \<Rightarrow>
             if openTxs = [] then h\<lparr>hal_store := s\<rparr>
             else h\<lparr>hal_store := s, hal_boot_running := chargerID # hal_boot_running h,
                    hal_boot_jobs := hal_boot_jobs h @ [(chargerID, openTxs)]\<rparr>))"

section \<open>The recovery goroutine\<close>

definition bootRecoveryDelay :: duration where "bootRecoveryDelay = 10 * Second"
definition bootRecoveryMaxRuntime :: duration where "bootRecoveryMaxRuntime = 5 * Minute"

record ('e, 's) recovery_world =
  rw_store :: "nat \<Rightarrow> 'e"
  rw_other :: "nat \<Rightarrow> 's hal \<Rightarrow> 's hal"
  rw_central :: "nat \<Rightarrow> central"
  rw_now :: "nat \<Rightarrow> clock"
  rw_lag :: "nat \<Rightarrow> nat"

record 's recovery =
  rj_hal :: "'s hal"
  rj_n :: nat
  rj_time :: time
  rj_sent :: "request list"

text \<open>The start of a step: the others run, time passes, and the step counter moves on.\<close>

definition begin_step :: "('e, 's) recovery_world \<Rightarrow> 's recovery \<Rightarrow> 's recovery" where
  "begin_step w j =
     j\<lparr>rj_hal := rw_other w (rj_n j) (rj_hal j), rj_n := Suc (rj_n j),
       rj_time := rj_time j + int (rw_lag w (rj_n j))\<rparr>"

definition isGhostAvailableTransaction :: "Registry \<Rightarrow> Transaction \<Rightarrow> bool" where
  "isGhostAvailableTransaction r tx =
     (case Snapshot r (tx_ChargerID tx) of
        None \<Rightarrow> False
      | Some snapshot \<Rightarrow>
          (case map_of (ch_Connectors snapshot) (Itoa (tx_ConnectorID tx)) of
             None \<Rightarrow> False
           | Some conn \<Rightarrow>
               EqualFold (TrimSpace (cs_Status conn)) ''Available''
               \<and> (cs_TransactionID conn = None \<or> cs_TransactionID conn = Some (tx_TransactionID tx))))"

definition forceCloseGhostTransaction ::
  "('e, 's) TransactionStore \<Rightarrow> ('e, 's) HookSink option \<Rightarrow> ('e, 's) recovery_world
   \<Rightarrow> Transaction \<Rightarrow> 's recovery \<Rightarrow> 's recovery" where
  "forceCloseGhostTransaction ts hooks w tx j0 =
     (let j = begin_step w j0; h = rj_hal j; n = rj_n j0;
          meterStop = (case tx_MeterStop tx of None \<Rightarrow> tx_MeterStart tx | Some m \<Rightarrow> m)
      in case m_ForceCloseTransaction ts (rw_store w n) (hal_store h)
                \<lparr>fc_ChargerID = tx_ChargerID tx, fc_TransactionID = tx_TransactionID tx,
                 fc_MeterStop = meterStop, fc_Reason = ''boot_recovery_ghost_available''\<rparr> of
           (Inl err, s) \<Rightarrow> j\<lparr>rj_hal := h\<lparr>hal_store := s\<rparr>\<rparr>
         | (Inr closedTx, s) \<Rightarrow>
             let r = ApplyStopTransaction (rw_now w n) (hal_registry h)
                       (tx_ChargerID tx) (tx_ConnectorID tx) meterStop;
                 j1 = begin_step w (j\<lparr>rj_hal := h\<lparr>hal_store := s, hal_registry := r\<rparr>\<rparr>)
             in case hooks of
                  None \<Rightarrow> j1
                | Some hk \<Rightarrow>
                    j1\<lparr>rj_hal := (rj_hal j1)
                        \<lparr>hal_store := snd (hk_EnqueueCompletedTransaction hk (rw_store w (rj_n j))
                                           (hal_store (rj_hal j1)) closedTx)\<rparr>\<rparr>)"

definition hydrateOpenTransaction :: "clock \<Rightarrow> Registry \<Rightarrow> Transaction \<Rightarrow> Registry" where
  "hydrateOpenTransaction now r tx =
     (let r1 = ApplyStartTransaction now r (tx_ChargerID tx) (tx_ConnectorID tx)
                 (tx_TransactionID tx) (tx_MeterStart tx)
      in case tx_MeterStop tx of
           None \<Rightarrow> r1
         | Some m \<Rightarrow> ApplyMeterValue now r1 (tx_ChargerID tx) (tx_ConnectorID tx)
                       (Some (tx_TransactionID tx)) m)"

text \<open>
  The delay before the \<open>k\<close>-th repetition: 2 seconds doubled each time, at most a minute.  When the
  context ends first, the loop returns at its head.
\<close>

definition recovery_delay :: "nat \<Rightarrow> duration" where
  "recovery_delay k = min Minute (2 * Second * 2 ^ k)"

lemma recovery_delay_pos: "0 < recovery_delay k"
  by (simp add: recovery_delay_def duration_defs)

lemma recovery_delay_lag [simp]:
  "- int n < recovery_delay k" "- int n - recovery_delay k < int m"
  using recovery_delay_pos [of k] by simp_all

lemma begin_step_time: "rj_time j \<le> rj_time (begin_step w j)"
  by (simp add: begin_step_def)

function remoteStopAndUnlockWithRetry ::
  "('e, 's) recovery_world \<Rightarrow> time \<Rightarrow> Transaction \<Rightarrow> nat \<Rightarrow> 's recovery \<Rightarrow> 's recovery" where
  "remoteStopAndUnlockWithRetry w deadline tx k j0 =
     (if deadline \<le> rj_time j0 then j0
      else
        let j = begin_step w j0;
            ((stopStatus, stopErr), stopReqs) =
              RemoteStopTransaction (rw_central w (rj_n j0)) (tx_ChargerID tx) (tx_TransactionID tx);
            j1 = j\<lparr>rj_sent := rj_sent j @ stopReqs\<rparr>;
            (unlocked, j2) =
              (if stopErr \<noteq> None then (False, j1)
               else
                 let j1' = begin_step w j1;
                     ((unlockStatus, unlockErr), unlockReqs) =
                       UnlockConnector (rw_central w (rj_n j1)) (tx_ChargerID tx) (tx_ConnectorID tx)
                 in (unlockErr = None, j1'\<lparr>rj_sent := rj_sent j1' @ unlockReqs\<rparr>))
        in if unlocked then j2
           else remoteStopAndUnlockWithRetry w deadline tx (Suc k)
                  (j2\<lparr>rj_time := rj_time j2 + recovery_delay k\<rparr>))"
  by pat_completeness auto
termination
  by (relation "measure (\<lambda>(w, deadline, tx, k, j). nat (deadline - rj_time j))")
    (auto simp: begin_step_def split: if_splits prod.splits)

declare remoteStopAndUnlockWithRetry.simps [simp del]

definition recoverOne ::
  "('e, 's) TransactionStore \<Rightarrow> ('e, 's) HookSink option \<Rightarrow> ('e, 's) recovery_world
   \<Rightarrow> time \<Rightarrow> string \<Rightarrow> Transaction \<Rightarrow> 's recovery \<Rightarrow> 's recovery" where
  "recoverOne ts hooks w deadline chargerID bootTx j0 =
     (let j = begin_step w j0; h = rj_hal j in
      case m_GetByTransactionID ts (rw_store w (rj_n j0)) (hal_store h) chargerID (tx_TransactionID bootTx) of
        (Inl err, s) \<Rightarrow> j\<lparr>rj_hal := h\<lparr>hal_store := s\<rparr>\<rparr>
      | (Inr tx, s) \<Rightarrow>
          let j1 = j\<lparr>rj_hal := h\<lparr>hal_store := s\<rparr>\<rparr> in
          if tx_StopTime tx \<noteq> None then j1
          else if isGhostAvailableTransaction (hal_registry (rj_hal j1)) tx
          then forceCloseGhostTransaction ts hooks w tx j1
          else
            let j2 = j1\<lparr>rj_hal := (rj_hal j1)\<lparr>hal_registry :=
                       hydrateOpenTransaction (rw_now w (rj_n j1)) (hal_registry (rj_hal j1)) tx\<rparr>\<rparr>
            in remoteStopAndUnlockWithRetry w deadline tx 0 j2)"

definition recoverOpenTransactions ::
  "('e, 's) TransactionStore \<Rightarrow> ('e, 's) HookSink option \<Rightarrow> ('e, 's) recovery_world
   \<Rightarrow> time \<Rightarrow> string \<Rightarrow> Transaction list \<Rightarrow> 's recovery \<Rightarrow> 's recovery" where
  "recoverOpenTransactions ts hooks w deadline chargerID bootOpenTxs j =
     fold (recoverOne ts hooks w deadline chargerID) bootOpenTxs j"

text \<open>The goroutine: wait, recover under the five-minute context, and allow the next recovery.\<close>

definition boot_recovery_job ::
  "('e, 's) TransactionStore \<Rightarrow> ('e, 's) HookSink option \<Rightarrow> ('e, 's) recovery_world
   \<Rightarrow> string \<Rightarrow> Transaction list \<Rightarrow> 's recovery \<Rightarrow> 's recovery" where
  "boot_recovery_job ts hooks w chargerID openTxs j =
     (let j1 = j\<lparr>rj_time := rj_time j + bootRecoveryDelay\<rparr>;
          j2 = recoverOpenTransactions ts hooks w (rj_time j1 + bootRecoveryMaxRuntime) chargerID openTxs j1
      in j2\<lparr>rj_hal := (rj_hal j2)\<lparr>hal_boot_running :=
              removeAll chargerID (hal_boot_running (rj_hal j2))\<rparr>\<rparr>)"

end
