(* ===== verification/Remote_Only.thy ===== *)
theory Remote_Only
  imports Hal_State
begin

text \<open>
  \<open>remote_only.go\<close>: after the first boot of a charger, bring its configuration keys to the values
  of remote-only operation.  The two \<open>range\<close> loops over the table run in the orders \<open>ord1\<close> and
  \<open>ord2\<close>.
\<close>

definition scheduleRemoteOnlyConfigSync :: "'s hal \<Rightarrow> string \<Rightarrow> 's hal" where
  "scheduleRemoteOnlyConfigSync h chargePointID =
     (if chargePointID \<in> set (hal_sync_once h) then h
      else h\<lparr>hal_sync_once := chargePointID # hal_sync_once h,
             hal_sync_jobs := hal_sync_jobs h @ [chargePointID]\<rparr>)"

definition desired :: "(string, string) gomap" where
  "desired =
     [(''HeartbeatInterval'', ''15''),
      (''MeterValueSampleInterval'', ''15''),
      (''AuthorizeRemoteTxRequests'', ''true''),
      (''LocalAuthorizeOffline'', ''false''),
      (''LocalPreAuthorize'', ''false''),
      (''AuthorizationCacheEnabled'', ''false''),
      (''AllowOfflineTxForUnknownId'', ''false''),
      (''StopTransactionOnInvalidId'', ''true''),
      (''ChargePointAuthEnable'', ''true''),
      (''FreevendEnabled'', ''false'')]"

definition current_values :: "config_item list \<Rightarrow> (string, string) gomap" where
  "current_values items =
     fold (\<lambda>item m. AList.update (ci_Key item)
             (case ci_Value item of None \<Rightarrow> '''' | Some v \<Rightarrow> v) m) items []"

definition sync_key :: "central \<Rightarrow> string \<Rightarrow> (string, string) gomap \<Rightarrow> string \<times> string \<Rightarrow> request list" where
  "sync_key cs chargePointID current kv =
     (let (key, want) = kv in
      case map_of current key of
        None \<Rightarrow> []
      | Some got \<Rightarrow>
          if TrimSpace got = want then []
          else snd (ChangeConfiguration cs chargePointID key want))"

definition EnforceRemoteOnlyMode ::
  "central \<Rightarrow> string list \<Rightarrow> string list \<Rightarrow> string \<Rightarrow> request list" where
  "EnforceRemoteOnlyMode cs ord1 ord2 chargePointID =
     (let keys = map fst (range_order ord1 desired);
          (conf, reqs) = GetConfiguration cs chargePointID keys
      in case conf of
           Inl err \<Rightarrow> reqs
         | Inr items \<Rightarrow>
             reqs @ concat (map (sync_key cs chargePointID (current_values items)) (range_order ord2 desired)))"

lemma desired_ok [simp]: "gomap_ok desired"
  by (simp add: gomap_ok_def desired_def)

definition sync_changes :: "string \<Rightarrow> (string, string) gomap \<Rightarrow> request set" where
  "sync_changes c current =
     {ReqChangeConfiguration c key want | key want got.
        map_of desired key = Some want \<and> map_of current key = Some got \<and> TrimSpace got \<noteq> want}"

lemma set_sync_key:
  "set (sync_key cs c current (key, want)) =
     (case map_of current key of None \<Rightarrow> {}
      | Some got \<Rightarrow> if TrimSpace got = want then {} else {ReqChangeConfiguration c key want})"
  by (cases "map_of current key") (simp_all add: sync_key_def ChangeConfiguration_def Let_def)

lemma set_sync:
  "set (concat (map (sync_key cs c current) kvs)) =
     {ReqChangeConfiguration c key want | key want got.
        (key, want) \<in> set kvs \<and> map_of current key = Some got \<and> TrimSpace got \<noteq> want}"
proof (induction kvs)
  case (Cons kv kvs)
  obtain key want where kv: "kv = (key, want)" by fastforce
  have "set (sync_key cs c current kv) =
      {ReqChangeConfiguration c key want |got. map_of current key = Some got \<and> TrimSpace got \<noteq> want}"
    by (cases "map_of current key") (auto simp: kv set_sync_key)
  then show ?case unfolding list.map concat.simps set_append Cons.IH by (auto simp: kv)
qed simp

lemma distinct_sync:
  assumes "distinct (map fst kvs)"
  shows "distinct (concat (map (sync_key cs c current) kvs))"
  using assms
proof (induction kvs)
  case (Cons kv kvs)
  obtain key want where kv: "kv = (key, want)" by fastforce
  have len: "distinct (sync_key cs c current kv)"
    by (simp add: kv sync_key_def ChangeConfiguration_def Let_def split: option.splits)
  have "set (sync_key cs c current kv) \<inter> set (concat (map (sync_key cs c current) kvs)) = {}"
    using Cons.prems
    by (force simp: kv set_sync_key split: option.splits if_splits)
  with Cons len show ?case by simp
qed simp

text \<open>
  C29. In every iteration order of the two loops, the sync sends one GetConfiguration for exactly
  the managed keys, and then one ChangeConfiguration, with the wanted value, for exactly those
  managed keys the charger reported with another value; a charger that already holds the wanted
  values is not written to, and neither is one that did not answer.
\<close>

theorem remote_only_sync_sends:
  "\<exists>keys rest. EnforceRemoteOnlyMode cs ord1 ord2 c = ReqGetConfiguration c keys # rest
     \<and> distinct keys \<and> set keys = dom (map_of desired) \<and> distinct rest
     \<and> set rest = (case await_conf ''GetConfiguration'' (ce_configuration cs (ReqGetConfiguration c keys)) of
          Inl err \<Rightarrow> {} | Inr items \<Rightarrow> sync_changes c (current_values items))"
proof -
  let ?keys = "map fst (range_order ord1 desired)"
  have ok: "gomap_ok (range_order ord1 desired)" "gomap_ok (range_order ord2 desired)" by simp_all
  have keys: "distinct ?keys" "set ?keys = dom (map_of desired)"
    using ok(1) set_range_order [OF desired_ok, of ord1]
    by (simp_all add: gomap_ok_def dom_map_of_conv_image_fst del: set_range_order)
  have rest: "set (concat (map (sync_key cs c current) (range_order ord2 desired))) = sync_changes c current" for current
    unfolding set_sync sync_changes_def set_range_order [OF desired_ok]
    by (simp only: gomap_set_iff [OF desired_ok])
  have "distinct (concat (map (sync_key cs c current) (range_order ord2 desired)))" for current
    using ok(2) by (intro distinct_sync) (simp add: gomap_ok_def)
  then show ?thesis
    using keys rest
    by (auto simp: EnforceRemoteOnlyMode_def GetConfiguration_def Let_def split: sum.splits)
qed

end
