(* ===== verification/Go_ParseFloat.thy ===== *)
theory Go_ParseFloat
  imports Go_Float Go_Strings
begin

text \<open>
  \<open>strconv.ParseFloat(s, 64)\<close> and \<open>strconv.FormatFloat(x, 'f', -1, 64)\<close>.  Parsing follows
  \<open>readFloat\<close>: an optional sign, decimal or hexadecimal digits with at most one point and with
  underscores where Go literals allow them, an exponent whose size saturates, or one of the words
  for infinity and NaN.  The result is the correctly rounded value; \<open>None\<close> stands for a syntax
  error and for a value that rounds to infinity.
\<close>

section \<open>Parsing\<close>

definition lower_code :: "char \<Rightarrow> int" where
  "lower_code c = (let n = code c in if 65 \<le> n \<and> n \<le> 90 then n + 32 else n)"

definition is_hex_letter :: "char \<Rightarrow> bool" where
  "is_hex_letter c \<longleftrightarrow> 97 \<le> lower_code c \<and> lower_code c \<le> 102"

record scan =
  sn_mantissa :: int
  sn_frac :: nat
  sn_sawdot :: bool
  sn_sawdigits :: bool
  sn_underscores :: bool

definition scan0 :: scan where
  "scan0 = \<lparr>sn_mantissa = 0, sn_frac = 0, sn_sawdot = False, sn_sawdigits = False, sn_underscores = False\<rparr>"

definition scan_digit :: "int \<Rightarrow> int \<Rightarrow> scan \<Rightarrow> scan" where
  "scan_digit b d st =
     st\<lparr>sn_mantissa := sn_mantissa st * b + d, sn_sawdigits := True,
        sn_frac := (if sn_sawdot st then Suc (sn_frac st) else sn_frac st)\<rparr>"

fun scan_mantissa :: "bool \<Rightarrow> scan \<Rightarrow> string \<Rightarrow> scan \<times> string" where
  "scan_mantissa hex st [] = (st, [])"
| "scan_mantissa hex st (c # s) =
     (if c = CHR ''_'' then scan_mantissa hex (st\<lparr>sn_underscores := True\<rparr>) s
      else if c = CHR ''.'' then
        (if sn_sawdot st then (st, c # s) else scan_mantissa hex (st\<lparr>sn_sawdot := True\<rparr>) s)
      else if is_digit c then scan_mantissa hex (scan_digit (if hex then 16 else 10) (digit_val c) st) s
      else if hex \<and> is_hex_letter c then scan_mantissa hex (scan_digit 16 (lower_code c - 87) st) s
      else (st, c # s))"

fun scan_exponent :: "int \<Rightarrow> bool \<Rightarrow> string \<Rightarrow> int \<times> bool \<times> string" where
  "scan_exponent e us [] = (e, us, [])"
| "scan_exponent e us (c # s) =
     (if c = CHR ''_'' then scan_exponent e True s
      else if is_digit c then scan_exponent (if e < 10000 then e * 10 + digit_val c else e) us s
      else (e, us, c # s))"

datatype seen = At_start | Digit | Underscore | Other

fun underscore_walk :: "bool \<Rightarrow> seen \<Rightarrow> string \<Rightarrow> bool" where
  "underscore_walk hex i [] = (i \<noteq> Underscore)"
| "underscore_walk hex i (c # s) =
     (if is_digit c \<or> (hex \<and> is_hex_letter c) then underscore_walk hex Digit s
      else if c = CHR ''_'' then i = Digit \<and> underscore_walk hex Underscore s
      else i \<noteq> Underscore \<and> underscore_walk hex Other s)"

definition split_sign :: "string \<Rightarrow> bool \<times> string" where
  "split_sign s =
     (case s of [] \<Rightarrow> (False, [])
      | c # r \<Rightarrow> if c = CHR ''-'' then (True, r) else if c = CHR ''+'' then (False, r) else (False, s))"

definition underscoreOK :: "string \<Rightarrow> bool" where
  "underscoreOK s =
     (let s = snd (split_sign s) in
      (case s of
        c # d # r \<Rightarrow>
          if c = CHR ''0'' \<and> lower_code d \<in> {98, 111, 120} then underscore_walk (lower_code d = 120) Digit r
          else underscore_walk False At_start s
      | _ \<Rightarrow> underscore_walk False At_start s))"

definition special :: "string \<Rightarrow> float64 option" where
  "special s =
     (let (neg, r) = split_sign s; low = map lower_code r in
      if low = map code ''inf'' \<or> low = map code ''infinity'' then Some (if neg then NegInf else PosInf)
      else if map lower_code s = map code ''nan'' then Some NaN
      else None)"

text \<open>A power with an integer exponent.\<close>

definition rpow :: "rat \<Rightarrow> int \<Rightarrow> rat" where
  "rpow b e = (if 0 \<le> e then b ^ nat e else 1 / b ^ nat (- e))"

definition finite_float :: "bool \<Rightarrow> rat \<Rightarrow> float64 option" where
  "finite_float neg v =
     (case f_round v of
        Fin q \<Rightarrow> Some (if neg then f_neg (Fin q) else Fin q)
      | _ \<Rightarrow> None)"

definition readFloat :: "string \<Rightarrow> float64 option" where
  "readFloat s =
     (let (neg, r) = split_sign s;
          hex = (case r of c # d # x # _ \<Rightarrow> c = CHR ''0'' \<and> lower_code d = 120 | _ \<Rightarrow> False);
          (st, rest) = scan_mantissa hex scan0 (if hex then drop 2 r else r)
      in if \<not> sn_sawdigits st then None
         else
           let expChar = (if hex then 112 else 101);
               mant = of_int (sn_mantissa st) * rpow (if hex then 16 else 10) (- int (sn_frac st));
               finish = (\<lambda>e us. if us \<and> \<not> underscoreOK s then None
                                else finite_float neg (mant * rpow (if hex then 2 else 10) e))
           in (case rest of
                [] \<Rightarrow> if hex then None else finish 0 (sn_underscores st)
              | c # r2 \<Rightarrow>
                  if lower_code c \<noteq> expChar then None
                  else
                    let (eneg, r3) = split_sign r2 in
                    (case r3 of
                      [] \<Rightarrow> None
                    | d # _ \<Rightarrow>
                        if \<not> is_digit d then None
                        else
                          let (e, us, r4) = scan_exponent 0 (sn_underscores st) r3
                          in if r4 \<noteq> [] then None else finish (if eneg then - e else e) us)))"

definition ParseFloat :: "string \<Rightarrow> float64 option" where
  "ParseFloat s = (case special s of Some f \<Rightarrow> Some f | None \<Rightarrow> readFloat s)"

section \<open>Printing\<close>

text \<open>
  The shortest decimal that reads back as the same float: for each number of digits the two
  neighbours of the value, and the nearer of them if both read back.
\<close>

definition dec_exp :: "rat \<Rightarrow> int" where
  "dec_exp q =
     (let (n, d) = quotient_of q;
          k = int (length (dec n)) - int (length (dec d))
      in if rpow 10 k \<le> q then k else k - 1)"

definition candidate :: "rat \<Rightarrow> nat \<Rightarrow> (int \<times> int) option" where
  "candidate q n =
     (let e = dec_exp q - int n + 1;
          m = q * rpow 10 (- e);
          lo = \<lfloor>m\<rfloor>; hi = lo + 1;
          ok = (\<lambda>i. f_round (of_int i * rpow 10 e) = Fin q)
      in if ok lo \<and> (\<not> ok hi \<or> m - of_int lo < of_int hi - m \<or> (m - of_int lo = of_int hi - m \<and> even lo))
         then Some (lo, e)
         else if ok hi then Some (hi, e) else None)"

fun shortest :: "rat \<Rightarrow> nat \<Rightarrow> nat \<Rightarrow> int \<times> int" where
  "shortest q 0 n = (0, 0)"
| "shortest q (Suc k) n = (case candidate q n of Some me \<Rightarrow> me | None \<Rightarrow> shortest q k (Suc n))"

definition fixed_digits :: "int \<times> int \<Rightarrow> string" where
  "fixed_digits me =
     (let (m, e) = me; ds = dec m in
      if 0 \<le> e then ds @ replicate (nat e) (CHR ''0'')
      else
        let k = nat (- e); whole = replicate (k + 1 - length ds) (CHR ''0'') @ ds;
            cut = length whole - k;
            frac = rev (dropWhile (\<lambda>c. c = CHR ''0'') (rev (drop cut whole)))
        in take cut whole @ (if frac = [] then [] else CHR ''.'' # frac))"

definition FormatFloat :: "float64 \<Rightarrow> string" where
  "FormatFloat x =
     (case x of
        NaN \<Rightarrow> ''NaN'' | PosInf \<Rightarrow> ''+Inf'' | NegInf \<Rightarrow> ''-Inf'' | NegZero \<Rightarrow> ''-0''
      | Fin q \<Rightarrow>
          if q = 0 then ''0''
          else if q < 0 then CHR ''-'' # fixed_digits (shortest (- q) 17 1)
          else fixed_digits (shortest q 17 1))"

end
