(* ===== verification/Hal.thy ===== *)
theory Hal
  imports Recovery Remote_Only Go_ParseFloat
begin

text \<open>
  The OCPP message handlers of \<open>hal.go\<close> and \<open>extra.go\<close>, each as one step on the state of the HAL.
  A handler answers with an error, which the OCPP library turns into a CALLERROR, or with its
  confirmation.  A charger has one request outstanding at a time, so the handlers of one charger
  do not overlap.
\<close>

section \<open>Messages\<close>

record StartTransactionRequest =
  sr_ConnectorId :: int
  sr_IdTag :: string
  sr_MeterStart :: int

record StopTransactionRequest =
  pr_TransactionId :: int
  pr_MeterStop :: int

record SampledValue =
  sv_Value :: string
  sv_Measurand :: string
  sv_Unit :: string

record MeterValuesRequest =
  mr_ConnectorId :: int
  mr_TransactionId :: "int option"
  mr_MeterValue :: "SampledValue list list"

record StatusNotificationRequest =
  nr_ConnectorId :: int
  nr_Status :: string
  nr_ErrorCode :: string

datatype auth_status = Accepted | Blocked

type_synonym start_conf = "auth_status \<times> int"

definition heartbeatIntervalSeconds :: int where
  "heartbeatIntervalSeconds = 900"

section \<open>Plain handlers\<close>

definition touch_hal :: "clock \<Rightarrow> 's hal \<Rightarrow> string \<Rightarrow> 's hal" where
  "touch_hal now h cp = h\<lparr>hal_registry := Touch now (hal_registry h) cp\<rparr>"

definition OnAuthorize :: "'e hal_env \<Rightarrow> 's hal \<Rightarrow> string \<Rightarrow> (go_error + auth_status) \<times> 's hal" where
  "OnAuthorize env h cp = (Inr Accepted, touch_hal (he_now env 0) h cp)"

definition OnBootNotification ::
  "('e, 's) TransactionStore \<Rightarrow> 'e hal_env \<Rightarrow> 's hal \<Rightarrow> string \<Rightarrow> (go_error + (time \<times> int \<times> auth_status)) \<times> 's hal" where
  "OnBootNotification ts env h cp =
     (let h1 = touch_hal (he_now env 0) h cp;
          h2 = scheduleRemoteOnlyConfigSync h1 cp;
          h3 = scheduleBootRecovery ts (he_store env 0) h2 cp
      in (Inr (he_now env 1 0, heartbeatIntervalSeconds, Accepted), h3))"

definition OnDataTransfer :: "'e hal_env \<Rightarrow> 's hal \<Rightarrow> string \<Rightarrow> (go_error + auth_status) \<times> 's hal" where
  "OnDataTransfer env h cp = (Inr Accepted, touch_hal (he_now env 0) h cp)"

definition OnHeartbeat :: "'e hal_env \<Rightarrow> 's hal \<Rightarrow> string \<Rightarrow> (go_error + time) \<times> 's hal" where
  "OnHeartbeat env h cp = (Inr (he_now env 1 0), touch_hal (he_now env 0) h cp)"

definition OnStatusNotification ::
  "'e hal_env \<Rightarrow> 's hal \<Rightarrow> string \<Rightarrow> StatusNotificationRequest \<Rightarrow> (go_error + unit) \<times> 's hal" where
  "OnStatusNotification env h cp req =
     (Inr (), h\<lparr>hal_registry := ApplyStatusNotification (he_now env 0) (hal_registry h) cp
                 (nr_ConnectorId req) (nr_Status req) (nr_ErrorCode req)\<rparr>)"

definition OnDiagnosticsStatusNotification :: "'e hal_env \<Rightarrow> 's hal \<Rightarrow> string \<Rightarrow> (go_error + unit) \<times> 's hal" where
  "OnDiagnosticsStatusNotification env h cp = (Inr (), touch_hal (he_now env 0) h cp)"

definition OnFirmwareStatusNotification :: "'e hal_env \<Rightarrow> 's hal \<Rightarrow> string \<Rightarrow> (go_error + unit) \<times> 's hal" where
  "OnFirmwareStatusNotification env h cp = (Inr (), touch_hal (he_now env 0) h cp)"

section \<open>StartTransaction\<close>

definition start_hook ::
  "('e, 's) HookSink option \<Rightarrow> 'e \<Rightarrow> 's \<Rightarrow> Transaction \<Rightarrow> ('s, unit) call" where
  "start_hook hooks e s tx =
     (case hooks of None \<Rightarrow> (Inr (), s) | Some hk \<Rightarrow> hk_EnqueueStartTransaction hk e s tx)"

definition completed_hook ::
  "('e, 's) HookSink option \<Rightarrow> 'e \<Rightarrow> 's \<Rightarrow> Transaction \<Rightarrow> ('s, unit) call" where
  "completed_hook hooks e s tx =
     (case hooks of None \<Rightarrow> (Inr (), s) | Some hk \<Rightarrow> hk_EnqueueCompletedTransaction hk e s tx)"

text \<open>The body of the loop for the first open transaction on the connector.\<close>

definition retried_start ::
  "('e, 's) HookSink option \<Rightarrow> 'e hal_env \<Rightarrow> 's hal \<Rightarrow> string \<Rightarrow> StartTransactionRequest
   \<Rightarrow> Transaction \<Rightarrow> (go_error + start_conf) \<times> 's hal" where
  "retried_start hooks env h cp req existing =
     (let sameStart = (tx_IDTag existing = sr_IdTag req
                       \<and> f_eq (tx_MeterStart existing) (f_of_int (sr_MeterStart req)))
      in if \<not> sameStart then (Inr (Blocked, 0), h)
         else
           let r = ApplyStartTransaction (he_now env 1) (hal_registry h) cp (sr_ConnectorId req)
                     (tx_TransactionID existing) (f_of_int (sr_MeterStart req));
               h1 = h\<lparr>hal_registry := r\<rparr>
           in case start_hook hooks (he_store env 1) (hal_store h1) existing of
                (Inl err, s) \<Rightarrow>
                  (Inl (ErrWrap ''enqueue retried start transaction callback'' err), h1\<lparr>hal_store := s\<rparr>)
              | (Inr _, s) \<Rightarrow> (Inr (Accepted, tx_TransactionID existing), h1\<lparr>hal_store := s\<rparr>))"

definition fresh_start ::
  "('e, 's) TransactionStore \<Rightarrow> ('e, 's) HookSink option \<Rightarrow> 'e hal_env \<Rightarrow> 's hal \<Rightarrow> string
   \<Rightarrow> StartTransactionRequest \<Rightarrow> (go_error + start_conf) \<times> 's hal" where
  "fresh_start ts hooks env h cp req =
     (let (single, pending) = consumePendingSingleSession (he_order env) (hal_pending h) cp
                                (sr_ConnectorId req) (sr_IdTag req);
          h1 = h\<lparr>hal_pending := pending\<rparr>
      in case m_CreateTransaction ts (he_store env 1) (hal_store h1)
                \<lparr>ct_ChargerID = cp, ct_ConnectorID = sr_ConnectorId req,
                 ct_MeterStart = f_of_int (sr_MeterStart req), ct_IDTag = sr_IdTag req,
                 ct_IsSingleSession = single\<rparr> of
           (Inl err, s) \<Rightarrow> (Inr (Blocked, 0), h1\<lparr>hal_store := s\<rparr>)
         | (Inr tx, s) \<Rightarrow>
             let r = ApplyStartTransaction (he_now env 1) (hal_registry h1) cp (sr_ConnectorId req)
                       (tx_TransactionID tx) (f_of_int (sr_MeterStart req));
                 h2 = h1\<lparr>hal_store := s, hal_registry := r\<rparr>
             in case start_hook hooks (he_store env 2) (hal_store h2) tx of
                  (Inl err, s') \<Rightarrow>
                    (Inl (ErrWrap ''enqueue start transaction callback'' err), h2\<lparr>hal_store := s'\<rparr>)
                | (Inr _, s') \<Rightarrow> (Inr (Accepted, tx_TransactionID tx), h2\<lparr>hal_store := s'\<rparr>))"

definition OnStartTransaction ::
  "('e, 's) TransactionStore \<Rightarrow> ('e, 's) HookSink option \<Rightarrow> 'e hal_env \<Rightarrow> 's hal \<Rightarrow> string
   \<Rightarrow> StartTransactionRequest \<Rightarrow> (go_error + start_conf) \<times> 's hal" where
  "OnStartTransaction ts hooks env h cp req =
     (let h1 = touch_hal (he_now env 0) h cp in
      case m_ListOpenTransactionsByCharger ts (he_store env 0) (hal_store h1) cp of
        (Inl err, s) \<Rightarrow> (Inl (ErrWrap ''check existing transactions'' err), h1\<lparr>hal_store := s\<rparr>)
      | (Inr openTransactions, s) \<Rightarrow>
          let h2 = h1\<lparr>hal_store := s\<rparr> in
          case find (\<lambda>tx. tx_ConnectorID tx = sr_ConnectorId req) openTransactions of
            Some existing \<Rightarrow> retried_start hooks env h2 cp req existing
          | None \<Rightarrow> fresh_start ts hooks env h2 cp req)"

section \<open>MeterValues\<close>

text \<open>One meter value: the register sample if there is one, else the first sample.\<close>

definition sample_Wh :: "SampledValue list \<Rightarrow> float64 option" where
  "sample_Wh samples =
     (case samples of
        [] \<Rightarrow> None
      | first # _ \<Rightarrow>
          let selected = (case find (\<lambda>s. EqualFold (sv_Measurand s) ''Energy.Active.Import.Register'') samples of
                            Some s \<Rightarrow> s | None \<Rightarrow> first)
          in case ParseFloat (TrimSpace (sv_Value selected)) of
               None \<Rightarrow> None
             | Some val \<Rightarrow>
                 let unit_name = ToLower (TrimSpace (sv_Unit selected)) in
                 Some (if unit_name = ''kwh'' \<or> unit_name = ''kilowatthour'' then f_mul val (Fin 1000) else val))"

fun last_readable :: "SampledValue list list \<Rightarrow> float64 option" where
  "last_readable [] = None"
| "last_readable (mv # mvs) =
     (case sample_Wh mv of Some v \<Rightarrow> Some v | None \<Rightarrow> last_readable mvs)"

text \<open>The loop runs from the last meter value to the first.\<close>

definition extractMeterValueWh :: "MeterValuesRequest \<Rightarrow> float64 option" where
  "extractMeterValueWh req = last_readable (rev (mr_MeterValue req))"

definition meter_transaction :: "Registry \<Rightarrow> string \<Rightarrow> MeterValuesRequest \<Rightarrow> int option" where
  "meter_transaction r cp req =
     (case mr_TransactionId req of
        Some t \<Rightarrow> if t > 0 then Some t else TransactionIDForConnector r cp (mr_ConnectorId req)
      | None \<Rightarrow> TransactionIDForConnector r cp (mr_ConnectorId req))"

definition OnMeterValues ::
  "('e, 's) TransactionStore \<Rightarrow> 'e hal_env \<Rightarrow> 's hal \<Rightarrow> string \<Rightarrow> MeterValuesRequest
   \<Rightarrow> (go_error + unit) \<times> 's hal" where
  "OnMeterValues ts env h cp req =
     (let h1 = touch_hal (he_now env 0) h cp in
      case extractMeterValueWh req of
        None \<Rightarrow> (Inr (), h1)
      | Some meterValueWh \<Rightarrow>
          let txID64 = meter_transaction (hal_registry h1) cp req;
              h2 = h1\<lparr>hal_registry := ApplyMeterValue (he_now env 1) (hal_registry h1) cp
                       (mr_ConnectorId req) txID64 meterValueWh\<rparr>
          in case txID64 of
               None \<Rightarrow> (Inr (), h2)
             | Some t \<Rightarrow>
                 (case m_UpdateLiveMeter ts (he_store env 0) (hal_store h2)
                         \<lparr>ul_ChargerID = cp, ul_TransactionID = t, ul_MeterStop = meterValueWh\<rparr> of
                    (Inl err, s) \<Rightarrow> (Inr (), h2\<lparr>hal_store := s\<rparr>)
                  | (Inr _, s) \<Rightarrow>
                      (Inr (), CheckAndRequestLimitStop ts (he_store env 1) (h2\<lparr>hal_store := s\<rparr>) cp t)))"

section \<open>StopTransaction\<close>

definition OnStopTransaction ::
  "('e, 's) TransactionStore \<Rightarrow> ('e, 's) HookSink option \<Rightarrow> 'e hal_env \<Rightarrow> 's hal \<Rightarrow> string
   \<Rightarrow> StopTransactionRequest \<Rightarrow> (go_error + unit) \<times> 's hal" where
  "OnStopTransaction ts hooks env h cp req =
     (let h1 = touch_hal (he_now env 0) h cp in
      case m_StopTransaction ts (he_store env 0) (hal_store h1)
             \<lparr>st_ChargerID = cp, st_TransactionID = pr_TransactionId req,
              st_MeterStop = f_of_int (pr_MeterStop req)\<rparr> of
        (Inl err, s) \<Rightarrow> (Inl (ErrWrap ''persist stop transaction'' err), h1\<lparr>hal_store := s\<rparr>)
      | (Inr tx, s) \<Rightarrow>
          let h2 = h1\<lparr>hal_store := s\<rparr> in
          (case completed_hook hooks (he_store env 1) (hal_store h2) tx of
             (Inl err, s') \<Rightarrow>
               (Inl (ErrWrap ''enqueue completed transaction callback'' err), h2\<lparr>hal_store := s'\<rparr>)
           | (Inr _, s') \<Rightarrow>
               (Inr (), h2\<lparr>hal_store := s',
                  hal_registry := ApplyStopTransaction (he_now env 1) (hal_registry h2) cp
                    (tx_ConnectorID tx) (f_of_int (pr_MeterStop req))\<rparr>)))"

end
