(* ===== verification/Hal_Correct.thy ===== *)
theory Hal_Correct
  imports Hal
begin

text \<open>
  What the handlers of \<open>hal.go\<close> guarantee over any store and any hook sink that keep their
  contracts: an accepted start is persisted, on the board and in the outbox, a connector never has
  two open transactions, and a confirmed stop is persisted and queued.
\<close>

section \<open>One open transaction per connector\<close>

definition one_open :: "rows \<Rightarrow> bool" where
  "one_open R \<longleftrightarrow> (\<forall>k q k' q'. R k = Some q \<and> R k' = Some q' \<and> is_open q \<and> is_open q'
     \<and> tx_ChargerID q = tx_ChargerID q' \<and> tx_ConnectorID q = tx_ConnectorID q' \<longrightarrow> k = k')"

lemma one_open_empty [simp]: "one_open (\<lambda>_. None)"
  by (simp add: one_open_def)

text \<open>No new rows and no reopened ones.\<close>

definition no_new_open :: "rows \<Rightarrow> rows \<Rightarrow> bool" where
  "no_new_open R R' \<longleftrightarrow> (\<forall>k q'. R' k = Some q' \<and> is_open q' \<longrightarrow>
     (\<exists>q. R k = Some q \<and> is_open q \<and> tx_ChargerID q = tx_ChargerID q' \<and> tx_ConnectorID q = tx_ConnectorID q'))"

lemma no_new_open_refl [simp, intro]: "no_new_open R R"
  by (auto simp: no_new_open_def)

lemma no_new_open_trans: "no_new_open A B \<Longrightarrow> no_new_open B C \<Longrightarrow> no_new_open A C"
  unfolding no_new_open_def by metis

lemma no_new_open_upd:
  "R k = Some q \<Longrightarrow> (is_open q' \<Longrightarrow> is_open q) \<Longrightarrow> tx_ChargerID q' = tx_ChargerID q
   \<Longrightarrow> tx_ConnectorID q' = tx_ConnectorID q \<Longrightarrow> no_new_open R (R(k \<mapsto> q'))"
  by (auto simp: no_new_open_def)

lemma one_open_mono: "one_open R \<Longrightarrow> no_new_open R R' \<Longrightarrow> one_open R'"
  unfolding one_open_def no_new_open_def by metis

lemma one_open_fresh:
  assumes "one_open R" and "R k = None"
    and "\<not> (\<exists>q \<in> pending_open R c. tx_ConnectorID q = i)" and "rows_ok R"
    and "tx_ChargerID q = c" and "tx_ConnectorID q = i"
  shows "one_open (R(k \<mapsto> q))"
proof -
  have "\<not> (is_open q' \<and> tx_ChargerID q' = c \<and> tx_ConnectorID q' = i)" if "R k' = Some q'" for k' q'
    using assms(3) that rows_okD(1) [OF assms(4) that] by (auto simp: pending_open_def)
  then show ?thesis using assms(1,5,6) unfolding one_open_def by (metis fun_upd_apply option.inject)
qed

context transaction_store begin

lemma live_no_new_open:
  "\<lbrakk>inv s; quiet e; m_UpdateLiveMeter ts e s u = (r, s')\<rbrakk> \<Longrightarrow> no_new_open (row s) (row s')"
  using live_law [of s e u r s']
  by (cases "owned (row s) (ul_ChargerID u) (ul_TransactionID u)")
    (auto intro!: no_new_open_upd dest: owned_row)

lemma stop_no_new_open:
  "\<lbrakk>inv s; quiet e; m_StopTransaction ts e s p = (r, s')\<rbrakk> \<Longrightarrow> no_new_open (row s) (row s')"
  using stop_law [of s e p r s']
  by (cases "owned (row s) (st_ChargerID p) (st_TransactionID p)")
    (auto intro!: no_new_open_upd dest: owned_row split: if_splits)

lemma force_no_new_open:
  "\<lbrakk>inv s; quiet e; m_ForceCloseTransaction ts e s f = (r, s')\<rbrakk> \<Longrightarrow> no_new_open (row s) (row s')"
  using force_law [of s e f r s']
  by (cases "owned (row s) (fc_ChargerID f) (fc_TransactionID f)")
    (auto intro!: no_new_open_upd dest: owned_row split: if_splits)

lemma max_no_new_open:
  "\<lbrakk>inv s; quiet e; m_UpdateTransactionMaxKWh ts e s t m = (r, s')\<rbrakk> \<Longrightarrow> no_new_open (row s) (row s')"
  using max_law [of s e t m r s']
  by (cases "row s t") (auto intro!: no_new_open_upd simp: is_open_def)

lemma mark_no_new_open:
  "\<lbrakk>inv s; quiet e; m_CheckAndMarkLimitStop ts e s c t = (r, s')\<rbrakk> \<Longrightarrow> no_new_open (row s) (row s')"
  using mark_law [of s e c t r s']
  by (cases "owned (row s) c t") (auto intro!: no_new_open_upd dest: owned_row simp: is_open_def)

lemma release_no_new_open:
  "\<lbrakk>inv s; quiet e; m_ReleaseLimitStopRequest ts e s c t = (r, s')\<rbrakk> \<Longrightarrow> no_new_open (row s) (row s')"
  using release_law [of s e c t r s']
  by (cases "owned (row s) c t")
    (auto intro!: no_new_open_upd dest: owned_row simp: is_open_def split: if_splits)

lemmas no_new_open_laws = live_no_new_open stop_no_new_open force_no_new_open max_no_new_open
  mark_no_new_open release_no_new_open

end

section \<open>StartTransaction\<close>

definition started :: "rows \<Rightarrow> string set \<Rightarrow> Registry \<Rightarrow> string \<Rightarrow> StartTransactionRequest \<Rightarrow> int \<Rightarrow> bool" where
  "started R K r cp req t \<longleftrightarrow>
     (\<exists>q. R t = Some q \<and> is_open q \<and> tx_ChargerID q = cp \<and> tx_ConnectorID q = sr_ConnectorId req
          \<and> tx_IDTag q = sr_IdTag req \<and> f_eq (tx_MeterStart q) (f_of_int (sr_MeterStart req)))
     \<and> dedupe_key KindStartTransactionStore t \<in> K
     \<and> TransactionIDForConnector r cp (sr_ConnectorId req) = Some t"

lemma f_eq_of_int [simp]: "f_eq (f_of_int i) (f_of_int i)"
  by (simp add: f_eq_def f_of_int_def)

lemma pending_open_viewD:
  assumes "view ` set txs = view ` pending_open R c" and "tx \<in> set txs"
  obtains q where "q \<in> pending_open R c" "view tx = view q"
  using assms by (metis (no_types, lifting) image_iff)

context hook_sink begin

lemma start_existing:
  assumes st: "inv (hal_store h)" "\<And>n. quiet (he_store env n)" and one: "one_open (row (hal_store h))"
    and q: "q \<in> pending_open (row (hal_store h)) cp" "tx_ConnectorID q = sr_ConnectorId req"
    and run: "OnStartTransaction ts (Some hooks) env h cp req = (r, h')"
  shows "inv (hal_store h') \<and> row (hal_store h') = row (hal_store h) \<and> keys (hal_store h) \<subseteq> keys (hal_store h') \<and>
    (if tx_IDTag q = sr_IdTag req \<and> f_eq (tx_MeterStart q) (f_of_int (sr_MeterStart req))
     then (\<exists>err. r = Inl err) \<or>
       r = Inr (Accepted, tx_TransactionID q)
       \<and> started (row (hal_store h')) (keys (hal_store h')) (hal_registry h') cp req (tx_TransactionID q)
     else r = Inr (Blocked, 0) \<and> hal_store h' = hal_store h)"
proof -
  obtain txs where list: "m_ListOpenTransactionsByCharger ts (he_store env 0) (hal_store h) cp = (Inr txs, hal_store h)"
    "view ` set txs = view ` pending_open (row (hal_store h)) cp"
    using list_open_law [OF st(1) st(2)] by (metis prod.exhaust)
  obtain x where x: "x \<in> set txs" "view x = view q" using list(2) q(1) by (metis (no_types, lifting) image_iff)
  then have "tx_ConnectorID x = sr_ConnectorId req" using view_eqD(2) [OF x(2)] q(2) by simp
  then obtain y where y: "find (\<lambda>tx. tx_ConnectorID tx = sr_ConnectorId req) txs = Some y"
    using x(1) by (cases "find (\<lambda>tx. tx_ConnectorID tx = sr_ConnectorId req) txs") (auto simp: find_None_iff)
  then have y2: "y \<in> set txs" "tx_ConnectorID y = sr_ConnectorId req" using find_SomeD [OF y] by simp_all
  obtain q' where q': "q' \<in> pending_open (row (hal_store h)) cp" "view y = view q'"
    using pending_open_viewD [OF list(2) y2(1)] by blast
  have "tx_TransactionID q' = tx_TransactionID q"
    using one q q' y2(2) view_eqD(2) [OF q'(2)] unfolding one_open_def pending_open_def by fastforce
  then have "q' = q" using q(1) q'(1) by (simp add: pending_open_def)
  then have v: "tx_IDTag y = tx_IDTag q" "tx_MeterStart y = tx_MeterStart q" "tx_TransactionID y = tx_TransactionID q"
    using view_eqD [OF q'(2)] by simp_all
  show ?thesis
  proof (cases "tx_IDTag q = sr_IdTag req \<and> f_eq (tx_MeterStart q) (f_of_int (sr_MeterStart req))")
    case False
    then have "r = Inr (Blocked, 0) \<and> hal_store h' = hal_store h"
      using run list y v by (auto simp: OnStartTransaction_def retried_start_def touch_hal_def Let_def)
    then show ?thesis using False st by auto
  next
    case True
    obtain u s' where hk: "hk_EnqueueStartTransaction hooks (he_store env 1) (hal_store h) y = (u, s')" by fastforce
    note law = start_hook_law [OF st(1) st(2) hk]
    have eqs: "hal_store h' = s'" "r = (case u of Inl err \<Rightarrow> Inl (ErrWrap ''enqueue retried start transaction callback'' err)
        | Inr _ \<Rightarrow> Inr (Accepted, tx_TransactionID q))"
      "u = Inr () \<Longrightarrow> TransactionIDForConnector (hal_registry h') cp (sr_ConnectorId req) = Some (tx_TransactionID q)"
      using run list y v True hk
      by (auto simp: OnStartTransaction_def retried_start_def touch_hal_def start_hook_def Let_def split: sum.splits)
    have row_q: "row (hal_store h) (tx_TransactionID q) = Some q" "is_open q" "tx_ChargerID q = cp"
      using q(1) by (simp_all add: pending_open_def)
    show ?thesis using law eqs True row_q v q(2) by (cases u) (auto simp: started_def)
  qed
qed

lemma start_fresh:
  assumes st: "inv (hal_store h)" "\<And>n. quiet (he_store env n)" and one: "one_open (row (hal_store h))"
    and none: "\<not> (\<exists>q \<in> pending_open (row (hal_store h)) cp. tx_ConnectorID q = sr_ConnectorId req)"
    and run: "OnStartTransaction ts (Some hooks) env h cp req = (r, h')"
  shows "inv (hal_store h') \<and> one_open (row (hal_store h')) \<and>
    rows_evolve (row (hal_store h)) (row (hal_store h')) \<and> keys (hal_store h) \<subseteq> keys (hal_store h') \<and>
    (case r of Inr (Accepted, t) \<Rightarrow> row (hal_store h) t = None \<and>
        started (row (hal_store h')) (keys (hal_store h')) (hal_registry h') cp req t
     | Inr (Blocked, t) \<Rightarrow> t = 0 \<and> row (hal_store h') = row (hal_store h)
     | Inl err \<Rightarrow> True)"
proof -
  obtain txs where list: "m_ListOpenTransactionsByCharger ts (he_store env 0) (hal_store h) cp = (Inr txs, hal_store h)"
    "view ` set txs = view ` pending_open (row (hal_store h)) cp"
    using list_open_law [OF st(1) st(2)] by (metis prod.exhaust)
  have no: "find (\<lambda>tx. tx_ConnectorID tx = sr_ConnectorId req) txs = None"
    unfolding find_None_iff using pending_open_viewD [OF list(2)] none view_eqD(2) by metis
  obtain single pending where cons: "consumePendingSingleSession (he_order env) (hal_pending h) cp
      (sr_ConnectorId req) (sr_IdTag req) = (single, pending)" by fastforce
  let ?i = "\<lparr>ct_ChargerID = cp, ct_ConnectorID = sr_ConnectorId req,
    ct_MeterStart = f_of_int (sr_MeterStart req), ct_IDTag = sr_IdTag req, ct_IsSingleSession = single\<rparr>"
  obtain c s1 where create: "m_CreateTransaction ts (he_store env 1) (hal_store h) ?i = (c, s1)" by fastforce
  note cl = create_law [OF st(1) st(2) create]
  show ?thesis
  proof (cases c)
    case (Inl err)
    then have "r = Inr (Blocked, 0)" "hal_store h' = s1"
      using run list no cons create
      by (auto simp: OnStartTransaction_def fresh_start_def touch_hal_def Let_def)
    then show ?thesis using cl Inl one by auto
  next
    case (Inr tx)
    then obtain q where q: "row s1 = (row (hal_store h))(tx_TransactionID tx \<mapsto> q)" "fresh_row ?i q"
      "view q = view tx" "row (hal_store h) (tx_TransactionID tx) = None" and s1: "inv s1" "keys s1 = keys (hal_store h)"
      using cl by auto
    have "one_open (row s1)" unfolding q(1)
      using one_open_fresh [OF one q(4) none rows_ok_inv [OF st(1)]] q(2) by (simp add: fresh_row_def)
    moreover have "rows_evolve (row (hal_store h)) (row s1)" unfolding q(1)
      using q(4) by (intro rows_evolve_upd) simp
    moreover obtain u s2 where hk: "hk_EnqueueStartTransaction hooks (he_store env 2) s1 tx = (u, s2)" by fastforce
    moreover have eqs: "hal_store h' = s2" "r = (case u of Inl err \<Rightarrow> Inl (ErrWrap ''enqueue start transaction callback'' err)
        | Inr _ \<Rightarrow> Inr (Accepted, tx_TransactionID tx))"
      "u = Inr () \<Longrightarrow> TransactionIDForConnector (hal_registry h') cp (sr_ConnectorId req) = Some (tx_TransactionID tx)"
      using run list no cons create Inr hk
      by (auto simp: OnStartTransaction_def fresh_start_def touch_hal_def start_hook_def Let_def split: sum.splits)
    ultimately show ?thesis
      using start_hook_law [OF s1(1) st(2) hk] s1(2) q
      by (cases u) (auto simp: started_def fresh_row_def is_open_def)
  qed
qed

lemma start_law:
  assumes "inv (hal_store h)" "\<And>n. quiet (he_store env n)" "one_open (row (hal_store h))"
    and "OnStartTransaction ts (Some hooks) env h cp req = (r, h')"
  shows "inv (hal_store h') \<and> one_open (row (hal_store h')) \<and>
    rows_evolve (row (hal_store h)) (row (hal_store h')) \<and> keys (hal_store h) \<subseteq> keys (hal_store h') \<and>
    (case r of Inr (Accepted, t) \<Rightarrow>
        started (row (hal_store h')) (keys (hal_store h')) (hal_registry h') cp req t
     | Inr (Blocked, t) \<Rightarrow> t = 0 \<and> row (hal_store h') = row (hal_store h)
     | Inl err \<Rightarrow> True)"
proof (cases "\<exists>q \<in> pending_open (row (hal_store h)) cp. tx_ConnectorID q = sr_ConnectorId req")
  case True
  then obtain q where "q \<in> pending_open (row (hal_store h)) cp" "tx_ConnectorID q = sr_ConnectorId req" by blast
  from start_existing [OF assms(1-3) this assms(4)] show ?thesis
    using assms(3) by (auto split: if_splits)
next
  case False
  from start_fresh [OF assms(1-3) False assms(4)] show ?thesis
    by (auto split: sum.splits prod.splits auth_status.splits)
qed

end

section \<open>What the other operations keep\<close>

definition keeps :: "('s \<Rightarrow> bool) \<Rightarrow> ('s \<Rightarrow> rows) \<Rightarrow> ('s \<Rightarrow> string set) \<Rightarrow> 's \<Rightarrow> 's \<Rightarrow> bool" where
  "keeps I R K s s' \<longleftrightarrow>
     I s' \<and> rows_evolve (R s) (R s') \<and> no_new_open (R s) (R s') \<and> K s \<subseteq> K s'"

lemma keeps_refl [simp]: "I s \<Longrightarrow> keeps I R K s s"
  by (simp add: keeps_def)

lemma keeps_trans: "keeps I R K a b \<Longrightarrow> keeps I R K b c \<Longrightarrow> keeps I R K a c"
  unfolding keeps_def by (blast intro: rows_evolve_trans no_new_open_trans)

lemma keeps_inv: "keeps I R K s s' \<Longrightarrow> I s'"
  by (simp add: keeps_def)

lemma one_open_keeps: "one_open (R s) \<Longrightarrow> keeps I R K s s' \<Longrightarrow> one_open (R s')"
  by (auto simp: keeps_def intro: one_open_mono)

context transaction_store begin

abbreviation keeps_store :: "'s \<Rightarrow> 's \<Rightarrow> bool" where
  "keeps_store \<equiv> keeps inv row keys"

lemma step_keeps:
  assumes "store_step ts quiet s s'" and "inv s" and "no_new_open (row s) (row s')"
  shows "keeps_store s s'"
  using step_law [OF assms(1,2)] assms(3) by (simp add: keeps_def)

lemma same_rows_keeps: "\<lbrakk>inv s'; row s' = row s; keys s \<subseteq> keys s'\<rbrakk> \<Longrightarrow> keeps_store s s'"
  by (simp add: keeps_def)

lemma live_keeps: "\<lbrakk>inv s; quiet e; m_UpdateLiveMeter ts e s u = (r, s')\<rbrakk> \<Longrightarrow> keeps_store s s'"
  by (rule step_keeps [OF store_step.live]) (auto intro: no_new_open_laws)

lemma stop_keeps: "\<lbrakk>inv s; quiet e; m_StopTransaction ts e s p = (r, s')\<rbrakk> \<Longrightarrow> keeps_store s s'"
  by (rule step_keeps [OF store_step.stop]) (auto intro: no_new_open_laws)

lemma force_keeps: "\<lbrakk>inv s; quiet e; m_ForceCloseTransaction ts e s f = (r, s')\<rbrakk> \<Longrightarrow> keeps_store s s'"
  by (rule step_keeps [OF store_step.force]) (auto intro: no_new_open_laws)

lemma max_keeps: "\<lbrakk>inv s; quiet e; m_UpdateTransactionMaxKWh ts e s t m = (ru, s')\<rbrakk> \<Longrightarrow> keeps_store s s'"
  by (rule step_keeps [OF store_step.max_kwh]) (auto intro: no_new_open_laws)

lemma mark_keeps: "\<lbrakk>inv s; quiet e; m_CheckAndMarkLimitStop ts e s c t = (rb, s')\<rbrakk> \<Longrightarrow> keeps_store s s'"
  by (rule step_keeps [OF store_step.mark]) (auto intro: no_new_open_laws)

lemma release_keeps: "\<lbrakk>inv s; quiet e; m_ReleaseLimitStopRequest ts e s c t = (ru, s')\<rbrakk> \<Longrightarrow> keeps_store s s'"
  by (rule step_keeps [OF store_step.release]) (auto intro: no_new_open_laws)

lemma get_keeps: "\<lbrakk>inv s; quiet e; m_GetByTransactionID ts e s c t = (r, s')\<rbrakk> \<Longrightarrow> keeps_store s s'"
  using get_law by (metis keeps_refl)

lemma list_open_keeps: "\<lbrakk>inv s; quiet e; m_ListOpenTransactionsByCharger ts e s c = (rl, s')\<rbrakk> \<Longrightarrow> keeps_store s s'"
  using list_open_law by (metis keeps_refl)

lemma outbox_keeps:
  "\<lbrakk>inv s; quiet e; m_EnqueueCallback ts e s c = (ru, s')\<rbrakk> \<Longrightarrow> keeps_store s s'"
  "\<lbrakk>inv s; quiet e; m_ClaimDueCallbacks ts e s limit = (rt, s')\<rbrakk> \<Longrightarrow> keeps_store s s'"
  "\<lbrakk>inv s; quiet e; m_MarkCallbackSent ts e s cb = (ru, s')\<rbrakk> \<Longrightarrow> keeps_store s s'"
  "\<lbrakk>inv s; quiet e; m_MarkCallbackRetry ts e s cb n due msg = (ru, s')\<rbrakk> \<Longrightarrow> keeps_store s s'"
  "\<lbrakk>inv s; quiet e; m_MarkCallbackFatal ts e s cb msg = (ru, s')\<rbrakk> \<Longrightarrow> keeps_store s s'"
  using enqueue_law [of s e c ru s'] claim_law [of s e limit rt s'] sent_law [of s e cb ru s']
    retry_law [of s e cb n due msg ru s'] fatal_law [of s e cb msg ru s']
  by (auto intro: same_rows_keeps)

lemma limit_check_keeps:
  "\<lbrakk>inv (hal_store h); quiet e\<rbrakk> \<Longrightarrow>
   keeps_store (hal_store h) (hal_store (CheckAndRequestLimitStop ts e h c t))"
  using mark_keeps [of "hal_store h" e c t]
  by (auto simp: CheckAndRequestLimitStop_def split: prod.splits sum.splits)

lemma OnMeterValues_keeps:
  assumes st: "inv (hal_store h)" "\<And>n. quiet (he_store env n)" and run: "OnMeterValues ts env h cp req = (r, h')"
  shows "keeps_store (hal_store h) (hal_store h')"
proof (cases "extractMeterValueWh req")
  case None
  then show ?thesis using run st by (auto simp: OnMeterValues_def touch_hal_def Let_def)
next
  case (Some v)
  let ?h1 = "touch_hal (he_now env 0) h cp"
  let ?tx = "meter_transaction (hal_registry ?h1) cp req"
  show ?thesis
  proof (cases ?tx)
    case None
    then show ?thesis using run st Some by (auto simp: OnMeterValues_def touch_hal_def Let_def)
  next
    case tx: (Some t)
    obtain c s1 where live: "m_UpdateLiveMeter ts (he_store env 0) (hal_store h)
        \<lparr>ul_ChargerID = cp, ul_TransactionID = t, ul_MeterStop = v\<rparr> = (c, s1)" by fastforce
    note k = live_keeps [OF st(1) st(2) live]
    have "keeps_store s1 (hal_store h')"
    proof (cases c)
      case Inl
      then show ?thesis using run Some tx live keeps_inv [OF k]
        by (auto simp: OnMeterValues_def touch_hal_def Let_def)
    next
      case (Inr x)
      let ?h2 = "h\<lparr>hal_registry := ApplyMeterValue (he_now env (Suc 0)) (hal_registry ?h1) cp
                     (mr_ConnectorId req) (Some t) v, hal_store := s1\<rparr>"
      have "h' = CheckAndRequestLimitStop ts (he_store env (Suc 0)) ?h2 cp t"
        using run Some tx live Inr by (simp add: OnMeterValues_def touch_hal_def Let_def)
      then show ?thesis using limit_check_keeps [of ?h2] keeps_inv [OF k] st(2) by simp
    qed
    then show ?thesis using k by (rule keeps_trans [rotated])
  qed
qed

lemma OnBoot_keeps:
  assumes "inv (hal_store h)" "\<And>n. quiet (he_store env n)" "OnBootNotification ts env h cp = (r, h')"
  shows "keeps_store (hal_store h) (hal_store h')"
  using assms list_open_keeps [of "hal_store h" "he_store env 0" cp]
  by (auto simp: OnBootNotification_def scheduleBootRecovery_def scheduleRemoteOnlyConfigSync_def
      touch_hal_def Let_def split: prod.splits sum.splits if_splits)

end

section \<open>StopTransaction\<close>

definition stopped :: "rows \<Rightarrow> string set \<Rightarrow> string \<Rightarrow> int \<Rightarrow> bool" where
  "stopped R K cp t \<longleftrightarrow>
     (\<exists>q. R t = Some q \<and> tx_ChargerID q = cp \<and> \<not> is_open q \<and> tx_MeterStop q \<noteq> None)
     \<and> dedupe_key KindCompletedTransactionStore t \<in> K"

context hook_sink begin

lemma OnStopTransaction_law:
  assumes st: "inv (hal_store h)" "\<And>n. quiet (he_store env n)"
    and run: "OnStopTransaction ts (Some hooks) env h cp req = (r, h')"
  shows "keeps_store (hal_store h) (hal_store h') \<and>
    (r = Inr () \<longrightarrow> stopped (row (hal_store h')) (keys (hal_store h')) cp (pr_TransactionId req)
       \<and> (\<exists>q. row (hal_store h') (pr_TransactionId req) = Some q
            \<and> TransactionIDForConnector (hal_registry h') cp (tx_ConnectorID q) = None))
    \<and> (owned (row (hal_store h)) cp (pr_TransactionId req) = None \<longrightarrow>
         r = Inl (ErrWrap ''persist stop transaction'' ErrTransactionNotFound))"
proof -
  let ?t = "pr_TransactionId req"
  let ?p = "\<lparr>st_ChargerID = cp, st_TransactionID = ?t, st_MeterStop = f_of_int (pr_MeterStop req)\<rparr>"
  obtain c s1 where stop: "m_StopTransaction ts (he_store env 0) (hal_store h) ?p = (c, s1)" by fastforce
  note law = stop_law [OF st(1) st(2) stop] and k = stop_keeps [OF st(1) st(2) stop]
  show ?thesis
  proof (cases "owned (row (hal_store h)) cp ?t")
    case None
    then have "c = Inl ErrTransactionNotFound" using law by simp
    then show ?thesis using run stop k None
      by (auto simp: OnStopTransaction_def touch_hal_def Let_def)
  next
    case (Some q0)
    obtain q tx where q: "row s1 ?t = Some q" "tx_ChargerID q = cp" "\<not> is_open q" and tx: "c = Inr tx" "view tx = view q"
      using law Some by (auto split: if_splits simp: owned_Some_iff)
    obtain u s2 where hk: "hk_EnqueueCompletedTransaction hooks (he_store env 1) s1 tx = (u, s2)" by fastforce
    have inv1: "inv s1" using k by (rule keeps_inv)
    note hl = completed_hook_law [OF inv1 st(2) hk]
    have ro: "rows_ok (row s1)" using inv1 by (rule rows_ok_inv)
    have id: "tx_TransactionID tx = ?t" "tx_ConnectorID tx = tx_ConnectorID q"
      using view_eqD(2,7) [OF tx(2)] rows_okD(1) [OF ro q(1)] by simp_all
    have out: "hal_store h' = s2" "r = Inr () \<Longrightarrow> u = Inr ()"
      "u = Inr () \<Longrightarrow> TransactionIDForConnector (hal_registry h') cp (tx_ConnectorID q) = None"
      using run stop tx(1) hk id(2)
      by (auto simp: OnStopTransaction_def touch_hal_def completed_hook_def Let_def split: sum.splits)
    have "keeps_store s1 s2" using hl by (intro same_rows_keeps) auto
    then have "keeps_store (hal_store h) (hal_store h')" 
      using keeps_trans [OF k \<open>keeps_store s1 s2\<close>] out(1) by simp
    moreover have "tx_MeterStop q \<noteq> None" using rows_okD(4) [OF ro q(1)] q(3) by blast
    ultimately show ?thesis using hl out q id Some unfolding stopped_def by auto
  qed
qed

text \<open>What a stop writes, whether or not its callback can be queued.\<close>

lemma OnStopTransaction_rows:
  assumes st: "inv (hal_store h)" "\<And>n. quiet (he_store env n)"
    and run: "OnStopTransaction ts (Some hooks) env h cp req = (r, h')"
    and q0: "owned (row (hal_store h)) cp (pr_TransactionId req) = Some q"
  shows "if is_open q
     then \<exists>t. row (hal_store h') = (row (hal_store h))
            (pr_TransactionId req \<mapsto> stopped_at t (f_of_int (pr_MeterStop req)) q)
     else row (hal_store h') = row (hal_store h)"
proof -
  let ?p = "\<lparr>st_ChargerID = cp, st_TransactionID = pr_TransactionId req, st_MeterStop = f_of_int (pr_MeterStop req)\<rparr>"
  obtain c s1 where stop: "m_StopTransaction ts (he_store env 0) (hal_store h) ?p = (c, s1)" by fastforce
  note law = stop_law [OF st(1) st(2) stop]
  obtain tx where tx: "c = Inr tx" using law q0 by (auto split: if_splits)
  obtain u s2 where hk: "hk_EnqueueCompletedTransaction hooks (he_store env 1) s1 tx = (u, s2)" by fastforce
  have "inv s1" using law by simp
  note hl = completed_hook_law [OF this st(2) hk]
  have "hal_store h' = s2"
    using run stop tx hk by (auto simp: OnStopTransaction_def touch_hal_def completed_hook_def Let_def split: sum.splits)
  then show ?thesis using law hl q0 by (auto split: if_splits)
qed

end

end
