(* ===== verification/Go_Json.thy ===== *)
theory Go_Json
  imports Store_Types Go_ParseFloat "HOL-Library.List_Lexorder"
begin

text \<open>
  Printing and sorting as \<open>fmt.Sprint\<close>, \<open>strings.Join\<close> and \<open>sort.Strings\<close> do, and the JSON
  values \<open>encoding/json\<close> decodes into \<open>any\<close>.
\<close>

text \<open>\<open>fmt.Sprint\<close> of a decoded JSON value, with numbers as \<open>json.Number\<close>.\<close>

definition join :: "string \<Rightarrow> string list \<Rightarrow> string" where
  "join sep xs = (case xs of [] \<Rightarrow> [] | x # r \<Rightarrow> x @ concat (map (\<lambda>y. sep @ y) r))"

definition sort_fields :: "(string \<times> 'a) list \<Rightarrow> (string \<times> 'a) list" where
  "sort_fields kvs = sort_key (\<lambda>(k, _). map code k) (fold (\<lambda>(k, v). AList.update k v) kvs [])"

fun json_size :: "json \<Rightarrow> nat" where
  "json_size (JArr xs) = Suc (sum_list (map json_size xs))"
| "json_size (JObj kvs) = Suc (sum_list (map (json_size \<circ> snd) kvs))"
| "json_size _ = 1"

fun sprint_fuel :: "nat \<Rightarrow> json \<Rightarrow> string" where
  "sprint_fuel 0 j = []"
| "sprint_fuel (Suc n) JNull = ''<nil>''"
| "sprint_fuel (Suc n) (JBool b) = (if b then ''true'' else ''false'')"
| "sprint_fuel (Suc n) (JNum t) = t"
| "sprint_fuel (Suc n) (JStr t) = t"
| "sprint_fuel (Suc n) (JArr xs) = ''['' @ join '' '' (map (sprint_fuel n) xs) @ '']''"
| "sprint_fuel (Suc n) (JObj kvs) =
     ''map['' @ join '' '' (map (\<lambda>(k, v). k @ '':'' @ sprint_fuel n v) (sort_fields kvs)) @ '']''"

definition Sprint :: "json \<Rightarrow> string" where
  "Sprint j = sprint_fuel (json_size j) j"

text \<open>
  \<open>strconv.FormatFloat(x, 'g', -1, 64)\<close>, which \<open>fmt.Sprint\<close> uses: the shortest digits, in
  scientific notation when the decimal exponent is below -4 or at least 6.
\<close>

definition sci_digits :: "int \<times> int \<Rightarrow> string" where
  "sci_digits me =
     (let (m, e) = me; ds = dec m; x = e + int (length ds) - 1;
          frac = rev (dropWhile (\<lambda>c. c = CHR ''0'') (rev (tl ds))); xs = dec \<bar>x\<bar>
      in hd ds # (if frac = [] then [] else CHR ''.'' # frac)
         @ [CHR ''e'', if x < 0 then CHR ''-'' else CHR ''+'']
         @ (if length xs < 2 then CHR ''0'' # xs else xs))"

definition g_digits :: "rat \<Rightarrow> string" where
  "g_digits q =
     (let (m, e) = shortest q 17 1; x = e + int (length (dec m)) - 1
      in if x < - 4 \<or> 6 \<le> x then sci_digits (m, e) else fixed_digits (m, e))"

definition FormatFloat_g :: "float64 \<Rightarrow> string" where
  "FormatFloat_g x =
     (case x of
        Fin q \<Rightarrow> if q = 0 then ''0'' else if q < 0 then CHR ''-'' # g_digits (- q) else g_digits q
      | _ \<Rightarrow> FormatFloat x)"

text \<open>
  Decoding into \<open>any\<close> without \<open>UseNumber\<close>: every number becomes a \<open>float64\<close>, a number out of
  range is an error, and a later duplicate of a key wins.  Numbers of the result carry the text
  \<open>fmt.Sprint\<close> prints for the float.
\<close>

fun decode_any_fuel :: "nat \<Rightarrow> json \<Rightarrow> json option" where
  "decode_any_fuel 0 j = None"
| "decode_any_fuel (Suc n) (JNum t) = map_option (\<lambda>f. JNum (FormatFloat_g f)) (ParseFloat t)"
| "decode_any_fuel (Suc n) (JArr xs) = map_option JArr (those (map (decode_any_fuel n) xs))"
| "decode_any_fuel (Suc n) (JObj kvs) =
     map_option (\<lambda>vs. JObj (fold (\<lambda>(k, v). AList.update k v) (zip (map fst kvs) vs) []))
       (those (map (\<lambda>(k, v). decode_any_fuel n v) kvs))"
| "decode_any_fuel (Suc n) j = Some j"

definition decode_any :: "json \<Rightarrow> json option" where
  "decode_any j = decode_any_fuel (json_size j) j"

definition sort_strings :: "string list \<Rightarrow> string list" where
  "sort_strings xs = sort_key (map code) xs"

lemma set_sort_strings [simp]: "set (sort_strings xs) = set xs"
  by (simp add: sort_strings_def)

lemma distinct_sort_strings [simp]: "distinct (sort_strings xs) = distinct xs"
  by (simp add: sort_strings_def)

end
