(* ===== verification/Hooks.thy ===== *)
theory Hooks
  imports Limit_Stop Go_ParseFloat Go_Json "HOL-Library.Word"
begin

text \<open>
  \<open>hooks/manager.go\<close>: the callback manager, which queues a callback for every start and completion
  of a transaction and posts the due ones.  JSON bodies are the values they decode to, with the
  literal text of each number; \<open>Malformed\<close> is a body that \<open>encoding/json\<close> rejects.  The HTTP client
  is outside: \<open>http\<close> gives what happens to a request.  Strings are valid UTF-8.
\<close>

section \<open>Configuration and HTTP\<close>

record hook_config =
  cfg_MainCMSStartTxnHookURL :: string
  cfg_SingleSessionStartTxnHookURL :: string
  cfg_MainCMSCompletedTxnURL :: string
  cfg_SingleSessionCompletedTxnURL :: string
  cfg_APIAuthKey :: string

datatype body = Malformed string | Body json string

record http_request =
  rq_URL :: string
  rq_Body :: json
  rq_apiauthkey :: "string option"

datatype http_result =
    Bad_request go_error
  | Transport_error go_error
  | Read_error int go_error
  | Response int body

fun body_text :: "body \<Rightarrow> string" where
  "body_text (Malformed t) = t"
| "body_text (Body j t) = t"

section \<open>Queueing\<close>

abbreviation KindStartTransaction :: string where "KindStartTransaction \<equiv> ''start_transaction''"
abbreviation KindCompletedTransaction :: string where "KindCompletedTransaction \<equiv> ''completed_transaction''"

text \<open>\<open>json.Marshal\<close> of a map prints the keys in order.\<close>

definition start_payload :: "Transaction \<Rightarrow> json" where
  "start_payload tx =
     JObj [(''chargerid'', JStr (tx_ChargerID tx)),
           (''connectorid'', JStr (Itoa (tx_ConnectorID tx))),
           (''is_single_session'', JBool (tx_IsSingleSession tx)),
           (''transactionid'', JStr (FormatInt (tx_TransactionID tx))),
           (''userid'', JStr (tx_IDTag tx))]"

definition EnqueueStartTransaction ::
  "('e, 's) TransactionStore \<Rightarrow> hook_config \<Rightarrow> 'e \<Rightarrow> 's \<Rightarrow> Transaction \<Rightarrow> ('s, unit) call" where
  "EnqueueStartTransaction ts cfg e s tx =
     (let targetURL = (if tx_IsSingleSession tx \<and> cfg_SingleSessionStartTxnHookURL cfg \<noteq> ''''
                       then cfg_SingleSessionStartTxnHookURL cfg else cfg_MainCMSStartTxnHookURL cfg)
      in if targetURL = '''' then (Inl (ErrNew ''missing start transaction hook URL''), s)
         else m_EnqueueCallback ts e s
                \<lparr>ec_Kind = KindStartTransaction,
                 ec_DedupeKey = dedupe_key KindStartTransaction (tx_TransactionID tx),
                 ec_TransactionID = Some (tx_TransactionID tx), ec_UUIDDB = tx_UUIDDB tx,
                 ec_TargetURL = targetURL, ec_Payload = start_payload tx, ec_MaxRetries = 6\<rparr>)"

definition completed_payload :: "Transaction \<Rightarrow> time \<Rightarrow> float64 \<Rightarrow> float64 \<Rightarrow> json" where
  "completed_payload tx stopTime meterStop kwh =
     JObj [(''chargerid'', JStr (tx_ChargerID tx)),
           (''consumedkwh'', JStr (FormatFloat kwh)),
           (''meterstart'', JStr (FormatFloat (tx_MeterStart tx))),
           (''meterstop'', JStr (FormatFloat meterStop)),
           (''sessionid'', JStr (FormatInt (tx_TransactionID tx))),
           (''starttime'', JStr (RFC3339Nano (tx_StartTime tx))),
           (''stoptime'', JStr (RFC3339Nano stopTime)),
           (''userid'', JStr (tx_IDTag tx))]"

text \<open>The message of a rejected consumption prints a pointer; the address is left out.\<close>

definition EnqueueCompletedTransaction ::
  "('e, 's) TransactionStore \<Rightarrow> hook_config \<Rightarrow> 'e \<Rightarrow> 's \<Rightarrow> Transaction \<Rightarrow> ('s, unit) call" where
  "EnqueueCompletedTransaction ts cfg e s tx =
     (let targetURL = (if tx_IsSingleSession tx \<and> cfg_SingleSessionCompletedTxnURL cfg \<noteq> ''''
                       then cfg_SingleSessionCompletedTxnURL cfg else cfg_MainCMSCompletedTxnURL cfg)
      in if targetURL = '''' then (Inl (ErrNew ''missing completed transaction hook URL''), s)
         else
           case tx_StopTime tx of
             None \<Rightarrow> (Inl (ErrNew ''missing stop_time''), s)
           | Some stopTime \<Rightarrow>
               (case tx_MeterStop tx of
                  None \<Rightarrow> (Inl (ErrNew ''missing meter_stop''), s)
                | Some meterStop \<Rightarrow>
                    (case tx_TotalConsumption tx of
                       None \<Rightarrow> (Inl (ErrNew ''invalid total_consumption''), s)
                     | Some total_kwh \<Rightarrow>
                         if f_lt total_kwh (Fin 0) then (Inl (ErrNew ''invalid total_consumption''), s)
                         else m_EnqueueCallback ts e s
                                \<lparr>ec_Kind = KindCompletedTransaction,
                                 ec_DedupeKey = dedupe_key KindCompletedTransaction (tx_TransactionID tx),
                                 ec_TransactionID = Some (tx_TransactionID tx), ec_UUIDDB = tx_UUIDDB tx,
                                 ec_TargetURL = targetURL,
                                 ec_Payload = completed_payload tx stopTime meterStop total_kwh,
                                 ec_MaxRetries = 10\<rparr>)))"

text \<open>The manager as the HAL's hook sink.\<close>

definition manager_sink :: "('e, 's) TransactionStore \<Rightarrow> hook_config \<Rightarrow> ('e, 's) HookSink" where
  "manager_sink ts cfg =
     \<lparr>hk_EnqueueStartTransaction = EnqueueStartTransaction ts cfg,
      hk_EnqueueCompletedTransaction = EnqueueCompletedTransaction ts cfg\<rparr>"

lemma kind_names [simp]:
  "KindStartTransactionStore = KindStartTransaction" "KindCompletedTransactionStore = KindCompletedTransaction"
  by (simp_all add: KindStartTransactionStore_def KindCompletedTransactionStore_def)

context transaction_store begin

lemma start_enqueue_law:
  assumes "inv s" and "quiet e" and "EnqueueStartTransaction ts cfg e s tx = (ru, s')"
  shows "inv s' \<and> row s' = row s \<and> keys s \<subseteq> keys s' \<and>
    (ru = Inr () \<longrightarrow> dedupe_key KindStartTransactionStore (tx_TransactionID tx) \<in> keys s')"
  using assms(1,3) enqueue_law [OF assms(1,2)]
  by (auto simp: EnqueueStartTransaction_def Let_def split: if_splits)

lemma completed_enqueue_law:
  assumes "inv s" and "quiet e" and "EnqueueCompletedTransaction ts cfg e s tx = (ru, s')"
  shows "inv s' \<and> row s' = row s \<and> keys s \<subseteq> keys s' \<and>
    (ru = Inr () \<longrightarrow> dedupe_key KindCompletedTransactionStore (tx_TransactionID tx) \<in> keys s'
       \<and> tx_StopTime tx \<noteq> None \<and> tx_MeterStop tx \<noteq> None)"
  using assms(1,3) enqueue_law [OF assms(1,2)]
  by (auto simp: EnqueueCompletedTransaction_def Let_def split: if_splits option.splits)

lemma manager_sink_contract: "hook_sink ts quiet inv row keys (manager_sink ts cfg)"
proof (unfold_locales, goal_cases)
  case 1
  then show ?case using start_enqueue_law by (simp add: manager_sink_def)
next
  case 2
  then show ?case using completed_enqueue_law by (simp add: manager_sink_def)
qed

end

section \<open>Posting one task\<close>

text \<open>Decoding into a map needs an object or null; a later duplicate of a key wins.\<close>

definition normalizeStartCallbackPayload :: "json \<Rightarrow> go_error + json" where
  "normalizeStartCallbackPayload payload =
     (case payload of
        JNull \<Rightarrow> Inr JNull
      | JObj kvs \<Rightarrow>
          let fields = fold (\<lambda>(k, v). AList.update k v) kvs [];
              fields' = (case map_of fields ''transactionid'' of
                           None \<Rightarrow> fields
                         | Some txID \<Rightarrow> AList.update ''transactionid'' (JStr (Sprint txID)) fields)
          in Inr (JObj (sort_fields fields'))
      | _ \<Rightarrow> Inl (ErrExternal ''json: cannot unmarshal into Go value of type map[string]interface {}''))"

text \<open>\<open>flexibleFloat64.UnmarshalJSON\<close>: a number, or a string that holds one.\<close>

definition flexible_of_text :: "string \<Rightarrow> go_error + float64" where
  "flexible_of_text raw =
     (case ParseFloat raw of
        None \<Rightarrow> Inl (ErrNew (''invalid decimal '' @ Quote raw))
      | Some v \<Rightarrow>
          if v = NaN \<or> v = PosInf \<or> v = NegInf
          then Inl (ErrNew (''invalid non-finite decimal '' @ Quote raw))
          else Inr v)"

definition flexibleFloat64 :: "json \<Rightarrow> go_error + float64" where
  "flexibleFloat64 data =
     (case data of
        JStr v \<Rightarrow> flexible_of_text (TrimSpace v)
      | JNum t \<Rightarrow> flexible_of_text (TrimSpace t)
      | _ \<Rightarrow> Inl (ErrNew ''invalid decimal''))"

text \<open>
  A struct field takes every key that equals its name up to case, in order; null resets the pointer.
\<close>

fun max_kwh_field :: "float64 option \<Rightarrow> (string \<times> json) list \<Rightarrow> go_error + float64 option" where
  "max_kwh_field cur [] = Inr cur"
| "max_kwh_field cur ((k, v) # kvs) =
     (if \<not> EqualFold k ''max_kwh'' then max_kwh_field cur kvs
      else if v = JNull then max_kwh_field None kvs
      else case flexibleFloat64 v of
             Inl err \<Rightarrow> Inl err
           | Inr f \<Rightarrow> max_kwh_field (Some f) kvs)"

definition parseMaxKWhResponse :: "body \<Rightarrow> go_error + float64" where
  "parseMaxKWhResponse respBody =
     (let missing = Inl (ErrNew (''missing max_kwh in response: '' @ body_text respBody)) in
      case respBody of
        Malformed t \<Rightarrow> Inl (ErrNew (''invalid JSON response: '' @ ''syntax error''))
      | Body JNull t \<Rightarrow> missing
      | Body (JObj kvs) t \<Rightarrow>
          (case max_kwh_field None kvs of
             Inl err \<Rightarrow> Inl (ErrNew (''invalid JSON response: '' @ error_text err))
           | Inr None \<Rightarrow> missing
           | Inr (Some f) \<Rightarrow> Inr f)
      | Body _ t \<Rightarrow> Inl (ErrNew (''invalid JSON response: '' @ ''cannot unmarshal'')))"

text \<open>A field of another type makes \<open>Unmarshal\<close> fail, which the caller sees as no charger id.\<close>

fun charger_field :: "string \<Rightarrow> (string \<times> json) list \<Rightarrow> string option" where
  "charger_field cur [] = Some cur"
| "charger_field cur ((k, v) # kvs) =
     (if \<not> EqualFold k ''chargerid'' then charger_field cur kvs
      else case v of
             JStr t \<Rightarrow> charger_field t kvs
           | JNull \<Rightarrow> charger_field cur kvs
           | _ \<Rightarrow> None)"

definition extractChargerID :: "json \<Rightarrow> string" where
  "extractChargerID payload =
     (case payload of
        JObj kvs \<Rightarrow> (case charger_field '''' kvs of Some t \<Rightarrow> t | None \<Rightarrow> '''')
      | _ \<Rightarrow> '''')"

record 'e post_env =
  po_store :: "nat \<Rightarrow> 'e"
  po_http :: "http_request \<Rightarrow> http_result"
  po_now :: time

text \<open>
  \<open>postResult\<close> with its error: a fatal message (empty for none) and an error.  The limit stopper is
  the HAL; it is absent until \<open>SetLimitStopper\<close> has run.
\<close>

type_synonym post_result = "string \<times> go_error option"

definition after_start_reply ::
  "('e, 's) TransactionStore \<Rightarrow> bool \<Rightarrow> 'e post_env \<Rightarrow> 's hal \<Rightarrow> CallbackTask \<Rightarrow> body \<Rightarrow> post_result \<times> 's hal" where
  "after_start_reply ts limitStopper env h task respBody =
     (case parseMaxKWhResponse respBody of
        Inl err \<Rightarrow> (('''', Some err), h)
      | Inr maxKWh \<Rightarrow>
          (case ta_TransactionID task of
             None \<Rightarrow> (('''', None), h)
           | Some t \<Rightarrow>
               (case m_UpdateTransactionMaxKWh ts (po_store env 0) (hal_store h) t maxKWh of
                  (Inl err, s) \<Rightarrow> (('''', Some err), h\<lparr>hal_store := s\<rparr>)
                | (Inr _, s) \<Rightarrow>
                    let h1 = h\<lparr>hal_store := s\<rparr>; chargerID = extractChargerID (ta_Payload task) in
                    (('''', None),
                     if chargerID \<noteq> '''' \<and> limitStopper
                     then CheckAndRequestLimitStop ts (po_store env 1) h1 chargerID t else h1))))"

definition postTask ::
  "('e, 's) TransactionStore \<Rightarrow> hook_config \<Rightarrow> bool \<Rightarrow> 'e post_env \<Rightarrow> 's hal \<Rightarrow> CallbackTask
   \<Rightarrow> post_result \<times> 's hal" where
  "postTask ts cfg limitStopper env h task =
     (case (if ta_Kind task = KindStartTransaction then normalizeStartCallbackPayload (ta_Payload task)
            else Inr (ta_Payload task)) of
        Inl err \<Rightarrow> ((error_text err, None), h)
      | Inr payload \<Rightarrow>
          (case po_http env \<lparr>rq_URL = ta_TargetURL task, rq_Body = payload,
                  rq_apiauthkey = (if cfg_APIAuthKey cfg \<noteq> '''' then Some (cfg_APIAuthKey cfg) else None)\<rparr> of
             Bad_request err \<Rightarrow> ((error_text err, None), h)
           | Transport_error err \<Rightarrow> (('''', Some err), h)
           | Read_error status err \<Rightarrow> (('''', Some (ErrWrap ''read callback response'' err)), h)
           | Response status respBody \<Rightarrow>
               if status \<ge> 400
               then (('''', Some (ErrNew (''HTTP '' @ FormatInt status @ '': '' @ body_text respBody))), h)
               else if ta_Kind task = KindStartTransaction
               then after_start_reply ts limitStopper env h task respBody
               else (('''', None), h)))"

definition retryBase :: "string \<Rightarrow> duration" where
  "retryBase kind = (if kind = KindStartTransaction then 30 * Second else 60 * Second)"

text \<open>64-bit arithmetic: \<open>retryBase(kind) * time.Duration(1<<(retries-1))\<close>.\<close>

definition wrap64 :: "int \<Rightarrow> int" where
  "wrap64 i = sint (word_of_int i :: 64 word)"

definition retry_backoff :: "string \<Rightarrow> int \<Rightarrow> duration" where
  "retry_backoff kind retries = wrap64 (retryBase kind * wrap64 (2 ^ nat (retries - 1)))"

definition processTask ::
  "('e, 's) TransactionStore \<Rightarrow> hook_config \<Rightarrow> bool \<Rightarrow> 'e post_env \<Rightarrow> 's hal \<Rightarrow> CallbackTask \<Rightarrow> 's hal" where
  "processTask ts cfg limitStopper env h task =
     (let ((fatal, err), h1) = postTask ts cfg limitStopper env h task; e = po_store env 2 in
      if fatal \<noteq> '''' then
        h1\<lparr>hal_store := snd (m_MarkCallbackFatal ts e (hal_store h1) (ta_ID task) fatal)\<rparr>
      else
        case err of
          None \<Rightarrow> h1\<lparr>hal_store := snd (m_MarkCallbackSent ts e (hal_store h1) (ta_ID task))\<rparr>
        | Some er \<Rightarrow>
            let retries = ta_Retries task + 1 in
            if retries \<ge> ta_MaxRetries task
            then h1\<lparr>hal_store := snd (m_MarkCallbackFatal ts e (hal_store h1) (ta_ID task) (error_text er))\<rparr>
            else
              let nextRetry = po_now env + retry_backoff (ta_Kind task) retries
              in h1\<lparr>hal_store := snd (m_MarkCallbackRetry ts e (hal_store h1) (ta_ID task) retries
                                   nextRetry (error_text er))\<rparr>)"

section \<open>The worker\<close>

text \<open>Errors of a single enqueue are only logged, so one bad row does not stop the others.\<close>

fun enqueue_all ::
  "(nat \<Rightarrow> 's \<Rightarrow> Transaction \<Rightarrow> ('s, unit) call) \<Rightarrow> nat \<Rightarrow> Transaction list \<Rightarrow> 's \<Rightarrow> 's" where
  "enqueue_all enq n [] s = s"
| "enqueue_all enq n (tx # txs) s = enqueue_all enq (Suc n) txs (snd (enq n s tx))"

record 'e work_env =
  we_list_start :: 'e
  we_list_completed :: 'e
  we_claim :: 'e
  we_start :: "nat \<Rightarrow> 'e"
  we_completed :: "nat \<Rightarrow> 'e"
  we_post :: "nat \<Rightarrow> 'e post_env"

definition reconcileMissingCallbacks ::
  "('e, 's) TransactionStore \<Rightarrow> hook_config \<Rightarrow> 'e work_env \<Rightarrow> 's \<Rightarrow> 's" where
  "reconcileMissingCallbacks ts cfg env s0 =
     (let s1 = (case m_ListTransactionsMissingStartCallbacks ts (we_list_start env) s0 25 of
                  (Inl err, s) \<Rightarrow> s
                | (Inr txs, s) \<Rightarrow> enqueue_all (\<lambda>n. EnqueueStartTransaction ts cfg (we_start env n)) 0 txs s)
      in case m_ListTransactionsMissingCompletedCallbacks ts (we_list_completed env) s1 25 of
           (Inl err, s) \<Rightarrow> s
         | (Inr txs, s) \<Rightarrow> enqueue_all (\<lambda>n. EnqueueCompletedTransaction ts cfg (we_completed env n)) 0 txs s)"

fun process_all ::
  "('e, 's) TransactionStore \<Rightarrow> hook_config \<Rightarrow> bool \<Rightarrow> (nat \<Rightarrow> 'e post_env) \<Rightarrow> nat \<Rightarrow> CallbackTask list
   \<Rightarrow> 's hal \<Rightarrow> 's hal" where
  "process_all ts cfg limitStopper env n [] h = h"
| "process_all ts cfg limitStopper env n (task # tasks) h =
     process_all ts cfg limitStopper env (Suc n) tasks (processTask ts cfg limitStopper (env n) h task)"

definition processOnce ::
  "('e, 's) TransactionStore \<Rightarrow> hook_config \<Rightarrow> bool \<Rightarrow> 'e work_env \<Rightarrow> 's hal \<Rightarrow> 's hal" where
  "processOnce ts cfg limitStopper env h =
     (let h1 = h\<lparr>hal_store := reconcileMissingCallbacks ts cfg env (hal_store h)\<rparr> in
      case m_ClaimDueCallbacks ts (we_claim env) (hal_store h1) 10 of
        (Inl err, s) \<Rightarrow> h1\<lparr>hal_store := s\<rparr>
      | (Inr tasks, s) \<Rightarrow> process_all ts cfg limitStopper (we_post env) 0 tasks (h1\<lparr>hal_store := s\<rparr>))"

end
