(* ===== verification/Hooks_Correct.thy ===== *)
theory Hooks_Correct
  imports Hal_Correct Hooks
begin

text \<open>
  What the callback worker of \<open>hooks/manager.go\<close> guarantees over any store that keeps its contract:
  posting keeps the transactions, a pass of the reconciliation queues every missing callback it can
  see, a failing callback is retried a bounded number of times with a bounded delay, and a decimal
  read from a reply is finite.
\<close>

section \<open>The worker keeps the transactions\<close>

definition quiet_post :: "('e \<Rightarrow> bool) \<Rightarrow> 'e post_env \<Rightarrow> bool" where
  "quiet_post Q env \<longleftrightarrow> (\<forall>n. Q (po_store env n))"

definition quiet_work :: "('e \<Rightarrow> bool) \<Rightarrow> 'e work_env \<Rightarrow> bool" where
  "quiet_work Q env \<longleftrightarrow> Q (we_list_start env) \<and> Q (we_list_completed env) \<and> Q (we_claim env)
     \<and> (\<forall>n. Q (we_start env n)) \<and> (\<forall>n. Q (we_completed env n)) \<and> (\<forall>n. quiet_post Q (we_post env n))"

context transaction_store begin

abbreviation hal_keeps :: "'s hal \<Rightarrow> 's hal \<Rightarrow> bool" where
  "hal_keeps h h' \<equiv> keeps_store (hal_store h) (hal_store h')"

lemma enqueue_all_keeps:
  assumes "\<And>n s tx. inv s \<Longrightarrow> keeps_store s (snd (enq n s tx))" and "inv s"
  shows "keeps_store s (enqueue_all enq n txs s)"
  using assms(2)
proof (induction txs arbitrary: n s)
  case (Cons tx txs)
  note k = assms(1) [OF Cons.prems, of n tx]
  show ?case using keeps_trans [OF k Cons.IH [OF keeps_inv [OF k]]] by simp
qed simp

lemma start_enqueue_keeps:
  "\<lbrakk>inv s; quiet e\<rbrakk> \<Longrightarrow> keeps_store s (snd (EnqueueStartTransaction ts cfg e s tx))"
  using start_enqueue_law [of s e cfg tx] by (metis prod.collapse same_rows_keeps)

lemma completed_enqueue_keeps:
  "\<lbrakk>inv s; quiet e\<rbrakk> \<Longrightarrow> keeps_store s (snd (EnqueueCompletedTransaction ts cfg e s tx))"
  using completed_enqueue_law [of s e cfg tx] by (metis prod.collapse same_rows_keeps)

lemma after_start_reply_keeps:
  assumes "inv (hal_store h)" "quiet_post quiet env"
    and "after_start_reply ts ls env h task body = (r, h')"
  shows "hal_keeps h h'"
proof -
  have q: "quiet (po_store env n)" for n using assms(2) by (simp add: quiet_post_def)
  show ?thesis
  proof (cases "parseMaxKWhResponse body")
    case (Inl err)
    then show ?thesis using assms by (auto simp: after_start_reply_def)
  next
    case kwh: (Inr m)
    show ?thesis
    proof (cases "ta_TransactionID task")
      case None
      then show ?thesis using assms kwh by (auto simp: after_start_reply_def)
    next
      case (Some t)
      obtain ru s1 where up: "m_UpdateTransactionMaxKWh ts (po_store env 0) (hal_store h) t m = (ru, s1)"
        by fastforce
      note k = max_keeps [OF assms(1) q up]
      note c = limit_check_keeps [of "h\<lparr>hal_store := s1\<rparr>" "po_store env 1" "extractChargerID (ta_Payload task)" t]
      have "keeps_store s1 (hal_store h')"
        using assms(3) kwh Some up keeps_inv [OF k] c q
        by (auto simp: after_start_reply_def Let_def split: sum.splits if_splits)
      with k show ?thesis by (rule keeps_trans)
    qed
  qed
qed

lemma postTask_keeps:
  assumes "inv (hal_store h)" "quiet_post quiet env" and "postTask ts cfg ls env h task = (r, h')"
  shows "hal_keeps h h'"
  using assms after_start_reply_keeps [OF assms(1,2)]
  by (auto simp: postTask_def split: sum.splits http_result.splits if_splits)

lemma processTask_keeps:
  assumes "inv (hal_store h)" "quiet_post quiet env"
  shows "hal_keeps h (processTask ts cfg ls env h task)"
proof -
  obtain fatal err h1 where p: "postTask ts cfg ls env h task = ((fatal, err), h1)"
    by (metis prod.exhaust)
  have q: "quiet (po_store env n)" for n using assms(2) by (simp add: quiet_post_def)
  note k = postTask_keeps [OF assms p]
  have "hal_keeps h1 (processTask ts cfg ls env h task)"
    using p outbox_keeps(3-5) [OF keeps_inv [OF k] q] keeps_inv [OF k]
    by (auto simp: processTask_def Let_def split: option.splits) (metis prod.collapse)+
  with k show ?thesis by (rule keeps_trans)
qed

lemma process_all_keeps:
  assumes "\<And>n. quiet_post quiet (env n)" and "inv (hal_store h)"
  shows "hal_keeps h (process_all ts cfg ls env n tasks h)"
  using assms(2)
proof (induction tasks arbitrary: n h)
  case (Cons task tasks)
  note k = processTask_keeps [OF Cons.prems assms(1), of cfg ls n task]
  show ?case using keeps_trans [OF k Cons.IH [OF keeps_inv [OF k]]] by simp
qed simp

lemma reconcile_keeps:
  assumes "inv s" and "quiet_work quiet env"
  shows "keeps_store s (reconcileMissingCallbacks ts cfg env s)"
proof -
  have q: "quiet (we_list_start env)" "quiet (we_list_completed env)" "\<And>n. quiet (we_start env n)"
    "\<And>n. quiet (we_completed env n)"
    using assms(2) by (simp_all add: quiet_work_def)
  obtain ta where ta: "m_ListTransactionsMissingStartCallbacks ts (we_list_start env) s 25 = (Inr ta, s)"
    using missing_start_law [OF assms(1) q(1), of 25] by (metis prod.exhaust zero_le_numeral)
  let ?s1 = "enqueue_all (\<lambda>n. EnqueueStartTransaction ts cfg (we_start env n)) 0 ta s"
  have k1: "keeps_store s ?s1" using q assms(1) by (intro enqueue_all_keeps start_enqueue_keeps) auto
  obtain tb where tb: "m_ListTransactionsMissingCompletedCallbacks ts (we_list_completed env) ?s1 25 = (Inr tb, ?s1)"
    using missing_completed_law [OF keeps_inv [OF k1] q(2), of 25] by (metis prod.exhaust zero_le_numeral)
  have "keeps_store ?s1 (enqueue_all (\<lambda>n. EnqueueCompletedTransaction ts cfg (we_completed env n)) 0 tb ?s1)"
    using q keeps_inv [OF k1] by (intro enqueue_all_keeps completed_enqueue_keeps) auto
  from keeps_trans [OF k1 this] show ?thesis
    using ta tb by (simp add: reconcileMissingCallbacks_def Let_def)
qed

lemma processOnce_keeps:
  assumes "inv (hal_store h)" and "quiet_work quiet env"
  shows "hal_keeps h (processOnce ts cfg ls env h)"
proof -
  let ?s1 = "reconcileMissingCallbacks ts cfg env (hal_store h)"
  note k1 = reconcile_keeps [OF assms, of cfg]
  obtain rt s2 where cl: "m_ClaimDueCallbacks ts (we_claim env) ?s1 10 = (rt, s2)" by fastforce
  have k2: "keeps_store ?s1 s2"
    using outbox_keeps(2) [OF keeps_inv [OF k1] _ cl] assms(2) by (simp add: quiet_work_def)
  have "keeps_store s2 (hal_store (processOnce ts cfg ls env h))"
    using cl keeps_inv [OF k2] process_all_keeps [of "we_post env" "h\<lparr>hal_store := s2\<rparr>"] assms(2)
    by (cases rt) (simp_all add: processOnce_def Let_def quiet_work_def)
  with keeps_trans [OF k1 k2] show ?thesis by (rule keeps_trans)
qed

end

section \<open>Reconciliation\<close>

lemma lists_missing_all:
  assumes "lists_missing R K kind b limit txs" and "finite (missing R K kind b)"
    and "int (card (missing R K kind b)) < limit"
  shows "set txs = missing R K kind b"
proof -
  have "length txs = card (set txs)" "card (set txs) \<le> card (missing R K kind b)"
    using assms(1) card_mono [OF assms(2), of "set txs"] distinct_card [of txs]
    unfolding lists_missing_def by simp_all
  then show ?thesis using assms(1,3) by (simp add: lists_missing_def)
qed

lemma missing_covered:
  assumes "K \<subseteq> K'" and "(\<lambda>tx. dedupe_key kind (tx_TransactionID tx)) ` missing R K kind b \<subseteq> K'"
  shows "missing R K' kind b = {}"
proof -
  have "missing R K' kind b \<subseteq> missing R K kind b" using assms(1) by (auto simp: missing_def)
  moreover have "dedupe_key kind (tx_TransactionID q) \<in> K'" if "q \<in> missing R K kind b" for q
    using assms(2) that by blast
  ultimately show ?thesis by (fastforce simp: missing_def)
qed

definition hooks_configured :: "hook_config \<Rightarrow> bool" where
  "hooks_configured cfg \<longleftrightarrow> cfg_MainCMSStartTxnHookURL cfg \<noteq> [] \<and> cfg_MainCMSCompletedTxnURL cfg \<noteq> []"

text \<open>No more transactions miss a callback than one pass can see.\<close>

definition few_missing :: "rows \<Rightarrow> string set \<Rightarrow> bool" where
  "few_missing R K \<longleftrightarrow> (\<forall>(kind, b) \<in> {(KindStartTransactionStore, False), (KindCompletedTransactionStore, True)}.
     finite (missing R K kind b) \<and> card (missing R K kind b) < 25)"

text \<open>A completed transaction whose stored consumption the manager accepts.\<close>

definition billable :: "Transaction \<Rightarrow> bool" where
  "billable q \<longleftrightarrow> (case tx_TotalConsumption q of None \<Rightarrow> False | Some c \<Rightarrow> \<not> f_lt c (Fin 0))"

context transaction_store begin

lemma enqueue_all_keys:
  assumes enq: "\<And>n s tx. inv s \<Longrightarrow> inv (snd (enq n s tx)) \<and> row (snd (enq n s tx)) = row s
      \<and> keys s \<subseteq> keys (snd (enq n s tx)) \<and> (tx \<in> A \<longrightarrow> key tx \<in> keys (snd (enq n s tx)))"
    and "inv s" and "set txs \<subseteq> A"
  shows "inv (enqueue_all enq n txs s) \<and> row (enqueue_all enq n txs s) = row s
    \<and> keys s \<subseteq> keys (enqueue_all enq n txs s) \<and> key ` set txs \<subseteq> keys (enqueue_all enq n txs s)"
  using assms(2,3)
proof (induction txs arbitrary: n s)
  case (Cons tx txs)
  let ?s = "snd (enq n s tx)"
  have e: "inv ?s" "row ?s = row s" "keys s \<subseteq> keys ?s" "key tx \<in> keys ?s"
    using enq [OF Cons.prems(1)] Cons.prems(2) by auto
  show ?case using Cons.IH [OF e(1), of "Suc n"] Cons.prems(2) e(2-4) by auto
qed simp

lemma start_enqueue_adds:
  assumes "inv s" "quiet e" "hooks_configured cfg"
  shows "let s' = snd (EnqueueStartTransaction ts cfg e s tx) in
    inv s' \<and> row s' = row s \<and> keys s \<subseteq> keys s' \<and> dedupe_key KindStartTransactionStore (tx_TransactionID tx) \<in> keys s'"
proof -
  obtain ru s' where r: "EnqueueStartTransaction ts cfg e s tx = (ru, s')" by fastforce
  have "ru = Inr ()" using r assms enqueue_law [OF assms(1,2)]
    by (auto simp: EnqueueStartTransaction_def Let_def hooks_configured_def split: if_splits)
  then show ?thesis using start_enqueue_law [OF assms(1,2) r] r by (simp add: Let_def)
qed

lemma completed_enqueue_adds:
  assumes "inv s" "quiet e" "hooks_configured cfg"
  shows "let s' = snd (EnqueueCompletedTransaction ts cfg e s tx) in
    inv s' \<and> row s' = row s \<and> keys s \<subseteq> keys s' \<and>
    (tx_StopTime tx \<noteq> None \<and> tx_MeterStop tx \<noteq> None \<and> billable tx \<longrightarrow>
       dedupe_key KindCompletedTransactionStore (tx_TransactionID tx) \<in> keys s')"
proof -
  obtain ru s' where r: "EnqueueCompletedTransaction ts cfg e s tx = (ru, s')" by fastforce
  have "tx_StopTime tx \<noteq> None \<Longrightarrow> tx_MeterStop tx \<noteq> None \<Longrightarrow> billable tx \<Longrightarrow> ru = Inr ()"
    using r assms enqueue_law [OF assms(1,2)]
    by (auto simp: EnqueueCompletedTransaction_def Let_def hooks_configured_def billable_def
        split: if_splits option.splits)
  then show ?thesis using completed_enqueue_law [OF assms(1,2) r] r by (simp add: Let_def)
qed

lemma reconcile_complete:
  assumes st: "inv s" "quiet_work quiet env" "hooks_configured cfg"
    and few: "few_missing (row s) (keys s)"
    and bill: "\<And>k q. row s k = Some q \<Longrightarrow> \<not> is_open q \<Longrightarrow> billable q"
  shows "missing (row (reconcileMissingCallbacks ts cfg env s)) (keys (reconcileMissingCallbacks ts cfg env s))
      KindStartTransactionStore False = {} \<and>
    missing (row (reconcileMissingCallbacks ts cfg env s)) (keys (reconcileMissingCallbacks ts cfg env s))
      KindCompletedTransactionStore True = {}"
proof -
  have q: "quiet (we_list_start env)" "quiet (we_list_completed env)" "\<And>n. quiet (we_start env n)"
    "\<And>n. quiet (we_completed env n)"
    using st(2) by (simp_all add: quiet_work_def)
  obtain ta where ta: "m_ListTransactionsMissingStartCallbacks ts (we_list_start env) s 25 = (Inr ta, s)"
    "lists_missing (row s) (keys s) KindStartTransactionStore False 25 ta"
    using missing_start_law [OF st(1) q(1), of 25] by (metis prod.exhaust zero_le_numeral)
  have sa: "set ta = missing (row s) (keys s) KindStartTransactionStore False"
    using lists_missing_all [OF ta(2)] few by (simp add: few_missing_def)
  define s1 where "s1 = enqueue_all (\<lambda>n. EnqueueStartTransaction ts cfg (we_start env n)) 0 ta s"
  have s1: "inv s1 \<and> row s1 = row s \<and> keys s \<subseteq> keys s1
      \<and> (\<lambda>tx. dedupe_key KindStartTransactionStore (tx_TransactionID tx)) ` set ta \<subseteq> keys s1"
    unfolding s1_def using start_enqueue_adds [OF _ q(3) st(3)] st(1)
    by (intro enqueue_all_keys [where A = UNIV]) (auto simp: Let_def)
  obtain tb where tb: "m_ListTransactionsMissingCompletedCallbacks ts (we_list_completed env) s1 25 = (Inr tb, s1)"
    "lists_missing (row s1) (keys s1) KindCompletedTransactionStore True 25 tb"
    using missing_completed_law [OF conjunct1 [OF s1] q(2), of 25] by (metis prod.exhaust zero_le_numeral)
  have sub: "missing (row s1) (keys s1) KindCompletedTransactionStore True
      \<subseteq> missing (row s) (keys s) KindCompletedTransactionStore True"
    using s1 by (auto simp: missing_def)
  then have "finite (missing (row s1) (keys s1) KindCompletedTransactionStore True)"
    "card (missing (row s1) (keys s1) KindCompletedTransactionStore True) < 25"
    using few card_mono [OF _ sub] unfolding few_missing_def by (auto intro: finite_subset)
  then have sb: "set tb = missing (row s1) (keys s1) KindCompletedTransactionStore True"
    using lists_missing_all [OF tb(2)] by simp
  define s2 where "s2 = enqueue_all (\<lambda>n. EnqueueCompletedTransaction ts cfg (we_completed env n)) 0 tb s1"
  let ?A = "{tx. tx_StopTime tx \<noteq> None \<and> tx_MeterStop tx \<noteq> None \<and> billable tx}"
  have "set tb \<subseteq> ?A"
    using sb s1 bill rows_okD(4) [OF rows_ok_inv [OF st(1)]] by (auto simp: missing_def is_open_def)
  then have s2: "inv s2 \<and> row s2 = row s1 \<and> keys s1 \<subseteq> keys s2
      \<and> (\<lambda>tx. dedupe_key KindCompletedTransactionStore (tx_TransactionID tx)) ` set tb \<subseteq> keys s2"
    unfolding s2_def using completed_enqueue_adds [OF _ q(4) st(3)] s1
    by (intro enqueue_all_keys [where A = ?A]) (auto simp: Let_def)
  have "reconcileMissingCallbacks ts cfg env s = s2"
    using ta(1) tb(1) by (simp add: reconcileMissingCallbacks_def Let_def s1_def s2_def)
  moreover have "missing (row s2) (keys s2) KindStartTransactionStore False = {}"
    using s1 s2 sa missing_covered [of "keys s" "keys s2" KindStartTransactionStore "row s" False] by auto
  moreover have "missing (row s2) (keys s2) KindCompletedTransactionStore True = {}"
    using s2 sb missing_covered [of "keys s1" "keys s2" KindCompletedTransactionStore "row s1" True] by auto
  ultimately show ?thesis by simp
qed

end

section \<open>Retries\<close>

lemma wrap64_id: "- (2 ^ 63) \<le> i \<Longrightarrow> i < 2 ^ 63 \<Longrightarrow> wrap64 i = i"
  by (simp add: wrap64_def sint_sbintrunc' signed_take_bit_int_eq_self)

definition max_attempts :: "string \<Rightarrow> int" where
  "max_attempts kind = (if kind = KindStartTransaction then 6 else 10)"

lemma retry_backoff_exact:
  assumes "1 \<le> r" and "r \<le> 9"
  shows "retry_backoff kind r = retryBase kind * 2 ^ nat (r - 1)"
proof -
  define n where "n = nat (r - 1)"
  have "n \<le> 8" using assms by (simp add: n_def)
  then have p: "(2 :: int) ^ n \<le> 2 ^ 8" by (intro power_increasing) simp_all
  have b: "0 < retryBase kind" "retryBase kind \<le> 60 * Second"
    by (simp_all add: retryBase_def duration_defs)
  have "retryBase kind * 2 ^ n \<le> 60 * Second * 2 ^ 8" using b p by (intro mult_mono) simp_all
  also have "\<dots> < 2 ^ 63" by (simp add: duration_defs)
  finally have m: "retryBase kind * 2 ^ n < 2 ^ 63" .
  have pos: "(0 :: int) < 2 ^ n" by simp
  have mpos: "0 < retryBase kind * 2 ^ n" using b(1) pos by (rule mult_pos_pos)
  have "wrap64 x = x" if "0 < x" "x \<le> 256" for x using that by (intro wrap64_id) simp_all
  then have "wrap64 (2 ^ n) = 2 ^ n" using p pos by simp
  moreover have "wrap64 (retryBase kind * 2 ^ n) = retryBase kind * 2 ^ n"
    using m mpos by (intro wrap64_id) simp_all
  ultimately show ?thesis by (simp add: retry_backoff_def n_def)
qed

section \<open>Payloads and replies\<close>

lemma fold_update_ok:
  "gomap_ok m \<Longrightarrow> gomap_ok (fold (\<lambda>(k, v). AList.update k v) kvs m)
   \<and> map_of (fold (\<lambda>(k, v). AList.update k v) kvs m) = map_of m ++ map_of (rev kvs)"
proof (induction kvs arbitrary: m)
  case (Cons p kvs)
  then show ?case using Cons.IH [of "AList.update (fst p) (snd p) m"]
    by (cases p) (auto simp: fun_eq_iff map_add_def split: option.splits)
qed simp

lemma sort_key_ok: "gomap_ok m \<Longrightarrow> gomap_ok (sort_key f m) \<and> map_of (sort_key f m) = map_of m"
proof -
  assume ok: "gomap_ok m"
  have "distinct (map fst (sort_key f m))"
    using ok unfolding gomap_ok_def distinct_map by simp
  then show ?thesis using ok unfolding gomap_ok_def by (simp add: map_of_inject_set)
qed

lemma sort_fields_ok:
  "gomap_ok (sort_fields kvs) \<and> map_of (sort_fields kvs) = map_of (rev kvs)"
  using sort_key_ok [of "fold (\<lambda>(k, v). AList.update k v) kvs []"] fold_update_ok [of "[]" kvs]
  by (simp add: sort_fields_def)

lemma map_of_rev_ok: "gomap_ok m \<Longrightarrow> map_of (rev m) = map_of m"
  using map_of_inject_set [of "rev m" m] by (simp add: gomap_ok_def rev_map [symmetric])

lemma normalize_fields:
  "normalizeStartCallbackPayload (JObj kvs) = Inr p \<Longrightarrow>
   \<exists>kvs'. p = JObj kvs' \<and> gomap_ok kvs' \<and>
     map_of kvs' = (case map_of (rev kvs) ''transactionid'' of
        None \<Rightarrow> map_of (rev kvs)
      | Some v \<Rightarrow> (map_of (rev kvs))(''transactionid'' \<mapsto> JStr (Sprint v)))"
proof -
  assume run: "normalizeStartCallbackPayload (JObj kvs) = Inr p"
  let ?f = "fold (\<lambda>(k, v). AList.update k v) kvs []"
  have f: "gomap_ok ?f" "map_of ?f = map_of (rev kvs)" using fold_update_ok [of "[]" kvs] by simp_all
  have sorted: "gomap_ok (sort_fields m)" "gomap_ok m \<Longrightarrow> map_of (sort_fields m) = map_of m" for m :: "(string \<times> json) list"
    using sort_fields_ok [of m] by (simp_all add: map_of_rev_ok)
  have p: "p = JObj (sort_fields (case map_of (rev kvs) ''transactionid'' of None \<Rightarrow> ?f
      | Some v \<Rightarrow> AList.update ''transactionid'' (JStr (Sprint v)) ?f))"
    using run f(2) by (simp add: normalizeStartCallbackPayload_def Let_def)
  show ?thesis
  proof (cases "map_of (rev kvs) ''transactionid''")
    case None
    then show ?thesis using p sorted(1) [of ?f] sorted(2) [OF f(1)] f(2) by simp
  next
    case (Some v)
    let ?g = "AList.update ''transactionid'' (JStr (Sprint v)) ?f"
    have "gomap_ok ?g" using f(1) by simp
    then show ?thesis using p Some sorted(1) [of ?g] sorted(2) [of ?g] f(2) by simp
  qed
qed

definition finite_float :: "float64 \<Rightarrow> bool" where
  "finite_float f \<longleftrightarrow> f \<noteq> NaN \<and> f \<noteq> PosInf \<and> f \<noteq> NegInf"

lemma flexible_finite: "flexibleFloat64 j = Inr f \<Longrightarrow> finite_float f"
  unfolding finite_float_def
  by (cases f) (auto simp: flexibleFloat64_def flexible_of_text_def split: json.splits option.splits if_splits)

lemma max_kwh_field_finite: "max_kwh_field cur kvs = Inr (Some f) \<Longrightarrow> cur = Some f \<or> finite_float f"
proof (induction cur kvs rule: max_kwh_field.induct)
  case (2 cur k v kvs)
  then show ?case by (auto split: if_splits sum.splits dest: flexible_finite)
qed simp

lemma parse_finite: "parseMaxKWhResponse body = Inr f \<Longrightarrow> finite_float f"
  by (auto simp: parseMaxKWhResponse_def Let_def split: body.splits json.splits sum.splits option.splits
      dest: max_kwh_field_finite)

section \<open>Properties of the manager\<close>

text \<open>A configuration for examples.\<close>

definition demo_cfg :: hook_config where
  "demo_cfg = \<lparr>cfg_MainCMSStartTxnHookURL = ''http://cms/start'', cfg_SingleSessionStartTxnHookURL = [],
     cfg_MainCMSCompletedTxnURL = ''http://cms/completed'', cfg_SingleSessionCompletedTxnURL = [],
     cfg_APIAuthKey = []\<rparr>"

text \<open>
  C26. The delay before the next attempt of a failed callback is exactly the base of its kind doubled
  once per failure: the 64-bit arithmetic never wraps for the attempts the manager makes, so the
  delay is at least 30 seconds and at most 8 minutes for a start callback and 4 hours 16 minutes for
  a completion callback.
\<close>

theorem retry_delay_bounds:
  assumes "1 \<le> retries" and "retries < max_attempts kind"
  shows "retry_backoff kind retries = retryBase kind * 2 ^ nat (retries - 1) \<and>
    30 * Second \<le> retry_backoff kind retries \<and>
    retry_backoff kind retries \<le> (if kind = KindStartTransaction then 480 * Second else 15360 * Second)"
proof -
  have le: "retries \<le> 9" using assms(2) by (simp add: max_attempts_def split: if_splits)
  note e = retry_backoff_exact [OF assms(1) le]
  define n where "n = nat (retries - 1)"
  have n: "n \<le> (if kind = KindStartTransaction then 4 else 8)"
    using assms by (auto simp: max_attempts_def n_def split: if_splits)
  have "(2 :: int) ^ n \<le> (if kind = KindStartTransaction then 16 else 256)"
    using n power_increasing [of n 4 "2 :: int"] power_increasing [of n 8 "2 :: int"] by (auto split: if_splits)
  moreover have "(1 :: int) \<le> 2 ^ n" by simp
  moreover define x :: int where "x = 2 ^ n"
  ultimately show ?thesis
    unfolding e n_def [symmetric] x_def [symmetric] by (cases "kind = KindStartTransaction") (simp_all add: retryBase_def duration_defs)
qed

theorem retry_delay_bounds_witness:
  "retry_backoff KindStartTransaction 5 = 480 * Second"
  using retry_delay_bounds [of 5 KindStartTransaction]
  by (simp add: max_attempts_def retryBase_def duration_defs)



text \<open>
  C28. Before a start callback is posted its transaction id is turned into a string, whatever type the
  stored payload gave it, and every other field is kept as it was.
\<close>

theorem posted_start_payload:
  assumes "normalizeStartCallbackPayload (JObj kvs) = Inr p"
  shows "\<exists>kvs'. p = JObj kvs' \<and> gomap_ok kvs' \<and>
    map_of kvs' ''transactionid'' = map_option (\<lambda>v. JStr (Sprint v)) (map_of (rev kvs) ''transactionid'') \<and>
    (\<forall>k. k \<noteq> ''transactionid'' \<longrightarrow> map_of kvs' k = map_of (rev kvs) k)"
  using normalize_fields [OF assms] by (auto split: option.splits)

theorem posted_start_payload_witness:
  "\<exists>kvs'. normalizeStartCallbackPayload (JObj [(''transactionid'', JNum ''42''), (''userid'', JStr ''TAG'')])
       = Inr (JObj kvs') \<and> map_of kvs' ''transactionid'' = Some (JStr ''42'')"
proof -
  let ?kvs = "[(''transactionid'', JNum ''42''), (''userid'', JStr ''TAG'')]"
  obtain p where p: "normalizeStartCallbackPayload (JObj ?kvs) = Inr p"
    by (simp add: normalizeStartCallbackPayload_def Let_def)
  show ?thesis using posted_start_payload [OF p] p by (auto simp: Sprint_def)
qed

end
