(* ===== verification/Service.thy ===== *)
theory Service
  imports Hooks_Correct Tx_Updates
begin

text \<open>
  The running service: the HAL's handlers, its goroutines, the remote commands and the callback
  worker as steps on one state.  A handler or a pass of the worker is one step, and the goroutines
  are split into their single accesses, so everything that main.go starts may interleave between
  handlers.
\<close>

section \<open>Steps\<close>

inductive service_step ::
  "('e, 's) TransactionStore \<Rightarrow> ('e \<Rightarrow> bool) \<Rightarrow> hook_config \<Rightarrow> 's hal \<Rightarrow> 's hal \<Rightarrow> bool" for ts Q cfg where
  start: "\<lbrakk>\<And>n. Q (he_store env n); OnStartTransaction ts (Some (manager_sink ts cfg)) env h cp sreq = (rs, h')\<rbrakk>
    \<Longrightarrow> service_step ts Q cfg h h'"
| meter: "\<lbrakk>\<And>n. Q (he_store env n); OnMeterValues ts env h cp mreq = (ru, h')\<rbrakk> \<Longrightarrow> service_step ts Q cfg h h'"
| stop: "\<lbrakk>\<And>n. Q (he_store env n); OnStopTransaction ts (Some (manager_sink ts cfg)) env h cp preq = (ru, h')\<rbrakk>
    \<Longrightarrow> service_step ts Q cfg h h'"
| boot: "\<lbrakk>\<And>n. Q (he_store env n); OnBootNotification ts env h cp = (rb, h')\<rbrakk> \<Longrightarrow> service_step ts Q cfg h h'"
| status: "OnStatusNotification (env :: 'e hal_env) h cp nreq = (ru, h') \<Longrightarrow> service_step ts Q cfg h h'"
| heartbeat: "OnHeartbeat (env :: 'e hal_env) h cp = (rt, h') \<Longrightarrow> service_step ts Q cfg h h'"
| authorize: "OnAuthorize (env :: 'e hal_env) h cp = (ra, h') \<Longrightarrow> service_step ts Q cfg h h'"
| data: "OnDataTransfer (env :: 'e hal_env) h cp = (ra, h') \<Longrightarrow> service_step ts Q cfg h h'"
| diagnostics: "OnDiagnosticsStatusNotification (env :: 'e hal_env) h cp = (ru, h') \<Longrightarrow> service_step ts Q cfg h h'"
| firmware: "OnFirmwareStatusNotification (env :: 'e hal_env) h cp = (ru, h') \<Longrightarrow> service_step ts Q cfg h h'"
| worker: "quiet_work Q wenv \<Longrightarrow> service_step ts Q cfg h (processOnce ts cfg ls wenv h)"
| limit_released: "\<lbrakk>Q e; m_ReleaseLimitStopRequest ts e (hal_store h) cp t = (ru, s)\<rbrakk> \<Longrightarrow>
    service_step ts Q cfg h (h\<lparr>hal_store := s\<rparr>)"
| ghost_closed: "\<lbrakk>Q e; m_ForceCloseTransaction ts e (hal_store h) fc = (rf, s)\<rbrakk> \<Longrightarrow>
    service_step ts Q cfg h (h\<lparr>hal_store := s\<rparr>)"
| ghost_queued: "\<lbrakk>Q e; EnqueueCompletedTransaction ts cfg e (hal_store h) tx = (ru, s)\<rbrakk> \<Longrightarrow>
    service_step ts Q cfg h (h\<lparr>hal_store := s\<rparr>)"
| bookkeeping: "hal_store h' = hal_store h \<Longrightarrow> service_step ts Q cfg h h'"

inductive service_run ::
  "('e, 's) TransactionStore \<Rightarrow> ('e \<Rightarrow> bool) \<Rightarrow> hook_config \<Rightarrow> 's hal \<Rightarrow> 's hal \<Rightarrow> bool" for ts Q cfg where
  refl: "service_run ts Q cfg h h"
| step: "\<lbrakk>service_run ts Q cfg h h'; service_step ts Q cfg h' h''\<rbrakk> \<Longrightarrow> service_run ts Q cfg h h''"

context transaction_store begin

lemma manager_hooks: "hook_sink ts quiet inv row keys (manager_sink ts cfg)"
  by (rule manager_sink_contract)

lemma step_cases_keeps:
  assumes "keeps_store (hal_store h) (hal_store h')" and "one_open (row (hal_store h))"
  shows "inv (hal_store h') \<and> one_open (row (hal_store h')) \<and>
    rows_evolve (row (hal_store h)) (row (hal_store h')) \<and> keys (hal_store h) \<subseteq> keys (hal_store h')"
  using assms one_open_keeps [OF assms(2,1)] by (simp add: keeps_def)

lemma service_step_law:
  assumes "service_step ts quiet cfg h h'" and "inv (hal_store h)" and "one_open (row (hal_store h))"
  shows "inv (hal_store h') \<and> one_open (row (hal_store h')) \<and>
    rows_evolve (row (hal_store h)) (row (hal_store h')) \<and> keys (hal_store h) \<subseteq> keys (hal_store h')"
  using assms(1)
proof (cases rule: service_step.cases)
  case start
  then show ?thesis using hook_sink.start_law [OF manager_hooks assms(2) _ assms(3)] by metis
next
  case (meter env cp mreq ru)
  then show ?thesis using OnMeterValues_keeps [OF assms(2)] step_cases_keeps assms(3) by metis
next
  case (stop env cp preq ru)
  then show ?thesis
    using hook_sink.OnStopTransaction_law [OF manager_hooks assms(2)] step_cases_keeps assms(3) by metis
next
  case (boot env cp rb)
  then show ?thesis using OnBoot_keeps [OF assms(2)] step_cases_keeps assms(3) by metis
next
  case (worker wenv ls)
  then show ?thesis using processOnce_keeps [OF assms(2)] step_cases_keeps assms(3) by metis
next
  case (limit_released e cp t ru s)
  then show ?thesis using release_keeps [OF assms(2)] step_cases_keeps [of h h'] assms(3) by simp
next
  case (ghost_closed e fc rf s)
  then show ?thesis using force_keeps [OF assms(2)] step_cases_keeps [of h h'] assms(3) by simp
next
  case (ghost_queued e tx ru s)
  then show ?thesis using completed_enqueue_keeps [OF assms(2), of e cfg tx] step_cases_keeps [of h h'] assms(3) by simp
qed (use assms(2,3) in \<open>auto simp: OnStatusNotification_def OnHeartbeat_def OnAuthorize_def OnDataTransfer_def
       OnDiagnosticsStatusNotification_def OnFirmwareStatusNotification_def touch_hal_def\<close>)

lemma service_run_law:
  assumes "service_run ts quiet cfg h h'" and "inv (hal_store h)" and "one_open (row (hal_store h))"
  shows "inv (hal_store h') \<and> one_open (row (hal_store h')) \<and>
    rows_evolve (row (hal_store h)) (row (hal_store h')) \<and> keys (hal_store h) \<subseteq> keys (hal_store h')"
  using assms
proof (induction rule: service_run.induct)
  case (step h h' h'')
  then show ?case using service_step_law [OF step.hyps(2)] by (meson rows_evolve_trans subset_trans)
qed simp

end

section \<open>The two deployments\<close>

interpretation mem_hooks: hook_sink memory_methods "\<lambda>_. True" mem_inv mem_row mem_keys
  "manager_sink memory_methods cfg" for cfg
  by (rule mem.manager_hooks)

abbreviation service_store :: "(pg_env, PgDB \<times> TransactionUpdates) TransactionStore" where
  "service_store \<equiv> WithTransactionUpdates postgres_methods"

interpretation pg_hooks: hook_sink service_store pg_quiet
  "\<lambda>s. pg_inv (fst s)" "\<lambda>s. pg_row (fst s)" "\<lambda>s. pg_keys (fst s)" "manager_sink service_store cfg" for cfg
  by (rule obs_pg.manager_hooks)

abbreviation db_of :: "(PgDB \<times> TransactionUpdates) hal \<Rightarrow> PgDB" where
  "db_of h \<equiv> fst (hal_store h)"

section \<open>A first start, as an example\<close>

definition demo_hal :: "(PgDB \<times> TransactionUpdates) hal" where
  "demo_hal = \<lparr>hal_store = (empty_db, NewTransactionUpdates), hal_registry = NewRegistry, hal_pending = [],
     hal_limit_jobs = [], hal_boot_running = [], hal_boot_jobs = [], hal_sync_once = [], hal_sync_jobs = []\<rparr>"

definition demo_env :: "pg_env hal_env" where
  "demo_env = \<lparr>he_store = (\<lambda>_. calm 7 0), he_now = (\<lambda>_ _. 0), he_order = []\<rparr>"

definition demo_start :: StartTransactionRequest where
  "demo_start = \<lparr>sr_ConnectorId = 1, sr_IdTag = ''TAG'', sr_MeterStart = 1000\<rparr>"

definition demo_started :: "(PgDB \<times> TransactionUpdates) hal" where
  "demo_started = snd (OnStartTransaction service_store (Some (manager_sink service_store demo_cfg))
     demo_env demo_hal ''CP1'' demo_start)"

lemma demo_start_accepted:
  "OnStartTransaction service_store (Some (manager_sink service_store demo_cfg)) demo_env demo_hal ''CP1'' demo_start
   = (Inr (Accepted, 7), demo_started)"
  by (rule prod_eqI)
    (simp_all add: demo_started_def OnStartTransaction_def fresh_start_def touch_hal_def Let_def demo_hal_def
      demo_env_def demo_start_def WithTransactionUpdates_def Pg_ListOpenTransactionsByCharger_def empty_db_def
      consumePendingSingleSession_def Pg_CreateTransaction_first pg_insert_tx_def RandomTransactionID_def
      Int63n_def maxTransactionID_def publish_ok_def start_hook_def manager_sink_def
      EnqueueStartTransaction_def demo_cfg_def Pg_EnqueueCallback_def range_order_def pg_exec_def
      del: Pg_create_attempts.simps)

lemma demo_simps [simp]:
  "pg_inv (db_of demo_hal)" "one_open (pg_row (db_of demo_hal))" "pg_quiet (he_store demo_env n)"
  "pg_row (db_of demo_hal) k = None"
  by (simp_all add: demo_hal_def demo_env_def one_open_def)

lemma demo_run: "service_run service_store pg_quiet demo_cfg demo_hal demo_started"
  by (rule service_run.step [OF service_run.refl], rule service_step.start [OF _ demo_start_accepted]) simp

lemma demo_run_law:
  "pg_inv (db_of demo_started) \<and> one_open (pg_row (db_of demo_started)) \<and>
   started (pg_row (db_of demo_started)) (pg_keys (db_of demo_started)) (hal_registry demo_started) ''CP1'' demo_start 7"
  using pg_hooks.start_law [OF _ _ _ demo_start_accepted] by simp

section \<open>Properties of every run\<close>



text \<open>
  C2. No run of the service over the PostgreSQL store ever loses a transaction or changes what
  identifies it: charger, connector, start meter, start time, tag, ids and the single-session flag
  stay; once the stop time is written it is never written again; a queued callback is never lost.
\<close>

theorem transactions_are_permanent:
  assumes "service_run service_store pg_quiet cfg h h'"
    and "pg_inv (db_of h)" and "one_open (pg_row (db_of h))"
    and "pg_row (db_of h) k = Some q"
  shows "\<exists>q'. pg_row (db_of h') k = Some q' \<and>
    tx_ChargerID q' = tx_ChargerID q \<and> tx_ConnectorID q' = tx_ConnectorID q \<and>
    tx_MeterStart q' = tx_MeterStart q \<and> tx_StartTime q' = tx_StartTime q \<and> tx_IDTag q' = tx_IDTag q \<and>
    tx_TransactionID q' = k \<and> tx_UUIDDB q' = tx_UUIDDB q \<and> tx_IsSingleSession q' = tx_IsSingleSession q \<and>
    (\<forall>t. tx_StopTime q = Some t \<longrightarrow> tx_StopTime q' = Some t) \<and>
    pg_keys (db_of h) \<subseteq> pg_keys (db_of h')"
proof -
  note law = obs_pg.service_run_law [OF assms(1-3)]
  then obtain q' where "pg_row (db_of h') k = Some q'" "evolves q q'"
    using assms(4) unfolding rows_evolve_def by blast
  moreover have "tx_TransactionID q = k" using pg.rows_ok_inv [OF assms(2)] assms(4) by (rule rows_okD(1))
  ultimately show ?thesis using law by (auto simp: evolves_def is_open_def)
qed

theorem transactions_are_permanent_witness:
  "service_run service_store pg_quiet demo_cfg demo_started demo_started \<and>
   (\<exists>q. pg_row (db_of demo_started) 7 = Some q \<and> tx_TransactionID q = 7)"
proof -
  have run: "service_run service_store pg_quiet demo_cfg demo_started demo_started" by (rule service_run.refl)
  obtain q where q: "pg_row (db_of demo_started) 7 = Some q" using demo_run_law by (auto simp: started_def)
  show ?thesis using transactions_are_permanent [OF run _ _ q] demo_run_law run by auto
qed

section \<open>Starting\<close>



text \<open>
  C7. A StartTransaction for a connector that already has an open transaction never opens a second
  one.  A retry with the same tag and start meter gets the same transaction id again (or an error,
  after which it may be repeated); any other request is answered Blocked and changes nothing in the
  store.
\<close>

theorem start_on_busy_connector:
  assumes "OnStartTransaction service_store (Some (manager_sink service_store cfg)) env h cp req = (r, h')"
    and "\<And>n. pg_quiet (he_store env n)" and "pg_inv (db_of h)" and "one_open (pg_row (db_of h))"
    and "pg_row (db_of h) t = Some q" and "is_open q" and "tx_ChargerID q = cp"
    and "tx_ConnectorID q = sr_ConnectorId req"
  shows "pg_row (db_of h') = pg_row (db_of h) \<and>
    (if tx_IDTag q = sr_IdTag req \<and> f_eq (tx_MeterStart q) (f_of_int (sr_MeterStart req))
     then (\<exists>err. r = Inl err) \<or> r = Inr (Accepted, t) \<and> dedupe_key KindStartTransaction t \<in> pg_keys (db_of h')
     else r = Inr (Blocked, 0) \<and> db_of h' = db_of h)"
proof -
  have id: "tx_TransactionID q = t" using pg.rows_ok_inv [OF assms(3)] assms(5) by (rule rows_okD(1))
  have "q \<in> pending_open (pg_row (db_of h)) cp" using assms(5-7) id by (simp add: pending_open_def)
  note law = pg_hooks.start_existing [OF assms(3,2,4) this assms(8,1)]
  then show ?thesis using id by (auto simp: started_def split: if_splits)
qed

theorem start_on_busy_connector_witness:
  "fst (OnStartTransaction service_store (Some (manager_sink service_store demo_cfg)) demo_env demo_started ''CP1''
     (demo_start\<lparr>sr_IdTag := ''OTHER''\<rparr>)) = Inr (Blocked, 0)"
proof -
  obtain q where q: "pg_row (db_of demo_started) 7 = Some q" "is_open q" "tx_ChargerID q = ''CP1''"
    "tx_ConnectorID q = 1" "tx_IDTag q = ''TAG''"
    using demo_run_law by (auto simp: started_def demo_start_def)
  let ?req = "demo_start\<lparr>sr_IdTag := ''OTHER''\<rparr>"
  obtain r h' where run: "OnStartTransaction service_store (Some (manager_sink service_store demo_cfg)) demo_env
    demo_started ''CP1'' ?req = (r, h')" by fastforce
  show ?thesis
    using start_on_busy_connector [OF run _ _ _ q(1-3)] demo_run_law q run by (simp add: demo_start_def)
qed

section \<open>Stopping\<close>

text \<open>
  C4. When the service confirms a StopTransaction, the transaction belongs to that charger and is
  closed: an open one got the reported meter stop, the energy from its start meter and a stop time,
  a closed one keeps everything it had, so a repeated stop is harmless.  No other transaction
  changed, its completion callback is in the outbox and its connector shows no transaction.  A stop
  for an unknown or foreign transaction is an error that writes nothing.
\<close>

theorem confirmed_stop_is_recorded:
  assumes "OnStopTransaction service_store (Some (manager_sink service_store cfg)) env h cp req = (r, h')"
    and "\<And>n. pg_quiet (he_store env n)" and "pg_inv (db_of h)"
  shows "case owned (pg_row (db_of h)) cp (pr_TransactionId req) of
      None \<Rightarrow> r = Inl (ErrWrap ''persist stop transaction'' ErrTransactionNotFound) \<and> pg_row (db_of h') = pg_row (db_of h)
    | Some q \<Rightarrow>
        (if is_open q
         then \<exists>t. pg_row (db_of h') = (pg_row (db_of h))
                (pr_TransactionId req \<mapsto> stopped_at t (f_of_int (pr_MeterStop req)) q)
         else pg_row (db_of h') = pg_row (db_of h)) \<and>
        (r = Inr () \<longrightarrow>
           dedupe_key KindCompletedTransaction (pr_TransactionId req) \<in> pg_keys (db_of h') \<and>
           TransactionIDForConnector (hal_registry h') cp (tx_ConnectorID q) = None)"
proof (cases "owned (pg_row (db_of h)) cp (pr_TransactionId req)")
  case None
  have "r = Inl (ErrWrap ''persist stop transaction'' ErrTransactionNotFound)"
    using pg_hooks.OnStopTransaction_law [OF assms(3,2,1)] None by blast
  moreover have "pg_row (db_of h') = pg_row (db_of h)"
    using assms(1) None obs_pg.stop_law [OF assms(3,2), of 0 "\<lparr>st_ChargerID = cp,
        st_TransactionID = pr_TransactionId req, st_MeterStop = f_of_int (pr_MeterStop req)\<rparr>"]
    by (fastforce simp: OnStopTransaction_def touch_hal_def Let_def split: prod.splits sum.splits)
  ultimately show ?thesis using None by simp
next
  case (Some q)
  have rows: "if is_open q
     then \<exists>t. pg_row (db_of h') = (pg_row (db_of h))(pr_TransactionId req \<mapsto> stopped_at t (f_of_int (pr_MeterStop req)) q)
     else pg_row (db_of h') = pg_row (db_of h)"
    using pg_hooks.OnStopTransaction_rows [OF assms(3,2,1) Some] .
  then have "\<exists>q'. pg_row (db_of h') (pr_TransactionId req) = Some q' \<and> tx_ConnectorID q' = tx_ConnectorID q"
    using owned_row [OF Some] by (auto split: if_splits)
  then show ?thesis
    using rows Some pg_hooks.OnStopTransaction_law [OF assms(3,2,1)] by (auto simp: stopped_def)
qed

definition demo_stop :: StopTransactionRequest where
  "demo_stop = \<lparr>pr_TransactionId = 7, pr_MeterStop = 2500\<rparr>"

theorem confirmed_stop_is_recorded_witness:
  "\<exists>r h' q. OnStopTransaction service_store (Some (manager_sink service_store demo_cfg)) demo_env demo_started
       ''CP1'' demo_stop = (r, h') \<and> pg_row (db_of h') 7 = Some q \<and> tx_MeterStop q = Some (Fin 2500) \<and> \<not> is_open q"
proof -
  obtain r h' where run: "OnStopTransaction service_store (Some (manager_sink service_store demo_cfg)) demo_env
    demo_started ''CP1'' demo_stop = (r, h')" by fastforce
  obtain q where q: "owned (pg_row (db_of demo_started)) ''CP1'' 7 = Some q" "is_open q"
    using demo_run_law by (auto simp: started_def owned_Some_iff)
  have "\<exists>t. pg_row (db_of h') = (pg_row (db_of demo_started))(7 \<mapsto> stopped_at t (f_of_int 2500) q)"
    using confirmed_stop_is_recorded [OF run] demo_run_law q by (simp add: demo_stop_def)
  with run show ?thesis by auto
qed

section \<open>Callbacks and limits\<close>

text \<open>
  C9. One pass of the reconciliation puts a start callback into the outbox for every stored
  transaction and a completion callback for every closed one, whatever was lost before, provided
  the hook URLs are configured, fewer than 25 transactions miss a callback of each kind, and no
  closed transaction has a negative consumption (the manager rejects those for ever).
\<close>

theorem reconcile_queues_every_callback:
  assumes "pg_inv (fst s)" and "quiet_work pg_quiet env" and "hooks_configured cfg"
    and "few_missing (pg_row (fst s)) (pg_keys (fst s))"
    and "\<And>k q. pg_row (fst s) k = Some q \<Longrightarrow> \<not> is_open q \<Longrightarrow> billable q"
    and "s' = reconcileMissingCallbacks service_store cfg env s"
    and "pg_row (fst s') k = Some q"
  shows "dedupe_key KindStartTransaction k \<in> pg_keys (fst s') \<and>
    (\<not> is_open q \<longrightarrow> dedupe_key KindCompletedTransaction k \<in> pg_keys (fst s'))"
proof -
  have keep: "pg_inv (fst s')"
    using obs_pg.reconcile_keeps [OF assms(1,2), of cfg] assms(6) by (simp add: keeps_def)
  have id: "tx_TransactionID q = k" using pg.rows_ok_inv [OF keep] assms(7) by (rule rows_okD(1))
  have none: "missing (pg_row (fst s')) (pg_keys (fst s')) KindStartTransactionStore False = {}"
    "missing (pg_row (fst s')) (pg_keys (fst s')) KindCompletedTransactionStore True = {}"
    using obs_pg.reconcile_complete [OF assms(1-5)] assms(6) by simp_all
  have "q \<notin> missing (pg_row (fst s')) (pg_keys (fst s')) KindStartTransactionStore False"
    "q \<notin> missing (pg_row (fst s')) (pg_keys (fst s')) KindCompletedTransactionStore True"
    unfolding none by simp_all
  then show ?thesis using assms(7) id by (auto simp: missing_def)
qed

definition demo_work :: "pg_env work_env" where
  "demo_work = \<lparr>we_list_start = calm 7 0, we_list_completed = calm 7 0, we_claim = calm 7 0,
     we_start = (\<lambda>_. calm 7 0), we_completed = (\<lambda>_. calm 7 0),
     we_post = (\<lambda>_. \<lparr>po_store = (\<lambda>_. calm 7 0), po_http = (\<lambda>_. Transport_error (ErrExternal ''down'')), po_now = 0\<rparr>)\<rparr>"

text \<open>The example state after the start, with its outbox emptied, as a lost enqueue would leave it.\<close>

definition demo_lost :: "PgDB \<times> TransactionUpdates" where
  "demo_lost = ((db_of demo_started)\<lparr>pg_outbox := []\<rparr>, NewTransactionUpdates)"

lemma demo_started_rows: "pg_row (db_of demo_started) k = Some q \<Longrightarrow> k = 7 \<and> is_open q"
proof -
  assume q: "pg_row (db_of demo_started) k = Some q"
  show ?thesis
    using q by (auto simp: demo_started_def OnStartTransaction_def fresh_start_def touch_hal_def Let_def demo_hal_def
      demo_env_def demo_start_def WithTransactionUpdates_def Pg_ListOpenTransactionsByCharger_def empty_db_def
      consumePendingSingleSession_def Pg_CreateTransaction_first pg_insert_tx_def RandomTransactionID_def
      Int63n_def maxTransactionID_def publish_ok_def start_hook_def manager_sink_def pg_row_def is_open_def
      EnqueueStartTransaction_def demo_cfg_def Pg_EnqueueCallback_def range_order_def pg_exec_def
      del: Pg_create_attempts.simps split: if_splits)
qed

theorem reconcile_queues_every_callback_witness:
  "dedupe_key KindStartTransaction 7
     \<in> pg_keys (fst (reconcileMissingCallbacks service_store demo_cfg demo_work demo_lost))"
proof -
  let ?s' = "reconcileMissingCallbacks service_store demo_cfg demo_work demo_lost"
  have row: "pg_row (fst demo_lost) = pg_row (db_of demo_started)" by (simp add: demo_lost_def fun_eq_iff pg_row_def)
  have i: "pg_inv (fst demo_lost)"
    using demo_run_law row by (auto simp: demo_lost_def pg_inv_def pg_outbox_ok_def)
  have w: "quiet_work pg_quiet demo_work" by (simp add: quiet_work_def quiet_post_def demo_work_def)
  have sub: "missing (pg_row (fst demo_lost)) K kind b \<subseteq> {q. pg_row (db_of demo_started) 7 = Some q}" for K kind b
    using demo_started_rows by (fastforce simp: missing_def row)
  have fin: "finite (missing (pg_row (fst demo_lost)) K kind b) \<and> card (missing (pg_row (fst demo_lost)) K kind b) < 25"
    for K kind b
  proof -
    have "finite {q. pg_row (db_of demo_started) 7 = Some q}" "card {q. pg_row (db_of demo_started) 7 = Some q} \<le> 1"
      by (cases "pg_row (db_of demo_started) 7"; simp)+
    then show ?thesis using sub [of K kind b] card_mono [OF _ sub [of K kind b]] finite_subset by fastforce
  qed
  obtain q where q: "pg_row (db_of demo_started) 7 = Some q" using demo_run_law by (auto simp: started_def)
  obtain q' where "pg_row (fst ?s') 7 = Some q'"
    using obs_pg.reconcile_keeps [OF i w, of demo_cfg] q unfolding keeps_def rows_evolve_def row by blast
  then show ?thesis
    using reconcile_queues_every_callback [OF i w _ _ _ HOL.refl, of demo_cfg 7 q'] fin demo_started_rows
    by (auto simp: few_missing_def hooks_configured_def demo_cfg_def row)
qed

text \<open>
  C10. An open transaction that has reached its energy limit is claimed by exactly one caller: the
  first check wins, a second one loses, and after the claim is released the next check wins again.
\<close>

theorem limit_is_claimed_once:
  assumes "pg_inv db" and "pg_quiet e1" and "pg_quiet e2" and "pg_quiet e3" and "pg_quiet e4"
    and "pg_row db t = Some q" and "tx_ChargerID q = cp" and "limit_due q"
    and "Pg_CheckAndMarkLimitStop e1 db cp t = (r1, db1)"
    and "Pg_CheckAndMarkLimitStop e2 db1 cp t = (r2, db2)"
    and "Pg_ReleaseLimitStopRequest e3 db2 cp t = (ru, db3)"
    and "Pg_CheckAndMarkLimitStop e4 db3 cp t = (r3, db4)"
  shows "r1 = Inr True \<and> r2 = Inr False \<and> r3 = Inr True"
proof -
  have own: "owned (pg_row db) cp t = Some q" using assms(6,7) by (simp add: owned_Some_iff)
  have m1: "r1 = Inr True \<and> pg_inv db1 \<and> pg_row db1 = (pg_row db)(t \<mapsto> q\<lparr>tx_LimitStopRequested := True\<rparr>)"
    using pg.mark_law [OF assms(1,2), of cp t r1 db1] assms(9) own assms(8) by auto
  have m2: "r2 = Inr False \<and> pg_row db2 = pg_row db1" "pg_inv db2"
    using pg.mark_claims_once [OF assms(1,2,3)] assms(9,10) m1
      pg.mark_law [OF conjunct1 [OF conjunct2 [OF m1]] assms(3), of cp t r2 db2] by auto
  have own2: "owned (pg_row db2) cp t = Some (q\<lparr>tx_LimitStopRequested := True\<rparr>)"
    using m1 m2(1) assms(7) by (simp add: owned_Some_iff)
  have m3: "pg_inv db3 \<and> owned (pg_row db3) cp t = Some (q\<lparr>tx_LimitStopRequested := False\<rparr>)"
    using pg.release_law [OF m2(2) assms(4), of cp t ru db3] assms(11) own2 assms(7,8)
    by (auto simp: owned_Some_iff limit_due_def limit_ready_def is_open_def)
  have "limit_due (q\<lparr>tx_LimitStopRequested := False\<rparr>)"
    using assms(8) by (simp add: limit_due_def limit_ready_def is_open_def)
  then have "r3 = Inr True" 
    using pg.mark_law [OF conjunct1 [OF m3] assms(5), of cp t r3 db4] assms(12) m3 by auto
  with m1 m2 show ?thesis by simp
qed

definition demo_limited :: Transaction where
  "demo_limited =
     \<lparr>tx_ID = 1, tx_UUIDDB = ''u'', tx_ChargerID = ''CP1'', tx_ConnectorID = 1, tx_MeterStart = Fin 0,
      tx_MeterStop = Some (Fin 5000), tx_TotalConsumption = Some (Fin 5), tx_StartTime = 0, tx_StopTime = None,
      tx_IDTag = ''TAG'', tx_TransactionID = 7, tx_IsSingleSession = False, tx_MaxKWh = Some (Fin 5),
      tx_LimitStopRequested = False\<rparr>"

definition demo_limited_db :: PgDB where
  "demo_limited_db = empty_db\<lparr>pg_transactions := [demo_limited], pg_tx_seq := 1\<rparr>"

lemma demo_limited_facts:
  "pg_inv demo_limited_db" "pg_row demo_limited_db 7 = Some demo_limited" "tx_ChargerID demo_limited = ''CP1''"
  "limit_due demo_limited" "is_open demo_limited"
proof -
  have r: "pg_row demo_limited_db = [7 \<mapsto> demo_limited]"
    by (rule ext) (simp add: pg_row_def demo_limited_db_def demo_limited_def)
  have "consumption_kwh (Fin 0) (Fin 5000) = Fin 5" by code_simp
  then have "rows_ok (pg_row demo_limited_db)"
    by (simp add: r rows_ok_def demo_limited_def is_open_def maxTransactionID_def)
  then show "pg_inv demo_limited_db"
    by (simp add: pg_inv_def demo_limited_db_def pg_outbox_ok_def empty_db_def)
  show "pg_row demo_limited_db 7 = Some demo_limited" by (simp add: r)
qed (simp_all add: demo_limited_def limit_due_def limit_ready_def is_open_def)

theorem limit_is_claimed_once_witness:
  "fst (Pg_CheckAndMarkLimitStop (calm 7 0) demo_limited_db ''CP1'' 7) = Inr True"
proof -
  obtain r1 db1 where 1: "Pg_CheckAndMarkLimitStop (calm 7 0) demo_limited_db ''CP1'' 7 = (r1, db1)" by fastforce
  obtain r2 db2 where 2: "Pg_CheckAndMarkLimitStop (calm 7 0) db1 ''CP1'' 7 = (r2, db2)" by fastforce
  obtain r3 db3 where 3: "Pg_ReleaseLimitStopRequest (calm 7 0) db2 ''CP1'' 7 = (r3, db3)" by fastforce
  obtain r4 db4 where 4: "Pg_CheckAndMarkLimitStop (calm 7 0) db3 ''CP1'' 7 = (r4, db4)" by fastforce
  show ?thesis
    using limit_is_claimed_once [OF _ _ _ _ _ _ _ _ 1 2 3 4] demo_limited_facts 1 by simp
qed


text \<open>A charger that refuses everything, and nobody else at work.\<close>

definition demo_central :: central where
  "demo_central = \<lparr>ce_status = (\<lambda>_. Reply (Some ''Rejected'') None), ce_configuration = (\<lambda>_. Done_first (ErrNew ''none'')),
     ce_diagnostics = (\<lambda>_. Done_first (ErrNew ''none'')), ce_firmware = (\<lambda>_. Done_first (ErrNew ''none''))\<rparr>"

definition demo_world :: "(pg_env, PgDB \<times> TransactionUpdates) limit_world" where
  "demo_world = \<lparr>lw_store = (\<lambda>_. calm 7 0), lw_other = (\<lambda>_. id), lw_central = (\<lambda>_. demo_central), lw_lag = (\<lambda>_. 0)\<rparr>"

definition demo_job :: "(PgDB \<times> TransactionUpdates) job" where
  "demo_job = \<lparr>jb_store = (demo_limited_db, NewTransactionUpdates), jb_n = 0, jb_calls = 0, jb_time = 0, jb_sent = []\<rparr>"


end
