(* ===== verification/Outbox_Delivery.thy ===== *)
theory Outbox_Delivery
  imports Hooks_Correct Postgres_Store
begin

text \<open>
  The life of a callback in the PostgreSQL outbox under one callback worker: callbacks are queued at
  any time, the worker claims due ones, posts them one after the other and marks each, and claims
  again only when it has finished.  The property is how often a callback is tried.
\<close>

section \<open>What a pass writes to the outbox\<close>

lemma pg_tx_updates_outbox [simp]:
  "pg_outbox (snd (pg_update_tx P f db)) = pg_outbox db"
  "pg_outbox_seq (snd (pg_update_tx P f db)) = pg_outbox_seq db"
  by (simp_all add: pg_update_tx_def)

lemma pg_limit_calls_outbox:
  assumes "pg_quiet e"
  shows "pg_outbox (snd (Pg_UpdateTransactionMaxKWh e db t m)) = pg_outbox db"
    "pg_outbox_seq (snd (Pg_UpdateTransactionMaxKWh e db t m)) = pg_outbox_seq db"
    "pg_outbox (snd (Pg_CheckAndMarkLimitStop e db c t)) = pg_outbox db"
    "pg_outbox_seq (snd (Pg_CheckAndMarkLimitStop e db c t)) = pg_outbox_seq db"
  using assms by (auto simp: Pg_UpdateTransactionMaxKWh_def Pg_CheckAndMarkLimitStop_def pg_ok_def pg_update_tx_def)

abbreviation hal_outbox :: "PgDB hal \<Rightarrow> pg_callback list" where
  "hal_outbox h \<equiv> pg_outbox (hal_store h)"

lemma limit_check_outbox:
  "pg_quiet e \<Longrightarrow> hal_outbox (CheckAndRequestLimitStop postgres_methods e h c t) = hal_outbox h"
  "pg_quiet e \<Longrightarrow> pg_outbox_seq (hal_store (CheckAndRequestLimitStop postgres_methods e h c t)) = pg_outbox_seq (hal_store h)"
  using pg_limit_calls_outbox(3,4) [of e "hal_store h" c t]
  by (auto simp: CheckAndRequestLimitStop_def split: prod.splits sum.splits)

lemma postTask_outbox:
  assumes "quiet_post pg_quiet env" and "postTask postgres_methods cfg ls env h task = (r, h')"
  shows "hal_outbox h' = hal_outbox h \<and> pg_outbox_seq (hal_store h') = pg_outbox_seq (hal_store h)"
proof -
  have q: "pg_quiet (po_store env n)" for n using assms(1) by (simp add: quiet_post_def)
  have upd: "pg_outbox s = hal_outbox h \<and> pg_outbox_seq s = pg_outbox_seq (hal_store h)"
    if "Pg_UpdateTransactionMaxKWh (po_store env 0) (hal_store h) t m = (ru, s)" for t m ru s
    using that pg_limit_calls_outbox(1,2) [OF q, of 0 "hal_store h" t m] by simp
  have "hal_outbox h' = hal_outbox h \<and> pg_outbox_seq (hal_store h') = pg_outbox_seq (hal_store h)"
    if "after_start_reply postgres_methods ls env h task body = (r, h')" for body
    using that limit_check_outbox [OF q]
    by (auto simp: after_start_reply_def Let_def dest: upd split: sum.splits option.splits prod.splits if_splits)
  then show ?thesis using assms(2)
    by (auto simp: postTask_def split: sum.splits http_result.splits if_splits)
qed

text \<open>The mark that ends the processing of a task, as an update of its row.\<close>

definition marked :: "string \<Rightarrow> pg_callback \<Rightarrow> pg_callback \<Rightarrow> bool" where
  "marked st c c' \<longleftrightarrow> pc_id c' = pc_id c \<and> pc_dedupe_key c' = pc_dedupe_key c \<and> pc_kind c' = pc_kind c
     \<and> pc_max_retries c' = pc_max_retries c \<and> pc_status c' = st"

definition finish :: "CallbackTask \<Rightarrow> pg_callback \<Rightarrow> pg_callback \<Rightarrow> bool" where
  "finish task c c' \<longleftrightarrow>
     marked ''sent'' c c' \<and> pc_retries c' = pc_retries c
     \<or> marked ''fatal'' c c' \<and> pc_retries c' = pc_retries c
     \<or> marked ''pending'' c c' \<and> pc_retries c' = ta_Retries task + 1 \<and> ta_Retries task + 1 < ta_MaxRetries task"

lemma pg_marks:
  assumes "pg_quiet e"
  shows "snd (Pg_MarkCallbackSent e db i) = snd (pg_update_cb i (\<lambda>c. c\<lparr>pc_status := ''sent'',
      pc_sent_at := Some (pe_db_now e), pc_updated_at := pe_db_now e, pc_last_error := None\<rparr>) db)"
    "snd (Pg_MarkCallbackRetry e db i n due msg) = snd (pg_update_cb i (\<lambda>c. c\<lparr>pc_status := ''pending'',
      pc_retries := n, pc_next_retry_at := pe_stamp e due, pc_last_error := Some msg,
      pc_updated_at := pe_db_now e\<rparr>) db)"
    "snd (Pg_MarkCallbackFatal e db i msg) = snd (pg_update_cb i (\<lambda>c. c\<lparr>pc_status := ''fatal'',
      pc_last_error := Some msg, pc_updated_at := pe_db_now e\<rparr>) db)"
  using assms by (simp_all add: Pg_MarkCallbackSent_def Pg_MarkCallbackRetry_def Pg_MarkCallbackFatal_def)

lemma processTask_outbox:
  assumes "quiet_post pg_quiet env"
  obtains f where "\<And>c. finish task c (f c)"
    and "hal_outbox (processTask postgres_methods cfg ls env h task)
         = map (\<lambda>c. if pc_id c = ta_ID task then f c else c) (hal_outbox h)"
    and "pg_outbox_seq (hal_store (processTask postgres_methods cfg ls env h task)) = pg_outbox_seq (hal_store h)"
proof -
  obtain fatal err h1 where p: "postTask postgres_methods cfg ls env h task = ((fatal, err), h1)"
    by (metis prod.exhaust)
  have same: "hal_outbox h1 = hal_outbox h" "pg_outbox_seq (hal_store h1) = pg_outbox_seq (hal_store h)"
    using postTask_outbox [OF assms p] by simp_all
  have q: "pg_quiet (po_store env 2)" using assms by (simp add: quiet_post_def)
  let ?h = "processTask postgres_methods cfg ls env h task"
  have "\<exists>f. hal_store ?h = snd (pg_update_cb (ta_ID task) f (hal_store h1)) \<and> (\<forall>c. finish task c (f c))"
  proof (cases "fatal \<noteq> [] \<or> (\<exists>er. err = Some er \<and> ta_Retries task + 1 \<ge> ta_MaxRetries task)")
    case True
    then have "\<exists>msg. hal_store ?h = snd (Pg_MarkCallbackFatal (po_store env 2) (hal_store h1) (ta_ID task) msg)"
      using p by (cases "fatal = []") (auto simp: processTask_def Let_def)
    then obtain msg where "hal_store ?h = snd (Pg_MarkCallbackFatal (po_store env 2) (hal_store h1) (ta_ID task) msg)"
      by blast
    then show ?thesis unfolding pg_marks(3) [OF q]
      by (intro exI conjI) (assumption | simp add: finish_def marked_def)+
  next
    case False
    show ?thesis
    proof (cases err)
      case None
      then have "hal_store ?h = snd (Pg_MarkCallbackSent (po_store env 2) (hal_store h1) (ta_ID task))"
        using p False by (simp add: processTask_def Let_def)
      then show ?thesis unfolding pg_marks(1) [OF q]
        by (intro exI conjI) (assumption | simp add: finish_def marked_def)+
    next
      case (Some er)
      then have "\<exists>due msg. hal_store ?h = snd (Pg_MarkCallbackRetry (po_store env 2) (hal_store h1) (ta_ID task)
          (ta_Retries task + 1) due msg)"
        using p False by (auto simp: processTask_def Let_def)
      then obtain due msg where "hal_store ?h = snd (Pg_MarkCallbackRetry (po_store env 2) (hal_store h1) (ta_ID task)
          (ta_Retries task + 1) due msg)" by blast
      then show ?thesis unfolding pg_marks(2) [OF q] using Some False
        by (intro exI conjI) (assumption | auto simp: finish_def marked_def)+
    qed
  qed
  then obtain f where f: "\<And>c. finish task c (f c)" "hal_store ?h = snd (pg_update_cb (ta_ID task) f (hal_store h1))"
    by blast
  show thesis by (rule that [of f, OF f(1)]) (simp_all add: f(2) same pg_update_cb_def)
qed

lemma pg_mark_processing_eq:
  assumes "pg_quiet e"
  shows "snd (pg_mark_processing e n ids db) = db\<lparr>pg_outbox :=
    map (\<lambda>c. if pc_id c \<in> set ids then c\<lparr>pc_status := ''processing'', pc_updated_at := pe_db_now e\<rparr> else c)
      (pg_outbox db)\<rparr>"
  using assms
proof (induction ids arbitrary: n db)
  case (Cons i ids)
  then show ?case by (auto simp: pg_update_cb_def)
qed simp

section \<open>Runs of the worker\<close>

record delivery =
  dl_hal :: "PgDB hal"
  dl_held :: "CallbackTask list"
  dl_tries :: "int64 \<Rightarrow> nat"

text \<open>
  \<open>queue\<close> is any enqueue of the manager or the HAL, \<open>handler\<close> anything that leaves the outbox alone,
  \<open>claim\<close> and \<open>try_task\<close> are the worker.
\<close>

inductive delivery_run :: "hook_config \<Rightarrow> delivery \<Rightarrow> bool" for cfg where
  init: "\<lbrakk>hal_outbox h = []; pg_inv (hal_store h)\<rbrakk> \<Longrightarrow>
    delivery_run cfg \<lparr>dl_hal = h, dl_held = [], dl_tries = (\<lambda>_. 0)\<rparr>"
| queue: "\<lbrakk>delivery_run cfg d; pg_quiet e; 1 \<le> ec_MaxRetries c;
    Pg_EnqueueCallback e (hal_store (dl_hal d)) c = (ru, db)\<rbrakk> \<Longrightarrow>
    delivery_run cfg (d\<lparr>dl_hal := (dl_hal d)\<lparr>hal_store := db\<rparr>\<rparr>)"
| handler: "\<lbrakk>delivery_run cfg d; hal_outbox h = hal_outbox (dl_hal d);
    pg_outbox_seq (hal_store h) = pg_outbox_seq (hal_store (dl_hal d))\<rbrakk> \<Longrightarrow>
    delivery_run cfg (d\<lparr>dl_hal := h\<rparr>)"
| claim: "\<lbrakk>delivery_run cfg d; dl_held d = []; pg_quiet e;
    Pg_ClaimDueCallbacks e (hal_store (dl_hal d)) 10 = (Inr tasks, db)\<rbrakk> \<Longrightarrow>
    delivery_run cfg (d\<lparr>dl_hal := (dl_hal d)\<lparr>hal_store := db\<rparr>, dl_held := tasks\<rparr>)"
| try_task: "\<lbrakk>delivery_run cfg d; dl_held d = task # tasks; quiet_post pg_quiet env\<rbrakk> \<Longrightarrow>
    delivery_run cfg (d\<lparr>dl_hal := processTask postgres_methods cfg ls env (dl_hal d) task,
      dl_held := tasks, dl_tries := (dl_tries d)(ta_ID task := Suc (dl_tries d (ta_ID task)))\<rparr>)"

definition ended :: "pg_callback \<Rightarrow> bool" where
  "ended c \<longleftrightarrow> pc_status c \<in> {''sent'', ''fatal''}"

definition callback_ok :: "delivery \<Rightarrow> pg_callback \<Rightarrow> bool" where
  "callback_ok d c \<longleftrightarrow>
     pc_status c \<in> {''pending'', ''processing'', ''sent'', ''fatal''}
     \<and> 0 \<le> pc_retries c \<and> pc_retries c < pc_max_retries c
     \<and> int (dl_tries d (pc_id c)) = pc_retries c + (if ended c then 1 else 0)
     \<and> (pc_status c = ''processing'' \<longleftrightarrow> pc_id c \<in> ta_ID ` set (dl_held d))
     \<and> (\<forall>t \<in> set (dl_held d). ta_ID t = pc_id c \<longrightarrow> ta_Retries t = pc_retries c \<and> ta_MaxRetries t = pc_max_retries c)"

definition delivery_ok :: "delivery \<Rightarrow> bool" where
  "delivery_ok d \<longleftrightarrow> pg_outbox_ok (hal_store (dl_hal d)) \<and> (\<forall>c \<in> set (hal_outbox (dl_hal d)). callback_ok d c)
     \<and> distinct (map ta_ID (dl_held d)) \<and> ta_ID ` set (dl_held d) \<subseteq> pc_id ` set (hal_outbox (dl_hal d))
     \<and> (\<forall>i > pg_outbox_seq (hal_store (dl_hal d)). dl_tries d i = 0)"

lemma outbox_ok_map:
  assumes "pg_outbox_ok db" and "\<And>c. pc_id (f c) = pc_id c" "\<And>c. pc_dedupe_key (f c) = pc_dedupe_key c"
    and "pg_outbox db' = map f (pg_outbox db)" and "pg_outbox_seq db' = pg_outbox_seq db"
  shows "pg_outbox_ok db'"
proof -
  have "map pc_id (map f cs) = map pc_id cs" "map pc_dedupe_key (map f cs) = map pc_dedupe_key cs" for cs
    using assms(2,3) by simp_all
  then show ?thesis using assms(1,2,4,5) by (simp add: pg_outbox_ok_def del: map_map)
qed

lemma delivery_ok_mapI:
  assumes "hal_outbox (dl_hal d') = map f cs" and "\<And>c. c \<in> set cs \<Longrightarrow> callback_ok d' (f c)"
    and "pg_outbox_ok (hal_store (dl_hal d'))"
    and "ta_ID ` set (dl_held d') \<subseteq> pc_id ` set (map f cs)" and "distinct (map ta_ID (dl_held d'))"
    and "\<forall>i > pg_outbox_seq (hal_store (dl_hal d')). dl_tries d' i = 0"
  shows "delivery_ok d'"
  using assms by (simp add: delivery_ok_def)

lemma delivery_ok_try:
  assumes ok: "delivery_ok d" and held: "dl_held d = task # tasks" and q: "quiet_post pg_quiet env"
  shows "delivery_ok (d\<lparr>dl_hal := processTask postgres_methods cfg ls env (dl_hal d) task,
      dl_held := tasks, dl_tries := (dl_tries d)(ta_ID task := Suc (dl_tries d (ta_ID task)))\<rparr>)"
    (is "delivery_ok ?d")
proof -
  obtain f where f: "\<And>c. finish task c (f c)"
    "hal_outbox (dl_hal ?d) = map (\<lambda>c. if pc_id c = ta_ID task then f c else c) (hal_outbox (dl_hal d))"
    "pg_outbox_seq (hal_store (dl_hal ?d)) = pg_outbox_seq (hal_store (dl_hal d))"
  proof (rule processTask_outbox [OF q, of task cfg ls "dl_hal d"])
    fix f
    assume "\<And>c. finish task c (f c)"
      and "hal_outbox (processTask postgres_methods cfg ls env (dl_hal d) task)
        = map (\<lambda>c. if pc_id c = ta_ID task then f c else c) (hal_outbox (dl_hal d))"
      and "pg_outbox_seq (hal_store (processTask postgres_methods cfg ls env (dl_hal d) task))
        = pg_outbox_seq (hal_store (dl_hal d))"
    then show thesis by (intro that [of f]) simp_all
  qed
  let ?f = "\<lambda>c. if pc_id c = ta_ID task then f c else c"
  have id: "pc_id (?f c) = pc_id c" "pc_dedupe_key (?f c) = pc_dedupe_key c" for c
    using f(1) [of c] by (auto simp: finish_def marked_def)
  have new: "task \<in> set (dl_held d)" "ta_ID task \<notin> ta_ID ` set tasks"
    using ok held by (simp_all add: delivery_ok_def)
  then have other: "\<forall>t \<in> set tasks. ta_ID t \<noteq> ta_ID task" by (metis imageI)
  have "callback_ok ?d (?f c)" if "c \<in> set (hal_outbox (dl_hal d))" for c
  proof -
    have c: "callback_ok d c" using ok that by (simp add: delivery_ok_def)
    show ?thesis
    proof (cases "pc_id c = ta_ID task")
      case False
      then show ?thesis using c held by (auto simp: callback_ok_def)
    next
      case True
      then have "pc_status c = ''processing''" "ta_Retries task = pc_retries c" "ta_MaxRetries task = pc_max_retries c"
        using c new(1) by (auto simp: callback_ok_def)
      then show ?thesis using c True f(1) [of c] new(2) other held
        by (auto simp: callback_ok_def finish_def marked_def ended_def)
    qed
  qed
  moreover have "pg_outbox_ok (hal_store (dl_hal ?d))"
  proof (rule outbox_ok_map [OF _ id])
    show "pg_outbox_ok (hal_store (dl_hal d))" using ok by (simp add: delivery_ok_def)
  qed (simp_all only: f(2,3))
  moreover have "ta_ID ` set (dl_held ?d) \<subseteq> pc_id ` set (map ?f (hal_outbox (dl_hal d)))"
  proof -
    have "pc_id ` set (map ?f (hal_outbox (dl_hal d))) = pc_id ` set (hal_outbox (dl_hal d))"
      by (simp only: list.set_map image_image id(1))
    then show ?thesis using ok held by (simp add: delivery_ok_def)
  qed
  moreover have "distinct (map ta_ID (dl_held ?d))" using ok held by (simp add: delivery_ok_def)
  moreover have "\<forall>i > pg_outbox_seq (hal_store (dl_hal ?d)). dl_tries ?d i = 0"
  proof -
    have "ta_ID task \<in> pc_id ` set (hal_outbox (dl_hal d))" using ok held by (simp add: delivery_ok_def)
    then have "ta_ID task \<le> pg_outbox_seq (hal_store (dl_hal d))"
      using ok by (auto simp: delivery_ok_def pg_outbox_ok_def)
    then show ?thesis unfolding f(3) using ok by (simp add: delivery_ok_def)
  qed
  ultimately show ?thesis by (intro delivery_ok_mapI [OF f(2)])
qed

lemma Pg_ClaimDueCallbacks_eq:
  assumes "pg_quiet e" and "Pg_ClaimDueCallbacks e db limit = (Inr tasks, db')"
  obtains cs where "tasks = map pg_task cs"
    and "cs = take (nat limit) (sort_key pc_id (filter (\<lambda>c. pg_due e c \<and> \<not> pe_locked e (pc_id c)) (pg_outbox db)))"
    and "db' = db\<lparr>pg_outbox := map (\<lambda>c. if pc_id c \<in> pc_id ` set cs
           then c\<lparr>pc_status := ''processing'', pc_updated_at := pe_db_now e\<rparr> else c) (pg_outbox db)\<rparr>"
proof -
  let ?rows = "take (nat limit) (sort_key pc_id (filter (\<lambda>c. pg_due e c \<and> \<not> pe_locked e (pc_id c)) (pg_outbox db)))"
  have lim: "\<not> limit < 0" using assms by (auto simp: Pg_ClaimDueCallbacks_def)
  obtain r db1 where mark: "pg_mark_processing e 2 (map pc_id ?rows) db = (r, db1)" by fastforce
  have "r = Inr ()" "db1 = snd (pg_mark_processing e 2 (map pc_id ?rows) db)"
    using mark pg_mark_processing_ok [OF assms(1), of 2 "map pc_id ?rows" db] by simp_all
  then have "tasks = map pg_task ?rows" "db' = db1"
    using assms mark lim by (auto simp: Pg_ClaimDueCallbacks_def pg_quiet_def)
  then show thesis
    using that [of ?rows] \<open>db1 = _\<close> by (simp add: pg_mark_processing_eq [OF assms(1)])
qed

lemma delivery_ok_claim:
  assumes ok: "delivery_ok d" and idle: "dl_held d = []" and q: "pg_quiet e"
    and run: "Pg_ClaimDueCallbacks e (hal_store (dl_hal d)) 10 = (Inr tasks, db)"
  shows "delivery_ok (d\<lparr>dl_hal := (dl_hal d)\<lparr>hal_store := db\<rparr>, dl_held := tasks\<rparr>)" (is "delivery_ok ?d")
    and "c \<in> set (hal_outbox (dl_hal d)) \<Longrightarrow> ended c \<Longrightarrow> pc_id c \<notin> ta_ID ` set tasks"
proof -
  let ?db = "hal_store (dl_hal d)"
  obtain cs where cs: "tasks = map pg_task cs"
    "cs = take (nat 10) (sort_key pc_id (filter (\<lambda>c. pg_due e c \<and> \<not> pe_locked e (pc_id c)) (pg_outbox ?db)))"
    "db = ?db\<lparr>pg_outbox := map (\<lambda>c. if pc_id c \<in> pc_id ` set cs
           then c\<lparr>pc_status := ''processing'', pc_updated_at := pe_db_now e\<rparr> else c) (pg_outbox ?db)\<rparr>"
    by (rule Pg_ClaimDueCallbacks_eq [OF q run]) (rule that)
  have ids: "distinct (map pc_id (pg_outbox ?db))" using ok by (simp add: delivery_ok_def pg_outbox_ok_def)
  have sub: "set cs \<subseteq> {c \<in> set (pg_outbox ?db). pg_due e c}"
    unfolding cs(2) by (rule order_trans [OF set_take_subset]) auto
  have cb: "callback_ok d c" if "c \<in> set (pg_outbox ?db)" for c
    using ok that by (simp add: delivery_ok_def)
  have busy: "pc_status c \<noteq> ''processing''" if "c \<in> set (pg_outbox ?db)" for c
    using cb [OF that] idle by (auto simp: callback_ok_def)
  have pend: "pc_status c = ''pending''" if "c \<in> set cs" for c
    using sub that busy by (auto simp: pg_due_def)
  have same: "c' = c" if "c \<in> set (pg_outbox ?db)" "c' \<in> set cs" "pc_id c = pc_id c'" for c c'
    using ids that sub by (auto simp: distinct_map inj_on_def)
  have task: "ta_ID (pg_task c) = pc_id c" "ta_Retries (pg_task c) = pc_retries c"
    "ta_MaxRetries (pg_task c) = pc_max_retries c" for c
    by (simp_all add: pg_task_def)
  have tids: "map ta_ID tasks = map pc_id cs" by (simp add: cs(1) task)
  have "distinct (map pc_id (sort_key pc_id (filter (\<lambda>c. pg_due e c \<and> \<not> pe_locked e (pc_id c)) (pg_outbox ?db))))"
    using ids by (simp add: distinct_map inj_on_def)
  then have dist: "distinct (map ta_ID tasks)" unfolding tids cs(2) by (simp add: take_map [symmetric])
  let ?f = "\<lambda>c. if pc_id c \<in> pc_id ` set cs
           then c\<lparr>pc_status := ''processing'', pc_updated_at := pe_db_now e\<rparr> else c"
  have f: "pc_id (?f c) = pc_id c" "pc_dedupe_key (?f c) = pc_dedupe_key c" for c by simp_all
  have "callback_ok ?d (?f c)" if c: "c \<in> set (pg_outbox ?db)" for c
  proof (cases "pc_id c \<in> pc_id ` set cs")
    case True
    then have c_in: "c \<in> set cs" using same [OF c] by auto
    have "ta_Retries t = pc_retries c \<and> ta_MaxRetries t = pc_max_retries c"
      if t: "t \<in> set tasks" "ta_ID t = pc_id c" for t
    proof -
      obtain c' where "c' \<in> set cs" "t = pg_task c'" using t(1) by (auto simp: cs(1))
      then show ?thesis using t(2) same [OF c] by (metis task)
    qed
    moreover have "pc_id c \<in> ta_ID ` set tasks" using tids True by (metis list.set_map)
    ultimately show ?thesis using True pend [OF c_in] cb [OF c] unfolding callback_ok_def ended_def by simp
  next
    case False
    then have out: "pc_id c \<notin> ta_ID ` set tasks" using tids by (metis list.set_map)
    then have "\<forall>t \<in> set tasks. ta_ID t \<noteq> pc_id c" by (metis imageI)
    with out show ?thesis using False cb [OF c] busy [OF c] unfolding callback_ok_def ended_def by simp
  qed
  moreover have "pg_outbox_ok db"
  proof (rule outbox_ok_map [OF _ f])
    show "pg_outbox_ok ?db" using ok by (simp add: delivery_ok_def)
  qed (simp_all add: cs(3))
  moreover have "ta_ID ` set tasks \<subseteq> pc_id ` set (map ?f (pg_outbox ?db))"
  proof -
    have "ta_ID ` set tasks = pc_id ` set cs" using tids by (metis list.set_map)
    also have "\<dots> \<subseteq> pc_id ` set (pg_outbox ?db)" using sub by blast
    also have "\<dots> = pc_id ` set (map ?f (pg_outbox ?db))" by (simp only: list.set_map image_image f(1))
    finally show ?thesis .
  qed
  moreover have "hal_outbox (dl_hal ?d) = map ?f (pg_outbox ?db)" "pg_outbox_seq db = pg_outbox_seq ?db"
    by (simp_all add: cs(3))
  ultimately show "delivery_ok ?d" using ok dist
    by (intro delivery_ok_mapI [of ?d ?f "pg_outbox ?db"]) (simp_all add: delivery_ok_def del: set_map)
  show "pc_id c \<notin> ta_ID ` set tasks" if c: "c \<in> set (hal_outbox (dl_hal d))" "ended c"
  proof
    assume "pc_id c \<in> ta_ID ` set tasks"
    then have "pc_id c \<in> pc_id ` set cs" using tids by (metis list.set_map)
    then have "c \<in> set cs" using same [OF c(1)] by auto
    then show False using pend c(2) by (simp add: ended_def)
  qed
qed

lemma delivery_ok_queue:
  assumes ok: "delivery_ok d" and q: "pg_quiet e" and m: "1 \<le> ec_MaxRetries c"
    and run: "Pg_EnqueueCallback e (hal_store (dl_hal d)) c = (ru, db)"
  shows "delivery_ok (d\<lparr>dl_hal := (dl_hal d)\<lparr>hal_store := db\<rparr>\<rparr>)"
proof -
  let ?db = "hal_store (dl_hal d)"
  have cb: "callback_ok (d\<lparr>dl_hal := h\<rparr>) x \<longleftrightarrow> callback_ok d x" for h x by (simp add: callback_ok_def)
  have old: "\<forall>x \<in> set (pg_outbox ?db). pc_id x < pg_outbox_seq ?db + 1"
    using ok by (force simp: delivery_ok_def pg_outbox_ok_def)
  have seq: "pg_outbox_ok (?db\<lparr>pg_outbox_seq := pg_outbox_seq ?db + 1\<rparr>)"
    using ok old by (force simp: delivery_ok_def pg_outbox_ok_def)
  show ?thesis
  proof (cases "list_ex (\<lambda>x. pc_dedupe_key x = ec_DedupeKey c) (pg_outbox ?db)")
    case True
    then have "db = ?db\<lparr>pg_outbox_seq := pg_outbox_seq ?db + 1\<rparr>"
      using run q by (simp add: Pg_EnqueueCallback_def Let_def)
    then show ?thesis using ok seq by (simp add: delivery_ok_def cb)
  next
    case False
    then obtain n where n: "db = ?db\<lparr>pg_outbox_seq := pg_outbox_seq ?db + 1, pg_outbox := pg_outbox ?db @ [n]\<rparr>"
      "pc_id n = pg_outbox_seq ?db + 1" "pc_dedupe_key n = ec_DedupeKey c" "pc_status n = ''pending''"
      "pc_retries n = 0" "pc_max_retries n = ec_MaxRetries c"
      using run q by (auto simp: Pg_EnqueueCallback_def Let_def)
    have "ec_DedupeKey c \<notin> pc_dedupe_key ` set (pg_outbox ?db)" using False by (auto simp: list_ex_iff)
    then have okn: "pg_outbox_ok db" using seq old n by (auto simp: pg_outbox_ok_def)
    have "pc_id n \<notin> ta_ID ` set (dl_held d)" using ok old n(2) by (force simp: delivery_ok_def)
    then have "\<forall>t \<in> set (dl_held d). ta_ID t \<noteq> pc_id n" by (metis imageI)
    moreover have "dl_tries d (pc_id n) = 0" using ok n(2) by (simp add: delivery_ok_def)
    ultimately have "callback_ok d n" using n m by (auto simp: callback_ok_def ended_def)
    with okn show ?thesis using ok n(1,2) by (auto simp: delivery_ok_def cb)
  qed
qed

lemma delivery_run_ok: "delivery_run cfg d \<Longrightarrow> delivery_ok d"
proof (induction rule: delivery_run.induct)
  case (init h)
  then show ?case by (simp add: delivery_ok_def pg_inv_def)
next
  case (handler d h)
  have "callback_ok (d\<lparr>dl_hal := h\<rparr>) x \<longleftrightarrow> callback_ok d x" for x by (simp add: callback_ok_def)
  then show ?case using handler by (simp add: delivery_ok_def pg_outbox_ok_def)
qed (auto intro: delivery_ok_queue delivery_ok_claim delivery_ok_try)


definition demo_callback :: EnqueueCallbackInput where
  "demo_callback =
     \<lparr>ec_Kind = KindStartTransaction, ec_DedupeKey = ''start_transaction:7'', ec_TransactionID = Some 7,
      ec_UUIDDB = [], ec_TargetURL = ''http://cms'', ec_Payload = JObj [], ec_MaxRetries = 6\<rparr>"

definition demo_outbox :: "PgDB hal" where
  "demo_outbox = \<lparr>hal_store = empty_db, hal_registry = NewRegistry, hal_pending = [],
     hal_limit_jobs = [], hal_boot_running = [], hal_boot_jobs = [], hal_sync_once = [], hal_sync_jobs = []\<rparr>"

definition demo_delivery :: delivery where
  "demo_delivery = \<lparr>dl_hal = demo_outbox, dl_held = [], dl_tries = (\<lambda>_. 0)\<rparr>"


end
