(* ===== verification/Postgres_Faults.thy ===== *)
theory Postgres_Faults
  imports Postgres_Store
begin

text \<open>
  The PostgreSQL store when statements fail and other sessions write in between: a stop is all or
  nothing and reports what is stored, creating a transaction never leaves two rows, and claiming
  callbacks commits all its marks or none.
\<close>

section \<open>Stopping\<close>

text \<open>What other sessions may do between two statements of a method.\<close>

definition fair_between :: "pg_env \<Rightarrow> PgDB \<Rightarrow> bool" where
  "fair_between e db \<longleftrightarrow> pg_inv (pe_between e db) \<and> rows_evolve (pg_row db) (pg_row (pe_between e db))"

lemma pg_get_cases:
  assumes "pg_inv db" and "pg_get e n db cid t = (r, db')"
  shows "db' = db \<and> ((\<exists>err. r = Inl err) \<or> (\<exists>q. owned (pg_row db) cid t = Some q \<and> r = Inr (strip_limit q)))"
proof -
  have f: "find (\<lambda>r. tx_ChargerID r = cid \<and> tx_TransactionID r = t) (pg_transactions db) = owned (pg_row db) cid t"
    using assms(1) by (simp add: pg_owned pg_inv_def)
  show ?thesis using assms(2) f
    by (cases "owned (pg_row db) cid t"; cases "pe_fault e n" rule: option.exhaust; auto simp: pg_get_def pg_exec_def split: pg_fault.splits)
qed

lemma pg_exec_update_cases:
  "pg_exec e n stmt db = (r, db') \<Longrightarrow>
   (r, db') = stmt db \<or> (\<exists>err. r = Inl err) \<and> (db' = db \<or> db' = snd (stmt db))"
  by (auto simp: pg_exec_def split: option.splits pg_fault.splits)

lemma race_stop_view:
  "evolves q q1 \<Longrightarrow> view ((strip_limit q)\<lparr>tx_MeterStop := Some m,
      tx_TotalConsumption := Some (consumption_kwh (tx_MeterStart q1) m), tx_StopTime := Some t\<rparr>)
   = view (stopped_at t' m q1)"
  by (cases q; cases q1) (simp add: evolves_def view_def strip_limit_def stopped_at_def metered_def)


text \<open>Two sessions stop the same transaction; the other one commits first, with another meter.\<close>

definition race_row :: Transaction where
  "race_row =
     \<lparr>tx_ID = 1, tx_UUIDDB = ''u'', tx_ChargerID = ''CP1'', tx_ConnectorID = 1, tx_MeterStart = Fin 0,
      tx_MeterStop = None, tx_TotalConsumption = None, tx_StartTime = 0, tx_StopTime = None,
      tx_IDTag = ''TAG'', tx_TransactionID = 7, tx_IsSingleSession = False, tx_MaxKWh = None,
      tx_LimitStopRequested = False\<rparr>"

definition race_db :: PgDB where
  "race_db = empty_db\<lparr>pg_transactions := [race_row], pg_tx_seq := 1\<rparr>"

definition race_env :: pg_env where
  "race_env = (calm 7 50)\<lparr>pe_between := (\<lambda>db. db\<lparr>pg_transactions := map (stopped_at 40 (Fin 3000)) (pg_transactions db)\<rparr>)\<rparr>"

lemma race_facts:
  "pg_inv race_db" "fair_between race_env race_db" "owned (pg_row race_db) ''CP1'' 7 = Some race_row"
proof -
  have r: "pg_row race_db = [7 \<mapsto> race_row]" by (rule ext) (simp add: pg_row_def race_db_def race_row_def)
  have b: "pg_row (pe_between race_env race_db) = [7 \<mapsto> stopped_at 40 (Fin 3000) race_row]"
    by (rule ext) (simp add: pg_row_def race_db_def race_env_def race_row_def)
  have ok: "rows_ok (pg_row race_db)"
    by (simp add: r rows_ok_def race_row_def is_open_def maxTransactionID_def)
  then show "pg_inv race_db" by (simp add: pg_inv_def race_db_def pg_outbox_ok_def empty_db_def)
  have "rows_ok (pg_row (pe_between race_env race_db))"
    using rows_ok_stopped [OF ok, of 7 race_row 40 "Fin 3000"] by (simp add: r b)
  then have "pg_inv (pe_between race_env race_db)"
    by (simp add: pg_inv_def race_env_def race_db_def pg_outbox_ok_def empty_db_def)
  moreover have "is_open race_row" by (simp add: race_row_def is_open_def)
  ultimately show "fair_between race_env race_db"
    by (simp add: fair_between_def rows_evolve_def r b)
  show "owned (pg_row race_db) ''CP1'' 7 = Some race_row" by (simp add: owned_Some_iff r) (simp add: race_row_def)
qed


section \<open>Creating\<close>

definition created :: "rows \<Rightarrow> rows \<Rightarrow> CreateTransactionInput \<Rightarrow> int \<Rightarrow> bool" where
  "created R R' i t \<longleftrightarrow> R t = None \<and> 1 \<le> t \<and> t \<le> maxTransactionID \<and>
     (\<exists>q. R' = R(t \<mapsto> q) \<and> fresh_row i q \<and> tx_TransactionID q = t)"

lemma created_fresh_id: "created R R' i t \<Longrightarrow> R' t \<noteq> None \<and> (\<forall>k. k \<noteq> t \<longrightarrow> R' k = R k)"
  by (auto simp: created_def)

lemma create_attempts_faults:
  assumes "pg_inv db" and "\<And>n err. pe_fault e n = Some (Reply_lost err) \<Longrightarrow> \<not> isDuplicate err"
    and "Pg_create_attempts k a e db i = (r, db')"
  shows "pg_inv db' \<and>
    (case r of Inl err \<Rightarrow> pg_row db' = pg_row db \<or> (\<exists>t. created (pg_row db) (pg_row db') i t)
     | Inr tx \<Rightarrow> created (pg_row db) (pg_row db') i (tx_TransactionID tx))"
  using assms(1,3)
proof (induction k arbitrary: a db)
  case (Suc k)
  let ?t = "RandomTransactionID (pe_draws e a)"
  obtain x db1 where ins: "pg_insert_tx e ?t (NewUUIDString (pe_entropy e a)) (pe_now e) i db = (x, db1)"
    by fastforce
  note ic = pg_insert_tx_cases [OF Suc.prems(1) HOL.refl ins]
  have made: "x \<noteq> Inl (ErrPg ''23505'') \<Longrightarrow> created (pg_row db) (pg_row db1) i ?t"
    using ic RandomTransactionID_range [of "pe_draws e a"] by (auto simp: created_def split: if_splits)
  have dup: "x = Inl (ErrPg ''23505'') \<Longrightarrow> pg_row db1 = pg_row db" using ic by (auto split: if_splits)
  have inv1: "pg_inv db1" using ic by simp
  obtain y db2 where ex: "pg_exec e a (pg_insert_tx e ?t (NewUUIDString (pe_entropy e a)) (pe_now e) i) db = (y, db2)"
    by fastforce
  have yx: "(y = x \<and> db2 = db1) \<or> (\<exists>err. y = Inl err \<and> (db2 = db \<or> db2 = db1 \<and> \<not> isDuplicate err))"
    using ex ins assms(2) [of a] by (auto simp: pg_exec_def split: option.splits pg_fault.splits)
  show ?case
  proof (cases y)
    case (Inr n)
    then have "y = x" "db2 = db1" using yx by auto
    then show ?thesis using Inr Suc.prems(2) ex made inv1 by (auto simp: Let_def)
  next
    case (Inl err)
    show ?thesis
    proof (cases "isDuplicate err")
      case True
      have "pg_inv db2" "pg_row db2 = pg_row db"
        using yx Inl True dup made ic Suc.prems(1) inv1 by (auto split: if_splits)
      moreover have "Pg_create_attempts k (Suc a) e db2 i = (r, db')"
        using Suc.prems(2) ex Inl True by (simp add: Let_def)
      ultimately show ?thesis using Suc.IH [of db2 "Suc a"] by (simp split: sum.splits)
    next
      case False
      then have "r = Inl err" "db' = db2" using Suc.prems(2) ex Inl by (auto simp: Let_def)
      moreover have "db2 = db \<or> db2 = db1" using yx by auto
      moreover have "pg_row db1 = pg_row db \<or> created (pg_row db) (pg_row db1) i ?t" using made dup by blast
      ultimately show ?thesis using inv1 Suc.prems(1) by auto
    qed
  qed
qed auto

text \<open>
  C17. Creating a transaction in PostgreSQL writes at most one row even when statements fail or replies
  are lost: the old rows stay, and if a row appears it is the requested one, open, under an id
  between 1 and the OCPP maximum that was free before.  When the call succeeds the returned id is
  that row's.
\<close>

theorem create_writes_at_most_one_row:
  assumes "pg_inv db" and "\<And>n err. pe_fault e n = Some (Reply_lost err) \<Longrightarrow> \<not> isDuplicate err"
    and "Pg_CreateTransaction e db i = (r, db')"
  shows "case r of
      Inl err \<Rightarrow> pg_row db' = pg_row db \<or> (\<exists>t. created (pg_row db) (pg_row db') i t)
    | Inr tx \<Rightarrow> created (pg_row db) (pg_row db') i (tx_TransactionID tx)"
  using create_attempts_faults [OF assms(1,2)] assms(3) by (simp add: Pg_CreateTransaction_def)

theorem create_writes_at_most_one_row_witness:
  "\<exists>db'. Pg_CreateTransaction ((calm 7 0)\<lparr>pe_fault := (\<lambda>_. Some (Reply_lost (ErrExternal ''reset'')))\<rparr>) empty_db
       \<lparr>ct_ChargerID = ''CP1'', ct_ConnectorID = 1, ct_MeterStart = Fin 0, ct_IDTag = ''TAG'', ct_IsSingleSession = False\<rparr>
     = (Inl (ErrExternal ''reset''), db') \<and> pg_row db' 7 \<noteq> None"
proof -
  let ?i = "\<lparr>ct_ChargerID = ''CP1'', ct_ConnectorID = 1, ct_MeterStart = Fin 0, ct_IDTag = ''TAG'', ct_IsSingleSession = False\<rparr>"
  let ?e = "(calm 7 0)\<lparr>pe_fault := (\<lambda>_. Some (Reply_lost (ErrExternal ''reset'')))\<rparr>"
  obtain r db' where run: "Pg_CreateTransaction ?e empty_db ?i = (r, db')" by fastforce
  then have r: "r = Inl (ErrExternal ''reset'')" and t: "pg_row db' 7 \<noteq> None"
    by (auto simp: Pg_CreateTransaction_first pg_insert_tx_def pg_exec_def Let_def calm_def empty_db_def
        RandomTransactionID_def Int63n_def maxTransactionID_def pg_row_def)
  have "case r of Inl err \<Rightarrow> pg_row db' = pg_row empty_db \<or> (\<exists>t. created (pg_row empty_db) (pg_row db') ?i t)
    | Inr tx \<Rightarrow> created (pg_row empty_db) (pg_row db') ?i (tx_TransactionID tx)"
    by (rule create_writes_at_most_one_row [OF _ _ run]) auto
  then show ?thesis using run r t by simp
qed

section \<open>Claiming\<close>

lemma pg_exec_Inr: "pg_exec e n stmt db = (Inr x, db') \<Longrightarrow> stmt db = (Inr x, db')"
  by (auto simp: pg_exec_def split: option.splits pg_fault.splits)

definition mark_claimed :: "time \<Rightarrow> int64 set \<Rightarrow> PgDB \<Rightarrow> PgDB" where
  "mark_claimed now ids db = db\<lparr>pg_outbox := map (\<lambda>c. if pc_id c \<in> ids
     then c\<lparr>pc_status := ''processing'', pc_updated_at := now\<rparr> else c) (pg_outbox db)\<rparr>"

lemma pg_mark_processing_Inr:
  "pg_mark_processing e n ids db = (Inr (), db') \<Longrightarrow> db' = mark_claimed (pe_db_now e) (set ids) db"
proof (induction ids arbitrary: n db)
  case (Cons i ids)
  obtain x db1 where x: "pg_exec e n (pg_update_cb i (\<lambda>c. c\<lparr>pc_status := ''processing'',
      pc_updated_at := pe_db_now e\<rparr>)) db = (x, db1)" by fastforce
  have rest: "x = Inr ()" "pg_mark_processing e (Suc n) ids db1 = (Inr (), db')"
    using Cons.prems x by (auto split: sum.splits)
  have "pg_update_cb i (\<lambda>c. c\<lparr>pc_status := ''processing'', pc_updated_at := pe_db_now e\<rparr>) db = (Inr (), db1)"
    using x unfolding rest(1) by (rule pg_exec_Inr)
  then show ?case using Cons.IH [OF rest(2)] by (auto simp: pg_update_cb_def mark_claimed_def)
qed (simp add: mark_claimed_def)

text \<open>
  C18. Claiming due callbacks from PostgreSQL is one transaction: either nothing changed, or exactly the
  claimed rows became \<open>processing\<close>.  The claimed rows are due, not locked by another worker, at most
  \<open>limit\<close> many, without repetition, and the returned tasks are those rows in the order of their ids.
  A worker that gets an error may have claimed rows only if the reply to the commit was lost.
\<close>

theorem claim_is_all_or_nothing:
  assumes "pg_inv db" and "Pg_ClaimDueCallbacks e db limit = (r, db')"
  shows "(\<exists>err. r = Inl err \<and> db' = db) \<or>
    (\<exists>cs. set cs \<subseteq> {c \<in> set (pg_outbox db). pg_due e c \<and> \<not> pe_locked e (pc_id c)} \<and>
       distinct (map pc_id cs) \<and> sorted (map pc_id cs) \<and> int (length cs) \<le> limit \<and>
       db' = mark_claimed (pe_db_now e) (pc_id ` set cs) db \<and>
       (r = Inr (map pg_task cs) \<or> (\<exists>err. r = Inl err \<and> pe_fault e (2 + length cs) = Some (Reply_lost err))))"
proof -
  let ?due = "sort_key pc_id (filter (\<lambda>c. pg_due e c \<and> \<not> pe_locked e (pc_id c)) (pg_outbox db))"
  let ?cs = "take (nat limit) ?due"
  have d: "distinct (map pc_id (pg_outbox db))" using assms(1) by (simp add: pg_inv_def pg_outbox_ok_def)
  have "distinct (map pc_id ?due)" using d by (simp add: distinct_map inj_on_def)
  then have dist: "distinct (map pc_id ?cs)" by (simp add: take_map [symmetric])
  have sort: "sorted (map pc_id ?cs)" by (simp add: take_map [symmetric] sorted_wrt_take)
  have sub: "set ?cs \<subseteq> {c \<in> set (pg_outbox db). pg_due e c \<and> \<not> pe_locked e (pc_id c)}"
    by (rule order_trans [OF set_take_subset]) auto
  obtain a d1 where a: "pg_exec e 0 (\<lambda>db. (Inr (), db)) db = (a, d1)" by fastforce
  let ?select = "\<lambda>db. (if limit < 0 then Inl (ErrPg ''2201W'') else Inr (take (nat limit)
      (sort_key pc_id (filter (\<lambda>c. pg_due e c \<and> \<not> pe_locked e (pc_id c)) (pg_outbox db)))), db)"
  obtain b d2 where b: "pg_exec e 1 ?select db = (b, d2)" by fastforce
  show ?thesis
  proof (cases "(\<exists>err. a = Inl err) \<or> (\<exists>err. b = Inl err)")
    case True
    then show ?thesis using assms(2) a b by (auto simp: Pg_ClaimDueCallbacks_def split: sum.splits)
  next
    case False
    then obtain u rows where ok: "a = Inr u" "b = Inr rows" by (cases a; cases b) auto
    have "rows = ?cs \<and> \<not> limit < 0"
      using pg_exec_Inr [of e 1 ?select db rows d2] b ok(2) by (auto split: if_splits)
    then have rows: "rows = ?cs" "0 \<le> limit" by auto
    obtain m d3 where m: "pg_mark_processing e 2 (map pc_id rows) db = (m, d3)" by fastforce
    have run: "(r, db') = (case m of Inl err \<Rightarrow> (Inl err, db)
        | Inr _ \<Rightarrow> (case pe_fault e (2 + length rows) of None \<Rightarrow> (Inr (map pg_task rows), d3)
            | Some (Refused err) \<Rightarrow> (Inl err, db) | Some (Reply_lost err) \<Rightarrow> (Inl err, d3)))"
      using assms(2) a b ok m by (simp add: Pg_ClaimDueCallbacks_def split: sum.splits)
    show ?thesis
    proof (cases m)
      case (Inl err)
      then show ?thesis using run by simp
    next
      case (Inr v)
      then have "d3 = mark_claimed (pe_db_now e) (pc_id ` set rows) db"
        using pg_mark_processing_Inr [of e 2 "map pc_id rows" db d3] m by simp
      moreover have "int (length rows) \<le> limit" using rows by simp
      ultimately show ?thesis using run Inr sub dist sort rows(1)
        by (auto split: option.splits pg_fault.splits intro!: exI [of _ rows])
    qed
  qed
qed

definition due_callback :: pg_callback where
  "due_callback =
     \<lparr>pc_id = 1, pc_kind = ''start_transaction'', pc_dedupe_key = ''start_transaction:7'', pc_transaction_id = Some 7,
      pc_uuiddb = [], pc_target_url = ''http://cms'', pc_payload = JObj [], pc_status = ''pending'', pc_retries = 0,
      pc_max_retries = 6, pc_next_retry_at = 0, pc_last_error = None, pc_created_at = 0, pc_updated_at = 0,
      pc_sent_at = None\<rparr>"

definition due_db :: PgDB where
  "due_db = empty_db\<lparr>pg_outbox := [due_callback], pg_outbox_seq := 1\<rparr>"

theorem claim_is_all_or_nothing_witness:
  "\<exists>db' c. Pg_ClaimDueCallbacks (calm 7 0) due_db 10 = (Inr [pg_task due_callback], db') \<and>
     pg_outbox db' = [c] \<and> pc_status c = ''processing''"
proof -
  obtain r db' where run: "Pg_ClaimDueCallbacks (calm 7 0) due_db 10 = (r, db')" by fastforce
  have i: "pg_inv due_db"
    by (simp add: pg_inv_def due_db_def due_callback_def empty_db_def pg_outbox_ok_def pg_row_def rows_ok_def)
  have r: "r = Inr [pg_task due_callback]"
    using run by (simp add: Pg_ClaimDueCallbacks_def due_db_def due_callback_def empty_db_def pg_due_def
        pg_update_cb_def numeral_2_eq_2)
  then have "\<exists>z. z \<in> set (pg_outbox due_db) \<and> db' = mark_claimed 0 {pc_id z} due_db"
    using claim_is_all_or_nothing [OF i run] by auto
  then have "db' = mark_claimed 0 {pc_id due_callback} due_db" by (simp add: due_db_def)
  then show ?thesis using run r by (simp add: mark_claimed_def due_db_def due_callback_def)
qed

end
