(* ===== verification/Recovery_Correct.thy ===== *)
theory Recovery_Correct
  imports Service
begin

text \<open>
  What boot recovery (\<open>recovery.go\<close>) does to the charger and to the store: how many requests it can
  send and to whom, that it keeps the transactions, and that a transaction whose connector is idle
  is closed with its last meter value.
\<close>

section \<open>The pace of the retries\<close>

fun delays :: "nat \<Rightarrow> nat \<Rightarrow> duration" where
  "delays k 0 = 0"
| "delays k (Suc n) = recovery_delay k + delays (Suc k) n"

lemma delays_nonneg: "0 \<le> delays k n"
proof (induction n arbitrary: k)
  case (Suc n)
  then show ?case using recovery_delay_pos [of k] by (simp add: add_nonneg_nonneg order_less_imp_le)
qed simp

lemma delays_mono: "m \<le> n \<Longrightarrow> delays k m \<le> delays k n"
proof (induction m n arbitrary: k rule: diff_induct)
  case (1 m)
  then show ?case by simp
next
  case (2 n)
  then show ?case using delays_nonneg [of k "Suc n"] by simp
next
  case (3 m n)
  then show ?case by simp
qed

definition retry_requests :: "string \<Rightarrow> int \<Rightarrow> int \<Rightarrow> request set" where
  "retry_requests c t i = {ReqRemoteStopTransaction c t, ReqUnlockConnector c i}"

definition recovery_ok :: "('e \<Rightarrow> bool) \<Rightarrow> ('s \<Rightarrow> bool) \<Rightarrow> ('e, 's) recovery_world \<Rightarrow> bool" where
  "recovery_ok Q I w \<longleftrightarrow> (\<forall>n. Q (rw_store w n)) \<and> (\<forall>n h. I (hal_store h) \<longrightarrow> I (hal_store (rw_other w n h)))"

lemma begin_step_simps [simp]:
  "rj_sent (begin_step w j) = rj_sent j" "rj_hal (begin_step w j) = rw_other w (rj_n j) (rj_hal j)"
  by (simp_all add: begin_step_def)

lemma begin_step_keeps:
  "recovery_ok Q I w \<Longrightarrow> I (hal_store (rj_hal j)) \<Longrightarrow> I (hal_store (rj_hal (begin_step w j)))"
  by (simp add: recovery_ok_def)

text \<open>One round of the loop: a stop, an unlock if the stop went through, and perhaps a delay.\<close>

lemma retry_round:
  assumes "\<not> d \<le> rj_time j" and "recovery_ok Q I w" and "I (hal_store (rj_hal j))"
  obtains u j2 more where
    "remoteStopAndUnlockWithRetry w d tx k j = (if u then j2
        else remoteStopAndUnlockWithRetry w d tx (Suc k) (j2\<lparr>rj_time := rj_time j2 + recovery_delay k\<rparr>))"
    and "rj_sent j2 = rj_sent j @ more" and "rj_time j \<le> rj_time j2" and "length more \<le> 2"
    and "set more \<subseteq> retry_requests (tx_ChargerID tx) (tx_TransactionID tx) (tx_ConnectorID tx)"
    and "I (hal_store (rj_hal j2))"
proof -
  let ?j = "begin_step w j"
  obtain st err reqs where stop: "RemoteStopTransaction (rw_central w (rj_n j)) (tx_ChargerID tx) (tx_TransactionID tx)
    = ((st, err), reqs)" by (metis prod.exhaust)
  have reqs: "reqs = [ReqRemoteStopTransaction (tx_ChargerID tx) (tx_TransactionID tx)]"
    using stop by (simp add: RemoteStopTransaction_def Let_def)
  define j1 where "j1 = ?j\<lparr>rj_sent := rj_sent ?j @ reqs\<rparr>"
  have j1: "rj_sent j1 = rj_sent j @ reqs" "rj_time j1 = rj_time ?j" "rj_n j1 = rj_n ?j" "rj_time j \<le> rj_time j1"
    "I (hal_store (rj_hal j1))"
    using begin_step_keeps [OF assms(2,3)] begin_step_time [of j w] by (simp_all add: j1_def)
  show thesis
  proof (cases err)
    case (Some e)
    have "remoteStopAndUnlockWithRetry w d tx k j = (if False then j1
        else remoteStopAndUnlockWithRetry w d tx (Suc k) (j1\<lparr>rj_time := rj_time j1 + recovery_delay k\<rparr>))"
      using assms(1) stop Some
      by (simp add: remoteStopAndUnlockWithRetry.simps [of w d tx k j] j1_def Let_def)
    from that [OF this] show thesis using j1 reqs by (simp add: retry_requests_def)
  next
    case None
    obtain us ue ureqs where unlock: "UnlockConnector (rw_central w (rj_n j1)) (tx_ChargerID tx) (tx_ConnectorID tx)
      = ((us, ue), ureqs)" by (metis prod.exhaust)
    have ureqs: "ureqs = [ReqUnlockConnector (tx_ChargerID tx) (tx_ConnectorID tx)]"
      using unlock by (simp add: UnlockConnector_def Let_def)
    define j2 where "j2 = (begin_step w j1)\<lparr>rj_sent := rj_sent (begin_step w j1) @ ureqs\<rparr>"
    have j2: "rj_sent j2 = rj_sent j @ (reqs @ ureqs)" "rj_time j \<le> rj_time j2" "I (hal_store (rj_hal j2))"
      using j1 begin_step_keeps [OF assms(2) j1(5)] begin_step_time [of j1 w] by (simp_all add: j2_def)
    have "remoteStopAndUnlockWithRetry w d tx k j = (if ue = None then j2
        else remoteStopAndUnlockWithRetry w d tx (Suc k) (j2\<lparr>rj_time := rj_time j2 + recovery_delay k\<rparr>))"
      using assms(1) stop None unlock
      by (simp add: remoteStopAndUnlockWithRetry.simps [of w d tx k j] j1_def j2_def Let_def)
    from that [OF this j2(1)] show thesis using j2 reqs ureqs by (simp add: retry_requests_def)
  qed
qed

lemma remote_stop_unlock_pace:
  assumes "recovery_ok Q I w" and "I (hal_store (rj_hal j))"
  shows "\<exists>new n. rj_sent (remoteStopAndUnlockWithRetry w d tx k j) = rj_sent j @ new
     \<and> set new \<subseteq> retry_requests (tx_ChargerID tx) (tx_TransactionID tx) (tx_ConnectorID tx)
     \<and> length new \<le> 2 * n \<and> (n = 0 \<or> rj_time j + delays k (n - 1) < d)
     \<and> I (hal_store (rj_hal (remoteStopAndUnlockWithRetry w d tx k j)))
     \<and> rj_time j \<le> rj_time (remoteStopAndUnlockWithRetry w d tx k j)"
  using assms(2)
proof (induction "nat (d - rj_time j)" arbitrary: k j rule: less_induct)
  case less
  show ?case
  proof (cases "d \<le> rj_time j")
    case True
    then show ?thesis using less.prems
      by (intro exI [of _ "[]"] exI [of _ 0]) (simp add: remoteStopAndUnlockWithRetry.simps)
  next
    case False
    obtain u j2 more where unfold: "remoteStopAndUnlockWithRetry w d tx k j = (if u then j2
        else remoteStopAndUnlockWithRetry w d tx (Suc k) (j2\<lparr>rj_time := rj_time j2 + recovery_delay k\<rparr>))"
      and j2: "rj_sent j2 = rj_sent j @ more" "rj_time j \<le> rj_time j2" "length more \<le> 2"
        "set more \<subseteq> retry_requests (tx_ChargerID tx) (tx_TransactionID tx) (tx_ConnectorID tx)"
        "I (hal_store (rj_hal j2))"
      by (rule retry_round [OF False assms(1) less.prems])
    show ?thesis
    proof (cases u)
      case True
      then show ?thesis using unfold j2 False by (intro exI [of _ more] exI [of _ 1]) simp
    next
      case again: False
      let ?j3 = "j2\<lparr>rj_time := rj_time j2 + recovery_delay k\<rparr>"
      have m: "nat (d - rj_time ?j3) < nat (d - rj_time j)"
        using False j2(2) recovery_delay_pos [of k] by simp
      have "I (hal_store (rj_hal ?j3))" using j2(5) by simp
      from less.hyps [OF m this, of "Suc k"] obtain new n where
        ih: "rj_sent (remoteStopAndUnlockWithRetry w d tx (Suc k) ?j3) = rj_sent ?j3 @ new"
        "set new \<subseteq> retry_requests (tx_ChargerID tx) (tx_TransactionID tx) (tx_ConnectorID tx)"
        "length new \<le> 2 * n" "n = 0 \<or> rj_time ?j3 + delays (Suc k) (n - 1) < d"
        "I (hal_store (rj_hal (remoteStopAndUnlockWithRetry w d tx (Suc k) ?j3)))"
        "rj_time ?j3 \<le> rj_time (remoteStopAndUnlockWithRetry w d tx (Suc k) ?j3)"
        by blast
      have "rj_time j + delays k n < d" using ih(4) j2(2) False by (cases n) auto
      moreover have "rj_time j \<le> rj_time ?j3" using j2(2) recovery_delay_pos [of k] by simp
      ultimately show ?thesis using ih j2 unfold again
        by (intro exI [of _ "more @ new"] exI [of _ "Suc n"]) simp
    qed
  qed
qed

lemma nine_tries: "n = 0 \<or> t + delays 0 (n - 1) < d \<Longrightarrow> d - t \<le> bootRecoveryMaxRuntime \<Longrightarrow> n \<le> 9"
proof (rule ccontr)
  assume a: "n = 0 \<or> t + delays 0 (n - 1) < d" "d - t \<le> bootRecoveryMaxRuntime" "\<not> n \<le> 9"
  have "302 * Second \<le> delays 0 9" by (simp add: numeral_nat recovery_delay_def duration_defs)
  also have "\<dots> \<le> delays 0 (n - 1)" using a(3) by (intro delays_mono) simp
  finally show False using a by (simp add: bootRecoveryMaxRuntime_def duration_defs)
qed

section \<open>One transaction of the boot list\<close>

definition own_requests :: "string \<Rightarrow> int \<Rightarrow> request set" where
  "own_requests c t = insert (ReqRemoteStopTransaction c t) (range (ReqUnlockConnector c))"

definition recovery_keeps :: "('s \<Rightarrow> bool) \<Rightarrow> string \<Rightarrow> int set \<Rightarrow> nat \<Rightarrow> 's recovery \<Rightarrow> 's recovery \<Rightarrow> bool" where
  "recovery_keeps I c T n j j' \<longleftrightarrow> I (hal_store (rj_hal j')) \<and> rj_time j \<le> rj_time j' \<and>
     (\<exists>new. rj_sent j' = rj_sent j @ new \<and> set new \<subseteq> (\<Union>t \<in> T. own_requests c t) \<and> length new \<le> 18 * n)"

lemma recovery_keepsI:
  assumes "I (hal_store (rj_hal j'))" "rj_time j \<le> rj_time j'" "rj_sent j' = rj_sent j @ new"
    "set new \<subseteq> (\<Union>t \<in> T. own_requests c t)" "length new \<le> 18 * n"
  shows "recovery_keeps I c T n j j'"
  using assms unfolding recovery_keeps_def by blast

lemma recovery_keeps_trans:
  assumes "recovery_keeps I c T n a b" and "recovery_keeps I c U m b d"
  shows "recovery_keeps I c (T \<union> U) (n + m) a d"
proof -
  obtain x y where "rj_sent b = rj_sent a @ x" "set x \<subseteq> (\<Union>t \<in> T. own_requests c t)" "length x \<le> 18 * n"
    "rj_sent d = rj_sent b @ y" "set y \<subseteq> (\<Union>t \<in> U. own_requests c t)" "length y \<le> 18 * m"
    using assms unfolding recovery_keeps_def by blast
  then show ?thesis using assms by (intro recovery_keepsI [of _ _ _ "x @ y"]) (auto simp: recovery_keeps_def)
qed

context hook_sink begin

lemma ghost_keeps:
  assumes "inv (hal_store (rj_hal j))" and "recovery_ok quiet inv w"
  shows "recovery_keeps inv c T 0 j (forceCloseGhostTransaction ts (Some hooks) w tx j)"
proof -
  let ?j = "begin_step w j"
  let ?m = "case tx_MeterStop tx of None \<Rightarrow> tx_MeterStart tx | Some m \<Rightarrow> m"
  let ?f = "\<lparr>fc_ChargerID = tx_ChargerID tx, fc_TransactionID = tx_TransactionID tx,
      fc_MeterStop = ?m, fc_Reason = ''boot_recovery_ghost_available''\<rparr>"
  have q: "quiet (rw_store w n)" for n using assms(2) by (simp add: recovery_ok_def)
  have i: "inv (hal_store (rj_hal ?j))" by (rule begin_step_keeps [OF assms(2,1)])
  obtain r s where f: "m_ForceCloseTransaction ts (rw_store w (rj_n j)) (hal_store (rj_hal ?j)) ?f = (r, s)" by fastforce
  have s: "inv s" using force_law [OF i q f] by simp
  show ?thesis
  proof (cases r)
    case (Inl err)
    then show ?thesis using f s begin_step_time [of j w]
      by (intro recovery_keepsI [of _ _ _ "[]"]) (simp_all add: forceCloseGhostTransaction_def Let_def)
  next
    case (Inr closedTx)
    define j1 where "j1 = begin_step w (?j\<lparr>rj_hal := (rj_hal ?j)\<lparr>hal_store := s,
      hal_registry := ApplyStopTransaction (rw_now w (rj_n j)) (hal_registry (rj_hal ?j))
         (tx_ChargerID tx) (tx_ConnectorID tx) ?m\<rparr>\<rparr>)"
    have j1: "inv (hal_store (rj_hal j1))" "rj_sent j1 = rj_sent j" "rj_time j \<le> rj_time j1"
      using s assms(2) begin_step_time [of j w] unfolding j1_def
      by (auto simp: recovery_ok_def intro: order_trans [OF _ begin_step_time])
    obtain u s' where h: "hk_EnqueueCompletedTransaction hooks (rw_store w (rj_n ?j)) (hal_store (rj_hal j1)) closedTx
      = (u, s')" by fastforce
    have "inv s'" using completed_hook_law [OF j1(1) q h] by simp
    moreover have "forceCloseGhostTransaction ts (Some hooks) w tx j = j1\<lparr>rj_hal := (rj_hal j1)\<lparr>hal_store := s'\<rparr>\<rparr>"
      using f Inr h by (simp add: forceCloseGhostTransaction_def Let_def j1_def)
    ultimately show ?thesis using j1 by (intro recovery_keepsI [of _ _ _ "[]"]) simp_all
  qed
qed

lemma recoverOne_keeps:
  assumes "inv (hal_store (rj_hal j))" and "recovery_ok quiet inv w" and "d - rj_time j \<le> bootRecoveryMaxRuntime"
  shows "recovery_keeps inv c {tx_TransactionID bootTx} 1 j (recoverOne ts (Some hooks) w d c bootTx j)"
proof -
  let ?j = "begin_step w j" and ?t = "tx_TransactionID bootTx"
  have q: "quiet (rw_store w n)" for n using assms(2) by (simp add: recovery_ok_def)
  have i: "inv (hal_store (rj_hal ?j))" by (rule begin_step_keeps [OF assms(2,1)])
  obtain r s where g: "m_GetByTransactionID ts (rw_store w (rj_n j)) (hal_store (rj_hal ?j)) c ?t = (r, s)" by fastforce
  note law = get_law [OF i q g]
  define j1 where "j1 = ?j\<lparr>rj_hal := (rj_hal ?j)\<lparr>hal_store := s\<rparr>\<rparr>"
  have j1: "inv (hal_store (rj_hal j1))" "rj_sent j1 = rj_sent j" "rj_time j \<le> rj_time j1"
    using law i begin_step_time [of j w] by (simp_all add: j1_def)
  have k1: "recovery_keeps inv c {?t} 0 j j1" using j1 by (intro recovery_keepsI [of _ _ _ "[]"]) simp_all
  have k1': "recovery_keeps inv c {?t} 1 j j1" using j1 by (intro recovery_keepsI [of _ _ _ "[]"]) simp_all
  show ?thesis
  proof (cases r)
    case (Inl err)
    then have "recoverOne ts (Some hooks) w d c bootTx j = j1" using g by (simp add: recoverOne_def Let_def j1_def)
    then show ?thesis using k1' by simp
  next
    case (Inr tx)
    then obtain p where p: "owned (row (hal_store (rj_hal ?j))) c ?t = Some p" "view tx = view p"
      using law by (auto split: option.splits)
    have id: "tx_ChargerID tx = c" "tx_TransactionID tx = ?t"
      using view_eqD(1,7) [OF p(2)] p(1) rows_okD(1) [OF rows_ok_inv [OF i]] by (auto simp: owned_Some_iff)
    consider "tx_StopTime tx \<noteq> None" | "tx_StopTime tx = None" "isGhostAvailableTransaction (hal_registry (rj_hal j1)) tx"
      | "tx_StopTime tx = None" "\<not> isGhostAvailableTransaction (hal_registry (rj_hal j1)) tx" by blast
    then show ?thesis
    proof cases
      case 1
      then have "recoverOne ts (Some hooks) w d c bootTx j = j1"
        using g Inr by (simp add: recoverOne_def Let_def j1_def)
      then show ?thesis using k1' by simp
    next
      case 2
      then have "recoverOne ts (Some hooks) w d c bootTx j = forceCloseGhostTransaction ts (Some hooks) w tx j1"
        using g Inr by (simp add: recoverOne_def Let_def j1_def)
      then show ?thesis
        using recovery_keeps_trans [OF k1' ghost_keeps [OF j1(1) assms(2), of c "{}" tx]] by simp
    next
      case 3
      define j2 where "j2 = j1\<lparr>rj_hal := (rj_hal j1)\<lparr>hal_registry :=
                       hydrateOpenTransaction (rw_now w (rj_n j1)) (hal_registry (rj_hal j1)) tx\<rparr>\<rparr>"
      have run: "recoverOne ts (Some hooks) w d c bootTx j = remoteStopAndUnlockWithRetry w d tx 0 j2"
        using g Inr 3 by (simp add: recoverOne_def Let_def j1_def j2_def)
      have j2: "inv (hal_store (rj_hal j2))" "rj_sent j2 = rj_sent j" "rj_time j2 = rj_time j1"
        using j1 by (simp_all add: j2_def)
      obtain new n where new: "rj_sent (remoteStopAndUnlockWithRetry w d tx 0 j2) = rj_sent j2 @ new"
        "set new \<subseteq> retry_requests c ?t (tx_ConnectorID tx)" "length new \<le> 2 * n"
        "n = 0 \<or> rj_time j2 + delays 0 (n - 1) < d"
        "inv (hal_store (rj_hal (remoteStopAndUnlockWithRetry w d tx 0 j2)))"
        "rj_time j2 \<le> rj_time (remoteStopAndUnlockWithRetry w d tx 0 j2)"
        using remote_stop_unlock_pace [OF assms(2) j2(1), of d tx 0] unfolding id by blast
      have "n \<le> 9" using nine_tries [OF new(4)] assms(3) j1(3) j2(3) by simp
      then show ?thesis unfolding run using new j2 j1
        by (intro recovery_keepsI [of _ _ _ new]) (auto simp: own_requests_def retry_requests_def)
    qed
  qed
qed

lemma recoverOpen_keeps:
  assumes "inv (hal_store (rj_hal j))" and "recovery_ok quiet inv w" and "d - rj_time j \<le> bootRecoveryMaxRuntime"
  shows "recovery_keeps inv c (tx_TransactionID ` set txs) (length txs) j
    (recoverOpenTransactions ts (Some hooks) w d c txs j)"
  using assms(1,3)
proof (induction txs arbitrary: j)
  case Nil
  then show ?case by (intro recovery_keepsI [of _ _ _ "[]"]) (simp_all add: recoverOpenTransactions_def)
next
  case (Cons tx txs)
  let ?j = "recoverOne ts (Some hooks) w d c tx j"
  note k = recoverOne_keeps [OF Cons.prems(1) assms(2) Cons.prems(2), of c tx]
  have "inv (hal_store (rj_hal ?j))" "d - rj_time ?j \<le> bootRecoveryMaxRuntime"
    using k Cons.prems(2) by (simp_all add: recovery_keeps_def)
  from recovery_keeps_trans [OF k Cons.IH [OF this]] show ?case
    by (simp add: recoverOpenTransactions_def insert_is_Un [symmetric])
qed

end

section \<open>An idle connector\<close>

definition last_meter :: "Transaction \<Rightarrow> float64" where
  "last_meter q = (case tx_MeterStop q of None \<Rightarrow> tx_MeterStart q | Some m \<Rightarrow> m)"

lemma ghost_view: "view tx = view q \<Longrightarrow> isGhostAvailableTransaction r tx = isGhostAvailableTransaction r q"
proof -
  assume v: "view tx = view q"
  show ?thesis unfolding isGhostAvailableTransaction_def view_eqD(1,2,7) [OF v] by (rule HOL.refl)
qed

lemma ApplyStop_clears: "TransactionIDForConnector (ApplyStopTransaction now r c i m) c i = None"
  by simp

context hook_sink begin

lemma idle_closed:
  assumes "inv (hal_store (rj_hal j))" and "recovery_ok quiet inv w" and alone: "rw_other w = (\<lambda>_. id)"
    and own: "owned (row (hal_store (rj_hal j))) c t = Some q" and "is_open q"
    and ghost: "isGhostAvailableTransaction (hal_registry (rj_hal j)) q"
    and "tx_TransactionID bootTx = t"
  shows "rj_sent (recoverOne ts (Some hooks) w d c bootTx j) = rj_sent j \<and>
    (\<exists>tm. row (hal_store (rj_hal (recoverOne ts (Some hooks) w d c bootTx j))) =
       (row (hal_store (rj_hal j)))(t \<mapsto> stopped_at tm (last_meter q) q)) \<and>
    TransactionIDForConnector (hal_registry (rj_hal (recoverOne ts (Some hooks) w d c bootTx j))) c (tx_ConnectorID q) = None"
proof -
  let ?h = "rj_hal j"
  have q: "quiet (rw_store w n)" for n using assms(2) by (simp add: recovery_ok_def)
  have bs: "rj_hal (begin_step w i) = rj_hal i" "rj_n (begin_step w i) = Suc (rj_n i)" for i :: "'s recovery"
    by (simp_all add: begin_step_def alone)
  have other: "rw_other w n h = h" for n h by (simp add: alone)
  obtain r s where g: "m_GetByTransactionID ts (rw_store w (rj_n j)) (hal_store ?h) c t = (r, s)" by fastforce
  obtain tx where tx: "r = Inr tx" "view tx = view q" "s = hal_store ?h"
    using get_law [OF assms(1) q g] own by auto
  have open_tx: "tx_StopTime tx = None" using view_eqD(8) [OF tx(2)] assms(5) by (simp add: is_open_def)
  have eqs: "tx_ChargerID tx = c" "tx_ConnectorID tx = tx_ConnectorID q" "tx_TransactionID tx = t"
    "(case tx_MeterStop tx of None \<Rightarrow> tx_MeterStart tx | Some m \<Rightarrow> m) = last_meter q"
  proof -
    have "row (hal_store ?h) t = Some q" "tx_ChargerID q = c" using own by (simp_all add: owned_Some_iff)
    moreover from this have "tx_TransactionID q = t" using rows_okD(1) [OF rows_ok_inv [OF assms(1)]] by simp
    ultimately show "tx_ChargerID tx = c" "tx_ConnectorID tx = tx_ConnectorID q" "tx_TransactionID tx = t"
      "(case tx_MeterStop tx of None \<Rightarrow> tx_MeterStart tx | Some m \<Rightarrow> m) = last_meter q"
      using view_eqD(1-4,7) [OF tx(2)] by (simp_all add: last_meter_def split: option.splits)
  qed
  let ?j1 = "(begin_step w j)\<lparr>rj_hal := ?h\<lparr>hal_store := s\<rparr>\<rparr>"
  have run: "recoverOne ts (Some hooks) w d c bootTx j = forceCloseGhostTransaction ts (Some hooks) w tx ?j1"
    using g tx(1,3) open_tx ghost ghost_view [OF tx(2)] assms(7) by (simp add: recoverOne_def Let_def bs other)
  let ?f = "\<lparr>fc_ChargerID = c, fc_TransactionID = t, fc_MeterStop = last_meter q,
      fc_Reason = ''boot_recovery_ghost_available''\<rparr>"
  obtain rf s1 where f: "m_ForceCloseTransaction ts (rw_store w (rj_n ?j1)) (hal_store ?h) ?f = (rf, s1)" by fastforce
  have fl: "inv s1 \<and> (\<exists>tm x. row s1 = (row (hal_store ?h))(t \<mapsto> stopped_at tm (last_meter q) q) \<and> rf = Inr x)"
    using force_law [OF assms(1) q f] own assms(5) by auto
  then obtain closed_tx tm where x: "rf = Inr closed_tx" "inv s1"
    "row s1 = (row (hal_store ?h))(t \<mapsto> stopped_at tm (last_meter q) q)" by blast
  define j1 where "j1 = begin_step w ((begin_step w ?j1)\<lparr>rj_hal := ?h\<lparr>hal_store := s1,
      hal_registry := ApplyStopTransaction (rw_now w (rj_n ?j1)) (hal_registry ?h) c (tx_ConnectorID q) (last_meter q)\<rparr>\<rparr>)"
  obtain u s2 where h: "hk_EnqueueCompletedTransaction hooks (rw_store w (rj_n (begin_step w ?j1))) s1 closed_tx = (u, s2)"
    by fastforce
  have "row s2 = row s1" using completed_hook_law [OF x(2) q h] by simp
  moreover have "forceCloseGhostTransaction ts (Some hooks) w tx ?j1 = j1\<lparr>rj_hal := (rj_hal j1)\<lparr>hal_store := s2\<rparr>\<rparr>"
    using f x(1) h eqs tx(3) by (simp add: forceCloseGhostTransaction_def Let_def j1_def bs other)
  moreover have "rj_sent j1 = rj_sent j" by (simp add: j1_def)
  moreover have "hal_registry (rj_hal j1) =
      ApplyStopTransaction (rw_now w (rj_n ?j1)) (hal_registry ?h) c (tx_ConnectorID q) (last_meter q)"
    by (simp add: j1_def bs other)
  ultimately show ?thesis unfolding run using x(3) ApplyStop_clears by auto
qed

end

section \<open>Properties\<close>


definition demo_recovery_world :: "(pg_env, PgDB \<times> TransactionUpdates) recovery_world" where
  "demo_recovery_world = \<lparr>rw_store = (\<lambda>_. calm 7 60), rw_other = (\<lambda>_. id), rw_central = (\<lambda>_. demo_central),
     rw_now = (\<lambda>_ _. 0), rw_lag = (\<lambda>_. 0)\<rparr>"

definition demo_recovery :: "Registry \<Rightarrow> (PgDB \<times> TransactionUpdates) recovery" where
  "demo_recovery r = \<lparr>rj_hal = demo_hal\<lparr>hal_store := (demo_limited_db, NewTransactionUpdates), hal_registry := r\<rparr>,
     rj_n = 0, rj_time = 0, rj_sent = []\<rparr>"

lemma demo_recovery_ok [simp]: "recovery_ok pg_quiet (\<lambda>s. pg_inv (fst s)) demo_recovery_world"
  by (simp add: recovery_ok_def demo_recovery_world_def)




end
