(* ===== verification/Analytics.thy ===== *)
theory Analytics
  imports Memory_Store Postgres_Store Registry Go_Json
begin

text \<open>
  \<open>store/analytics_types.go\<close>, \<open>store/analytics_memory.go\<close>, \<open>store/analytics_postgres.go\<close> and
  \<open>ocpp16hal/analytics.go\<close>: the usage report per charger, computed from the rows of either
  store, and its two text formats.  \<open>time.Sub\<close> is \<^const>\<open>Since\<close>, which saturates.  The conversion
  of a float outside the 64-bit range to \<open>int64\<close> gives the smallest integer, as on amd64.
\<close>

section \<open>Types\<close>

record AnalyticsInput =
  ai_ChargerID :: string
  ai_StartTime :: "time option"
  ai_EndTime :: "time option"

record ChargerAnalytics =
  ca_ChargerID :: string
  ca_Timestamp :: time
  ca_TotalUptime :: string
  ca_UptimePercentage :: float64
  ca_TotalTransactions :: int
  ca_TotalElectricityUsedKWh :: float64
  ca_OccupancyRatePercentage :: float64
  ca_AverageSessionDuration :: string
  ca_PeakUsageTimes :: string
  ca_TotalTimeOccupied :: string
  ca_TotalTimeOccupiedSeconds :: float64
  ca_TotalPossibleSeconds :: float64
  ca_TotalUptimeSeconds :: float64

record AnalyticsOutput =
  ao_Analytics :: "(string, ChargerAnalytics) gomap option"
  ao_TotalUptime :: string
  ao_TotalTransactions :: int
  ao_TotalElectricityUsedKWh :: float64
  ao_TotalTimeOccupied :: string
  ao_TotalTimeOccupiedSeconds :: float64
  ao_TotalUptimeSeconds :: float64

section \<open>Formats\<close>

definition round_away :: "rat \<Rightarrow> int" where
  "round_away q = (if q < 0 then - \<lfloor>1 / 2 - q\<rfloor> else \<lfloor>q + 1 / 2\<rfloor>)"

definition math_Round :: "float64 \<Rightarrow> float64" where
  "math_Round x = (case x of Fin q \<Rightarrow> if - 1 / 2 < q \<and> q < 0 then NegZero else Fin (of_int (round_away q)) | _ \<Rightarrow> x)"

definition to_int64 :: "float64 \<Rightarrow> int" where
  "to_int64 x =
     (case f_val x of
        None \<Rightarrow> - (2 ^ 63)
      | Some q \<Rightarrow>
          let i = (if q < 0 then - \<lfloor>- q\<rfloor> else \<lfloor>q\<rfloor>)
          in if - (2 ^ 63) \<le> i \<and> i < 2 ^ 63 then i else - (2 ^ 63))"

definition math_Max :: "float64 \<Rightarrow> float64 \<Rightarrow> float64" where
  "math_Max x y =
     (if x = PosInf \<or> y = PosInf then PosInf
      else if x = NaN \<or> y = NaN then NaN
      else if f_eq x (Fin 0) \<and> f_eq x y then (if f_signbit x then y else x)
      else if f_lt y x then x else y)"

definition round3 :: "float64 \<Rightarrow> float64" where
  "round3 v = f_div (math_Round (f_mul v (Fin 1000))) (Fin 1000)"

text \<open>The loop of \<open>FormatDuration\<close> over its five parts.\<close>

fun duration_parts :: "string \<Rightarrow> (int \<times> string) list \<Rightarrow> string" where
  "duration_parts out [] = out"
| "duration_parts out ((v, name) # parts) =
     (if v \<le> 0 then duration_parts out parts
      else duration_parts ((if out = [] then out else out @ '', '') @ FormatInt v @ '' '' @ name) parts)"

definition format_seconds :: "int \<Rightarrow> string" where
  "format_seconds n =
     (let seconds = max 0 n;
          years = seconds div 31536000; s1 = seconds mod 31536000;
          days = s1 div 86400; s2 = s1 mod 86400;
          hours = s2 div 3600; s3 = s2 mod 3600;
          minutes = s3 div 60; s4 = s3 mod 60;
          out = duration_parts [] [(years, ''years''), (days, ''days''), (hours, ''hours''),
                                   (minutes, ''minutes''), (s4, ''seconds'')]
      in if out = [] then ''0 seconds'' else out)"

definition FormatDuration :: "float64 \<Rightarrow> string" where
  "FormatDuration secondsFloat = format_seconds (to_int64 (math_Round secondsFloat))"

text \<open>\<open>time.Date(2000, 1, 1, hour, ...).Format("15:04")\<close> for this hour and the next; hour 24 is
  midnight of the next day.\<close>

definition formatPeakHour :: "nat \<Rightarrow> string" where
  "formatPeakHour hour = pad 2 (int hour mod 24) @ '':00 - '' @ pad 2 ((int hour + 1) mod 24) @ '':00''"

definition PeakUsageTimes :: "int list \<Rightarrow> string" where
  "PeakUsageTimes peak =
     (if length peak \<noteq> 24 then ''No data available''
      else
        let maxCount = foldl (\<lambda>m c. if c > m then c else m) 0 peak in
        if maxCount = 0 then ''No peak usage times - charger was not used during this period.''
        else
          let hours = map (\<lambda>(h, c). formatPeakHour h) (filter (\<lambda>(h, c). c = maxCount) (enumerate 0 peak))
          in join '', '' (sort_strings hours))"

text \<open>What both stores do with the sums of one charger.\<close>

definition charger_report ::
  "string \<Rightarrow> time \<Rightarrow> float64 \<Rightarrow> int \<Rightarrow> float64 \<Rightarrow> float64 \<Rightarrow> int list \<Rightarrow> ChargerAnalytics" where
  "charger_report chargerID now totalPossible count kwh occupied peak =
     (let avgSeconds = (if count > 0 then f_div occupied (f_of_int count) else Fin 0);
          occupancy = (if f_lt (Fin 0) totalPossible \<and> f_lt (Fin 0) occupied
                       then round3 (f_mul (f_div occupied totalPossible) (Fin 100)) else Fin 0)
      in \<lparr>ca_ChargerID = chargerID, ca_Timestamp = now, ca_TotalUptime = FormatDuration (Fin 0),
          ca_UptimePercentage = Fin 0, ca_TotalTransactions = count,
          ca_TotalElectricityUsedKWh = kwh, ca_OccupancyRatePercentage = occupancy,
          ca_AverageSessionDuration = FormatDuration avgSeconds,
          ca_PeakUsageTimes = PeakUsageTimes peak, ca_TotalTimeOccupied = FormatDuration occupied,
          ca_TotalTimeOccupiedSeconds = occupied, ca_TotalPossibleSeconds = totalPossible,
          ca_TotalUptimeSeconds = Fin 0\<rparr>)"

definition add_report :: "string \<Rightarrow> ChargerAnalytics \<Rightarrow> AnalyticsOutput \<Rightarrow> AnalyticsOutput" where
  "add_report chargerID a rep =
     rep\<lparr>ao_Analytics := map_option (AList.update chargerID a) (ao_Analytics rep),
       ao_TotalTransactions := ao_TotalTransactions rep + ca_TotalTransactions a,
       ao_TotalElectricityUsedKWh := f_add (ao_TotalElectricityUsedKWh rep) (ca_TotalElectricityUsedKWh a),
       ao_TotalTimeOccupiedSeconds := f_add (ao_TotalTimeOccupiedSeconds rep) (ca_TotalTimeOccupiedSeconds a),
       ao_TotalUptimeSeconds := f_add (ao_TotalUptimeSeconds rep) (ca_TotalUptimeSeconds a)\<rparr>"

definition empty_report :: AnalyticsOutput where
  "empty_report = \<lparr>ao_Analytics = Some [], ao_TotalUptime = [], ao_TotalTransactions = 0,
     ao_TotalElectricityUsedKWh = Fin 0, ao_TotalTimeOccupied = [],
     ao_TotalTimeOccupiedSeconds = Fin 0, ao_TotalUptimeSeconds = Fin 0\<rparr>"

definition finish_report :: "string \<Rightarrow> AnalyticsOutput \<Rightarrow> AnalyticsOutput" where
  "finish_report chargerID rep =
     rep\<lparr>ao_TotalUptime := FormatDuration (ao_TotalUptimeSeconds rep),
       ao_TotalTimeOccupied := FormatDuration (ao_TotalTimeOccupiedSeconds rep),
       ao_Analytics := (if chargerID = ''cumulative'' then None else ao_Analytics rep)\<rparr>"

definition one_charger :: "string \<Rightarrow> bool" where
  "one_charger chargerID \<longleftrightarrow> chargerID \<noteq> [] \<and> chargerID \<noteq> ''all'' \<and> chargerID \<noteq> ''cumulative''"

section \<open>In memory\<close>

text \<open>One round of the loop that finds the first start and the last end.\<close>

definition window_step :: "string \<Rightarrow> time option \<times> time option \<Rightarrow> Transaction \<Rightarrow> time option \<times> time option" where
  "window_step chargerID w tx =
     (if tx_ChargerID tx \<noteq> chargerID then w
      else
        let (minTime, maxTime) = w; st = tx_StartTime tx;
            et = (case tx_StopTime tx of None \<Rightarrow> st | Some t \<Rightarrow> t)
        in (case minTime of None \<Rightarrow> Some st | Some m \<Rightarrow> if st < m then Some st else Some m,
            case maxTime of None \<Rightarrow> Some et | Some m \<Rightarrow> if et > m then Some et else Some m))"

record usage =
  us_count :: int
  us_kwh :: float64
  us_occupied :: float64
  us_peak :: "int list"

definition usage_step :: "string \<Rightarrow> time \<Rightarrow> time \<Rightarrow> usage \<Rightarrow> Transaction \<Rightarrow> usage" where
  "usage_step chargerID start_t end_t u tx =
     (if tx_ChargerID tx \<noteq> chargerID \<or> tx_StartTime tx < start_t \<or> tx_StartTime tx > end_t then u
      else
        let h = nat (Hour (tx_StartTime tx)) in
        u\<lparr>us_count := us_count u + 1,
          us_kwh := (case tx_TotalConsumption tx of None \<Rightarrow> us_kwh u | Some c \<Rightarrow> f_add (us_kwh u) c),
          us_occupied := (case tx_StopTime tx of
             None \<Rightarrow> us_occupied u
           | Some t \<Rightarrow> f_add (us_occupied u) (Seconds (Since t (tx_StartTime tx)))),
          us_peak := (us_peak u)[h := us_peak u ! h + 1]\<rparr>)"

definition computeMemoryAnalytics ::
  "time \<Rightarrow> int list \<Rightarrow> int list \<Rightarrow> string \<Rightarrow> AnalyticsInput \<Rightarrow> (int, Transaction) gomap \<Rightarrow> ChargerAnalytics" where
  "computeMemoryAnalytics now order1 order2 chargerID input transactions =
     (let (minTime, maxTime) =
            foldl (window_step chargerID) (None, None) (map snd (range_order order1 transactions));
          start_o = (case ai_StartTime input of None \<Rightarrow> minTime | Some t \<Rightarrow> Some t);
          end_o = (case ai_EndTime input of None \<Rightarrow> maxTime | Some t \<Rightarrow> Some t);
          start_t = (case start_o of None \<Rightarrow> now | Some t \<Rightarrow> t);
          end_t = (case end_o of None \<Rightarrow> now | Some t \<Rightarrow> t);
          totalPossible = math_Max (Fin 0) (Seconds (Since end_t start_t));
          u = foldl (usage_step chargerID start_t end_t)
                \<lparr>us_count = 0, us_kwh = Fin 0, us_occupied = Fin 0, us_peak = replicate 24 0\<rparr>
                (map snd (range_order order2 transactions))
      in charger_report chargerID now totalPossible (us_count u) (us_kwh u) (us_occupied u) (us_peak u))"

text \<open>From outside: the clock of each charger's report and the orders of the map iterations.\<close>

record analytics_env =
  an_now :: "nat \<Rightarrow> time"
  an_charger_order :: "string list"
  an_tx_order :: "nat \<Rightarrow> int list"

definition memory_charger_ids :: "string \<Rightarrow> Transaction list \<Rightarrow> (string, bool) gomap" where
  "memory_charger_ids chargerID txs =
     (let ids = foldl (\<lambda>m tx. if \<not> one_charger chargerID \<or> tx_ChargerID tx = chargerID
                              then AList.update (tx_ChargerID tx) True m else m) [] txs
      in if ids = [] \<and> one_charger chargerID then [(chargerID, True)] else ids)"

definition Mem_ChargerAnalytics ::
  "analytics_env \<Rightarrow> MemoryStore \<Rightarrow> AnalyticsInput \<Rightarrow> (MemoryStore, AnalyticsOutput) call" where
  "Mem_ChargerAnalytics e s input =
     (let ids = memory_charger_ids (ai_ChargerID input)
                  (map snd (range_order (an_tx_order e 0) (ms_transactions s)));
          rep = foldl (\<lambda>r (n, chargerID). add_report chargerID
                   (computeMemoryAnalytics (an_now e n) (an_tx_order e (2 * n + 1)) (an_tx_order e (2 * n + 2))
                      chargerID input (ms_transactions s)) r)
                 empty_report (enumerate 0 (map fst (range_order (an_charger_order e) ids)))
      in (Inr (finish_report (ai_ChargerID input) rep), s))"

section \<open>In PostgreSQL\<close>

text \<open>
  \<open>sql_sum\<close> is \<open>SUM\<close> over a \<open>DOUBLE PRECISION\<close> column without its nulls, in table order;
  \<open>EXTRACT(EPOCH ...)\<close> of an interval and its sum are exact decimals, which the driver rounds
  once.  \<open>pz_zone\<close> is the offset of the session's time zone at an instant, which
  \<open>EXTRACT(HOUR ...)\<close> uses.  Statement \<open>n\<close> of the method can fail, and other sessions may commit
  before each statement but the first.
\<close>

fun sql_min :: "time list \<Rightarrow> time option" where
  "sql_min [] = None"
| "sql_min (t # ts) = Some (foldr min ts t)"

fun sql_max :: "time list \<Rightarrow> time option" where
  "sql_max [] = None"
| "sql_max (t # ts) = Some (foldr max ts t)"

fun sql_sum :: "float64 list \<Rightarrow> float64 option" where
  "sql_sum [] = None"
| "sql_sum (x # xs) = Some (foldl f_add x xs)"

definition coalesce0 :: "float64 option \<Rightarrow> float64" where
  "coalesce0 x = (case x of None \<Rightarrow> Fin 0 | Some v \<Rightarrow> v)"

definition stop_or_start :: "Transaction \<Rightarrow> time" where
  "stop_or_start tx = (case tx_StopTime tx of None \<Rightarrow> tx_StartTime tx | Some t \<Rightarrow> t)"

record pg_session =
  pz_env :: pg_env
  pz_now :: "nat \<Rightarrow> time"
  pz_zone :: "time \<Rightarrow> duration"

definition in_window :: "string \<Rightarrow> time \<Rightarrow> time \<Rightarrow> Transaction \<Rightarrow> bool" where
  "in_window chargerID start_t end_t r \<longleftrightarrow>
     tx_ChargerID r = chargerID \<and> tx_StartTime r \<ge> start_t \<and> tx_StartTime r \<le> end_t"

definition analyticsWindow ::
  "pg_session \<Rightarrow> nat \<Rightarrow> PgDB \<Rightarrow> string \<Rightarrow> time option \<Rightarrow> time option
   \<Rightarrow> (PgDB, time option \<times> time option) call" where
  "analyticsWindow z n db chargerID inputStart inputEnd =
     (if inputStart \<noteq> None \<and> inputEnd \<noteq> None then (Inr (inputStart, inputEnd), db)
      else
        case pg_exec (pz_env z) n
               (\<lambda>d. let rs = filter (\<lambda>r. tx_ChargerID r = chargerID) (pg_transactions d)
                    in (Inr (sql_min (map tx_StartTime rs), sql_max (map stop_or_start rs)), d))
               (pe_between (pz_env z) db) of
          (Inl err, db') \<Rightarrow> (Inl err, db')
        | (Inr (minTime, maxTime), db') \<Rightarrow>
            (Inr (case inputStart of None \<Rightarrow> minTime | Some t \<Rightarrow> Some t,
                  case inputEnd of None \<Rightarrow> maxTime | Some t \<Rightarrow> Some t), db'))"

definition pg_sums ::
  "string \<Rightarrow> time \<Rightarrow> time \<Rightarrow> PgDB \<Rightarrow> (PgDB, int \<times> float64 \<times> float64) call" where
  "pg_sums chargerID start_t end_t db =
     (let rs = filter (in_window chargerID start_t end_t) (pg_transactions db);
          epochs = map (\<lambda>r. case tx_StopTime r of
                     Some t \<Rightarrow> of_int (t - tx_StartTime r) / of_int Second | None \<Rightarrow> (0 :: rat)) rs
      in (Inr (int (length rs), coalesce0 (sql_sum (List.map_filter tx_TotalConsumption rs)),
               f_round (sum_list epochs)), db))"

definition pg_hours ::
  "(time \<Rightarrow> duration) \<Rightarrow> string \<Rightarrow> time \<Rightarrow> time \<Rightarrow> PgDB \<Rightarrow> (PgDB, (int \<times> int) list) call" where
  "pg_hours zone chargerID start_t end_t db =
     (let hs = map (\<lambda>r. Hour (tx_StartTime r + zone (tx_StartTime r)))
                 (filter (in_window chargerID start_t end_t) (pg_transactions db))
      in (Inr (map (\<lambda>h. (h, int (count_list hs h))) (remdups hs)), db))"

text \<open>\<open>n\<close> is the number of the method's next statement.\<close>

definition analyticsForCharger ::
  "pg_session \<Rightarrow> nat \<Rightarrow> time \<Rightarrow> PgDB \<Rightarrow> string \<Rightarrow> time option \<Rightarrow> time option
   \<Rightarrow> (PgDB, ChargerAnalytics) call" where
  "analyticsForCharger z n now db chargerID inputStart inputEnd =
     (case analyticsWindow z n db chargerID inputStart inputEnd of
        (Inl err, db0) \<Rightarrow> (Inl err, db0)
      | (Inr (start_o, end_o), db0) \<Rightarrow>
          let start_t = (case start_o of None \<Rightarrow> now | Some t \<Rightarrow> t);
              end_t = (case end_o of None \<Rightarrow> now | Some t \<Rightarrow> t);
              possible = Seconds (Since end_t start_t);
              totalPossible = (if f_lt possible (Fin 0) then Fin 0 else possible)
          in case pg_exec (pz_env z) (Suc n) (pg_sums chargerID start_t end_t) (pe_between (pz_env z) db0) of
               (Inl err, db1) \<Rightarrow> (Inl err, db1)
             | (Inr (cnt, totalEnergy, occupied), db1) \<Rightarrow>
                 (case pg_exec (pz_env z) (n + 2) (pg_hours (pz_zone z) chargerID start_t end_t)
                         (pe_between (pz_env z) db1) of
                    (Inl err, db2) \<Rightarrow> (Inl err, db2)
                  | (Inr hours, db2) \<Rightarrow>
                      let peak = foldl (\<lambda>p (h, c). if 0 \<le> h \<and> h < 24 then p[nat h := c] else p)
                                   (replicate 24 0) hours
                      in (Inr (charger_report chargerID now totalPossible cnt totalEnergy occupied peak), db2)))"

definition analyticsChargerIDs :: "pg_session \<Rightarrow> PgDB \<Rightarrow> string \<Rightarrow> (PgDB, string list) call" where
  "analyticsChargerIDs z db chargerID =
     (if one_charger chargerID then (Inr [chargerID], db)
      else pg_exec (pz_env z) 0
             (\<lambda>d. (Inr (sort_strings (remdups (map tx_ChargerID (pg_transactions d)))), d)) db)"

fun pg_reports ::
  "pg_session \<Rightarrow> AnalyticsInput \<Rightarrow> nat \<Rightarrow> string list \<Rightarrow> AnalyticsOutput \<Rightarrow> PgDB
   \<Rightarrow> (PgDB, AnalyticsOutput) call" where
  "pg_reports z input n [] rep db = (Inr rep, db)"
| "pg_reports z input n (c # cs) rep db =
     (case analyticsForCharger z (3 * n + 1) (pz_now z n) db c (ai_StartTime input) (ai_EndTime input) of
        (Inl err, db') \<Rightarrow> (Inl err, db')
      | (Inr a, db') \<Rightarrow> pg_reports z input (Suc n) cs (add_report c a rep) db')"

definition Pg_ChargerAnalytics ::
  "pg_session \<Rightarrow> PgDB \<Rightarrow> AnalyticsInput \<Rightarrow> (PgDB, AnalyticsOutput) call" where
  "Pg_ChargerAnalytics z db input =
     (case analyticsChargerIDs z db (ai_ChargerID input) of
        (Inl err, db') \<Rightarrow> (Inl err, db')
      | (Inr ids, db') \<Rightarrow>
          let chargerIDs = (if ids = [] \<and> one_charger (ai_ChargerID input) then [ai_ChargerID input] else ids)
          in case pg_reports z input 0 chargerIDs empty_report db' of
               (Inl err, db2) \<Rightarrow> (Inl err, db2)
             | (Inr rep, db2) \<Rightarrow> (Inr (finish_report (ai_ChargerID input) rep), db2))"

text \<open>\<open>HAL.ChargerAnalytics\<close> hands the three arguments to the store's method.\<close>

definition HAL_ChargerAnalytics ::
  "('s \<Rightarrow> AnalyticsInput \<Rightarrow> ('s, AnalyticsOutput) call) \<Rightarrow> 's \<Rightarrow> string \<Rightarrow> time option \<Rightarrow> time option
   \<Rightarrow> ('s, AnalyticsOutput) call" where
  "HAL_ChargerAnalytics method s chargerID startTime endTime =
     method s \<lparr>ai_ChargerID = chargerID, ai_StartTime = startTime, ai_EndTime = endTime\<rparr>"

end
