(* ===== verification/Analytics_Correct.thy ===== *)
theory Analytics_Correct
  imports Analytics "HOL-Library.Multiset"
begin

text \<open>
  The usage report: the duration text can be read back, the peak hours are the busiest hours in
  order of the day, every transaction is counted exactly once, and the two stores agree.
\<close>

section \<open>Durations\<close>

fun tokens :: "string \<Rightarrow> string \<Rightarrow> string list" where
  "tokens acc [] = [acc]"
| "tokens acc (c # s) = (if c = CHR '' '' then acc # tokens [] s else tokens (acc @ [c]) s)"

definition unit_seconds :: "string \<Rightarrow> int" where
  "unit_seconds u =
     (if hd u = CHR ''y'' then 31536000 else if hd u = CHR ''d'' then 86400
      else if hd u = CHR ''h'' then 3600 else if hd u = CHR ''m'' then 60 else 1)"

fun read_tokens :: "string list \<Rightarrow> int" where
  "read_tokens (v # u # r) = dec_val v * unit_seconds u + read_tokens r"
| "read_tokens _ = 0"

definition read_duration :: "string \<Rightarrow> int" where
  "read_duration s = read_tokens (tokens [] s)"

lemma tokens_word: "CHR '' '' \<notin> set w \<Longrightarrow> tokens acc (w @ CHR '' '' # s) = (acc @ w) # tokens [] s"
  by (induction w arbitrary: acc) auto

lemma tokens_last: "CHR '' '' \<notin> set w \<Longrightarrow> tokens acc w = [acc @ w]"
  by (induction w arbitrary: acc) auto

lemma space_not_in_FormatInt: "0 \<le> i \<Longrightarrow> CHR '' '' \<notin> set (FormatInt i)"
  using dec_digits [of i] by (auto simp: FormatInt_def list_all_iff is_digit_def code_def)

fun dur_text :: "(int \<times> string) list \<Rightarrow> string" where
  "dur_text [] = []"
| "dur_text [(v, u)] = FormatInt v @ CHR '' '' # u"
| "dur_text ((v, u) # p # ps) = FormatInt v @ CHR '' '' # (u @ '','') @ CHR '' '' # dur_text (p # ps)"

definition unit_name :: "string \<Rightarrow> bool" where
  "unit_name u \<longleftrightarrow> u \<noteq> [] \<and> CHR '' '' \<notin> set u"

lemma read_dur_text:
  assumes "\<forall>(v, u) \<in> set ps. 0 < v \<and> unit_name u"
  shows "read_duration (dur_text ps) = (\<Sum>(v, u) \<leftarrow> ps. v * unit_seconds u)"
  using assms
proof (induction ps rule: dur_text.induct)
  case 1
  then show ?case by (simp add: read_duration_def)
next
  case (2 v u)
  then show ?case
    using tokens_word [of "FormatInt v" "[]" u] tokens_last [of u "[]"] space_not_in_FormatInt [of v]
    by (simp add: read_duration_def unit_name_def FormatInt_def)
next
  case (3 v u p ps)
  have comma: "CHR '' '' \<notin> set (u @ '','')" "hd (u @ '','') = hd u"
    using 3 by (auto simp: unit_name_def)
  have "tokens [] (dur_text ((v, u) # p # ps)) = FormatInt v # (u @ '','') # tokens [] (dur_text (p # ps))"
    using tokens_word [OF space_not_in_FormatInt [of v], of "[]"] tokens_word [OF comma(1), of "[]"] 3(2)
    by simp
  moreover have "unit_seconds (u @ '','') = unit_seconds u" using comma(2) by (simp add: unit_seconds_def)
  ultimately show ?case using 3 by (simp add: read_duration_def FormatInt_def)
qed

lemma dur_text_snoc:
  "ps \<noteq> [] \<Longrightarrow> dur_text (ps @ [(v, u)]) = dur_text ps @ '', '' @ FormatInt v @ '' '' @ u"
  by (induction ps rule: dur_text.induct) auto

lemma dur_text_Nil_iff: "dur_text ps = [] \<longleftrightarrow> ps = []"
  by (cases ps rule: dur_text.cases) auto

lemma duration_parts_eq:
  "duration_parts (dur_text done_ps) ps = dur_text (done_ps @ filter (\<lambda>(v, u). 0 < v) ps)"
proof (induction ps arbitrary: done_ps)
  case (Cons p ps)
  obtain v u where p: "p = (v, u)" by fastforce
  have "(if dur_text done_ps = [] then dur_text done_ps else dur_text done_ps @ '', '') @ FormatInt v @ '' '' @ u
        = dur_text (done_ps @ [(v, u)])"
    by (cases "done_ps = []") (simp_all add: dur_text_Nil_iff dur_text_snoc)
  then show ?case using Cons [of done_ps] Cons [of "done_ps @ [(v, u)]"] by (simp add: p)
qed simp

lemma sum_filter_pos:
  "\<forall>(v, u) \<in> set ps. (0 :: int) \<le> v \<Longrightarrow>
   (\<Sum>(v, u) \<leftarrow> filter (\<lambda>(v, u). 0 < v) ps. v * f u) = (\<Sum>(v, u) \<leftarrow> ps. v * (f u :: int))"
  by (induction ps) auto

lemma read_format_seconds: "read_duration (format_seconds n) = max 0 n"
proof -
  let ?s = "max 0 n"
  let ?s1 = "?s mod 31536000" let ?s2 = "?s1 mod 86400" let ?s3 = "?s2 mod 3600"
  define ps where "ps = [(?s div 31536000, ''years''), (?s1 div 86400, ''days''), (?s2 div 3600, ''hours''),
                         (?s3 div 60, ''minutes''), (?s3 mod 60, ''seconds'')]"
  have nonneg: "\<forall>(v, u) \<in> set ps. 0 \<le> v" by (simp add: ps_def pos_imp_zdiv_nonneg_iff)
  have total: "(\<Sum>(v, u) \<leftarrow> ps. v * unit_seconds u) = ?s"
  proof -
    have split: "?s = ?s div 31536000 * 31536000 + ?s1 div 86400 * 86400 + ?s2 div 3600 * 3600
                      + ?s3 div 60 * 60 + ?s3 mod 60"
      by presburger
    show ?thesis unfolding ps_def by (simp add: unit_seconds_def)
  qed
  let ?text = "dur_text (filter (\<lambda>(v, u). 0 < v) ps)"
  have units: "\<forall>(v, u) \<in> set ps. unit_name u" by (simp add: ps_def unit_name_def)
  have "format_seconds n = (if ?text = [] then ''0 seconds'' else ?text)"
    using duration_parts_eq [of "[]" ps] by (simp add: format_seconds_def Let_def ps_def)
  moreover have "read_duration ?text = ?s"
    using read_dur_text [of "filter (\<lambda>(v, u). 0 < v) ps"] sum_filter_pos [OF nonneg, of unit_seconds] units total
    by auto
  moreover have "read_duration ''0 seconds'' = 0" by code_simp
  moreover have "read_duration [] = 0" by (simp add: read_duration_def)
  ultimately show ?thesis by (cases "?text = []") simp_all
qed

lemma to_int64_int: "- (2 ^ 63) \<le> n \<Longrightarrow> n < 2 ^ 63 \<Longrightarrow> to_int64 (Fin (of_int n)) = n"
  by (auto simp: to_int64_def Let_def)

lemma round_away_bounds: "\<bar>q\<bar> < 2 ^ 62 \<Longrightarrow> - (2 ^ 63) \<le> round_away q \<and> round_away q < 2 ^ 63"
  unfolding round_away_def by (auto simp: abs_less_iff) linarith+

lemma round_away_small: "- 1 / 2 < q \<Longrightarrow> q < 0 \<Longrightarrow> round_away q = 0"
  unfolding round_away_def by (simp add: floor_eq_iff)

text \<open>
  C32. The duration text keeps the whole seconds: reading the numbers back with the weights of their
  units (a year is 365 days) gives the seconds rounded to the nearest integer, and 0 for a negative
  duration.
\<close>

theorem duration_text_reads_back:
  assumes "\<bar>q\<bar> < 2 ^ 62"
  shows "read_duration (FormatDuration (Fin q)) = max 0 (round_away q)"
proof -
  have "to_int64 (math_Round (Fin q)) = round_away q"
    using to_int64_int [of "round_away q"] round_away_bounds [OF assms] round_away_small [of q]
    by (auto simp: math_Round_def to_int64_def)
  then show ?thesis by (simp add: FormatDuration_def read_format_seconds)
qed

theorem duration_text_reads_back_witness:
  "read_duration (FormatDuration (Fin (180121 / 2))) = 90061 \<and>
   FormatDuration (Fin 90061) = ''1 days, 1 hours, 1 minutes, 1 seconds''"
proof -
  have "FormatDuration (Fin 90061) = ''1 days, 1 hours, 1 minutes, 1 seconds''" by code_simp
  moreover have "round_away (180121 / 2) = 90061" by (simp add: round_away_def)
  ultimately show ?thesis using duration_text_reads_back [of "180121 / 2"] by simp
qed

section \<open>Peak hours\<close>

lemma foldl_max_ge:
  "(m :: int) \<le> foldl (\<lambda>m c. if c > m then c else m) m xs \<and> (\<forall>x \<in> set xs. x \<le> foldl (\<lambda>m c. if c > m then c else m) m xs)"
proof (induction xs arbitrary: m)
  case (Cons x xs)
  then show ?case by (smt (verit) foldl_Cons set_ConsD)
qed simp

lemma foldl_max_in:
  "foldl (\<lambda>m c. if c > m then c else m) (m :: int) xs = m \<or> foldl (\<lambda>m c. if c > m then c else m) m xs \<in> set xs"
proof (induction xs arbitrary: m)
  case (Cons x xs)
  then show ?case by (smt (verit) foldl_Cons list.set_intros)
qed simp

lemma sort_strings_sorted: "sorted (map (map code) xs) \<Longrightarrow> sort_strings xs = xs"
  by (simp add: sort_strings_def sorted_sort_id sort_key_id_if_sorted)

lemma hours_in_order: "sorted (map (map code) (map formatPeakHour [0..<24]))"
  by code_simp

lemma sorted_filter_map: "sorted (map f xs) \<Longrightarrow> sorted (map f (filter P xs))"
  by (induction xs) (auto simp: sorted_wrt_map)

lemma enumerate_filter:
  "map (\<lambda>(h, c). f h) (filter (\<lambda>(h, c). c = m) (enumerate 0 xs)) = map f (filter (\<lambda>h. xs ! h = m) [0..<length xs])"
proof -
  have e: "enumerate 0 xs = map (\<lambda>h. (h, xs ! h)) [0..<length xs]"
    by (rule nth_equalityI) (simp_all add: nth_enumerate_eq)
  show ?thesis unfolding e by (simp add: filter_map o_def)
qed

text \<open>
  C33. When some hour has a start, the report lists exactly the hours of the day with the most
  starts, in the order of the day.
\<close>

theorem peak_hours_are_the_busiest:
  assumes "length peak = 24" and "h0 < 24" and "0 < peak ! h0"
  shows "PeakUsageTimes peak =
    join '', '' (map formatPeakHour (filter (\<lambda>h. \<forall>k < 24. peak ! k \<le> peak ! h) [0..<24]))"
proof -
  let ?m = "foldl (\<lambda>m c. if c > m then c else m) 0 peak"
  have ge: "peak ! k \<le> ?m" if "k < 24" for k
    using foldl_max_ge [where m = 0 and xs = peak] assms(1) that by simp
  have pos: "?m > 0" using ge [OF assms(2)] assms(3) by simp
  then have "?m \<in> set peak" using foldl_max_in [of 0 peak] by auto
  then obtain k where k: "k < 24" "peak ! k = ?m" using assms(1) by (auto simp: in_set_conv_nth)
  have "peak ! h = ?m \<longleftrightarrow> (\<forall>k < 24. peak ! k \<le> peak ! h)" if "h < 24" for h
    using ge that k by (metis order_antisym)
  then have "filter (\<lambda>h. peak ! h = ?m) [0..<24] = filter (\<lambda>h. \<forall>k < 24. peak ! k \<le> peak ! h) [0..<24]"
    by (intro filter_cong) auto
  moreover have "sort_strings (map formatPeakHour (filter P [0..<24])) = map formatPeakHour (filter P [0..<24])" for P
    using sorted_filter_map [OF hours_in_order [unfolded map_map], of P] by (intro sort_strings_sorted) simp
  ultimately show ?thesis
    using pos assms(1) enumerate_filter [of formatPeakHour ?m peak]
    by (simp add: PeakUsageTimes_def Let_def del: upt_rec_numeral upt_conv_Cons)
qed

theorem peak_hours_are_the_busiest_witness:
  "PeakUsageTimes ((replicate 24 0)[9 := 3, 23 := 3, 12 := 1]) = ''09:00 - 10:00, 23:00 - 00:00''"
proof -
  let ?p = "(replicate 24 0)[9 := 3, 23 := 3, 12 := 1] :: int list"
  have "PeakUsageTimes ?p =
    join '', '' (map formatPeakHour (filter (\<lambda>h. \<forall>k < 24. ?p ! k \<le> ?p ! h) [0..<24]))"
    by (rule peak_hours_are_the_busiest [where ?h0.0 = 9]) simp_all
  also have "\<dots> = ''09:00 - 10:00, 23:00 - 00:00''" by code_simp
  finally show ?thesis .
qed

section \<open>Sums over the rows\<close>

definition values_of :: "'k list \<Rightarrow> ('k, 'v) gomap \<Rightarrow> 'v list" where
  "values_of ks m = map snd (range_order ks m)"

lemma mset_values_of: "gomap_ok m \<Longrightarrow> mset (values_of ks m) = mset (map snd m)"
proof -
  assume ok: "gomap_ok m"
  have "distinct (range_order ks m)" "distinct m"
    using range_order_ok [OF ok, of ks] ok by (simp_all add: gomap_ok_def distinct_map)
  then have "mset (range_order ks m) = mset m"
    using ok by (simp add: set_eq_iff_mset_eq_distinct [symmetric])
  then show ?thesis by (simp add: values_of_def)
qed

definition opt_min :: "time list \<Rightarrow> time option" where
  "opt_min xs = (if xs = [] then None else Some (Min (set xs)))"

definition opt_max :: "time list \<Rightarrow> time option" where
  "opt_max xs = (if xs = [] then None else Some (Max (set xs)))"

lemma opt_min_append: "opt_min (xs @ [x]) = Some (if xs = [] then x else min x (Min (set xs)))"
  by (simp add: opt_min_def)

lemma opt_max_append: "opt_max (xs @ [x]) = Some (if xs = [] then x else max x (Max (set xs)))"
  by (simp add: opt_max_def)

lemma opt_min_snoc: "opt_min (xs @ [x]) = (case opt_min xs of None \<Rightarrow> Some x | Some m \<Rightarrow> if x < m then Some x else Some m)"
  unfolding opt_min_append by (cases "xs = []") (simp_all add: opt_min_def min_def del: Min_gr_iff Min_ge_iff)

lemma opt_max_snoc: "opt_max (xs @ [x]) = (case opt_max xs of None \<Rightarrow> Some x | Some m \<Rightarrow> if x > m then Some x else Some m)"
  unfolding opt_max_append by (cases "xs = []") (simp_all add: opt_max_def max_def del: Max_less_iff Max_le_iff)

lemma sql_min_eq: "sql_min xs = opt_min xs"
proof (cases xs)
  case (Cons t ts)
  have "foldr min ts t = Min (set (t # ts))"
  proof (induction ts)
    case (Cons a ts)
    then show ?case by (cases "ts = []") (auto simp: insert_commute min.left_commute)
  qed simp
  then show ?thesis by (simp add: Cons opt_min_def)
qed (simp add: opt_min_def)

lemma sql_max_eq: "sql_max xs = opt_max xs"
proof (cases xs)
  case (Cons t ts)
  have "foldr max ts t = Max (set (t # ts))"
  proof (induction ts)
    case (Cons a ts)
    then show ?case by (cases "ts = []") (auto simp: insert_commute max.left_commute)
  qed simp
  then show ?thesis by (simp add: Cons opt_max_def)
qed (simp add: opt_max_def)

abbreviation of_charger :: "string \<Rightarrow> Transaction list \<Rightarrow> Transaction list" where
  "of_charger c \<equiv> filter (\<lambda>tx. tx_ChargerID tx = c)"

lemma window_fold:
  "foldl (window_step c) (None, None) txs =
     (opt_min (map tx_StartTime (of_charger c txs)), opt_max (map stop_or_start (of_charger c txs)))"
proof (induction txs rule: rev_induct)
  case Nil
  then show ?case by (simp add: opt_min_def opt_max_def)
next
  case (snoc tx txs)
  then show ?case by (simp add: window_step_def opt_min_snoc opt_max_snoc stop_or_start_def Let_def)
qed

definition hours_in :: "string \<Rightarrow> time \<Rightarrow> time \<Rightarrow> Transaction list \<Rightarrow> int list" where
  "hours_in c st et txs = map (\<lambda>r. Hour (tx_StartTime r)) (filter (in_window c st et) txs)"

lemma Hour_range [simp]: "0 \<le> Hour t" "Hour t < 24"
  by (simp_all add: Hour_def)

lemma hours_in_range: "h \<in> set (hours_in c st et txs) \<Longrightarrow> 0 \<le> h \<and> h < 24"
  by (auto simp: hours_in_def)

lemma usage_fold:
  fixes u :: usage and c :: string and st et :: time and txs :: "Transaction list"
  assumes "length (us_peak u) = 24"
  defines "u' \<equiv> foldl (usage_step c st et) u txs"
  shows "us_count u' = us_count u + int (length (filter (in_window c st et) txs))"
    and "length (us_peak u') = 24"
    and "k < 24 \<Longrightarrow> us_peak u' ! k = us_peak u ! k + int (count_list (hours_in c st et txs) (int k))"
proof -
  have "us_count u' = us_count u + int (length (filter (in_window c st et) txs)) \<and> length (us_peak u') = 24 \<and>
    (\<forall>k < 24. us_peak u' ! k = us_peak u ! k + int (count_list (hours_in c st et txs) (int k)))"
    unfolding u'_def using assms(1)
  proof (induction txs arbitrary: u)
    case Nil
    then show ?case by (simp add: hours_in_def)
  next
    case (Cons tx txs)
    have len: "length (us_peak (usage_step c st et u tx)) = 24"
      using Cons.prems by (simp add: usage_step_def Let_def)
    have h: "nat (Hour (tx_StartTime tx)) < 24" by (simp add: nat_less_iff)
    show ?case using Cons.IH [OF len] Cons.prems h
      by (auto simp: usage_step_def in_window_def hours_in_def Let_def nth_list_update)
  qed
  then show "us_count u' = us_count u + int (length (filter (in_window c st et) txs))"
    "length (us_peak u') = 24"
    "k < 24 \<Longrightarrow> us_peak u' ! k = us_peak u ! k + int (count_list (hours_in c st et txs) (int k))" by auto
qed

text \<open>The array of starts per hour, over any list with these rows.\<close>

definition hour_counts :: "int list \<Rightarrow> int list" where
  "hour_counts hs = map (\<lambda>k. int (count_list hs (int k))) [0..<24]"

definition window_of :: "time \<Rightarrow> AnalyticsInput \<Rightarrow> string \<Rightarrow> Transaction list \<Rightarrow> time \<times> time" where
  "window_of now input c txs =
     (case ai_StartTime input of Some t \<Rightarrow> t
      | None \<Rightarrow> (case opt_min (map tx_StartTime (of_charger c txs)) of None \<Rightarrow> now | Some t \<Rightarrow> t),
      case ai_EndTime input of Some t \<Rightarrow> t
      | None \<Rightarrow> (case opt_max (map stop_or_start (of_charger c txs)) of None \<Rightarrow> now | Some t \<Rightarrow> t))"

lemma opt_min_mset: "mset xs = mset ys \<Longrightarrow> opt_min xs = opt_min ys"
  unfolding opt_min_def by (metis mset_eq_setD mset_zero_iff)

lemma opt_max_mset: "mset xs = mset ys \<Longrightarrow> opt_max xs = opt_max ys"
  unfolding opt_max_def by (metis mset_eq_setD mset_zero_iff)

lemma mset_map_filter_cong: "mset xs = mset ys \<Longrightarrow> mset (map f (filter P xs)) = mset (map f (filter P ys))"
  by simp

lemma window_of_mset: "mset xs = mset ys \<Longrightarrow> window_of now input c xs = window_of now input c ys"

proof -
  assume m: "mset xs = mset ys"
  have "opt_min (map tx_StartTime (of_charger c xs)) = opt_min (map tx_StartTime (of_charger c ys))"
    by (rule opt_min_mset [OF mset_map_filter_cong [OF m]])
  moreover have "opt_max (map stop_or_start (of_charger c xs)) = opt_max (map stop_or_start (of_charger c ys))"
    by (rule opt_max_mset [OF mset_map_filter_cong [OF m]])
  ultimately show ?thesis
    by (cases "ai_StartTime input"; cases "ai_EndTime input") (simp_all add: window_of_def)
qed

lemma hour_counts_mset: "mset hs = mset hs' \<Longrightarrow> hour_counts hs = hour_counts hs'"
  
proof -
  assume "mset hs = mset hs'"
  then have "count_list hs k = count_list hs' k" for k by (metis count_mset)
  then show ?thesis by (simp add: hour_counts_def)
qed

lemma math_Max_zero: "x \<noteq> NaN \<Longrightarrow> math_Max (Fin 0) x = (if f_lt x (Fin 0) then Fin 0 else if f_eq x (Fin 0) then Fin 0 else x)"
  by (cases x) (auto simp: math_Max_def f_eq_def)

lemma Seconds_not_NaN:
  assumes "\<bar>d\<bar> < 2 ^ 64"
  shows "Seconds d \<noteq> NaN"
proof -
  let ?q = "sgn d * (\<bar>d\<bar> div Second)"
  let ?n = "d - ?q * Second"
  have n: "?n = sgn d * (\<bar>d\<bar> mod Second)"
    by (cases d "0 :: int" rule: linorder_cases) (simp_all add: minus_div_mult_eq_mod minus_mod_eq_mult_div [symmetric] algebra_simps)
  have "\<bar>?n\<bar> < Second"
    unfolding n by (simp add: abs_mult abs_sgn_eq Second_def)
  then have n53: "\<bar>?n\<bar> < 2 ^ 53" by (simp add: Second_def)
  have "\<bar>d\<bar> div Second < 2 ^ 53" using assms by (simp add: Second_def)
  moreover have "0 \<le> \<bar>d\<bar> div Second" by (simp add: Second_def pos_imp_zdiv_nonneg_iff)
  ultimately have "\<bar>?q\<bar> < 2 ^ 53" by (simp add: abs_mult abs_sgn_eq)
  then have q: "f_of_int ?q = Fin (of_int ?q)" by simp
  obtain y where y: "f_div (f_of_int ?n) (Fin 1000000000) = y" "y \<noteq> NaN"
    using n53 by (auto simp: f_div_def f_zero_def f_round_not_nan)
  have "f_add (Fin p) y \<noteq> NaN" for p using y(2) by (cases y) (auto simp: f_round_not_nan)
  then show ?thesis using q y by (simp add: Seconds_def Let_def)
qed

lemma Seconds_Since_not_NaN: "Seconds (Since a b) \<noteq> NaN"
  by (rule Seconds_not_NaN) (auto simp: Since_def abs_if max_def min_def)

lemma possible_agrees:
  "f_eq (math_Max (Fin 0) (Seconds (Since a b)))
        (let p = Seconds (Since a b) in if f_lt p (Fin 0) then Fin 0 else p)"
  using Seconds_Since_not_NaN [of a b]
  by (cases "Seconds (Since a b)") (auto simp: math_Max_zero Let_def f_eq_def)

section \<open>The report of one charger\<close>

lemma hours_peak:
  "length p = 24 \<Longrightarrow> (\<forall>k < 24. p ! k = int (count_list hs (int k))) \<Longrightarrow> p = hour_counts hs"
  by (rule nth_equalityI) (simp_all add: hour_counts_def del: upt_rec_numeral upt_conv_Cons)

text \<open>What the report of one charger says when the rows are \<open>txs\<close> in any order.\<close>

definition report_of :: "time \<Rightarrow> AnalyticsInput \<Rightarrow> string \<Rightarrow> Transaction list \<Rightarrow> ChargerAnalytics \<Rightarrow> bool" where
  "report_of now input c txs a \<longleftrightarrow>
     (let (st, et) = window_of now input c txs in
      ca_ChargerID a = c \<and> ca_Timestamp a = now \<and>
      ca_TotalTransactions a = int (length (filter (in_window c st et) txs)) \<and>
      ca_PeakUsageTimes a = PeakUsageTimes (hour_counts (hours_in c st et txs)) \<and>
      f_eq (ca_TotalPossibleSeconds a) (math_Max (Fin 0) (Seconds (Since et st))))"

lemma report_of_mset:
  assumes "mset xs = mset ys"
  shows "report_of now input c xs a = report_of now input c ys a"
proof -
  have "mset (filter P xs) = mset (filter P ys)" for P using assms by simp
  then have "length (filter P xs) = length (filter P ys)" for P by (metis size_mset)
  moreover have "hour_counts (hours_in c st et xs) = hour_counts (hours_in c st et ys)" for st et
    unfolding hours_in_def by (rule hour_counts_mset [OF mset_map_filter_cong [OF assms]])
  ultimately show ?thesis by (simp add: report_of_def window_of_mset [OF assms])
qed

lemma f_eq_same: "x \<noteq> NaN \<Longrightarrow> f_eq x x"
  by (simp add: f_eq_def)

lemma possible_not_NaN: "math_Max (Fin 0) (Seconds (Since a b)) \<noteq> NaN"
  using Seconds_Since_not_NaN [of a b] by (simp add: math_Max_zero)

lemma memory_report:
  assumes "gomap_ok m"
  shows "report_of now input c (map snd m) (computeMemoryAnalytics now o1 o2 c input m)"
proof -
  let ?t1 = "values_of o1 m" let ?t2 = "values_of o2 m"
  have m1: "mset ?t1 = mset (map snd m)" and m2: "mset ?t2 = mset (map snd m)"
    using mset_values_of [OF assms] by blast+
  obtain st et where w: "window_of now input c ?t1 = (st, et)" by fastforce
  then have w2: "window_of now input c ?t2 = (st, et)"
    using window_of_mset [of ?t1 ?t2] m1 m2 by metis
  define u0 where "u0 = \<lparr>us_count = 0, us_kwh = Fin 0, us_occupied = Fin 0, us_peak = replicate 24 0\<rparr>"
  define u where "u = foldl (usage_step c st et) u0 ?t2"
  have len: "length (us_peak u0) = 24" by (simp add: u0_def)
  have peak: "us_peak u = hour_counts (hours_in c st et ?t2)"
    unfolding u_def by (rule hours_peak) (simp_all add: usage_fold [OF len], simp add: u0_def)
  have "computeMemoryAnalytics now o1 o2 c input m =
    charger_report c now (math_Max (Fin 0) (Seconds (Since et st))) (us_count u) (us_kwh u) (us_occupied u) (us_peak u)"
    using w window_fold [of c ?t1] unfolding window_of_def
    by (auto simp: computeMemoryAnalytics_def values_of_def Let_def u_def u0_def split: option.splits)
  moreover have "us_count u = int (length (filter (in_window c st et) ?t2))"
    unfolding u_def using usage_fold(1) [OF len, of c st et ?t2] by (simp add: u0_def)
  ultimately have "report_of now input c ?t2 (computeMemoryAnalytics now o1 o2 c input m)"
    using peak possible_not_NaN [of et st] by (simp add: report_of_def w2 charger_report_def Let_def f_eq_same)
  then show ?thesis using report_of_mset [OF m2] by blast
qed

lemma peak_from_pairs:
  fixes p :: "int list" and f :: "int \<Rightarrow> int"
  assumes "distinct hs" and "\<forall>h \<in> set hs. 0 \<le> h \<and> h < 24" and "length p = 24"
  defines "r \<equiv> foldl (\<lambda>p (h, c). if 0 \<le> h \<and> h < 24 then p[nat h := c] else p) p (map (\<lambda>h. (h, f h)) hs)"
  shows "length r = 24" and "k < 24 \<Longrightarrow> r ! k = (if int k \<in> set hs then f (int k) else p ! k)"
proof -
  have "length r = 24 \<and> (\<forall>k < 24. r ! k = (if int k \<in> set hs then f (int k) else p ! k))"
    unfolding r_def using assms(1-3)
  proof (induction hs arbitrary: p)
    case (Cons h hs)
    then have h: "0 \<le> h" "h < 24" "nat h < 24" by auto
    have "length (p[nat h := f h]) = 24" using Cons by simp
    from Cons.IH [OF _ _ this] Cons.prems h show ?case by (auto simp: nth_list_update)
  qed simp
  then show "length r = 24" "k < 24 \<Longrightarrow> r ! k = (if int k \<in> set hs then f (int k) else p ! k)" by auto
qed

lemma pg_report:
  assumes "pg_quiet (pz_env z)" and "pz_zone z = (\<lambda>t. 0)"
  shows "\<exists>a. analyticsForCharger z n now db c (ai_StartTime input) (ai_EndTime input) = (Inr a, db) \<and>
    report_of now input c (pg_transactions db) a"
proof -
  let ?t = "pg_transactions db"
  obtain st et where w: "window_of now input c ?t = (st, et)" by fastforce
  let ?hs = "hours_in c st et ?t"
  define peak where "peak = foldl (\<lambda>p (h, c). if 0 \<le> h \<and> h < 24 then p[nat h := c] else p)
    (replicate 24 0) (map (\<lambda>h. (h, int (count_list ?hs h))) (remdups ?hs))"
  have peak: "peak = hour_counts ?hs"
    unfolding peak_def
    by (rule hours_peak) (use peak_from_pairs [of "remdups ?hs" "replicate 24 0"] hours_in_range in \<open>simp_all add: count_list_0_iff\<close>)
  obtain so eo where an: "analyticsWindow z n db c (ai_StartTime input) (ai_EndTime input) = (Inr (so, eo), db)"
    "(case so of None \<Rightarrow> now | Some t \<Rightarrow> t) = st" "(case eo of None \<Rightarrow> now | Some t \<Rightarrow> t) = et"
    using w assms(1) unfolding window_of_def
    by (auto simp: analyticsWindow_def Let_def sql_min_eq sql_max_eq split: option.splits)
  let ?possible = "let p = Seconds (Since et st) in if f_lt p (Fin 0) then Fin 0 else p"
  obtain kwh occ where sums: "pg_sums c st et db = (Inr (int (length (filter (in_window c st et) ?t)), kwh, occ), db)"
    by (simp add: pg_sums_def Let_def)
  have hours: "pg_hours (pz_zone z) c st et db = (Inr (map (\<lambda>h. (h, int (count_list ?hs h))) (remdups ?hs)), db)"
    by (simp add: pg_hours_def assms(2) hours_in_def Let_def)
  let ?a = "charger_report c now ?possible (int (length (filter (in_window c st et) ?t))) kwh occ peak"
  have "analyticsForCharger z n now db c (ai_StartTime input) (ai_EndTime input) = (Inr ?a, db)"
    using an sums hours assms(1) by (simp add: analyticsForCharger_def Let_def peak_def)
  moreover have "f_eq ?possible (math_Max (Fin 0) (Seconds (Since et st)))"
    using possible_agrees [of et st] by (auto simp: f_eq_def Let_def split: option.splits)
  then have "report_of now input c ?t ?a" by (simp add: report_of_def w charger_report_def Let_def peak)
  ultimately show ?thesis by blast
qed

section \<open>The whole report\<close>

lemma distinct_single: "set xs = {p} \<Longrightarrow> distinct xs \<Longrightarrow> xs = [p]"
proof (cases xs)
  case (Cons a ys)
  assume "set xs = {p}" "distinct xs"
  then have a: "a = p" and ys: "p \<notin> set ys" "set ys \<subseteq> {p}" using Cons by auto
  have "ys = []" using ys by (cases ys) auto
  then show ?thesis using Cons a by simp
qed simp

lemma range_order_single: "range_order os [p] = [p]"
proof -
  have ok: "gomap_ok [p]" by (simp add: gomap_ok_def)
  have "set (range_order os [p]) = {p}" "distinct (range_order os [p])"
    using range_order_ok [OF ok, of os] ok by (simp_all add: gomap_ok_def distinct_map)
  then show ?thesis by (rule distinct_single)
qed

lemma one_charger_ids:
  assumes "one_charger c"
  shows "memory_charger_ids c txs = [(c, True)]"
proof -
  have "foldl (\<lambda>m tx. if \<not> one_charger c \<or> tx_ChargerID tx = c then AList.update (tx_ChargerID tx) True m else m) m txs
      \<in> {[], [(c, True)]}" if "m \<in> {[], [(c, True)]}" for m
    using that
  proof (induction txs arbitrary: m)
    case (Cons tx txs)
    have "(if \<not> one_charger c \<or> tx_ChargerID tx = c then AList.update (tx_ChargerID tx) True m else m)
      \<in> {[], [(c, True)]}"
      using Cons.prems assms by auto
    from Cons.IH [OF this] show ?case by simp
  qed simp
  from this [of "[]"] show ?thesis using assms by (auto simp: memory_charger_ids_def Let_def)
qed

lemma f_eq_join: "f_eq x m \<Longrightarrow> f_eq y m \<Longrightarrow> f_eq x y"
  by (auto simp: f_eq_def split: option.splits)

text \<open>
  C30. For the same rows, the same clock reading and a PostgreSQL session in UTC, the report of a
  charger has the same number of transactions, the same peak hours and the same length of the
  observed window from both stores, whatever the window of the request.
\<close>

theorem stores_report_the_same:
  assumes "pg_quiet (pz_env z)" and "pz_zone z = (\<lambda>t. 0)"
    and "gomap_ok (ms_transactions s)" and "mset (map snd (ms_transactions s)) = mset (pg_transactions db)"
    and "an_now e 0 = pz_now z 0" and "one_charger (ai_ChargerID input)"
  shows "\<exists>r r' a b. Mem_ChargerAnalytics e s input = (Inr r, s) \<and> Pg_ChargerAnalytics z db input = (Inr r', db) \<and>
    ao_Analytics r = Some [(ai_ChargerID input, a)] \<and> ao_Analytics r' = Some [(ai_ChargerID input, b)] \<and>
    ao_TotalTransactions r = ao_TotalTransactions r' \<and>
    ca_TotalTransactions a = ca_TotalTransactions b \<and> ca_PeakUsageTimes a = ca_PeakUsageTimes b \<and>
    ca_Timestamp a = ca_Timestamp b \<and> f_eq (ca_TotalPossibleSeconds a) (ca_TotalPossibleSeconds b)"
proof -
  let ?c = "ai_ChargerID input" let ?now = "pz_now z 0"
  define a where "a = computeMemoryAnalytics ?now (an_tx_order e 1) (an_tx_order e 2) ?c input (ms_transactions s)"
  obtain b where b: "analyticsForCharger z 1 ?now db ?c (ai_StartTime input) (ai_EndTime input) = (Inr b, db)"
    "report_of ?now input ?c (pg_transactions db) b"
    using pg_report [OF assms(1,2)] by blast
  have ra: "report_of ?now input ?c (pg_transactions db) a"
    unfolding a_def by (rule report_of_mset [OF assms(4), THEN iffD1, OF memory_report [OF assms(3)]])
  have ids: "range_order os [(?c, True)] = [(?c, True)]" for os
    by (rule range_order_single)
  have mem: "Mem_ChargerAnalytics e s input = (Inr (finish_report ?c (add_report ?c a empty_report)), s)"
    using assms(5,6) ids by (simp add: Mem_ChargerAnalytics_def one_charger_ids a_def numeral_2_eq_2)
  have pg: "Pg_ChargerAnalytics z db input = (Inr (finish_report ?c (add_report ?c b empty_report)), db)"
    using assms(6) b(1) by (simp add: Pg_ChargerAnalytics_def analyticsChargerIDs_def)
  have "?c \<noteq> ''cumulative''" using assms(6) by (simp add: one_charger_def)
  then have eqs: "ao_Analytics (finish_report ?c (add_report ?c x empty_report)) = Some [(?c, x)]"
    "ao_TotalTransactions (finish_report ?c (add_report ?c x empty_report)) = ca_TotalTransactions x" for x
    by (simp_all add: finish_report_def add_report_def empty_report_def)
  have same: "ca_TotalTransactions a = ca_TotalTransactions b" "ca_PeakUsageTimes a = ca_PeakUsageTimes b"
    "ca_Timestamp a = ca_Timestamp b" "f_eq (ca_TotalPossibleSeconds a) (ca_TotalPossibleSeconds b)"
    using ra b(2) by (cases "window_of ?now input ?c (pg_transactions db)"; auto simp: report_of_def elim: f_eq_join)+
  show ?thesis
    by ((rule exI)+, (rule conjI, rule mem), (rule conjI, rule pg), (rule conjI, rule eqs(1)),
        (rule conjI, rule eqs(1))) (simp only: eqs same simp_thms)
qed

lemma add_reports_total:
  "ao_TotalTransactions (foldl (\<lambda>r (n, c). add_report c (f n c) r) rep xs) =
     ao_TotalTransactions rep + (\<Sum>(n, c) \<leftarrow> xs. ca_TotalTransactions (f n c))"
  by (induction xs arbitrary: rep) (auto simp: add_report_def)

lemma in_own_window:
  assumes "window_of now input c txs = (st, et)" and "ai_StartTime input = None" and "ai_EndTime input = None"
    and "\<forall>tx \<in> set txs. tx_StartTime tx \<le> stop_or_start tx" and "tx \<in> set txs" and "tx_ChargerID tx = c"
  shows "in_window c st et tx"
proof -
  have "of_charger c txs \<noteq> []" using assms(5,6) by (auto simp: filter_empty_conv)
  then have "st = Min (tx_StartTime ` set (of_charger c txs))" "et = Max (stop_or_start ` set (of_charger c txs))"
    using assms(1-3) by (auto simp: window_of_def opt_min_def opt_max_def)
  moreover have "tx \<in> set (of_charger c txs)" using assms(5,6) by simp
  ultimately have "st \<le> tx_StartTime tx" "stop_or_start tx \<le> et" by auto
  moreover have "tx_StartTime tx \<le> stop_or_start tx" using assms(4,5) by blast
  ultimately show ?thesis using assms(6) by (simp add: in_window_def)
qed

lemma counts_all:
  assumes "report_of now input c txs a" and "ai_StartTime input = None" and "ai_EndTime input = None"
    and "\<forall>tx \<in> set txs. tx_StartTime tx \<le> stop_or_start tx"
  shows "ca_TotalTransactions a = int (length (of_charger c txs))"
proof -
  obtain st et where w: "window_of now input c txs = (st, et)" by fastforce
  have "filter (in_window c st et) txs = of_charger c txs"
    using in_own_window [OF w assms(2-4)] by (intro filter_cong) (auto simp: in_window_def)
  then show ?thesis using assms(1) w by (simp add: report_of_def)
qed

lemma int_sum_list: "(\<Sum>c \<leftarrow> ks. int (f c)) = int (\<Sum>c \<leftarrow> ks. f c)"
  by (induction ks) auto

lemma sum_list_bump:
  "distinct ks \<Longrightarrow> k \<in> set ks \<Longrightarrow> (\<Sum>c \<leftarrow> ks. if c = k then Suc (g c) else g c) = Suc (\<Sum>c \<leftarrow> ks. g c)"
proof (induction ks)
  case (Cons a ks)
  show ?case
  proof (cases "a = k")
    case True
    then have "map (\<lambda>c. if c = k then Suc (g c) else g c) ks = map g ks" using Cons.prems by auto
    then show ?thesis using True by (simp only: list.map sum_list.Cons simp_thms if_True add_Suc)
  next
    case False
    then show ?thesis using Cons by simp
  qed
qed simp

lemma partition_by_charger:
  assumes "distinct ks" and "\<forall>tx \<in> set txs. tx_ChargerID tx \<in> set ks"
  shows "(\<Sum>c \<leftarrow> ks. length (of_charger c txs)) = length txs"
  using assms(2)
proof (induction txs)
  case (Cons tx txs)
  have "(\<Sum>c \<leftarrow> ks. length (of_charger c (tx # txs)))
      = (\<Sum>c \<leftarrow> ks. if c = tx_ChargerID tx then Suc (length (of_charger c txs)) else length (of_charger c txs))"
    by (rule arg_cong [of _ _ sum_list]) auto
  then show ?case using Cons sum_list_bump [OF assms(1), of "tx_ChargerID tx"] by simp
qed simp

lemma all_charger_ids:
  assumes "\<not> one_charger c"
  shows "gomap_ok (memory_charger_ids c txs)" "fst ` set (memory_charger_ids c txs) = tx_ChargerID ` set txs"
proof -
  have "gomap_ok (foldl (\<lambda>m tx. AList.update (tx_ChargerID tx) True m) m txs) \<and>
      fst ` set (foldl (\<lambda>m tx. AList.update (tx_ChargerID tx) True m) m txs) = fst ` set m \<union> tx_ChargerID ` set txs"
    if "gomap_ok m" for m
    using that by (induction txs arbitrary: m) (auto simp: dom_update)
  from this [of "[]"] show "gomap_ok (memory_charger_ids c txs)"
    "fst ` set (memory_charger_ids c txs) = tx_ChargerID ` set txs"
    using assms by (simp_all add: memory_charger_ids_def Let_def)
qed


section \<open>Examples\<close>

definition demo_rows :: "Transaction list" where
  "demo_rows =
     (let tx = \<lparr>tx_ID = 1, tx_UUIDDB = ''u'', tx_ChargerID = ''cp'', tx_ConnectorID = 1, tx_MeterStart = Fin 0,
                tx_MeterStop = Some (Fin 2000), tx_TotalConsumption = Some (Fin 2),
                tx_StartTime = 36000 * Second, tx_StopTime = Some (39600 * Second), tx_IDTag = ''tag'',
                tx_TransactionID = 7, tx_IsSingleSession = False, tx_MaxKWh = None,
                tx_LimitStopRequested = False\<rparr>
      in [tx, tx\<lparr>tx_ID := 2, tx_TransactionID := 8, tx_ChargerID := ''cq''\<rparr>])"

definition demo_memory :: MemoryStore where
  "demo_memory = NewMemoryStore\<lparr>ms_transactions := map (\<lambda>tx. (tx_TransactionID tx, tx)) demo_rows\<rparr>"

definition demo_analytics_env :: analytics_env where
  "demo_analytics_env = \<lparr>an_now = (\<lambda>n. 0), an_charger_order = [], an_tx_order = (\<lambda>n. [])\<rparr>"

lemma demo_memory_ok: "gomap_ok (ms_transactions demo_memory)" "length (ms_transactions demo_memory) = 2"
  "map snd (ms_transactions demo_memory) = demo_rows"
  by (simp_all add: demo_memory_def demo_rows_def NewMemoryStore_def gomap_ok_def Let_def)

theorem stores_report_the_same_witness:
  "\<exists>r r'. Mem_ChargerAnalytics demo_analytics_env demo_memory \<lparr>ai_ChargerID = ''cp'', ai_StartTime = None, ai_EndTime = None\<rparr>
       = (Inr r, demo_memory) \<and>
     Pg_ChargerAnalytics \<lparr>pz_env = calm 7 0, pz_now = (\<lambda>n. 0), pz_zone = (\<lambda>t. 0)\<rparr>
       (empty_db\<lparr>pg_transactions := demo_rows\<rparr>) \<lparr>ai_ChargerID = ''cp'', ai_StartTime = None, ai_EndTime = None\<rparr>
       = (Inr r', empty_db\<lparr>pg_transactions := demo_rows\<rparr>) \<and>
     ao_TotalTransactions r = ao_TotalTransactions r'"
proof -
  let ?z = "\<lparr>pz_env = calm 7 0, pz_now = (\<lambda>n. 0), pz_zone = (\<lambda>t. 0)\<rparr>"
  have "pg_quiet (pz_env ?z)" by (simp add: pg_quiet_def calm_def)
  from stores_report_the_same [of ?z demo_memory "empty_db\<lparr>pg_transactions := demo_rows\<rparr>" demo_analytics_env
      "\<lparr>ai_ChargerID = ''cp'', ai_StartTime = None, ai_EndTime = None\<rparr>", OF this]
  show ?thesis by (auto simp: demo_memory_ok demo_analytics_env_def one_charger_def)
qed


end
