(* ===== verification/Http_Json.thy ===== *)
theory Http_Json
  imports Hooks Analytics
begin

text \<open>
  Requests and responses of the REST API (\<open>httpapi/compat_json.go\<close>, \<open>httpapi/status_compat.go\<close>
  and the decoding and encoding helpers of \<open>httpapi/server.go\<close>).  A response body is the Go value
  handed to \<open>json.Encoder\<close>; a float that JSON cannot express makes the encoder write nothing.
  Decoding into a struct follows \<open>encoding/json\<close>: a member goes to the field with its exact name,
  else to the field with its name up to case; null leaves a string as it is; any mismatch makes
  the whole decoding fail.
\<close>

section \<open>Values and responses\<close>

datatype gov =
    GNil
  | GBool bool
  | GInt int
  | GFloat float64
  | GStr string
  | GTime time
  | GList "gov list"
  | GMap "(string \<times> gov) list"

fun f_finite :: "float64 \<Rightarrow> bool" where
  "f_finite (Fin q) = True"
| "f_finite NegZero = True"
| "f_finite _ = False"

fun encodable :: "gov \<Rightarrow> bool" where
  "encodable (GFloat f) = f_finite f"
| "encodable (GList xs) = list_all encodable xs"
| "encodable (GMap kvs) = list_all (\<lambda>kv. encodable (snd kv)) kvs"
| "encodable _ = True"

record http_response =
  hr_status :: int
  hr_headers :: "(string \<times> string) list"
  hr_body :: "gov option"

definition writeJSON :: "int \<Rightarrow> gov \<Rightarrow> http_response" where
  "writeJSON statusCode b =
     \<lparr>hr_status = statusCode, hr_headers = [(''Content-Type'', ''application/json'')],
      hr_body = (if encodable b then Some b else None)\<rparr>"

definition writeHeader :: "int \<Rightarrow> http_response" where
  "writeHeader statusCode = \<lparr>hr_status = statusCode, hr_headers = [], hr_body = None\<rparr>"

definition detail :: "string \<Rightarrow> gov" where
  "detail m = GMap [(''detail'', GStr m)]"

definition setCORS :: "http_response \<Rightarrow> http_response" where
  "setCORS r = r\<lparr>hr_headers :=
     [(''Access-Control-Allow-Origin'', ''*''),
      (''Access-Control-Allow-Methods'', ''GET, POST, OPTIONS''),
      (''Access-Control-Allow-Headers'', ''Authorization, Content-Type, x-api-key, Access-Control-Allow-Origin'')]
     @ hr_headers r\<rparr>"

section \<open>Decoding a request\<close>

type_synonym 'r fields = "(string \<times> (json \<Rightarrow> 'r \<Rightarrow> 'r option)) list"

definition field_for :: "'r fields \<Rightarrow> string \<Rightarrow> (json \<Rightarrow> 'r \<Rightarrow> 'r option) option" where
  "field_for fs k =
     (case map_of fs k of
        Some f \<Rightarrow> Some f
      | None \<Rightarrow> map_option snd (find (\<lambda>(n, f). EqualFold n k) fs))"

fun decode_members :: "'r fields \<Rightarrow> 'r \<Rightarrow> (string \<times> json) list \<Rightarrow> 'r option" where
  "decode_members fs r [] = Some r"
| "decode_members fs r ((k, v) # kvs) =
     (case field_for fs k of
        None \<Rightarrow> decode_members fs r kvs
      | Some f \<Rightarrow> (case f v r of None \<Rightarrow> None | Some r' \<Rightarrow> decode_members fs r' kvs))"

definition decodeJSON :: "'r fields \<Rightarrow> 'r \<Rightarrow> body \<Rightarrow> 'r option" where
  "decodeJSON fs r b =
     (case b of
        Malformed t \<Rightarrow> None
      | Body JNull t \<Rightarrow> Some r
      | Body (JObj kvs) t \<Rightarrow> decode_members fs r kvs
      | Body _ t \<Rightarrow> None)"

definition str_field :: "((string \<Rightarrow> string) \<Rightarrow> 'r \<Rightarrow> 'r) \<Rightarrow> json \<Rightarrow> 'r \<Rightarrow> 'r option" where
  "str_field upd v r =
     (case v of JStr t \<Rightarrow> Some (upd (\<lambda>_. t) r) | JNull \<Rightarrow> Some r | _ \<Rightarrow> None)"

text \<open>\<open>flexibleInt.UnmarshalJSON\<close> sees the text of the value; a number, or a string that holds one.\<close>

definition flexibleInt :: "json \<Rightarrow> int option" where
  "flexibleInt v =
     (case v of
        JNull \<Rightarrow> Some 0
      | JStr t \<Rightarrow> Atoi (TrimSpace t)
      | JNum t \<Rightarrow> Atoi (TrimSpace t)
      | _ \<Rightarrow> None)"

definition ParseBool :: "string \<Rightarrow> bool option" where
  "ParseBool s =
     (if s \<in> {''1'', ''t'', ''T'', ''true'', ''TRUE'', ''True''} then Some True
      else if s \<in> {''0'', ''f'', ''F'', ''false'', ''FALSE'', ''False''} then Some False
      else None)"

definition flexibleBool :: "json \<Rightarrow> bool option" where
  "flexibleBool v =
     (case v of
        JNull \<Rightarrow> Some False
      | JBool b \<Rightarrow> Some b
      | JStr t \<Rightarrow> ParseBool (TrimSpace t)
      | JNum t \<Rightarrow> ParseBool (TrimSpace t)
      | _ \<Rightarrow> None)"

definition int_field :: "((int \<Rightarrow> int) \<Rightarrow> 'r \<Rightarrow> 'r) \<Rightarrow> json \<Rightarrow> 'r \<Rightarrow> 'r option" where
  "int_field upd v r = map_option (\<lambda>i. upd (\<lambda>_. i) r) (flexibleInt v)"

definition bool_field :: "((bool \<Rightarrow> bool) \<Rightarrow> 'r \<Rightarrow> 'r) \<Rightarrow> json \<Rightarrow> 'r \<Rightarrow> 'r option" where
  "bool_field upd v r = map_option (\<lambda>b. upd (\<lambda>_. b) r) (flexibleBool v)"

text \<open>A \<open>*flexibleInt\<close>; \<open>flexibleIntPtr\<close> hands its value on.\<close>

definition int_ptr_field :: "((int option \<Rightarrow> int option) \<Rightarrow> 'r \<Rightarrow> 'r) \<Rightarrow> json \<Rightarrow> 'r \<Rightarrow> 'r option" where
  "int_ptr_field upd v r =
     (if v = JNull then Some (upd (\<lambda>_. None) r)
      else map_option (\<lambda>i. upd (\<lambda>_. Some i) r) (flexibleInt v))"

fun string_element :: "json \<Rightarrow> string option" where
  "string_element (JStr t) = Some t"
| "string_element JNull = Some []"
| "string_element _ = None"

definition strs_field :: "((string list \<Rightarrow> string list) \<Rightarrow> 'r \<Rightarrow> 'r) \<Rightarrow> json \<Rightarrow> 'r \<Rightarrow> 'r option" where
  "strs_field upd v r =
     (case v of
        JNull \<Rightarrow> Some (upd (\<lambda>_. []) r)
      | JArr xs \<Rightarrow> map_option (\<lambda>ts. upd (\<lambda>_. ts) r) (those (map string_element xs))
      | _ \<Rightarrow> None)"

section \<open>Status payloads\<close>

text \<open>A connector as the JSON object \<open>json.Marshal\<close> and \<open>json.Unmarshal\<close> make of it.\<close>

definition connector_json :: "ConnectorState \<Rightarrow> (string \<times> gov) list" where
  "connector_json c =
     [(''status'', GStr (cs_Status c))]
     @ (case cs_LastMeterValue c of None \<Rightarrow> [] | Some v \<Rightarrow> [(''last_meter_value'', GFloat v)])
     @ [(''last_transaction_consumption_kwh'', GFloat (cs_LastTransactionConsumptionKWh c)),
        (''error_code'', GStr (cs_ErrorCode c))]
     @ (case cs_TransactionID c of None \<Rightarrow> [] | Some t \<Rightarrow> [(''transaction_id'', GFloat (f_of_int t))])
     @ (case cs_LastMeterReceived c of None \<Rightarrow> [] | Some t \<Rightarrow> [(''last_meter_received'', GStr t)])"

fun firstPresent :: "(string \<times> gov) list \<Rightarrow> string list \<Rightarrow> gov" where
  "firstPresent vs [] = GNil"
| "firstPresent vs (k # ks) = (case map_of vs k of Some v \<Rightarrow> v | None \<Rightarrow> firstPresent vs ks)"

definition legacy_item :: "(string \<times> gov) list \<Rightarrow> (string \<times> gov) list" where
  "legacy_item connector =
     (let lastMeter = firstPresent connector [''last_meter_value'', ''latest_meter_value''];
          lastConsumption = firstPresent connector
            [''last_transaction_consumption_kwh'', ''latest_transaction_consumption_kwh''];
          transactionID = firstPresent connector [''transaction_id'', ''latest_transaction_id''];
          item = AList.update ''latest_transaction_id'' transactionID
            (AList.update ''transaction_id'' transactionID
            (AList.update ''latest_transaction_consumption_kwh'' lastConsumption
            (AList.update ''last_transaction_consumption_kwh'' lastConsumption
            (AList.update ''latest_meter_value'' lastMeter
            (AList.update ''last_meter_value'' lastMeter connector)))))
      in if map_of item ''error_code'' = None
         then AList.update ''error_code'' (GStr ''NoError'') item else item)"

definition legacyConnectorPayload :: "(string, ConnectorState) gomap \<Rightarrow> gov" where
  "legacyConnectorPayload connectors =
     (if \<not> list_all (\<lambda>(k, c). encodable (GMap (connector_json c))) connectors then GMap []
      else GMap (map (\<lambda>(k, c). (k, GMap (legacy_item (connector_json c)))) connectors))"

definition online_text :: "ChargerState \<Rightarrow> string" where
  "online_text cp =
     (if ch_Online cp \<and> ch_HasError cp then ''Online (with error)''
      else if ch_Online cp then ''Online'' else ''Offline'')"

definition legacyStatusPayload :: "ChargerState \<Rightarrow> string \<Rightarrow> string \<Rightarrow> gov" where
  "legacyStatusPayload cp mode chargerID =
     GMap ([(''status'', GStr (ch_Status cp)),
            (''connectors'', legacyConnectorPayload (ch_Connectors cp)),
            (''online'', GStr (online_text cp)),
            (''latest_message_received_time'', GStr (RFC3339Nano (ch_LastMessageTime cp)))]
           @ (if mode = ''all''
              then [(''last_message_received_time'', GStr (RFC3339Nano (ch_LastMessageTime cp)))] else [])
           @ (if mode = ''specific'' then [(''charger_id'', GStr chargerID)] else []))"

definition legacyOfflineStatusPayload :: "string \<Rightarrow> string \<Rightarrow> gov" where
  "legacyOfflineStatusPayload mode chargerID =
     GMap ([(''status'', GStr ''Offline''), (''connectors'', GMap []), (''online'', GStr ''Offline''),
            (''latest_message_received_time'', GNil)]
           @ (if mode = ''all'' then [(''last_message_received_time'', GNil)] else [])
           @ (if mode = ''specific'' then [(''charger_id'', GStr chargerID)] else []))"

text \<open>\<open>InactivityResult\<close> and \<open>AnalyticsOutput\<close> as JSON objects; \<open>omitempty\<close> drops zero values.\<close>

definition inactivity_json :: "InactivityResult \<Rightarrow> gov" where
  "inactivity_json r =
     GMap [(''charger_id'', GStr (ir_ChargerID r)), (''found'', GBool (ir_Found r)),
           (''inactive'', GBool (ir_Inactive r)), (''online'', GStr (ir_Online r)),
           (''status'', GStr (ir_Status r)), (''inactive_seconds'', GFloat (ir_InactiveSeconds r)),
           (''inactivity_limit_seconds'', GFloat (ir_InactivityLimitSeconds r)),
           (''latest_message_received_time'',
            case ir_LatestMessageReceivedTime r of None \<Rightarrow> GNil | Some t \<Rightarrow> GStr t),
           (''action'', GStr (ir_Action r))]"

definition analytics_json :: "ChargerAnalytics \<Rightarrow> gov" where
  "analytics_json a =
     GMap ([(''charger_id'', GStr (ca_ChargerID a)), (''timestamp'', GTime (ca_Timestamp a)),
            (''total_uptime'', GStr (ca_TotalUptime a)),
            (''uptime_percentage'', GFloat (ca_UptimePercentage a)),
            (''total_transactions'', GInt (ca_TotalTransactions a)),
            (''total_electricity_used_kwh'', GFloat (ca_TotalElectricityUsedKWh a)),
            (''occupancy_rate_percentage'', GFloat (ca_OccupancyRatePercentage a)),
            (''average_session_duration'', GStr (ca_AverageSessionDuration a)),
            (''peak_usage_times'', GStr (ca_PeakUsageTimes a))]
           @ (if ca_TotalTimeOccupied a = [] then [] else [(''total_time_occupied'', GStr (ca_TotalTimeOccupied a))]))"

definition analytics_output_json :: "AnalyticsOutput \<Rightarrow> gov" where
  "analytics_output_json r =
     GMap ((case ao_Analytics r of
              None \<Rightarrow> []
            | Some m \<Rightarrow> if m = [] then [] else [(''analytics'', GMap (map (\<lambda>(k, a). (k, analytics_json a)) m))])
           @ (if ao_TotalUptime r = [] then [] else [(''total_uptime'', GStr (ao_TotalUptime r))])
           @ (if ao_TotalTransactions r = 0 then [] else [(''total_transactions'', GInt (ao_TotalTransactions r))])
           @ (if f_eq (ao_TotalElectricityUsedKWh r) (Fin 0) then []
              else [(''total_electricity_used_kwh'', GFloat (ao_TotalElectricityUsedKWh r))])
           @ (if ao_TotalTimeOccupied r = [] then [] else [(''total_time_occupied'', GStr (ao_TotalTimeOccupied r))]))"

end
