(* ===== verification/Config.thy ===== *)
theory Config
  imports Hooks
begin

text \<open>
  \<open>config/config.go\<close> and \<open>chooseTransactionStore\<close> of \<open>cmd/ocpphal/main.go\<close>: the configuration
  is read once from the environment, a function from names to values that is empty for an unset
  name, as \<open>os.Getenv\<close> is.
\<close>

datatype log_level = LevelDebug | LevelInfo | LevelWarn | LevelError

record Config =
  RESTHost :: string
  RESTPort :: string
  OCPPListenPort :: int
  OCPPListenPath :: string
  APIKey :: string
  APIAuthKey :: string
  LogLevel :: log_level
  DatabaseURL :: string
  DBName :: string
  DBUser :: string
  DBPassword :: string
  DBHost :: string
  DBPort :: int
  DBSSLMode :: string
  MainCMSStartTxnHookURL :: string
  SingleSessionStartTxnHookURL :: string
  MainCMSCompletedTxnURL :: string
  SingleSessionCompletedTxnURL :: string
  ChargerDataURL :: string
  ChargerDataCacheTTLSeconds :: int

type_synonym environment = "string \<Rightarrow> string"

definition env_str :: "environment \<Rightarrow> string \<Rightarrow> string \<Rightarrow> string" where
  "env_str getenv key fallback =
     (let v = TrimSpace (getenv key) in if v = [] then fallback else v)"

definition envInt :: "environment \<Rightarrow> string \<Rightarrow> int \<Rightarrow> int" where
  "envInt getenv key fallback =
     (let raw = TrimSpace (getenv key) in
      if raw = [] then fallback else case Atoi raw of None \<Rightarrow> fallback | Some v \<Rightarrow> v)"

definition parseLogLevel :: "string \<Rightarrow> log_level" where
  "parseLogLevel v =
     (let s = ToLower (TrimSpace v) in
      if s = ''debug'' then LevelDebug
      else if s = ''warn'' \<or> s = ''warning'' then LevelWarn
      else if s = ''error'' then LevelError
      else LevelInfo)"

definition Load :: "environment \<Rightarrow> Config" where
  "Load getenv =
     \<lparr>RESTHost = env_str getenv ''F_SERVER_HOST'' ''127.0.0.1'',
      RESTPort = env_str getenv ''F_SERVER_PORT'' ''18080'',
      OCPPListenPort = envInt getenv ''OCPP_LISTEN_PORT'' 18081,
      OCPPListenPath = env_str getenv ''OCPP_LISTEN_PATH'' ''/{ws}'',
      APIKey = getenv ''API_KEY'',
      APIAuthKey = getenv ''APIAUTHKEY'',
      LogLevel = parseLogLevel (env_str getenv ''LOG_LEVEL'' ''info''),
      DatabaseURL = getenv ''DATABASE_URL'',
      DBName = getenv ''DB_NAME'',
      DBUser = getenv ''DB_USER'',
      DBPassword = getenv ''DB_PASSWORD'',
      DBHost = env_str getenv ''DB_HOST'' ''127.0.0.1'',
      DBPort = envInt getenv ''DB_PORT'' 5432,
      DBSSLMode = env_str getenv ''DB_SSLMODE'' ''disable'',
      MainCMSStartTxnHookURL = env_str getenv ''MAIN_CMS_START_TXN_HOOK_URL''
        ''https://be.cms.ocpp.transev.site/users/checkstartresponse'',
      SingleSessionStartTxnHookURL = getenv ''SINGLE_SESSION_START_TXN_HOOK_URL'',
      MainCMSCompletedTxnURL = env_str getenv ''MAIN_CMS_COMPLETED_TXN_URL''
        ''https://be.cms.ocpp.transev.site/users/deductcalculate'',
      SingleSessionCompletedTxnURL = getenv ''SINGLE_SESSION_COMPLETED_TXN_URL'',
      ChargerDataURL = getenv ''APICHARGERDATA'',
      ChargerDataCacheTTLSeconds = envInt getenv ''CHARGER_DATA_CACHE_TTL_SECONDS'' 7200\<rparr>"

text \<open>\<open>net.JoinHostPort\<close> puts brackets around a host with a colon.\<close>

definition RESTListenAddr :: "Config \<Rightarrow> string" where
  "RESTListenAddr c =
     (if CHR '':'' \<in> set (RESTHost c) then ''['' @ RESTHost c @ '']:'' @ RESTPort c
      else RESTHost c @ '':'' @ RESTPort c)"

definition HasDatabase :: "Config \<Rightarrow> bool" where
  "HasDatabase c \<longleftrightarrow>
     (if TrimSpace (DatabaseURL c) \<noteq> [] then True
      else TrimSpace (DBName c) \<noteq> [] \<and> TrimSpace (DBUser c) \<noteq> [] \<and> TrimSpace (DBHost c) \<noteq> []
           \<and> DBPort c > 0)"

text \<open>The fields the callback manager reads.\<close>

definition hooks_config :: "Config \<Rightarrow> hook_config" where
  "hooks_config c =
     \<lparr>cfg_MainCMSStartTxnHookURL = MainCMSStartTxnHookURL c,
      cfg_SingleSessionStartTxnHookURL = SingleSessionStartTxnHookURL c,
      cfg_MainCMSCompletedTxnURL = MainCMSCompletedTxnURL c,
      cfg_SingleSessionCompletedTxnURL = SingleSessionCompletedTxnURL c,
      cfg_APIAuthKey = APIAuthKey c\<rparr>"

text \<open>Connecting to the database is outside: \<open>connect\<close> gives the opened store or an error.\<close>

definition chooseTransactionStore ::
  "(Config \<Rightarrow> go_error + 'pg) \<Rightarrow> 'mem \<Rightarrow> Config \<Rightarrow> go_error + ('pg + 'mem)" where
  "chooseTransactionStore connect memory cfg =
     (if HasDatabase cfg
      then case connect cfg of
             Inr pgStore \<Rightarrow> Inr (Inl pgStore)
           | Inl err \<Rightarrow> Inl (ErrWrap ''connect PostgreSQL'' err)
      else Inr (Inr memory))"

section \<open>Which store the program runs on\<close>

definition blank :: "string \<Rightarrow> bool" where
  "blank s \<longleftrightarrow> TrimSpace s = []"

lemma env_str_not_blank: "\<not> blank fallback \<Longrightarrow> \<not> blank (env_str getenv key fallback)"
  by (simp add: env_str_def blank_def Let_def)

text \<open>
  C35. The program keeps its transactions in memory exactly when the environment names no database:
  no connection URL, and no database name, no user or a port that is a number below 1.  The host and
  a port that is not a number do not matter, because they fall back to defaults, and a database that
  cannot be opened is an error, never a switch to memory.
\<close>

theorem memory_only_without_database:
  "(\<exists>m. chooseTransactionStore connect memory (Load getenv) = Inr (Inr m)) \<longleftrightarrow>
     blank (getenv ''DATABASE_URL'') \<and>
     (blank (getenv ''DB_NAME'') \<or> blank (getenv ''DB_USER'') \<or>
      (\<exists>p. Atoi (TrimSpace (getenv ''DB_PORT'')) = Some p \<and> p \<le> 0))"
proof -
  have host: "TrimSpace (DBHost (Load getenv)) \<noteq> []"
    using env_str_not_blank [of "''127.0.0.1''" getenv "''DB_HOST''"]
    by (simp add: Load_def blank_def) (simp add: TrimSpace_def trim_left_def utf8_spaces_def code_def byte_def)
  have "Atoi [] = None" by (simp add: ParseInt_def)
  then have port: "DBPort (Load getenv) > 0 \<longleftrightarrow> \<not> (\<exists>p. Atoi (TrimSpace (getenv ''DB_PORT'')) = Some p \<and> p \<le> 0)"
    by (auto simp: Load_def envInt_def Let_def split: option.splits)
  have "HasDatabase (Load getenv) \<longleftrightarrow> \<not> blank (getenv ''DATABASE_URL'') \<or>
    (\<not> blank (getenv ''DB_NAME'') \<and> \<not> blank (getenv ''DB_USER'') \<and> DBPort (Load getenv) > 0)"
    using host by (simp add: HasDatabase_def blank_def) (simp add: Load_def)
  then show ?thesis using port by (auto simp: chooseTransactionStore_def split: sum.splits)
qed

end
