(* ===== verification/Charger_Directory.thy ===== *)
theory Charger_Directory
  imports Config Go_Json
begin

text \<open>
  \<open>chargerdir/service.go\<close>, the list of known chargers fetched over HTTP and cached, and its two
  clients: \<open>ocpp16hal/charger_validation.go\<close>, which decides whether a charger may connect, and
  \<open>httpapi/charger_directory.go\<close>.  A set of ids is a list of which only the members matter.  The
  mutex is held while the cache is looked up and while it is replaced, not during the request, so
  other callers may replace the cache in between (\<open>dv_others\<close>).
\<close>

section \<open>The ids in a reply\<close>

text \<open>The argument is the reply as \<^const>\<open>decode_any\<close> decodes it.\<close>

definition uid_of :: "(string \<times> json) list \<Rightarrow> string list" where
  "uid_of x =
     (case map_of x ''uid'' of
        None \<Rightarrow> []
      | Some uidRaw \<Rightarrow> let uid = TrimSpace (Sprint uidRaw) in if uid = [] then [] else [uid])"

definition walk_keys :: "string list" where
  "walk_keys = [''data'', ''chargers'', ''charger_data'', ''user_chargerunit_details'']"

fun extractIDs :: "json \<Rightarrow> string list" where
  "extractIDs (JObj x) =
     uid_of x @ concat (map (\<lambda>kv. if fst kv \<in> set walk_keys then extractIDs (snd kv) else []) x)"
| "extractIDs (JArr x) = concat (map extractIDs x)"
| "extractIDs _ = []"

section \<open>The service\<close>

record directory =
  ds_cachedIDs :: "string list"
  ds_expiresAt :: time

definition NewService :: directory where
  "NewService = \<lparr>ds_cachedIDs = [], ds_expiresAt = 0\<rparr>"

datatype http_get = Get_failed go_error | Got int body

record directory_env =
  dv_now :: time
  dv_get :: "string \<Rightarrow> string option \<Rightarrow> http_get"
  dv_others :: "directory \<Rightarrow> directory"
  dv_fetched_at :: time

definition Enabled :: "Config \<Rightarrow> bool" where
  "Enabled cfg \<longleftrightarrow> TrimSpace (ChargerDataURL cfg) \<noteq> []"

text \<open>\<open>time.Duration(ttl) * time.Second\<close> in 64 bits.\<close>

definition cache_ttl :: "Config \<Rightarrow> duration" where
  "cache_ttl cfg = wrap64 (ChargerDataCacheTTLSeconds cfg * Second)"

definition fetchAndCache ::
  "Config \<Rightarrow> directory_env \<Rightarrow> directory \<Rightarrow> (go_error + string list) \<times> directory" where
  "fetchAndCache cfg e d =
     (let d1 = dv_others e d in
      case dv_get e (ChargerDataURL cfg) (if APIAuthKey cfg \<noteq> [] then Some (APIAuthKey cfg) else None) of
        Get_failed err \<Rightarrow> (Inl err, d1)
      | Got status respBody \<Rightarrow>
          if status < 200 \<or> status \<ge> 300
          then (Inl (ErrNew (''charger data endpoint returned HTTP '' @ FormatInt status)), d1)
          else
            case respBody of
              Malformed t \<Rightarrow> (Inl (ErrExternal ''invalid JSON''), d1)
            | Body j t \<Rightarrow>
                (case decode_any j of
                   None \<Rightarrow> (Inl (ErrExternal ''json: cannot unmarshal number into Go value of type float64''), d1)
                 | Some raw \<Rightarrow>
                     let ids = extractIDs raw
                     in (Inr ids, \<lparr>ds_cachedIDs = ids, ds_expiresAt = dv_fetched_at e + cache_ttl cfg\<rparr>)))"

definition Refresh :: "Config \<Rightarrow> directory_env \<Rightarrow> directory \<Rightarrow> (go_error + unit) \<times> directory" where
  "Refresh cfg e d = map_prod (map_sum id (\<lambda>_. ())) id (fetchAndCache cfg e d)"

definition getIDs ::
  "Config \<Rightarrow> directory_env \<Rightarrow> directory \<Rightarrow> (go_error + string list) \<times> directory" where
  "getIDs cfg e d =
     (if dv_now e < ds_expiresAt d then (Inr (ds_cachedIDs d), d) else fetchAndCache cfg e d)"

definition IsKnownCharger ::
  "Config \<Rightarrow> directory_env \<Rightarrow> directory \<Rightarrow> string \<Rightarrow> (go_error + bool) \<times> directory" where
  "IsKnownCharger cfg e d chargerID =
     (let c = TrimSpace chargerID in
      if c = [] then (Inr False, d)
      else if \<not> Enabled cfg then (Inr True, d)
      else case getIDs cfg e d of
             (Inl err, d') \<Rightarrow> (Inl err, d')
           | (Inr ids, d') \<Rightarrow> (Inr (c \<in> set ids), d'))"

text \<open>The result \<open>None\<close> is a nil slice.\<close>

definition KnownChargerIDs ::
  "Config \<Rightarrow> directory_env \<Rightarrow> directory \<Rightarrow> (go_error + string list option) \<times> directory" where
  "KnownChargerIDs cfg e d =
     (if \<not> Enabled cfg then (Inr None, d)
      else case getIDs cfg e d of
             (Inl err, d') \<Rightarrow> (Inl err, d')
           | (Inr ids, d') \<Rightarrow> (Inr (Some (sort_strings (remdups ids))), d'))"

section \<open>The clients\<close>

text \<open>The package variable is nil until \<open>SetChargerDirectory\<close> has run.  A function that is given
  here answers as \<open>IsKnownCharger\<close> does.\<close>

definition validateIncomingCharger :: "(string \<Rightarrow> go_error + bool) option \<Rightarrow> string \<Rightarrow> bool" where
  "validateIncomingCharger chargerDirectory chargePointID =
     (case chargerDirectory of
        None \<Rightarrow> True
      | Some isKnown \<Rightarrow> (case isKnown chargePointID of Inl err \<Rightarrow> False | Inr ok \<Rightarrow> ok))"

definition isKnownCharger :: "(string \<Rightarrow> go_error + bool) option \<Rightarrow> string \<Rightarrow> go_error + bool" where
  "isKnownCharger chargerDirectory chargerID =
     (case chargerDirectory of None \<Rightarrow> Inr True | Some isKnown \<Rightarrow> isKnown chargerID)"

definition knownChargerIDs :: "(go_error + string list option) option \<Rightarrow> go_error + string list option" where
  "knownChargerIDs chargerDirectory = (case chargerDirectory of None \<Rightarrow> Inr None | Some r \<Rightarrow> r)"

section \<open>What the directory answers\<close>

text \<open>
  The specification of the walk: a uid is listed when it is the printed, trimmed, non-empty \<open>uid\<close>
  member of an object that is reached from the reply through arrays and the four known members.
\<close>

inductive lists_uid :: "json \<Rightarrow> string \<Rightarrow> bool" where
  here: "map_of x ''uid'' = Some v \<Longrightarrow> TrimSpace (Sprint v) = u \<Longrightarrow> u \<noteq> [] \<Longrightarrow> lists_uid (JObj x) u"
| member: "(k, v) \<in> set x \<Longrightarrow> k \<in> set walk_keys \<Longrightarrow> lists_uid v u \<Longrightarrow> lists_uid (JObj x) u"
| element: "v \<in> set x \<Longrightarrow> lists_uid v u \<Longrightarrow> lists_uid (JArr x) u"

inductive_simps lists_uid_simps: "lists_uid (JObj x) u" "lists_uid (JArr x) u" "lists_uid JNull u"
  "lists_uid (JBool b) u" "lists_uid (JNum t) u" "lists_uid (JStr t) u"

lemma uid_of_iff: "u \<in> set (uid_of x) \<longleftrightarrow> (\<exists>v. map_of x ''uid'' = Some v \<and> TrimSpace (Sprint v) = u \<and> u \<noteq> [])"
  by (cases "map_of x ''uid''") (auto simp: uid_of_def Let_def)

lemma extractIDs_exact: "u \<in> set (extractIDs raw) \<longleftrightarrow> lists_uid raw u"
proof (induction raw rule: extractIDs.induct)
  case (1 x)
  have "u \<in> set (extractIDs (JObj x)) \<longleftrightarrow> u \<in> set (uid_of x) \<or>
      (\<exists>kv \<in> set x. fst kv \<in> set walk_keys \<and> u \<in> set (extractIDs (snd kv)))"
    by auto
  also have "\<dots> \<longleftrightarrow> u \<in> set (uid_of x) \<or> (\<exists>kv \<in> set x. fst kv \<in> set walk_keys \<and> lists_uid (snd kv) u)"
    using 1 by blast
  also have "\<dots> \<longleftrightarrow> lists_uid (JObj x) u" by (force simp: lists_uid_simps uid_of_iff)
  finally show ?case .
qed (auto simp: lists_uid_simps)

text \<open>A successful request, and the states reachable by successful requests, with the newest of them.\<close>

definition answered :: "Config \<Rightarrow> directory_env \<Rightarrow> json \<Rightarrow> bool" where
  "answered cfg e raw \<longleftrightarrow>
     (\<exists>status j t. dv_get e (ChargerDataURL cfg) (if APIAuthKey cfg \<noteq> [] then Some (APIAuthKey cfg) else None)
                     = Got status (Body j t)
        \<and> 200 \<le> status \<and> status < 300 \<and> decode_any j = Some raw)"

inductive directory_run :: "Config \<Rightarrow> (time \<times> json) option \<Rightarrow> directory \<Rightarrow> bool" for cfg where
  fresh: "directory_run cfg None NewService"
| fetched: "directory_run cfg latest d \<Longrightarrow> fetchAndCache cfg e d = (Inr ids, d') \<Longrightarrow> answered cfg e raw \<Longrightarrow>
    directory_run cfg (Some (dv_fetched_at e, raw)) d'"

lemma fetchAndCache_Inr:
  assumes "fetchAndCache cfg e d = (Inr ids, d')"
  obtains raw where "answered cfg e raw" "ids = extractIDs raw"
    "d' = \<lparr>ds_cachedIDs = extractIDs raw, ds_expiresAt = dv_fetched_at e + cache_ttl cfg\<rparr>"
  using assms unfolding fetchAndCache_def answered_def
  by (auto simp: Let_def split: http_get.splits if_splits body.splits option.splits)

lemma answered_unique: "answered cfg e raw \<Longrightarrow> answered cfg e raw' \<Longrightarrow> raw = raw'"
  by (auto simp: answered_def)

lemma directory_run_state:
  "directory_run cfg latest d \<Longrightarrow>
   (case latest of
      None \<Rightarrow> d = NewService
    | Some (t, raw) \<Rightarrow> d = \<lparr>ds_cachedIDs = extractIDs raw, ds_expiresAt = t + cache_ttl cfg\<rparr>)"
proof (induction rule: directory_run.induct)
  case (fetched latest d e ids d' raw)
  then show ?case by (auto elim!: fetchAndCache_Inr dest: answered_unique)
qed simp

text \<open>
  C34. While the directory is configured, every answer about a charger says whether its trimmed id is
  listed in one reply of the directory service: the newest one fetched before, which is then not
  older than the cache lifetime, or one fetched for this very question.  A charger whose answer is
  an error is not let in, and neither is one with a blank id.
\<close>

theorem only_listed_chargers_connect:
  assumes "directory_run cfg latest d" and "Enabled cfg" and "0 \<le> dv_now e"
  defines "answer \<equiv> \<lambda>c. fst (IsKnownCharger cfg e d c)"
  shows "(validateIncomingCharger (Some answer) cp \<longleftrightarrow> answer cp = Inr True) \<and>
    (TrimSpace cp = [] \<longrightarrow> \<not> validateIncomingCharger (Some answer) cp) \<and>
    (\<forall>b. answer cp = Inr b \<and> TrimSpace cp \<noteq> [] \<longrightarrow>
      (\<exists>t raw. (b \<longleftrightarrow> lists_uid raw (TrimSpace cp)) \<and>
        (latest = Some (t, raw) \<and> dv_now e < t + cache_ttl cfg \<or> answered cfg e raw)))"
proof -
  have valid: "validateIncomingCharger (Some answer) cp \<longleftrightarrow> answer cp = Inr True"
    by (auto simp: validateIncomingCharger_def split: sum.splits)
  moreover have "TrimSpace cp = [] \<longrightarrow> answer cp = Inr False" by (simp add: answer_def IsKnownCharger_def)
  moreover have "\<exists>t raw. (b \<longleftrightarrow> lists_uid raw (TrimSpace cp)) \<and>
        (latest = Some (t, raw) \<and> dv_now e < t + cache_ttl cfg \<or> answered cfg e raw)"
    if b: "answer cp = Inr b" and c: "TrimSpace cp \<noteq> []" for b
  proof -
    obtain ids d' where g: "getIDs cfg e d = (Inr ids, d')" "b = (TrimSpace cp \<in> set ids)"
      using b c assms(2) unfolding answer_def IsKnownCharger_def
      by (auto simp: Let_def split: prod.splits sum.splits)
    show ?thesis
    proof (cases "dv_now e < ds_expiresAt d")
      case True
      then have "ids = ds_cachedIDs d" using g(1) by (auto simp: getIDs_def)
      moreover obtain t raw where "latest = Some (t, raw)"
        "d = \<lparr>ds_cachedIDs = extractIDs raw, ds_expiresAt = t + cache_ttl cfg\<rparr>"
        using directory_run_state [OF assms(1)] True assms(3)
        by (cases latest) (auto simp: NewService_def)
      ultimately show ?thesis using g(2) True by (auto simp: extractIDs_exact)
    next
      case False
      then have "fetchAndCache cfg e d = (Inr ids, d')" using g(1) by (simp add: getIDs_def)
      then obtain raw where "answered cfg e raw" "ids = extractIDs raw" by (rule fetchAndCache_Inr)
      then show ?thesis using g(2) by (auto simp: extractIDs_exact)
    qed
  qed
  ultimately show ?thesis by simp
qed

definition demo_directory_cfg :: Config where
  "demo_directory_cfg = Load (\<lambda>k. if k = ''APICHARGERDATA'' then ''http://cms/chargers'' else [])"

definition demo_directory_env :: directory_env where
  "demo_directory_env =
     \<lparr>dv_now = 100 * Second,
      dv_get = (\<lambda>url key. Got 200 (Body (JObj [(''data'', JArr [JObj [(''uid'', JStr '' cp1 '')]])]) [])),
      dv_others = id, dv_fetched_at = 100 * Second\<rparr>"

theorem only_listed_chargers_connect_witness:
  "validateIncomingCharger (Some (\<lambda>c. fst (IsKnownCharger demo_directory_cfg demo_directory_env NewService c))) ''cp1'' \<and>
   (\<exists>raw. lists_uid raw (TrimSpace ''cp1'') \<and> answered demo_directory_cfg demo_directory_env raw)"
proof -
  let ?answer = "\<lambda>c. fst (IsKnownCharger demo_directory_cfg demo_directory_env NewService c)"
  have en: "Enabled demo_directory_cfg" by code_simp
  have now: "0 \<le> dv_now demo_directory_env" by code_simp
  have yes: "?answer ''cp1'' = Inr True" "TrimSpace ''cp1'' \<noteq> []" by code_simp+
  from only_listed_chargers_connect [OF directory_run.fresh en now, of "''cp1''"] yes
  show ?thesis by auto
qed

end
