(* ===== verification/Http_Api.thy ===== *)
theory Http_Api
  imports Http_Json Hal_State Charger_Directory
begin

text \<open>
  The REST API (\<open>httpapi/server.go\<close>, \<open>httpapi/firmware_trigger.go\<close>,
  \<open>httpapi/analytics_inactivity.go\<close>).  A handler takes the configuration, what comes from outside
  during the request, the state and the body, and gives the response, the requests it sent to
  chargers and the new state.  Embedded structs are record extensions.
\<close>

section \<open>State and environment\<close>

record 's api_state =
  ap_hal :: "'s hal"
  ap_directory :: directory

text \<open>
  \<open>av_pending\<close> is what other goroutines do to the pending single sessions while a remote start is
  out; \<open>av_has_directory\<close> says whether \<open>SetChargerDirectory\<close> has run; \<open>av_analytics\<close> is the
  store's \<open>ChargerAnalytics\<close>.
\<close>

record 's api_env =
  av_clock :: clock
  av_central :: central
  av_pending :: "pending_sessions \<Rightarrow> pending_sessions"
  av_directory :: directory_env
  av_has_directory :: bool
  av_analytics :: "'s \<Rightarrow> AnalyticsInput \<Rightarrow> ('s, AnalyticsOutput) call"

type_synonym 's api_result = "http_response \<times> request list \<times> 's api_state"

definition bad_request :: "'s api_state \<Rightarrow> string \<Rightarrow> 's api_result" where
  "bad_request st m = (writeJSON 400 (detail m), [], st)"

definition writeRemoteError :: "go_error \<Rightarrow> http_response" where
  "writeRemoteError err = writeJSON 404 (GMap [(''error'', GStr (error_text err))])"

text \<open>What the handlers of remote commands do with the status and the error of the HAL's method.\<close>

definition remote_result :: "'s api_state \<Rightarrow> sent \<Rightarrow> 's api_result" where
  "remote_result st r =
     (let ((status, err), reqs) = r in
      case err of
        Some er \<Rightarrow> (writeRemoteError er, reqs, st)
      | None \<Rightarrow> (writeJSON 200 (GMap [(''status'', GStr status)]), reqs, st))"

record baseChargerRequest =
  br_UID :: string
  br_ChargePointID :: string
  br_ClientID :: string

definition base_chargerID :: "'a baseChargerRequest_scheme \<Rightarrow> string" where
  "base_chargerID r =
     (if br_UID r \<noteq> [] then br_UID r
      else if br_ChargePointID r \<noteq> [] then br_ChargePointID r
      else br_ClientID r)"

definition base_fields :: "'a baseChargerRequest_scheme fields" where
  "base_fields = [(''uid'', str_field br_UID_update), (''charge_point_id'', str_field br_ChargePointID_update),
                  (''client_id'', str_field br_ClientID_update)]"

text \<open>The two spellings of an integer field: the first wins when it is positive.\<close>

definition first_positive :: "int \<Rightarrow> int \<Rightarrow> int" where
  "first_positive a b = (if a > 0 then a else b)"

definition first_nonempty :: "'a list \<Rightarrow> 'a list \<Rightarrow> 'a list" where
  "first_nonempty a b = (if a \<noteq> [] then a else b)"

definition missing_charger :: "string" where
  "missing_charger = ''Missing uid/charge_point_id''"

section \<open>Status\<close>

record statusRequest =
  sq_UID :: string

text \<open>The directory as the API sees it.\<close>

definition known_ids ::
  "Config \<Rightarrow> 's api_env \<Rightarrow> 's api_state \<Rightarrow> (go_error + string list option) \<times> 's api_state" where
  "known_ids cfg e st =
     (if \<not> av_has_directory e then (knownChargerIDs None, st)
      else let (r, d) = KnownChargerIDs cfg (av_directory e) (ap_directory st)
           in (knownChargerIDs (Some r), st\<lparr>ap_directory := d\<rparr>))"

definition known_charger ::
  "Config \<Rightarrow> 's api_env \<Rightarrow> 's api_state \<Rightarrow> string \<Rightarrow> (go_error + bool) \<times> 's api_state" where
  "known_charger cfg e st c =
     (if \<not> av_has_directory e then (isKnownCharger None c, st)
      else let (r, d) = IsKnownCharger cfg (av_directory e) (ap_directory st) c
           in (isKnownCharger (Some (\<lambda>_. r)) c, st\<lparr>ap_directory := d\<rparr>))"

definition directory_failure :: http_response where
  "directory_failure = writeJSON 500 (detail ''Error fetching charger data from API'')"

definition status_of_known :: "Registry \<Rightarrow> string \<Rightarrow> string list \<Rightarrow> gov" where
  "status_of_known reg mode ids =
     (if mode = ''all_online''
      then GMap (List.map_filter (\<lambda>c. case Snapshot reg c of
             None \<Rightarrow> None
           | Some cp \<Rightarrow> if \<not> ch_Online cp then None else Some (c, legacyStatusPayload cp mode c)) ids)
      else GMap (map (\<lambda>c. (c, case Snapshot reg c of
             Some cp \<Rightarrow> legacyStatusPayload cp mode c
           | None \<Rightarrow> legacyOfflineStatusPayload mode c)) ids))"

definition status_of_all :: "Registry \<Rightarrow> string \<Rightarrow> gov" where
  "status_of_all reg mode =
     GMap (List.map_filter (\<lambda>(c, cp). if mode = ''all_online'' \<and> \<not> ch_Online cp then None
                                      else Some (c, legacyStatusPayload cp mode c)) (SnapshotAll reg))"

definition api_status :: "Config \<Rightarrow> 's api_env \<Rightarrow> 's api_state \<Rightarrow> body \<Rightarrow> 's api_result" where
  "api_status cfg e st b =
     (let reg = hal_registry (ap_hal st) in
      case decodeJSON [(''uid'', str_field sq_UID_update)] \<lparr>sq_UID = []\<rparr> b of
        None \<Rightarrow> bad_request st ''Invalid JSON''
      | Some req \<Rightarrow>
          if sq_UID req = [] then bad_request st ''Missing uid''
          else if sq_UID req = ''all'' \<or> sq_UID req = ''all_online'' then
            (case known_ids cfg e st of
               (Inl err, st1) \<Rightarrow> (directory_failure, [], st1)
             | (Inr knownIDs, st1) \<Rightarrow>
                 (case knownIDs of
                    Some (c # cs) \<Rightarrow> (writeJSON 200 (status_of_known reg (sq_UID req) (c # cs)), [], st1)
                  | _ \<Rightarrow> (writeJSON 200 (status_of_all reg (sq_UID req)), [], st1)))
          else
            (case known_charger cfg e st (sq_UID req) of
               (Inl err, st1) \<Rightarrow> (directory_failure, [], st1)
             | (Inr known, st1) \<Rightarrow>
                 if \<not> known then (writeJSON 404 (detail ''Charger not found in the system''), [], st1)
                 else
                   (case Snapshot reg (sq_UID req) of
                      None \<Rightarrow> (writeJSON 200 (legacyOfflineStatusPayload ''specific'' (sq_UID req)), [], st1)
                    | Some cp \<Rightarrow> (writeJSON 200 (legacyStatusPayload cp ''specific'' (sq_UID req)), [], st1))))"

section \<open>Remote start and stop\<close>

record remoteStartRequest = baseChargerRequest +
  rs_IDTagSnake :: string
  rs_IDTagCamel :: string
  rs_ConnectorID :: int
  rs_ConnectorId :: int
  rs_IsSingleSession :: bool
  rs_SingleSession :: bool
  rs_SingleSessionCamel :: bool

definition rs_idTag :: "remoteStartRequest \<Rightarrow> string" where
  "rs_idTag r = first_nonempty (rs_IDTagSnake r) (rs_IDTagCamel r)"

definition rs_connectorID :: "remoteStartRequest \<Rightarrow> int" where
  "rs_connectorID r = first_positive (rs_ConnectorID r) (rs_ConnectorId r)"

definition rs_isSingleSession :: "remoteStartRequest \<Rightarrow> bool" where
  "rs_isSingleSession r \<longleftrightarrow> rs_IsSingleSession r \<or> rs_SingleSession r \<or> rs_SingleSessionCamel r"

definition start_fields :: "remoteStartRequest fields" where
  "start_fields = base_fields @
     [(''id_tag'', str_field rs_IDTagSnake_update), (''idTag'', str_field rs_IDTagCamel_update),
      (''connector_id'', int_field rs_ConnectorID_update), (''connectorId'', int_field rs_ConnectorId_update),
      (''is_single_session'', bool_field rs_IsSingleSession_update),
      (''single_session'', bool_field rs_SingleSession_update),
      (''isSingleSession'', bool_field rs_SingleSessionCamel_update)]"

definition start_zero :: remoteStartRequest where
  "start_zero = \<lparr>br_UID = [], br_ChargePointID = [], br_ClientID = [], rs_IDTagSnake = [], rs_IDTagCamel = [],
     rs_ConnectorID = 0, rs_ConnectorId = 0, rs_IsSingleSession = False, rs_SingleSession = False,
     rs_SingleSessionCamel = False\<rparr>"

definition api_remoteStart :: "'s api_env \<Rightarrow> 's api_state \<Rightarrow> body \<Rightarrow> 's api_result" where
  "api_remoteStart e st b =
     (case decodeJSON start_fields start_zero b of
        None \<Rightarrow> bad_request st ''Invalid JSON''
      | Some req \<Rightarrow>
          if base_chargerID req = [] then bad_request st missing_charger
          else if rs_idTag req = [] then bad_request st ''Missing id_tag/idTag''
          else
            let (r, pending) = RemoteStartTransactionWithOptions (av_central e) (av_pending e)
                  (hal_pending (ap_hal st)) (base_chargerID req) (rs_idTag req) (rs_connectorID req)
                  (rs_isSingleSession req)
            in remote_result (st\<lparr>ap_hal := (ap_hal st)\<lparr>hal_pending := pending\<rparr>\<rparr>) r)"

record remoteStopRequest = baseChargerRequest +
  rp_TransactionID :: int
  rp_TransactionId :: int

definition rp_transactionID :: "remoteStopRequest \<Rightarrow> int" where
  "rp_transactionID r = first_positive (rp_TransactionID r) (rp_TransactionId r)"

definition stop_fields :: "remoteStopRequest fields" where
  "stop_fields = base_fields @
     [(''transaction_id'', int_field rp_TransactionID_update), (''transactionId'', int_field rp_TransactionId_update)]"

definition stop_zero :: remoteStopRequest where
  "stop_zero = \<lparr>br_UID = [], br_ChargePointID = [], br_ClientID = [], rp_TransactionID = 0, rp_TransactionId = 0\<rparr>"

definition api_remoteStop :: "'s api_env \<Rightarrow> 's api_state \<Rightarrow> body \<Rightarrow> 's api_result" where
  "api_remoteStop e st b =
     (case decodeJSON stop_fields stop_zero b of
        None \<Rightarrow> bad_request st ''Invalid JSON''
      | Some req \<Rightarrow>
          if base_chargerID req = [] then bad_request st missing_charger
          else if rp_transactionID req \<le> 0 then bad_request st ''Invalid transaction_id/transactionId''
          else remote_result st (RemoteStopTransaction (av_central e) (base_chargerID req) (rp_transactionID req)))"

section \<open>Other commands\<close>

record changeAvailabilityRequest = baseChargerRequest +
  ca_ConnectorID :: int
  ca_ConnectorId :: int
  ca_Type :: string
  ca_AvailabilityType :: string

definition ca_connectorID :: "changeAvailabilityRequest \<Rightarrow> int" where
  "ca_connectorID r = first_positive (ca_ConnectorID r) (ca_ConnectorId r)"

definition ca_availabilityType :: "changeAvailabilityRequest \<Rightarrow> string" where
  "ca_availabilityType r = first_nonempty (ca_Type r) (ca_AvailabilityType r)"

definition api_changeAvailability :: "'s api_env \<Rightarrow> 's api_state \<Rightarrow> body \<Rightarrow> 's api_result" where
  "api_changeAvailability e st b =
     (case decodeJSON (base_fields @
             [(''connector_id'', int_field ca_ConnectorID_update), (''connectorId'', int_field ca_ConnectorId_update),
              (''type'', str_field ca_Type_update), (''availability_type'', str_field ca_AvailabilityType_update)])
           \<lparr>br_UID = [], br_ChargePointID = [], br_ClientID = [], ca_ConnectorID = 0, ca_ConnectorId = 0,
            ca_Type = [], ca_AvailabilityType = []\<rparr> b of
        None \<Rightarrow> bad_request st ''Invalid JSON''
      | Some req \<Rightarrow>
          if base_chargerID req = [] then bad_request st missing_charger
          else remote_result st (ChangeAvailability (av_central e) (base_chargerID req)
                 (ca_connectorID req) (ca_availabilityType req)))"

record changeConfigurationRequest = baseChargerRequest +
  cc_Key :: string
  cc_Value :: string

definition api_changeConfiguration :: "'s api_env \<Rightarrow> 's api_state \<Rightarrow> body \<Rightarrow> 's api_result" where
  "api_changeConfiguration e st b =
     (case decodeJSON (base_fields @ [(''key'', str_field cc_Key_update), (''value'', str_field cc_Value_update)])
           \<lparr>br_UID = [], br_ChargePointID = [], br_ClientID = [], cc_Key = [], cc_Value = []\<rparr> b of
        None \<Rightarrow> bad_request st ''Invalid JSON''
      | Some req \<Rightarrow>
          if base_chargerID req = [] then bad_request st missing_charger
          else if cc_Key req = [] then bad_request st ''Missing key''
          else remote_result st
                 (ChangeConfiguration (av_central e) (base_chargerID req) (cc_Key req) (cc_Value req)))"

definition api_clearCache :: "'s api_env \<Rightarrow> 's api_state \<Rightarrow> body \<Rightarrow> 's api_result" where
  "api_clearCache e st b =
     (case decodeJSON base_fields \<lparr>br_UID = [], br_ChargePointID = [], br_ClientID = []\<rparr> b of
        None \<Rightarrow> bad_request st ''Invalid JSON''
      | Some req \<Rightarrow>
          if base_chargerID req = [] then bad_request st missing_charger
          else remote_result st (ClearCache (av_central e) (base_chargerID req)))"

record unlockConnectorRequest = baseChargerRequest +
  uc_ConnectorID :: int
  uc_ConnectorId :: int

definition uc_connectorID :: "unlockConnectorRequest \<Rightarrow> int" where
  "uc_connectorID r = first_positive (uc_ConnectorID r) (uc_ConnectorId r)"

definition api_unlockConnector :: "'s api_env \<Rightarrow> 's api_state \<Rightarrow> body \<Rightarrow> 's api_result" where
  "api_unlockConnector e st b =
     (case decodeJSON (base_fields @
             [(''connector_id'', int_field uc_ConnectorID_update), (''connectorId'', int_field uc_ConnectorId_update)])
           \<lparr>br_UID = [], br_ChargePointID = [], br_ClientID = [], uc_ConnectorID = 0, uc_ConnectorId = 0\<rparr> b of
        None \<Rightarrow> bad_request st ''Invalid JSON''
      | Some req \<Rightarrow>
          let connectorID = uc_connectorID req in
          if base_chargerID req = [] then bad_request st missing_charger
          else if connectorID \<le> 0 then bad_request st ''Invalid connector_id/connectorId''
          else remote_result st (UnlockConnector (av_central e) (base_chargerID req) connectorID))"

record resetRequest = baseChargerRequest +
  rq_Type :: string
  rq_ResetType :: string

definition rq_resetType :: "resetRequest \<Rightarrow> string" where
  "rq_resetType r = first_nonempty (rq_Type r) (rq_ResetType r)"

definition api_reset :: "'s api_env \<Rightarrow> 's api_state \<Rightarrow> body \<Rightarrow> 's api_result" where
  "api_reset e st b =
     (case decodeJSON (base_fields @ [(''type'', str_field rq_Type_update), (''reset_type'', str_field rq_ResetType_update)])
           \<lparr>br_UID = [], br_ChargePointID = [], br_ClientID = [], rq_Type = [], rq_ResetType = []\<rparr> b of
        None \<Rightarrow> bad_request st ''Invalid JSON''
      | Some req \<Rightarrow>
          let t = rq_resetType req;
              resetType = (if t = [] then ''Soft'' else t)
          in if base_chargerID req = [] then bad_request st missing_charger
             else remote_result st (Reset (av_central e) (base_chargerID req) resetType))"

record getConfigurationRequest = baseChargerRequest +
  gc_Key :: "string list"
  gc_Keys :: "string list"
  gc_ConfigurationKeys :: "string list"

definition gc_keys :: "getConfigurationRequest \<Rightarrow> string list" where
  "gc_keys r = first_nonempty (gc_Key r) (first_nonempty (gc_Keys r) (gc_ConfigurationKeys r))"

text \<open>The confirmation is a value of the OCPP library, which encodes itself; its keys are kept.\<close>

definition config_json :: "config_item \<Rightarrow> gov" where
  "config_json c = GMap [(''key'', GStr (ci_Key c)),
     (''value'', case ci_Value c of None \<Rightarrow> GNil | Some v \<Rightarrow> GStr v)]"

definition api_getConfiguration :: "'s api_env \<Rightarrow> 's api_state \<Rightarrow> body \<Rightarrow> 's api_result" where
  "api_getConfiguration e st b =
     (case decodeJSON (base_fields @
             [(''key'', strs_field gc_Key_update), (''keys'', strs_field gc_Keys_update),
              (''configuration_keys'', strs_field gc_ConfigurationKeys_update)])
           \<lparr>br_UID = [], br_ChargePointID = [], br_ClientID = [], gc_Key = [], gc_Keys = [],
            gc_ConfigurationKeys = []\<rparr> b of
        None \<Rightarrow> bad_request st ''Invalid JSON''
      | Some req \<Rightarrow>
          if base_chargerID req = [] then bad_request st missing_charger
          else
            (case GetConfiguration (av_central e) (base_chargerID req) (gc_keys req) of
               (Inl err, reqs) \<Rightarrow> (writeRemoteError err, reqs, st)
             | (Inr conf, reqs) \<Rightarrow>
                 (writeJSON 200 (GMap [(''configurationKey'', GList (map config_json conf))]), reqs, st)))"

section \<open>firmware_trigger.go\<close>

record getDiagnosticsRequest = baseChargerRequest +
  gd_Location :: string
  gd_StartTime :: string
  gd_StopTime :: string
  gd_Retries :: "int option"
  gd_RetryInterval :: "int option"

definition api_getDiagnostics :: "'s api_env \<Rightarrow> 's api_state \<Rightarrow> body \<Rightarrow> 's api_result" where
  "api_getDiagnostics e st b =
     (case decodeJSON (base_fields @
             [(''location'', str_field gd_Location_update), (''start_time'', str_field gd_StartTime_update),
              (''stop_time'', str_field gd_StopTime_update), (''retries'', int_ptr_field gd_Retries_update),
              (''retry_interval'', int_ptr_field gd_RetryInterval_update)])
           \<lparr>br_UID = [], br_ChargePointID = [], br_ClientID = [], gd_Location = [], gd_StartTime = [],
            gd_StopTime = [], gd_Retries = None, gd_RetryInterval = None\<rparr> b of
        None \<Rightarrow> bad_request st ''Invalid JSON''
      | Some req \<Rightarrow>
          if base_chargerID req = [] then bad_request st missing_charger
          else if gd_Location req = [] then bad_request st ''Missing location''
          else
            (case GetDiagnostics (av_central e) (base_chargerID req) (gd_Location req) (gd_StartTime req)
                    (gd_StopTime req) (gd_Retries req) (gd_RetryInterval req) of
               (Inl err, reqs) \<Rightarrow> (writeRemoteError err, reqs, st)
             | (Inr fileName, reqs) \<Rightarrow>
                 (writeJSON 200 (GMap [(''status'', GStr ''Accepted''), (''file_name'', GStr fileName)]), reqs, st)))"

record updateFirmwareRequest = baseChargerRequest +
  uf_Location :: string
  uf_RetrieveDate :: string
  uf_Retries :: "int option"
  uf_RetryInterval :: "int option"

definition api_updateFirmware :: "'s api_env \<Rightarrow> 's api_state \<Rightarrow> body \<Rightarrow> 's api_result" where
  "api_updateFirmware e st b =
     (case decodeJSON (base_fields @
             [(''location'', str_field uf_Location_update), (''retrieve_date'', str_field uf_RetrieveDate_update),
              (''retries'', int_ptr_field uf_Retries_update),
              (''retry_interval'', int_ptr_field uf_RetryInterval_update)])
           \<lparr>br_UID = [], br_ChargePointID = [], br_ClientID = [], uf_Location = [], uf_RetrieveDate = [],
            uf_Retries = None, uf_RetryInterval = None\<rparr> b of
        None \<Rightarrow> bad_request st ''Invalid JSON''
      | Some req \<Rightarrow>
          if base_chargerID req = [] then bad_request st missing_charger
          else if uf_Location req = [] then bad_request st ''Missing location''
          else if uf_RetrieveDate req = [] then bad_request st ''Missing retrieve_date''
          else
            (case UpdateFirmware (av_central e) (base_chargerID req) (uf_Location req) (uf_RetrieveDate req)
                    (uf_Retries req) (uf_RetryInterval req) of
               (Some err, reqs) \<Rightarrow> (writeRemoteError err, reqs, st)
             | (None, reqs) \<Rightarrow> (writeJSON 200 (GMap [(''status'', GStr ''Accepted'')]), reqs, st)))"

record triggerMessageRequest = baseChargerRequest +
  tm_RequestedMessage :: string
  tm_ConnectorID :: int
  tm_ConnectorId :: int

definition tm_connectorID :: "triggerMessageRequest \<Rightarrow> int" where
  "tm_connectorID r = first_positive (tm_ConnectorID r) (tm_ConnectorId r)"

definition api_triggerMessage :: "'s api_env \<Rightarrow> 's api_state \<Rightarrow> body \<Rightarrow> 's api_result" where
  "api_triggerMessage e st b =
     (case decodeJSON (base_fields @
             [(''requested_message'', str_field tm_RequestedMessage_update),
              (''connector_id'', int_field tm_ConnectorID_update), (''connectorId'', int_field tm_ConnectorId_update)])
           \<lparr>br_UID = [], br_ChargePointID = [], br_ClientID = [], tm_RequestedMessage = [],
            tm_ConnectorID = 0, tm_ConnectorId = 0\<rparr> b of
        None \<Rightarrow> bad_request st ''Invalid JSON''
      | Some req \<Rightarrow>
          if base_chargerID req = [] then bad_request st missing_charger
          else if tm_RequestedMessage req = [] then bad_request st ''Missing requested_message''
          else
            (case TriggerMessage (av_central e) (base_chargerID req) (tm_RequestedMessage req)
                    (tm_connectorID req) of
               ((status, Some err), reqs) \<Rightarrow> (writeRemoteError err, reqs, st)
             | ((status, None), reqs) \<Rightarrow>
                 (writeJSON 200 (GMap [(''status'', GStr status),
                    (''latest_message'', GMap [(''error'',
                       GStr ''latest charger-to-CMS message persistence not implemented yet'')])]), reqs, st)))"

section \<open>analytics_inactivity.go\<close>

record chargerAnalyticsRequest =
  cr_UID :: string
  cr_ChargerID :: string
  cr_UserID :: string
  cr_StartTime :: string
  cr_EndTime :: string

definition requestedChargerID :: "chargerAnalyticsRequest \<Rightarrow> string" where
  "requestedChargerID r =
     (if cr_ChargerID r \<noteq> [] then cr_ChargerID r else if cr_UID r \<noteq> [] then cr_UID r else ''all'')"

text \<open>The outer \<open>None\<close> is a parse error.\<close>

definition parseOptionalRFC3339 :: "string \<Rightarrow> time option option" where
  "parseOptionalRFC3339 raw =
     (if raw = [] then Some None else map_option Some (ParseRFC3339Nano raw))"

definition api_chargerAnalytics :: "'s api_env \<Rightarrow> 's api_state \<Rightarrow> body \<Rightarrow> 's api_result" where
  "api_chargerAnalytics e st b =
     (case decodeJSON [(''uid'', str_field cr_UID_update), (''charger_id'', str_field cr_ChargerID_update),
             (''user_id'', str_field cr_UserID_update), (''start_time'', str_field cr_StartTime_update),
             (''end_time'', str_field cr_EndTime_update)]
           \<lparr>cr_UID = [], cr_ChargerID = [], cr_UserID = [], cr_StartTime = [], cr_EndTime = []\<rparr> b of
        None \<Rightarrow> bad_request st ''Invalid JSON''
      | Some req \<Rightarrow>
          (case parseOptionalRFC3339 (cr_StartTime req) of
             None \<Rightarrow> bad_request st ''Invalid start_time''
           | Some start \<Rightarrow>
               (case parseOptionalRFC3339 (cr_EndTime req) of
                  None \<Rightarrow> bad_request st ''Invalid end_time''
                | Some stop \<Rightarrow>
                    (case HAL_ChargerAnalytics (av_analytics e) (hal_store (ap_hal st)) (requestedChargerID req) start stop of
                       (Inl err, s) \<Rightarrow>
                         (writeJSON 500 (GMap [(''error'', GStr (error_text err))]), [],
                          st\<lparr>ap_hal := (ap_hal st)\<lparr>hal_store := s\<rparr>\<rparr>)
                     | (Inr result, s) \<Rightarrow>
                         (writeJSON 200 (analytics_output_json result), [],
                          st\<lparr>ap_hal := (ap_hal st)\<lparr>hal_store := s\<rparr>\<rparr>)))))"

definition api_checkChargerInactivity :: "'s api_env \<Rightarrow> 's api_state \<Rightarrow> body \<Rightarrow> 's api_result" where
  "api_checkChargerInactivity e st b =
     (case decodeJSON [(''uid'', str_field sq_UID_update)] \<lparr>sq_UID = []\<rparr> b of
        None \<Rightarrow> bad_request st ''Invalid JSON''
      | Some req \<Rightarrow>
          if sq_UID req = [] then bad_request st ''Missing uid''
          else
            let (result, reg) = CheckInactivity (av_clock e) (hal_registry (ap_hal st)) (sq_UID req) (120 * Second)
            in (writeJSON 200 (inactivity_json result), [], st\<lparr>ap_hal := (ap_hal st)\<lparr>hal_registry := reg\<rparr>\<rparr>))"

section \<open>Routing\<close>

record http_call =
  hc_method :: string
  hc_path :: string
  hc_api_key :: string
  hc_query :: "(string \<times> string) list"
  hc_body :: body

definition hello :: "http_call \<Rightarrow> http_response" where
  "hello r =
     (if hc_method r \<noteq> ''GET'' then writeHeader 405
      else writeJSON 200 (GMap [(''message'', GStr ''Helloo, this is the OCPP HAL API. It is running fine.'')]))"

text \<open>\<open>api\<close> after the check of the method: the handler of each path.\<close>

definition api :: "Config \<Rightarrow> 's api_env \<Rightarrow> 's api_state \<Rightarrow> http_call \<Rightarrow> 's api_result" where
  "api cfg e st r =
     (let p = hc_path r; b = hc_body r in
      if hc_method r \<noteq> ''POST'' then (writeHeader 405, [], st)
      else if p = ''/api/status'' then api_status cfg e st b
      else if p = ''/api/start_transaction'' then api_remoteStart e st b
      else if p = ''/api/stop_transaction'' then api_remoteStop e st b
      else if p = ''/api/change_availability'' then api_changeAvailability e st b
      else if p = ''/api/change_configuration'' then api_changeConfiguration e st b
      else if p = ''/api/clear_cache'' then api_clearCache e st b
      else if p = ''/api/unlock_connector'' then api_unlockConnector e st b
      else if p = ''/api/reset'' then api_reset e st b
      else if p = ''/api/get_configuration'' then api_getConfiguration e st b
      else if p = ''/api/get_diagnostics'' then api_getDiagnostics e st b
      else if p = ''/api/update_firmware'' then api_updateFirmware e st b
      else if p = ''/api/trigger_message'' then api_triggerMessage e st b
      else if p = ''/api/charger_analytics'' then api_chargerAnalytics e st b
      else if p = ''/api/check_charger_inactivity'' then api_checkChargerInactivity e st b
      else (writeJSON 501 (GMap [(''error'', GStr ''route not implemented yet in ocpp-go rewrite''),
                                 (''path'', GStr p)]), [], st))"

definition requireAPIKey ::
  "Config \<Rightarrow> (http_call \<Rightarrow> 's api_result) \<Rightarrow> 's api_state \<Rightarrow> http_call \<Rightarrow> 's api_result" where
  "requireAPIKey cfg next_handler st r =
     (if APIKey cfg = [] \<or> hc_api_key r \<noteq> APIKey cfg
      then (writeJSON 403 (detail ''Invalid API key''), [], st)
      else next_handler r)"

definition api_paths :: "string list" where
  "api_paths =
     [''/api/status'', ''/api/start_transaction'', ''/api/stop_transaction'', ''/api/change_availability'',
      ''/api/change_configuration'', ''/api/clear_cache'', ''/api/unlock_connector'', ''/api/reset'',
      ''/api/get_configuration'', ''/api/get_diagnostics'', ''/api/update_firmware'', ''/api/trigger_message'',
      ''/api/charger_analytics'', ''/api/check_charger_inactivity'']"

text \<open>
  \<open>Routes\<close> under \<open>withCORS\<close>.  The multiplexer serves clean paths: the longest pattern that matches,
  404 without one, and a redirect from a subtree pattern without its slash.  The two WebSocket
  handlers are arguments here; they are the subject of the theory on the frontend.
\<close>

definition Routes ::
  "Config \<Rightarrow> 's api_env \<Rightarrow> (http_call \<Rightarrow> 's api_state \<Rightarrow> 's api_result) \<Rightarrow> (http_call \<Rightarrow> 's api_state \<Rightarrow> 's api_result)
   \<Rightarrow> 's api_state \<Rightarrow> http_call \<Rightarrow> 's api_result" where
  "Routes cfg e ws_transaction ws_status st r =
     (let p = hc_path r;
          (resp, reqs, st') =
            (if p = ''/api/hello'' then (hello r, [], st)
             else if p = ''/frontend/ws/transaction'' then ws_transaction r st
             else if HasPrefix p ''/frontend/ws/'' then ws_status r st
             else if p = ''/frontend/ws'' then (writeHeader 301, [], st)
             else if p \<in> set api_paths then
               (if hc_method r = ''OPTIONS'' then (writeHeader 200, [], st)
                else requireAPIKey cfg (api cfg e st) st r)
             else (writeHeader 404, [], st))
      in (setCORS resp, reqs, st'))"

end
