(* ===== verification/Frontend.thy ===== *)
theory Frontend
  imports Http_Api Tx_Updates
begin

text \<open>
  The two WebSocket endpoints for the frontend (\<open>httpapi/frontend_ws.go\<close>,
  \<open>httpapi/frontend_transaction_ws.go\<close>).  The status endpoint sends the registry's picture every
  two seconds; the transaction endpoint sends the row of one transaction whenever it changes.  The
  WebSocket library is outside: \<open>we_upgrade\<close> is the error response of a failed upgrade, and every
  write of a message may fail.
\<close>

section \<open>Status stream\<close>

definition TrimPrefix :: "string \<Rightarrow> string \<Rightarrow> string" where
  "TrimPrefix s p = (if HasPrefix s p then drop (length p) s else s)"

definition TrimSlashes :: "string \<Rightarrow> string" where
  "TrimSlashes s = rev (dropWhile (\<lambda>c. c = CHR ''/'') (rev (dropWhile (\<lambda>c. c = CHR ''/'') s)))"

definition frontendStatusPayload :: "Registry \<Rightarrow> string \<Rightarrow> gov" where
  "frontendStatusPayload reg uid =
     (if uid = ''all'' \<or> uid = ''all_online'' then status_of_all reg uid
      else case Snapshot reg uid of
             None \<Rightarrow> GMap [(''status'', GStr ''Offline''), (''connectors'', GMap []), (''online'', GStr ''Offline''),
                           (''latest_message_received_time'', GNil)]
           | Some cp \<Rightarrow> legacyStatusPayload cp ''specific'' uid)"

definition frontendWebSocket :: "http_response option \<Rightarrow> http_call \<Rightarrow> 's api_state \<Rightarrow> 's api_result" where
  "frontendWebSocket upgrade r st =
     (if hc_method r \<noteq> ''GET'' then (writeHeader 405, [], st)
      else if TrimSlashes (TrimPrefix (hc_path r) ''/frontend/ws/'') = []
      then (writeJSON 400 (detail ''Missing uid''), [], st)
      else case upgrade of Some resp \<Rightarrow> (resp, [], st) | None \<Rightarrow> (writeHeader 101, [], st))"

text \<open>
  The loop after the upgrade: the first message at once, then one per tick, until a write fails or
  the request ends.  A tick carries the registry of its moment and whether the write succeeds.
\<close>

datatype status_event = Status_tick Registry bool | Status_ctx_done

fun status_loop :: "string \<Rightarrow> status_event list \<Rightarrow> gov list" where
  "status_loop uid [] = []"
| "status_loop uid (Status_ctx_done # es) = []"
| "status_loop uid (Status_tick reg ok # es) =
     frontendStatusPayload reg uid # (if ok then status_loop uid es else [])"

definition status_stream :: "string \<Rightarrow> Registry \<Rightarrow> bool \<Rightarrow> status_event list \<Rightarrow> gov list" where
  "status_stream uid reg ok es =
     frontendStatusPayload reg uid # (if ok then status_loop uid es else [])"

section \<open>Transaction stream\<close>

record frontendTransactionRow =
  ft_ID :: int64
  ft_UUIDDB :: string
  ft_ChargerID :: string
  ft_ConnectorID :: int
  ft_MeterStart :: float64
  ft_MeterStop :: "float64 option"
  ft_TotalConsumption :: "float64 option"
  ft_StartTime :: time
  ft_StopTime :: "time option"
  ft_IDTag :: string
  ft_TransactionID :: string
  ft_IsSingleSession :: bool
  ft_MaxKWh :: "float64 option"
  ft_LimitStopRequested :: bool

record frontendTransactionSnapshot =
  fs_Event :: string
  fs_Status :: string
  fs_Transaction :: frontendTransactionRow
  fs_ObservedAt :: time

definition newFrontendTransactionSnapshot :: "time \<Rightarrow> Transaction \<Rightarrow> frontendTransactionSnapshot" where
  "newFrontendTransactionSnapshot now tx =
     \<lparr>fs_Event = ''transaction_snapshot'',
      fs_Status = (if tx_StopTime tx \<noteq> None then ''COMPLETED'' else ''RUNNING''),
      fs_Transaction =
        \<lparr>ft_ID = tx_ID tx, ft_UUIDDB = tx_UUIDDB tx, ft_ChargerID = tx_ChargerID tx,
         ft_ConnectorID = tx_ConnectorID tx, ft_MeterStart = tx_MeterStart tx,
         ft_MeterStop = tx_MeterStop tx, ft_TotalConsumption = tx_TotalConsumption tx,
         ft_StartTime = tx_StartTime tx, ft_StopTime = tx_StopTime tx, ft_IDTag = tx_IDTag tx,
         ft_TransactionID = FormatInt (tx_TransactionID tx),
         ft_IsSingleSession = tx_IsSingleSession tx, ft_MaxKWh = tx_MaxKWh tx,
         ft_LimitStopRequested = tx_LimitStopRequested tx\<rparr>,
      fs_ObservedAt = now\<rparr>"

text \<open>\<open>Query().Get\<close> gives the first value of a name, or the empty string.\<close>

fun firstQueryValue :: "(string \<times> string) list \<Rightarrow> string list \<Rightarrow> string" where
  "firstQueryValue q [] = []"
| "firstQueryValue q (name # names) =
     (case map_of q name of
        Some v \<Rightarrow> if v \<noteq> [] then v else firstQueryValue q names
      | None \<Rightarrow> firstQueryValue q names)"

text \<open>The pattern \<open>^[1-9][0-9]*$\<close>.\<close>

definition positiveDecimalTransactionID :: "string \<Rightarrow> bool" where
  "positiveDecimalTransactionID raw \<longleftrightarrow>
     (case raw of [] \<Rightarrow> False | c # cs \<Rightarrow> is_digit c \<and> c \<noteq> CHR ''0'' \<and> list_all is_digit cs)"

definition parseFrontendTransactionID :: "string \<Rightarrow> int option" where
  "parseFrontendTransactionID raw =
     (if \<not> positiveDecimalTransactionID raw then None
      else case ParseInt 32 raw of None \<Rightarrow> None | Some t \<Rightarrow> if t \<le> 0 then None else Some t)"

definition writeTransactionLookupError :: "go_error \<Rightarrow> http_response" where
  "writeTransactionLookupError err =
     (if is_not_found err then writeJSON 404 (detail ''Transaction not found'')
      else writeJSON 500 (detail ''Transaction lookup failed''))"

text \<open>
  The handler up to the upgrade.  The subscription is given to the stream, and cancelled at once
  when the upgrade fails.
\<close>

definition frontendTransactionWebSocket ::
  "('e, 's \<times> TransactionUpdates) TransactionStore option \<Rightarrow> 'e \<Rightarrow> http_response option \<Rightarrow> http_call
   \<Rightarrow> ('s \<times> TransactionUpdates) api_state \<Rightarrow> ('s \<times> TransactionUpdates) api_result \<times> (subscription \<times> string) option" where
  "frontendTransactionWebSocket store_opt e upgrade r st =
     (if hc_method r \<noteq> ''GET'' then ((writeHeader 405, [], st), None)
      else
        let rawTransactionID = firstQueryValue (hc_query r) [''transaction_id'', ''transactionId''];
            idTag = firstQueryValue (hc_query r) [''id_tag'', ''idTag'']
        in case parseFrontendTransactionID rawTransactionID of
             None \<Rightarrow>
               ((writeJSON 400 (detail ''transaction_id must be a positive base-10 integer within the OCPP signed 32-bit range''),
                 [], st), None)
           | Some transactionID \<Rightarrow>
               if idTag = [] then ((writeJSON 400 (detail ''Missing id_tag''), [], st), None)
               else
                 (case store_opt of
                    None \<Rightarrow> ((writeJSON 503 (detail ''Transaction stream unavailable''), [], st), None)
                  | Some ts \<Rightarrow>
                      (case m_GetByTransactionIDAndIDTag ts e (hal_store (ap_hal st)) transactionID idTag of
                         (Inl err, s) \<Rightarrow>
                           ((writeTransactionLookupError err, [], st\<lparr>ap_hal := (ap_hal st)\<lparr>hal_store := s\<rparr>\<rparr>), None)
                       | (Inr _, (s, u)) \<Rightarrow>
                           let (su, u') = Subscribe u transactionID in
                           (case upgrade of
                              Some resp \<Rightarrow>
                                ((resp, [], st\<lparr>ap_hal := (ap_hal st)\<lparr>hal_store := (s, cancel_sub u' su)\<rparr>\<rparr>), None)
                            | None \<Rightarrow>
                                ((writeHeader 101, [], st\<lparr>ap_hal := (ap_hal st)\<lparr>hal_store := (s, u')\<rparr>\<rparr>),
                                 Some (su, idTag))))))"

text \<open>\<open>sendSnapshot\<close>; \<open>None\<close> when the row cannot be read or the message cannot be written.\<close>

definition sendSnapshot ::
  "('e, 's) TransactionStore \<Rightarrow> 'e \<Rightarrow> time \<Rightarrow> bool \<Rightarrow> int \<Rightarrow> string \<Rightarrow> 's
   \<Rightarrow> frontendTransactionSnapshot option \<times> 's" where
  "sendSnapshot ts e now written transactionID idTag s =
     (case m_GetByTransactionIDAndIDTag ts e s transactionID idTag of
        (Inl err, s') \<Rightarrow> (None, s')
      | (Inr tx, s') \<Rightarrow> (if written then Some (newFrontendTransactionSnapshot now tx) else None, s'))"

text \<open>
  The stream after the upgrade, interleaved with everything else.  \<open>sm_subs\<close> is the history of all
  subscriptions, \<open>sm_sent\<close> what was written, newest first.  The first snapshot is a \<open>resync\<close> like the
  ones every 30 seconds; \<open>wake\<close> takes the pending signal; the stream ends when a snapshot cannot be
  sent, the client goes away or the request is cancelled.
\<close>

record 's stream =
  sm_store :: "'s \<times> TransactionUpdates"
  sm_subs :: "subscription list"
  sm_sent :: "frontendTransactionSnapshot list"
  sm_open :: bool

inductive stream_run ::
  "('e, 's \<times> TransactionUpdates) TransactionStore \<Rightarrow> ('e \<Rightarrow> bool) \<Rightarrow> ('s \<Rightarrow> bool) \<Rightarrow> subscription \<Rightarrow> string
   \<Rightarrow> 's stream \<Rightarrow> bool" for ts quiet ok su idTag where
  connect: "\<lbrakk>ok s; tu_reach u hs; Subscribe u t = (su, u')\<rbrakk> \<Longrightarrow>
    stream_run ts quiet ok su idTag \<lparr>sm_store = (s, u'), sm_subs = hs @ [su], sm_sent = [], sm_open = True\<rparr>"
| store_write: "\<lbrakk>stream_run ts quiet ok su idTag m; store_step ts quiet (sm_store m) su'\<rbrakk> \<Longrightarrow>
    stream_run ts quiet ok su idTag (m\<lparr>sm_store := su'\<rparr>)"
| other_subscribe: "\<lbrakk>stream_run ts quiet ok su idTag m; Subscribe (snd (sm_store m)) t = (other, u')\<rbrakk> \<Longrightarrow>
    stream_run ts quiet ok su idTag (m\<lparr>sm_store := (fst (sm_store m), u'), sm_subs := sm_subs m @ [other]\<rparr>)"
| other_cancel: "\<lbrakk>stream_run ts quiet ok su idTag m; other \<in> set (sm_subs m); other \<noteq> su\<rbrakk> \<Longrightarrow>
    stream_run ts quiet ok su idTag (m\<lparr>sm_store := (fst (sm_store m), cancel_sub (snd (sm_store m)) other)\<rparr>)"
| other_receive: "\<lbrakk>stream_run ts quiet ok su idTag m; other \<in> set (sm_subs m); other \<noteq> su;
      receive (snd (sm_store m)) other = Some u'\<rbrakk> \<Longrightarrow>
    stream_run ts quiet ok su idTag (m\<lparr>sm_store := (fst (sm_store m), u')\<rparr>)"
| wake: "\<lbrakk>stream_run ts quiet ok su idTag m; sm_open m; quiet e; receive (snd (sm_store m)) su = Some u';
      sendSnapshot ts e now written (su_transactionID su) idTag (fst (sm_store m), u') = (Some snap, s')\<rbrakk> \<Longrightarrow>
    stream_run ts quiet ok su idTag (m\<lparr>sm_store := s', sm_sent := snap # sm_sent m\<rparr>)"
| resync: "\<lbrakk>stream_run ts quiet ok su idTag m; sm_open m; quiet e;
      sendSnapshot ts e now written (su_transactionID su) idTag (sm_store m) = (Some snap, s')\<rbrakk> \<Longrightarrow>
    stream_run ts quiet ok su idTag (m\<lparr>sm_store := s', sm_sent := snap # sm_sent m\<rparr>)"
| stop_stream: "stream_run ts quiet ok su idTag m \<Longrightarrow>
    stream_run ts quiet ok su idTag
      (m\<lparr>sm_store := (fst (sm_store m), cancel_sub (snd (sm_store m)) su), sm_open := False\<rparr>)"

end
