(* ===== verification/Frontend_Correct.thy ===== *)
theory Frontend_Correct
  imports Frontend
begin

text \<open>
  What the frontend and the API promise: a transaction stream is opened exactly for an existing
  pair of id and tag, and while it is open its last message shows the row as it is, or a wake-up is
  pending; nothing reaches a charger without the API key; a stop request is understood in every
  spelling the API documents.
\<close>

section \<open>Signals and rows\<close>

lemma store_step_updates:
  "store_step (WithTransactionUpdates ts) quiet su su' \<Longrightarrow> snd su' = snd su \<or> (\<exists>t. snd su' = Publish (snd su) t)"
  by (erule store_step.cases; cases su; cases su')
    (auto simp: WithTransactionUpdates_def publish_ok_eq split: sum.splits if_splits)

lemma store_step_reach:
  assumes "store_step (WithTransactionUpdates ts) quiet su su'" and "tu_reach (snd su) hs"
  shows "tu_reach (snd su') hs"
  using store_step_updates [OF assms(1)] assms(2) by (auto intro: tu_reach.publish)

definition signalled :: "TransactionUpdates \<Rightarrow> subscription \<Rightarrow> bool" where
  "signalled u su \<longleftrightarrow> sc_full (tu_heap u ! su_ch su)"

definition shown :: "frontendTransactionSnapshot list \<Rightarrow> Transaction option \<Rightarrow> bool" where
  "shown sent q \<longleftrightarrow> (\<exists>now r. q = Some r \<and> hd sent = newFrontendTransactionSnapshot now r)"

lemma signalled_publish:
  assumes "tu_inv u hs" and "su \<in> set hs"
  shows "signalled (Publish u t) su \<longleftrightarrow> signalled u su \<or> (su_transactionID su = t \<and> active u su)"
proof -
  have "sc_full (tu_heap (Publish u t) ! su_ch su) \<longleftrightarrow>
      su_ch su \<in> snd ` set (subs_of u t) \<or> sc_full (tu_heap u ! su_ch su)"
    unfolding Publish_frame(4) [OF assms(1), where i = "su_ch su"] by simp
  then show ?thesis unfolding subs_of_iff [OF assms] signalled_def by blast
qed

lemma active_publish: "tu_inv u hs \<Longrightarrow> active (Publish u t) su = active u su"
proof -
  assume inv: "tu_inv u hs"
  show ?thesis
    unfolding active_def Publish_frame(4) [OF inv, where i = "su_ch su"]
    by (cases "su_ch su \<in> snd ` set (subs_of u t)") (simp_all only: if_True if_False, simp)
qed

lemma ch_inject:
  assumes "tu_inv u hs" and "su \<in> set hs" and "su' \<in> set hs"
  shows "su_ch su = su_ch su' \<longleftrightarrow> su = su'"
  using tu_inv_issued(2) [OF assms(1,2)] tu_inv_issued(2) [OF assms(1,3)] by metis

lemma ch_bound: "tu_inv u hs \<Longrightarrow> su \<in> set hs \<Longrightarrow> su_ch su < length (tu_heap u)"
  using tu_inv_issued(1) by (simp add: tu_inv_def)

lemma subscribe_frame:
  assumes "tu_inv u hs" and "su \<in> set hs" and "Subscribe u t = (other, u')"
  shows "signalled u' su = signalled u su" "active u' su = active u su"
  using ch_bound [OF assms(1,2)] assms(3)
  by (auto simp: Subscribe_def Let_def signalled_def active_def nth_append)

lemma subscribe_new:
  assumes "Subscribe u t = (su, u')" shows "active u' su"
  using assms by (auto simp: Subscribe_def Let_def active_def)

lemma cancel_frame:
  assumes "tu_inv u hs" and "su \<in> set hs" and "other \<in> set hs" and "other \<noteq> su"
  shows "signalled (cancel_sub u other) su = signalled u su" "active (cancel_sub u other) su = active u su"
proof -
  have "tu_heap (cancel_sub u other) ! su_ch su = tu_heap u ! su_ch su"
  proof (cases "active u other")
    case True
    then show ?thesis using cancel_sub_heap(3) [OF assms(1,3) True] ch_inject [OF assms(1,2,3)] assms(4) by simp
  qed (simp add: cancel_sub_def active_def)
  then show "signalled (cancel_sub u other) su = signalled u su" "active (cancel_sub u other) su = active u su"
    by (simp_all add: signalled_def active_def)
qed

lemma receive_frame:
  assumes "tu_inv u hs" and "su \<in> set hs" and "other \<in> set hs" and "receive u other = Some u'"
  shows "other \<noteq> su \<Longrightarrow> signalled u' su = signalled u su" "active u' su = active u su"
  using ch_bound [OF assms(1,3)] ch_inject [OF assms(1,2,3)] assms(4)
  by (auto simp: receive_def signalled_def active_def set_cell_nth split: if_splits)

section \<open>The stream\<close>

context transaction_store begin

abbreviation runs :: "subscription \<Rightarrow> string \<Rightarrow> 's stream \<Rightarrow> bool" where
  "runs \<equiv> stream_run (WithTransactionUpdates ts) quiet inv"

lemma snapshot_law:
  assumes "inv (fst st)" and "quiet e"
    and "sendSnapshot (WithTransactionUpdates ts) e now w t tag st = (Some snap, st')"
  shows "st' = st \<and> shown (snap # sent) (row (fst st) t)"
proof -
  obtain s0 u0 where st: "st = (s0, u0)" by fastforce
  obtain r s1 where g: "m_GetByTransactionIDAndIDTag ts e s0 t tag = (r, s1)" by fastforce
  from get_tag_law [OF _ assms(2) g] assms(1,3) g show ?thesis
    by (auto simp: st sendSnapshot_def shown_def WithTransactionUpdates_def publish_ok_def
        split: sum.splits option.splits if_splits)
qed

definition up_to_date :: "subscription \<Rightarrow> string \<Rightarrow> 's stream \<Rightarrow> bool" where
  "up_to_date su tag m \<longleftrightarrow>
     su \<in> set (sm_subs m) \<and> active (snd (sm_store m)) su \<and>
     (sm_sent m \<noteq> [] \<longrightarrow>
        signalled (snd (sm_store m)) su \<or> shown (sm_sent m) (row (fst (sm_store m)) (su_transactionID su)))"

lemma up_to_date_write:
  assumes "up_to_date su tag m" and "store_step (WithTransactionUpdates ts) quiet (sm_store m) st'"
    and "inv (fst (sm_store m))" and "tu_inv (snd (sm_store m)) (sm_subs m)"
  shows "up_to_date su tag (m\<lparr>sm_store := st'\<rparr>)"
proof -
  let ?t = "su_transactionID su"
  have su: "su \<in> set (sm_subs m)" "active (snd (sm_store m)) su" using assms(1) by (simp_all add: up_to_date_def)
  have frame: "active (snd st') su" "signalled (snd (sm_store m)) su \<Longrightarrow> signalled (snd st') su"
    using store_step_updates [OF assms(2)] su active_publish [OF assms(4)] signalled_publish [OF assms(4) su(1)]
    by metis+
  show ?thesis
  proof (cases "row (fst st') ?t = row (fst (sm_store m)) ?t")
    case True
    then show ?thesis using assms(1) su frame by (auto simp: up_to_date_def)
  next
    case False
    then have "snd st' = Publish (snd (sm_store m)) ?t" by (rule observable_signals [OF assms(2,3)])
    then have "signalled (snd st') su" using signalled_publish [OF assms(4) su(1)] su(2) by simp
    then show ?thesis using su frame by (simp add: up_to_date_def)
  qed
qed

lemma store_step_inv:
  "store_step (WithTransactionUpdates ts) quiet st st' \<Longrightarrow> inv (fst st) \<Longrightarrow> inv (fst st')"
  using transaction_store.step_law [OF observable] by blast

lemma stream_law:
  assumes "runs su tag m" and "length (sm_subs m) < 2 ^ 64"
  shows "inv (fst (sm_store m)) \<and> tu_reach (snd (sm_store m)) (sm_subs m) \<and>
    su \<in> set (sm_subs m) \<and> (sm_open m \<longrightarrow> up_to_date su tag m)"
  using assms
proof (induction rule: stream_run.induct)
  case (connect s u hs t u')
  then show ?case
    using tu_reach.subscribe [OF connect(2,3)] subscribe_new [OF connect(3)] by (simp add: up_to_date_def)
next
  case (store_write m su')
  then have IH: "inv (fst (sm_store m))" "tu_reach (snd (sm_store m)) (sm_subs m)" "su \<in> set (sm_subs m)"
    "sm_open m \<longrightarrow> up_to_date su tag m" by simp_all
  have "tu_inv (snd (sm_store m)) (sm_subs m)" using tu_reach_inv [OF IH(2)] store_write.prems by simp
  then show ?case
    using IH store_step_reach [OF store_write(2) IH(2)] store_step_inv [OF store_write(2) IH(1)]
      up_to_date_write [OF _ store_write(2) IH(1)] by simp
next
  case (other_subscribe m t other u')
  then have IH: "inv (fst (sm_store m))" "tu_reach (snd (sm_store m)) (sm_subs m)" "su \<in> set (sm_subs m)"
    "sm_open m \<longrightarrow> up_to_date su tag m" by simp_all
  have ok: "tu_inv (snd (sm_store m)) (sm_subs m)" using tu_reach_inv [OF IH(2)] other_subscribe.prems by simp
  show ?case
    using IH tu_reach.subscribe [OF IH(2) other_subscribe(2)] subscribe_frame [OF ok IH(3) other_subscribe(2)]
    by (simp add: up_to_date_def)
next
  case (other_cancel m other)
  then have IH: "inv (fst (sm_store m))" "tu_reach (snd (sm_store m)) (sm_subs m)" "su \<in> set (sm_subs m)"
    "sm_open m \<longrightarrow> up_to_date su tag m" by simp_all
  have ok: "tu_inv (snd (sm_store m)) (sm_subs m)" using tu_reach_inv [OF IH(2)] other_cancel.prems by simp
  show ?case
    using IH tu_reach.cancel [OF IH(2) other_cancel(2)] cancel_frame [OF ok IH(3) other_cancel(2,3)]
    by (simp add: up_to_date_def)
next
  case (other_receive m other u')
  then have IH: "inv (fst (sm_store m))" "tu_reach (snd (sm_store m)) (sm_subs m)" "su \<in> set (sm_subs m)"
    "sm_open m \<longrightarrow> up_to_date su tag m" by simp_all
  have ok: "tu_inv (snd (sm_store m)) (sm_subs m)" using tu_reach_inv [OF IH(2)] other_receive.prems by simp
  show ?case
    using IH tu_reach.receive [OF IH(2) other_receive(2,4)] receive_frame [OF ok IH(3) other_receive(2,4)] other_receive(3)
    by (simp add: up_to_date_def)
next
  case (wake m e u' now written snap s')
  then have IH: "inv (fst (sm_store m))" "tu_reach (snd (sm_store m)) (sm_subs m)" "su \<in> set (sm_subs m)"
    "up_to_date su tag m" by simp_all
  have ok: "tu_inv (snd (sm_store m)) (sm_subs m)" using tu_reach_inv [OF IH(2)] wake.prems by simp
  have "s' = (fst (sm_store m), u') \<and> shown (snap # sm_sent m) (row (fst (sm_store m)) (su_transactionID su))"
    using snapshot_law [of "(fst (sm_store m), u')", OF _ wake(3,5)] IH(1) by simp
  moreover have "active u' su" using receive_frame(2) [OF ok IH(3) IH(3) wake(4)] IH(4) by (simp add: up_to_date_def)
  ultimately show ?case using IH tu_reach.receive [OF IH(2,3) wake(4)] by (simp add: up_to_date_def)
next
  case (resync m e now written snap s')
  then have IH: "inv (fst (sm_store m))" "tu_reach (snd (sm_store m)) (sm_subs m)" "su \<in> set (sm_subs m)"
    "up_to_date su tag m" by simp_all
  have "s' = sm_store m \<and> shown (snap # sm_sent m) (row (fst (sm_store m)) (su_transactionID su))"
    by (rule snapshot_law [OF IH(1) resync(3,4)])
  then show ?case using IH by (simp add: up_to_date_def)
next
  case (stop_stream m)
  then have IH: "inv (fst (sm_store m))" "tu_reach (snd (sm_store m)) (sm_subs m)" "su \<in> set (sm_subs m)" by simp_all
  then show ?case using tu_reach.cancel [OF IH(2,3)] by simp
qed

end


section \<open>Transaction ids\<close>

lemma digit_digit_val: "is_digit c \<Longrightarrow> digit (digit_val c) = c"
  by (simp add: digit_def digit_val_def code_def)

lemma digit_val_range: "is_digit c \<Longrightarrow> 0 \<le> digit_val c \<and> digit_val c < 10"
  by (auto simp: is_digit_def digit_val_def)

lemma dec_val_nonneg: "list_all is_digit s \<Longrightarrow> 0 \<le> dec_val s"
proof (induction s rule: rev_induct)
  case Nil
  then show ?case by (simp add: dec_val_def)
next
  case (snoc c s)
  then show ?case using digit_val_range [of c] by (simp add: dec_val_snoc)
qed

lemma zero_digit: "digit 0 = CHR ''0''"
  by code_simp

lemma dec_dec_val:
  assumes "list_all is_digit s" and "s \<noteq> []" and "hd s \<noteq> CHR ''0''"
  shows "dec (dec_val s) = s \<and> 1 \<le> dec_val s"
  using assms
proof (induction s rule: rev_induct)
  case (snoc c s)
  note c = digit_val_range [of c] digit_digit_val [of c]
  show ?case
  proof (cases s)
    case Nil
    have "digit_val c \<noteq> 0"
      using snoc.prems Nil c(2) zero_digit by auto
    then show ?thesis using c snoc.prems Nil by (subst dec.simps) (auto simp: dec_val_def)
  next
    case (Cons a r)
    then have IH: "dec (dec_val s) = s" "1 \<le> dec_val s" using snoc by auto
    have d: "0 \<le> digit_val c" "digit_val c < 10" "digit (digit_val c) = c" using c snoc.prems by auto
    then have "(dec_val s * 10 + digit_val c) div 10 = dec_val s" "(dec_val s * 10 + digit_val c) mod 10 = digit_val c"
      by simp_all
    then show ?thesis using IH d by (subst dec.simps) (simp add: dec_val_snoc)
  qed
qed simp

lemma FormatInt_pos: "0 < t \<Longrightarrow> positiveDecimalTransactionID (FormatInt t)"
proof -
  have "list_all is_digit (dec n) \<and> hd (dec n) \<noteq> CHR ''0''" if "0 < n" for n
    using that
  proof (induction n rule: dec.induct)
    case (1 n)
    show ?case
    proof (cases "n < 10")
      case True
      have "digit n \<noteq> digit 0" using True 1 by (metis code_digit add_left_cancel less_le order_refl zero_less_numeral)
      then show ?thesis using True 1 zero_digit by (subst (1 2) dec.simps) simp
    next
      case False
      then show ?thesis using 1 dec_not_Nil [of "n div 10"] by (subst (1 2) dec.simps) simp
    qed
  qed
  note digits = this
  assume "0 < t"
  then show ?thesis
    using dec_not_Nil [of t] digits [of t] by (cases "dec t") (auto simp: positiveDecimalTransactionID_def FormatInt_def)
qed

text \<open>A transaction id is accepted in one spelling only, and only in the range OCPP allows.\<close>

lemma parse_id_exact:
  "parseFrontendTransactionID raw = Some t \<longleftrightarrow> 1 \<le> t \<and> t < 2 ^ 31 \<and> raw = FormatInt t"
proof
  assume p: "parseFrontendTransactionID raw = Some t"
  then have pos: "positiveDecimalTransactionID raw" and i: "ParseInt 32 raw = Some t" "0 < t"
    by (auto simp: parseFrontendTransactionID_def split: if_splits option.splits)
  then obtain c cs where raw: "raw = c # cs" "is_digit c" "c \<noteq> CHR ''0''" "list_all is_digit cs"
    by (auto simp: positiveDecimalTransactionID_def split: list.splits)
  have sign: "c \<noteq> CHR ''-''" "c \<noteq> CHR ''+''" using raw(2) by auto
  have d: "dec (dec_val raw) = raw" using dec_dec_val [of raw] raw by simp
  have "t = dec_val raw" "t < 2 ^ 31" using i raw sign by (auto simp: ParseInt_def Let_def split: if_splits)
  then show "1 \<le> t \<and> t < 2 ^ 31 \<and> raw = FormatInt t" using d i(2) by (simp add: FormatInt_def)
next
  assume "1 \<le> t \<and> t < 2 ^ 31 \<and> raw = FormatInt t"
  then show "parseFrontendTransactionID raw = Some t"
    using FormatInt_pos [of t] ParseInt_FormatInt [of 32 t] by (simp add: parseFrontendTransactionID_def)
qed

section \<open>Who gets a stream\<close>

text \<open>
  C37. Over the PostgreSQL store a GET for a transaction stream is upgraded exactly when its id is a
  number from 1 to 2147483647 in canonical decimal and a row has this id and the given non-empty tag.
  A wrong tag gets the same answer as an unknown id, and no request changes a row.
\<close>

theorem stream_opens_only_for_known_pair:
  assumes "pg_inv (fst (hal_store (ap_hal st)))" and "pg_quiet e" and "hc_method r = ''GET''"
    and "frontendTransactionWebSocket (Some (WithTransactionUpdates postgres_methods)) e None r st
         = ((resp, reqs, st'), opened)"
  defines "raw \<equiv> firstQueryValue (hc_query r) [''transaction_id'', ''transactionId'']"
    and "tag \<equiv> firstQueryValue (hc_query r) [''id_tag'', ''idTag'']"
    and "R \<equiv> pg_row (fst (hal_store (ap_hal st)))"
  shows "(hr_status resp = 101 \<longleftrightarrow>
      (\<exists>t q. 1 \<le> t \<and> t < 2 ^ 31 \<and> raw = FormatInt t \<and> tag \<noteq> [] \<and> R t = Some q \<and> tx_IDTag q = tag)) \<and>
    (opened \<noteq> None \<longleftrightarrow> hr_status resp = 101) \<and> reqs = [] \<and>
    fst (hal_store (ap_hal st')) = fst (hal_store (ap_hal st)) \<and>
    (\<forall>t. 1 \<le> t \<and> t < 2 ^ 31 \<and> raw = FormatInt t \<and> tag \<noteq> [] \<and> hr_status resp \<noteq> 101 \<longrightarrow>
      resp = writeJSON 404 (detail ''Transaction not found''))"
proof (cases "parseFrontendTransactionID raw")
  case None
  then have "\<not> (\<exists>t. 1 \<le> t \<and> t < 2 ^ 31 \<and> raw = FormatInt t)" using parse_id_exact [of raw] by auto
  moreover have "resp = writeJSON 400 (detail ''transaction_id must be a positive base-10 integer within the OCPP signed 32-bit range'')
      \<and> reqs = [] \<and> st' = st \<and> opened = None"
    using assms(3,4) None by (simp add: frontendTransactionWebSocket_def raw_def Let_def)
  ultimately show ?thesis by (auto simp: writeJSON_def)
next
  case (Some t)
  then have t: "1 \<le> t" "t < 2 ^ 31" "raw = FormatInt t" using parse_id_exact [of raw t] by auto
  have only: "raw = FormatInt t' \<longleftrightarrow> t' = t" for t' using t(3) by auto
  obtain s u where su: "hal_store (ap_hal st) = (s, u)" by fastforce
  have g: "m_GetByTransactionIDAndIDTag postgres_methods e s t tag =
      ((case R t of None \<Rightarrow> Inl ErrTransactionNotFound
        | Some q \<Rightarrow> if tx_IDTag q = tag then Inr q else Inl ErrTransactionNotFound), s)"
  proof -
    obtain c s' where c: "m_GetByTransactionIDAndIDTag postgres_methods e s t tag = (c, s')"
      by (cases "m_GetByTransactionIDAndIDTag postgres_methods e s t tag")
    have "pg_inv s" using assms(1) su by simp
    from pg.get_tag_law [OF this assms(2) c] show ?thesis unfolding c by (simp add: su R_def)
  qed
  show ?thesis
  proof (cases "tag = []")
    case True
    then have "resp = writeJSON 400 (detail ''Missing id_tag'') \<and> reqs = [] \<and> st' = st \<and> opened = None"
      using assms(3,4) Some by (simp add: frontendTransactionWebSocket_def raw_def tag_def Let_def)
    then show ?thesis using True by (auto simp: writeJSON_def)
  next
    case tag: False
    show ?thesis
    proof (cases "\<exists>q. R t = Some q \<and> tx_IDTag q = tag")
      case True
      then have "hr_status resp = 101 \<and> reqs = [] \<and> opened \<noteq> None \<and> fst (hal_store (ap_hal st')) = s"
        using assms(3,4) Some tag g su
        by (auto simp: frontendTransactionWebSocket_def raw_def tag_def Let_def WithTransactionUpdates_def
            publish_ok_def writeHeader_def split: prod.splits)
      then show ?thesis using True t tag only su by auto
    next
      case False
      then have "resp = writeJSON 404 (detail ''Transaction not found'') \<and> reqs = [] \<and> opened = None
          \<and> fst (hal_store (ap_hal st')) = s"
        using assms(3,4) Some tag g su
        by (auto simp: frontendTransactionWebSocket_def raw_def tag_def Let_def WithTransactionUpdates_def
            publish_ok_def writeTransactionLookupError_def split: prod.splits option.splits if_splits)
      moreover have "\<not> (\<exists>t' q. raw = FormatInt t' \<and> R t' = Some q \<and> tx_IDTag q = tag)"
        using False only by auto
      ultimately show ?thesis using su by (auto simp: writeJSON_def)
    qed
  qed
qed

section \<open>The API key\<close>

lemma remote_result_frame: "snd (snd (remote_result st r)) = st"
  by (auto simp: remote_result_def Let_def split: prod.splits option.splits)

definition quiet_reply :: "'s api_state \<Rightarrow> request list \<times> 's api_state \<Rightarrow> bool" where
  "quiet_reply st r \<longleftrightarrow> fst r = [] \<and> hal_registry (ap_hal (snd r)) = hal_registry (ap_hal st)
     \<and> hal_pending (ap_hal (snd r)) = hal_pending (ap_hal st) \<and> ap_directory (snd r) = ap_directory st"

lemma transaction_socket_quiet:
  "quiet_reply st (snd (fst (frontendTransactionWebSocket store_opt e upgrade r st)))"
proof -
  let ?raw = "firstQueryValue (hc_query r) [''transaction_id'', ''transactionId'']"
  let ?tag = "firstQueryValue (hc_query r) [''id_tag'', ''idTag'']"
  show ?thesis
  proof (cases "hc_method r \<noteq> ''GET'' \<or> ?tag = [] \<or> store_opt = None")
    case True
    then show ?thesis
      by (cases "parseFrontendTransactionID ?raw") (auto simp: frontendTransactionWebSocket_def quiet_reply_def Let_def)
  next
    case False
    then obtain ts where ts: "store_opt = Some ts" "?tag \<noteq> []" "hc_method r = ''GET''" by auto
    show ?thesis
    proof (cases "parseFrontendTransactionID ?raw")
      case None
      then show ?thesis using ts by (simp add: frontendTransactionWebSocket_def quiet_reply_def Let_def)
    next
      case (Some t)
      obtain c s u where "m_GetByTransactionIDAndIDTag ts e (hal_store (ap_hal st)) t ?tag = (c, (s, u))"
        by (cases "m_GetByTransactionIDAndIDTag ts e (hal_store (ap_hal st)) t ?tag") auto
      then show ?thesis using ts Some
        by (cases c; cases upgrade) (simp_all add: frontendTransactionWebSocket_def quiet_reply_def case_prod_unfold Let_def)
    qed
  qed
qed

lemma status_socket_quiet: "quiet_reply st (snd (frontendWebSocket upgrade r st))"
  by (simp add: frontendWebSocket_def quiet_reply_def split: option.splits)

text \<open>
  C38. Of all requests to the server, on any path and with any body, only a POST to one of the API's
  paths that carries the configured, non-empty API key can send a request to a charger or change the
  registry, the pending single sessions or the charger directory; without the key such a POST is
  answered with 403.
\<close>

theorem api_key_guards_chargers:
  assumes "Routes cfg e (\<lambda>r st. fst (frontendTransactionWebSocket store_opt es upgrade r st))
             (frontendWebSocket upgrade) st r = (resp, reqs, st')"
  defines "authorised \<equiv> APIKey cfg \<noteq> [] \<and> hc_api_key r = APIKey cfg"
  shows "(reqs \<noteq> [] \<or> hal_registry (ap_hal st') \<noteq> hal_registry (ap_hal st)
          \<or> hal_pending (ap_hal st') \<noteq> hal_pending (ap_hal st) \<or> ap_directory st' \<noteq> ap_directory st \<longrightarrow>
        authorised \<and> hc_method r = ''POST'' \<and> hc_path r \<in> set api_paths) \<and>
    (hc_path r \<in> set api_paths \<and> hc_method r = ''POST'' \<and> \<not> authorised \<longrightarrow> hr_status resp = 403)"
proof (cases "hc_path r \<in> set api_paths")
  case False
  have "quiet_reply st (reqs, st')"
    using assms(1) False transaction_socket_quiet [of st store_opt es upgrade r] status_socket_quiet [of st upgrade r]
    by (auto simp: Routes_def Let_def quiet_reply_def split: prod.splits if_splits)
  then show ?thesis using False by (simp add: quiet_reply_def)
next
  case True
  then have other: "hc_path r \<noteq> ''/api/hello''" "hc_path r \<noteq> ''/frontend/ws/transaction''"
    "\<not> HasPrefix (hc_path r) ''/frontend/ws/''" "hc_path r \<noteq> ''/frontend/ws''"
    by (auto simp: api_paths_def HasPrefix_def)
  show ?thesis
  proof (cases "authorised \<and> hc_method r = ''POST''")
    case auth: True
    then show ?thesis using True by simp
  next
    case False
    have "reqs = [] \<and> st' = st"
      using assms(1) True other False
      by (auto simp: Routes_def Let_def requireAPIKey_def api_def authorised_def split: if_splits)
    moreover have "hr_status resp = 403" if "hc_method r = ''POST''"
      using assms(1) True other False that
      by (auto simp: Routes_def Let_def requireAPIKey_def authorised_def setCORS_def writeJSON_def split: if_splits)
    ultimately show ?thesis by simp
  qed
qed

section \<open>Spellings of a stop request\<close>

lemma digits_not_trimmed:
  assumes "list_all is_digit s"
  shows "TrimSpace s = s"
proof -
  have no: "drop_one_of utf8_spaces (map code t) = None" "drop_one_of (map rev utf8_spaces) (map code t) = None"
    if "list_all is_digit t" for t
    using that by (cases t; auto simp: utf8_spaces_def is_digit_def take_Cons')+
  have r: "list_all is_digit (rev s)" using assms by simp
  show ?thesis
    using trim_left_done [OF no(1) [OF assms]] trim_left_done [OF no(2) [OF r]]
    by (simp add: TrimSpace_def rev_map [symmetric] o_def)
qed

lemma decode_members_append:
  "decode_members fs r (xs @ ys) = Option.bind (decode_members fs r xs) (\<lambda>r'. decode_members fs r' ys)"
  by (induction fs r xs rule: decode_members.induct) (auto split: option.splits)

lemma stop_members:
  "decode_members stop_fields r [(''uid'', JStr c)] = Some (r\<lparr>br_UID := c\<rparr>)"
  "decode_members stop_fields r [(''charge_point_id'', JStr c)] = Some (r\<lparr>br_ChargePointID := c\<rparr>)"
  "decode_members stop_fields r [(''client_id'', JStr c)] = Some (r\<lparr>br_ClientID := c\<rparr>)"
  "decode_members stop_fields r [(''transaction_id'', v)] = map_option (\<lambda>i. r\<lparr>rp_TransactionID := i\<rparr>) (flexibleInt v)"
  "decode_members stop_fields r [(''transactionId'', v)] = map_option (\<lambda>i. r\<lparr>rp_TransactionId := i\<rparr>) (flexibleInt v)"
  by (cases "flexibleInt v"; simp add: field_for_def stop_fields_def base_fields_def str_field_def int_field_def)+

lemma base_chargerID_stop [simp]:
  "base_chargerID (r\<lparr>rp_TransactionID := i\<rparr>) = base_chargerID r"
  "base_chargerID (r\<lparr>rp_TransactionId := i\<rparr>) = base_chargerID r"
  by (cases r; simp add: base_chargerID_def)+

lemma flexibleInt_spellings:
  assumes "0 < t" and "t < 2 ^ 63"
  shows "flexibleInt (JNum (FormatInt t)) = Some t" "flexibleInt (JStr (FormatInt t)) = Some t"
proof -
  have "TrimSpace (FormatInt t) = FormatInt t"
    using assms(1) dec_digits [of t] by (intro digits_not_trimmed) (simp add: FormatInt_def)
  then show "flexibleInt (JNum (FormatInt t)) = Some t" "flexibleInt (JStr (FormatInt t)) = Some t"
    using ParseInt_FormatInt [of 64 t] assms by (simp_all add: flexibleInt_def)
qed

text \<open>
  C39. A stop request is understood whether the transaction id is spelled in snake or camel case, as a
  number or as a string, and whichever of its three names the charger id has: exactly one remote
  stop for that transaction goes to that charger.  And whatever the body, at most one request is
  sent, and it is a remote stop with a charger id and a positive transaction id.
\<close>

theorem stop_request_spellings:
  assumes "0 < t" and "t < 2 ^ 63" and "c \<noteq> []"
    and "ku \<in> {''uid'', ''charge_point_id'', ''client_id''}"
    and "kt \<in> {''transaction_id'', ''transactionId''}"
    and "v \<in> {JNum (FormatInt t), JStr (FormatInt t)}"
  shows "fst (snd (api_remoteStop e st (Body (JObj [(ku, JStr c), (kt, v)]) raw))) = [ReqRemoteStopTransaction c t] \<and>
    (\<forall>b. fst (snd (api_remoteStop e st b)) = [] \<or>
      (\<exists>c' t'. fst (snd (api_remoteStop e st b)) = [ReqRemoteStopTransaction c' t'] \<and> c' \<noteq> [] \<and> 0 < t'))"
proof -
  have v: "flexibleInt v = Some t" using flexibleInt_spellings [OF assms(1,2)] assms(6) by auto
  obtain req where "decodeJSON stop_fields stop_zero (Body (JObj [(ku, JStr c), (kt, v)]) raw) = Some req"
    "base_chargerID req = c" "rp_transactionID req = t"
  proof -
    obtain r1 where r1: "decode_members stop_fields stop_zero [(ku, JStr c)] = Some r1" "base_chargerID r1 = c"
      "rp_TransactionID r1 = 0"
      using assms(3,4) by (elim insertE emptyE) (simp_all del: decode_members.simps add: stop_members base_chargerID_def stop_zero_def)
    obtain r2 where "decode_members stop_fields r1 [(kt, v)] = Some r2" "base_chargerID r2 = c" "rp_transactionID r2 = t"
      using assms(1,5) r1(2,3) v
      by (elim insertE emptyE) (simp_all del: decode_members.simps add: stop_members rp_transactionID_def first_positive_def)
    then show ?thesis using r1(1) that decode_members_append [of stop_fields stop_zero "[(ku, JStr c)]" "[(kt, v)]"]
      by (simp del: decode_members.simps add: decodeJSON_def)
  qed
  then have "fst (snd (api_remoteStop e st (Body (JObj [(ku, JStr c), (kt, v)]) raw))) = [ReqRemoteStopTransaction c t]"
    using assms(1,3)
    by (auto simp: api_remoteStop_def RemoteStopTransaction_def remote_result_def Let_def split: prod.splits option.splits)
  moreover have "fst (snd (api_remoteStop e st b)) = [] \<or>
      (\<exists>c' t'. fst (snd (api_remoteStop e st b)) = [ReqRemoteStopTransaction c' t'] \<and> c' \<noteq> [] \<and> 0 < t')" for b
    by (auto simp: api_remoteStop_def RemoteStopTransaction_def remote_result_def bad_request_def Let_def
        split: prod.splits option.splits)
  ultimately show ?thesis by blast
qed

section \<open>Examples\<close>

definition demo_tx :: Transaction where
  "demo_tx = \<lparr>tx_ID = 1, tx_UUIDDB = ''u'', tx_ChargerID = ''cp'', tx_ConnectorID = 1, tx_MeterStart = Fin 0,
     tx_MeterStop = None, tx_TotalConsumption = None, tx_StartTime = 0, tx_StopTime = None, tx_IDTag = ''TAG'',
     tx_TransactionID = 7, tx_IsSingleSession = False, tx_MaxKWh = None, tx_LimitStopRequested = False\<rparr>"

definition demo_tx_db :: PgDB where
  "demo_tx_db = empty_db\<lparr>pg_transactions := [demo_tx], pg_tx_seq := 1\<rparr>"

lemma demo_tx_db_ok: "pg_inv demo_tx_db" "pg_row demo_tx_db 7 = Some demo_tx"
  by (simp_all add: pg_inv_def demo_tx_db_def demo_tx_def empty_db_def pg_row_def rows_ok_def pg_outbox_ok_def is_open_def maxTransactionID_def)

definition demo_api_state :: "(PgDB \<times> TransactionUpdates) api_state" where
  "demo_api_state = \<lparr>ap_hal = \<lparr>hal_store = (demo_tx_db, NewTransactionUpdates), hal_registry = NewRegistry,
     hal_pending = [], hal_limit_jobs = [], hal_boot_running = [], hal_boot_jobs = [], hal_sync_once = [],
     hal_sync_jobs = []\<rparr>, ap_directory = NewService\<rparr>"

definition demo_get :: http_call where
  "demo_get = \<lparr>hc_method = ''GET'', hc_path = ''/frontend/ws/transaction'', hc_api_key = [],
     hc_query = [(''transaction_id'', ''7''), (''idTag'', ''TAG'')], hc_body = Malformed []\<rparr>"

theorem stream_opens_only_for_known_pair_witness:
  "hr_status (fst (fst (frontendTransactionWebSocket (Some (WithTransactionUpdates postgres_methods))
     (calm 7 0) None demo_get demo_api_state))) = 101"
proof -
  obtain resp reqs st' opened where h: "frontendTransactionWebSocket (Some (WithTransactionUpdates postgres_methods))
     (calm 7 0) None demo_get demo_api_state = ((resp, reqs, st'), opened)" by (metis prod_cases3 surj_pair)
  have seven: "FormatInt 7 = ''7''" by code_simp
  have "hr_status resp = 101"
    using stream_opens_only_for_known_pair [OF _ _ _ h] seven
    by (auto simp: demo_api_state_def demo_get_def demo_tx_db_ok demo_tx_def intro!: exI [of _ 7])
  then show ?thesis using h by simp
qed


theorem stop_request_spellings_witness:
  "\<forall>e st raw. fst (snd (api_remoteStop (e :: PgDB api_env) st
     (Body (JObj [(''charge_point_id'', JStr ''cp''), (''transactionId'', JStr ''7'')]) raw)))
   = [ReqRemoteStopTransaction ''cp'' 7]"
proof (intro allI)
  fix e :: "PgDB api_env" and st raw
  have "FormatInt 7 = ''7''" by code_simp
  then show "fst (snd (api_remoteStop e st
      (Body (JObj [(''charge_point_id'', JStr ''cp''), (''transactionId'', JStr ''7'')]) raw)))
    = [ReqRemoteStopTransaction ''cp'' 7]"
    using stop_request_spellings [of 7 "''cp''" "''charge_point_id''" "''transactionId''" "JStr ''7''" e st raw] by simp
qed

definition demo_post :: http_call where
  "demo_post = \<lparr>hc_method = ''POST'', hc_path = ''/api/reset'', hc_api_key = ''guess'', hc_query = [],
     hc_body = Body (JObj [(''uid'', JStr ''cp'')]) []\<rparr>"

theorem api_key_guards_chargers_witness:
  "\<forall>e. \<exists>resp. Routes (Load (\<lambda>_. [])) (e :: (PgDB \<times> TransactionUpdates) api_env)
       (\<lambda>r st. fst (frontendTransactionWebSocket (Some (WithTransactionUpdates postgres_methods)) (calm 7 0) None r st))
       (frontendWebSocket None) demo_api_state demo_post = (resp, [], demo_api_state) \<and> hr_status resp = 403"
proof
  fix e :: "(PgDB \<times> TransactionUpdates) api_env"
  let ?routes = "Routes (Load (\<lambda>_. [])) e
       (\<lambda>r st. fst (frontendTransactionWebSocket (Some (WithTransactionUpdates postgres_methods)) (calm 7 0) None r st))
       (frontendWebSocket None) demo_api_state demo_post"
  obtain resp reqs st' where r: "?routes = (resp, reqs, st')" by (cases ?routes)
  have "APIKey (Load (\<lambda>_. [])) = []" by (simp add: Load_def)
  then have "hr_status resp = 403"
    using api_key_guards_chargers [OF r] by (simp add: demo_post_def api_paths_def)
  moreover have "reqs = [] \<and> st' = demo_api_state"
    using r by (simp add: Routes_def demo_post_def HasPrefix_def api_paths_def requireAPIKey_def Load_def Let_def)
  ultimately show "\<exists>resp. ?routes = (resp, [], demo_api_state) \<and> hr_status resp = 403" using r by simp
qed

end
