(* ===== verification/Simulator.thy ===== *)
theory Simulator
  imports Config Analytics
begin

text \<open>
  The charge point simulator with its console (\<open>cmd/cpconsole/main.go\<close>).  Its client of the central
  system is outside: \<open>sim_world\<close> answers the \<open>n\<close>-th message the simulator sends, and \<open>sw_others\<close> is
  what the other goroutines do while that message is out.  Every message is logged with its answer.
  Goroutines that a handler starts are recorded as jobs.  Printing is left out.
\<close>

section \<open>State\<close>

text \<open>A meter sample: value, measurand and unit.\<close>

type_synonym sample = "string \<times> string \<times> string"

datatype sim_msg =
    SentBoot string string "go_error + string option"
  | SentHeartbeat "go_error option"
  | SentAuthorize string "go_error + string"
  | SentStart int string int "go_error + (string \<times> int) option"
  | SentStop int int string string "go_error option"
  | SentMeter int int "sample list" "go_error option"
  | SentStatus int string string "go_error option"
  | SentDiagnosticsStatus string
  | SentFirmwareStatus string

record remote_start_request =
  rr_ConnectorId :: "int option"
  rr_IdTag :: string

datatype sim_job =
    Job_remote_start
  | Job_remote_stop
  | Job_set_status string
  | Job_reset string
  | Job_trigger string
  | Job_diagnostics
  | Job_firmware
  | Job_auto nat duration float64

record simulator =
  sim_clientID :: string
  sim_model :: string
  sim_vendor :: string
  sim_connectorID :: int
  sim_booted :: bool
  sim_status :: string
  sim_errorCode :: string
  sim_plugged :: bool
  sim_idTag :: string
  sim_transaction :: int
  sim_meterWh :: float64
  sim_powerKW :: float64
  sim_voltage :: float64
  sim_soc :: float64
  sim_remoteStart :: "remote_start_request option"
  sim_remoteStop :: "int option"
  sim_acceptStart :: bool
  sim_acceptStop :: bool
  sim_autoRemote :: bool
  sim_unavailableAfterStop :: bool
  sim_autoCancel :: "nat option"
  sim_configuration :: "(string, string) gomap"
  sim_channels :: nat
  sim_closed :: "nat list"
  sim_jobs :: "sim_job list"
  sim_log :: "sim_msg list"

record sim_world =
  sw_boot :: "nat \<Rightarrow> go_error + string option"
  sw_heartbeat :: "nat \<Rightarrow> go_error option"
  sw_authorize :: "nat \<Rightarrow> go_error + string"
  sw_start :: "nat \<Rightarrow> go_error + (string \<times> int) option"
  sw_plain :: "nat \<Rightarrow> go_error option"
  sw_others :: "nat \<Rightarrow> simulator \<Rightarrow> simulator"

type_synonym sim_result = "go_error option \<times> simulator"

definition newSimulator :: "string \<Rightarrow> string \<Rightarrow> string \<Rightarrow> int \<Rightarrow> float64 \<Rightarrow> float64 \<Rightarrow> float64 \<Rightarrow> simulator" where
  "newSimulator clientID model vendor connectorID meterStartWh voltage soc =
     \<lparr>sim_clientID = clientID, sim_model = model, sim_vendor = vendor, sim_connectorID = connectorID,
      sim_booted = False, sim_status = ''Unavailable'', sim_errorCode = ''NoError'', sim_plugged = False,
      sim_idTag = [], sim_transaction = 0, sim_meterWh = meterStartWh, sim_powerKW = Fin 0,
      sim_voltage = voltage, sim_soc = soc, sim_remoteStart = None, sim_remoteStop = None,
      sim_acceptStart = True, sim_acceptStop = True, sim_autoRemote = True,
      sim_unavailableAfterStop = False, sim_autoCancel = None,
      sim_configuration = [(''HeartbeatInterval'', ''900''), (''MeterValueSampleInterval'', ''60'')],
      sim_channels = 0, sim_closed = [], sim_jobs = [], sim_log = []\<rparr>"

text \<open>A message goes out: it is the \<open>n\<close>-th when \<open>n\<close> are in the log.\<close>

definition send_out :: "sim_world \<Rightarrow> sim_msg \<Rightarrow> simulator \<Rightarrow> simulator" where
  "send_out w m s = sw_others w (length (sim_log s)) (s\<lparr>sim_log := sim_log s @ [m]\<rparr>)"

definition next_msg :: "simulator \<Rightarrow> nat" where
  "next_msg s = length (sim_log s)"

section \<open>Numbers\<close>

text \<open>\<open>Duration.Hours\<close>, and \<open>fmt.Sprintf("%.nf")\<close>, which rounds the exact value half to even.\<close>

definition Hours :: "duration \<Rightarrow> float64" where
  "Hours d =
     (let hr = 3600 * Second; q = sgn d * (\<bar>d\<bar> div hr); n = d - q * hr
      in f_add (f_of_int q) (f_div (f_of_int n) (Fin 3600000000000)))"

definition decimals :: "nat \<Rightarrow> int \<Rightarrow> string" where
  "decimals n i =
     (if n = 0 then dec i
      else let p = 10 ^ n in dec (i div p) @ ''.'' @ pad n (i mod p))"

definition Sprintf_f :: "nat \<Rightarrow> float64 \<Rightarrow> string" where
  "Sprintf_f n x =
     (case x of
        NaN \<Rightarrow> ''NaN'' | PosInf \<Rightarrow> ''+Inf'' | NegInf \<Rightarrow> ''-Inf''
      | NegZero \<Rightarrow> CHR ''-'' # decimals n 0
      | Fin q \<Rightarrow> if q < 0 then CHR ''-'' # decimals n (rne (- q * 10 ^ n)) else decimals n (rne (q * 10 ^ n)))"

section \<open>Messages\<close>

definition boot :: "sim_world \<Rightarrow> simulator \<Rightarrow> sim_result" where
  "boot w s =
     (let conf = sw_boot w (next_msg s); s1 = send_out w (SentBoot (sim_model s) (sim_vendor s) conf) s in
      case conf of
        Inl err \<Rightarrow> (Some (ErrWrap ''BootNotification'' err), s1)
      | Inr None \<Rightarrow> (Some (ErrNew ''BootNotification was not accepted: nil''), s1)
      | Inr (Some st) \<Rightarrow>
          if st \<noteq> ''Accepted'' then (Some (ErrNew (''BootNotification was not accepted: '' @ st)), s1)
          else (None, s1\<lparr>sim_booted := True\<rparr>))"

definition heartbeat :: "sim_world \<Rightarrow> simulator \<Rightarrow> sim_result" where
  "heartbeat w s =
     (let err = sw_heartbeat w (next_msg s) in
      (map_option (ErrWrap ''Heartbeat'') err, send_out w (SentHeartbeat err) s))"

definition setStatus :: "sim_world \<Rightarrow> string \<Rightarrow> string \<Rightarrow> simulator \<Rightarrow> sim_result" where
  "setStatus w status err_code s =
     (let err = sw_plain w (next_msg s); s1 = send_out w (SentStatus (sim_connectorID s) err_code status err) s in
      case err of
        Some e \<Rightarrow> (Some (ErrWrap (''StatusNotification '' @ status) e), s1)
      | None \<Rightarrow> (None, s1\<lparr>sim_status := status, sim_errorCode := err_code\<rparr>))"

definition authorize :: "sim_world \<Rightarrow> string \<Rightarrow> simulator \<Rightarrow> sim_result" where
  "authorize w idTag s =
     (if idTag = [] \<or> length idTag > 20 then (Some (ErrNew ''id-tag must contain 1 to 20 characters''), s)
      else
        let conf = sw_authorize w (next_msg s); s1 = send_out w (SentAuthorize idTag conf) s in
        case conf of
          Inl err \<Rightarrow> (Some (ErrWrap ''Authorize'' err), s1)
        | Inr st \<Rightarrow> (if st \<noteq> ''Accepted'' then Some (ErrNew (''id-tag was not accepted: '' @ st)) else None, s1))"

section \<open>Transactions\<close>

text \<open>\<open>startTransaction\<close> after the checks, the authorisation and the plugging in.\<close>

definition send_start :: "sim_world \<Rightarrow> string \<Rightarrow> float64 \<Rightarrow> simulator \<Rightarrow> sim_result" where
  "send_start w idTag meter s =
     (let conf = sw_start w (next_msg s);
          s1 = send_out w (SentStart (sim_connectorID s) idTag (to_int64 meter) conf) s in
      case conf of
        Inl err \<Rightarrow> (Some (ErrWrap ''StartTransaction'' err), s1)
      | Inr None \<Rightarrow> (Some (ErrNew ''StartTransaction was not accepted: nil''), s1)
      | Inr (Some (st, tid)) \<Rightarrow>
          if st \<noteq> ''Accepted'' \<or> tid \<le> 0
          then (Some (ErrNew (''StartTransaction was not accepted: '' @ st)), s1)
          else setStatus w ''Charging'' ''NoError''
                 (s1\<lparr>sim_transaction := tid, sim_idTag := idTag, sim_remoteStart := None\<rparr>))"

definition startTransaction :: "sim_world \<Rightarrow> string \<Rightarrow> bool \<Rightarrow> simulator \<Rightarrow> sim_result" where
  "startTransaction w idTag remote s =
     (if idTag = [] \<or> length idTag > 20 then (Some (ErrNew ''id-tag must contain 1 to 20 characters''), s)
      else
        let status = sim_status s; meter = sim_meterWh s in
        if sim_transaction s \<noteq> 0 then (Some (ErrNew ''a transaction is already active''), s)
        else if status = ''Faulted'' \<or> status = ''Unavailable''
        then (Some (ErrNew (''cannot start while connector status is '' @ status)), s)
        else
          case (if remote then (None, s) else authorize w idTag s) of
            (Some err, s1) \<Rightarrow> (Some err, s1)
          | (None, s1) \<Rightarrow>
              if status \<noteq> ''Available'' then send_start w idTag meter s1
              else
                (case setStatus w ''Preparing'' ''NoError'' (s1\<lparr>sim_plugged := True\<rparr>) of
                   (Some err, s2) \<Rightarrow> (Some err, s2)
                 | (None, s2) \<Rightarrow> send_start w idTag meter s2))"

definition meter_samples :: "float64 \<Rightarrow> float64 \<Rightarrow> float64 \<Rightarrow> float64 \<Rightarrow> sample list" where
  "meter_samples meterWh powerKW voltage soc =
     (let current = (if f_lt (Fin 0) voltage then f_div (f_mul powerKW (Fin 1000)) voltage else Fin 0)
      in [(Sprintf_f 0 meterWh, ''Energy.Active.Import.Register'', ''Wh''),
          (Sprintf_f 3 powerKW, ''Power.Active.Import'', ''kW''),
          (Sprintf_f 2 current, ''Current.Import'', ''A''),
          (Sprintf_f 1 voltage, ''Voltage'', ''V''),
          (Sprintf_f 1 soc, ''SoC'', ''Percent'')])"

definition sendMeter :: "sim_world \<Rightarrow> duration \<Rightarrow> float64 \<Rightarrow> simulator \<Rightarrow> sim_result" where
  "sendMeter w elapsed powerKW s =
     (if sim_transaction s = 0 then (Some (ErrNew ''meter values require an active transaction''), s)
      else if elapsed < 0 \<or> f_lt powerKW (Fin 0)
      then (Some (ErrNew ''elapsed time and power cannot be negative''), s)
      else
        let deltaWh = f_mul (f_mul powerKW (Fin 1000)) (Hours elapsed);
            meterWh = f_add (sim_meterWh s) deltaWh;
            soc1 = f_add (sim_soc s) (f_mul (f_div deltaWh (Fin 60000)) (Fin 100));
            soc = (if f_lt (Fin 0) deltaWh \<and> f_lt (sim_soc s) (Fin 100)
                   then (if f_lt (Fin 100) soc1 then Fin 100 else soc1) else sim_soc s);
            s1 = s\<lparr>sim_meterWh := meterWh, sim_powerKW := powerKW, sim_soc := soc\<rparr>;
            err = sw_plain w (next_msg s1)
        in (map_option (ErrWrap ''MeterValues'') err,
            send_out w (SentMeter (sim_connectorID s) (sim_transaction s)
                          (meter_samples meterWh powerKW (sim_voltage s) soc) err) s1))"

text \<open>Closing the channel tells the metering goroutine to stop.\<close>

definition stopAuto :: "simulator \<Rightarrow> simulator" where
  "stopAuto s =
     (case sim_autoCancel s of
        None \<Rightarrow> s
      | Some ch \<Rightarrow> s\<lparr>sim_closed := ch # sim_closed s, sim_autoCancel := None\<rparr>)"

definition stopTransaction :: "sim_world \<Rightarrow> string \<Rightarrow> simulator \<Rightarrow> sim_result" where
  "stopTransaction w reason s0 =
     (let s = stopAuto s0 in
      if sim_transaction s = 0 then (Some (ErrNew ''no active transaction''), s)
      else
        let err = sw_plain w (next_msg s);
            s1 = send_out w (SentStop (to_int64 (sim_meterWh s)) (sim_transaction s) (sim_idTag s) reason err) s in
        case err of
          Some e \<Rightarrow> (Some (ErrWrap ''StopTransaction'' e), s1)
        | None \<Rightarrow>
            let s2 = s1\<lparr>sim_transaction := 0, sim_idTag := [], sim_powerKW := Fin 0, sim_remoteStop := None\<rparr>
            in setStatus w (if sim_unavailableAfterStop s2 then ''Unavailable'' else ''Finishing'') ''NoError'' s2)"

definition requireTransactionStatus :: "sim_world \<Rightarrow> string \<Rightarrow> simulator \<Rightarrow> sim_result" where
  "requireTransactionStatus w status s =
     (if sim_transaction s = 0 then (Some (ErrNew ''this status requires an active transaction''), s)
      else setStatus w status ''NoError'' s)"

definition plug :: "sim_world \<Rightarrow> simulator \<Rightarrow> sim_result" where
  "plug w s =
     (if sim_transaction s \<noteq> 0 then (Some (ErrNew ''connector already has an active transaction''), s)
      else setStatus w ''Preparing'' ''NoError'' (s\<lparr>sim_plugged := True\<rparr>))"

definition unplug :: "sim_world \<Rightarrow> simulator \<Rightarrow> sim_result" where
  "unplug w s =
     (if sim_transaction s \<noteq> 0 then (Some (ErrNew ''stop the transaction before unplugging''), s)
      else setStatus w ''Available'' ''NoError'' (s\<lparr>sim_plugged := False\<rparr>))"

definition startAuto :: "duration \<Rightarrow> float64 \<Rightarrow> simulator \<Rightarrow> sim_result" where
  "startAuto interval powerKW s =
     (if sim_transaction s = 0 then (Some (ErrNew ''automatic metering requires an active transaction''), s)
      else
        let s1 = stopAuto s; ch = sim_channels s1 in
        (None, s1\<lparr>sim_autoCancel := Some ch, sim_channels := Suc ch,
                  sim_jobs := sim_jobs s1 @ [Job_auto ch interval powerKW]\<rparr>))"

definition executePendingRemoteStart :: "sim_world \<Rightarrow> simulator \<Rightarrow> sim_result" where
  "executePendingRemoteStart w s =
     (case sim_remoteStart s of
        None \<Rightarrow> (Some (ErrNew ''no accepted remote start is pending''), s)
      | Some request \<Rightarrow>
          let connector = (case rr_ConnectorId request of None \<Rightarrow> sim_connectorID s | Some c \<Rightarrow> c) in
          if connector \<noteq> sim_connectorID s
          then (Some (ErrNew (''remote start requested connector '' @ FormatInt connector
                              @ '', simulator owns connector '' @ FormatInt (sim_connectorID s))), s)
          else startTransaction w (rr_IdTag request) True s)"

definition executePendingRemoteStop :: "sim_world \<Rightarrow> simulator \<Rightarrow> sim_result" where
  "executePendingRemoteStop w s =
     (case sim_remoteStop s of
        None \<Rightarrow> (Some (ErrNew ''no accepted remote stop is pending''), s)
      | Some _ \<Rightarrow> stopTransaction w ''Remote'' s)"

section \<open>Words of a command\<close>

text \<open>\<open>strings.Fields\<close>: \<open>word\<close> is the word read so far, in reverse.\<close>

fun fields_fuel :: "nat \<Rightarrow> int list \<Rightarrow> int list \<Rightarrow> string list" where
  "fields_fuel 0 word s = (if word = [] then [] else [map byte (rev word)])"
| "fields_fuel (Suc n) word s =
     (let flush = (if word = [] then [] else [map byte (rev word)]) in
      case drop_one_of utf8_spaces s of
        Some s' \<Rightarrow> flush @ fields_fuel n [] s'
      | None \<Rightarrow> (case s of [] \<Rightarrow> flush | c # s' \<Rightarrow> fields_fuel n (c # word) s'))"

definition Fields :: "string \<Rightarrow> string list" where
  "Fields s = fields_fuel (Suc (length s)) [] (map code s)"

fun fold_lookup :: "string list \<Rightarrow> string \<Rightarrow> string option" where
  "fold_lookup [] v = None"
| "fold_lookup (n # ns) v = (if EqualFold v n then Some n else fold_lookup ns v)"

definition parseStatus :: "string \<Rightarrow> string option" where
  "parseStatus = fold_lookup
     [''Available'', ''Preparing'', ''Charging'', ''SuspendedEVSE'', ''SuspendedEV'', ''Finishing'',
      ''Reserved'', ''Unavailable'', ''Faulted'']"

definition parseErrorCode :: "string \<Rightarrow> string option" where
  "parseErrorCode = fold_lookup
     [''ConnectorLockFailure'', ''EVCommunicationError'', ''GroundFailure'', ''HighTemperature'',
      ''InternalError'', ''LocalListConflict'', ''NoError'', ''OtherError'', ''OverCurrentFailure'',
      ''OverVoltage'', ''PowerMeterFailure'', ''PowerSwitchFailure'', ''ReaderFailure'',
      ''ResetFailure'', ''UnderVoltage'', ''WeakSignal'']"

definition parseStopReason :: "string \<Rightarrow> string option" where
  "parseStopReason = fold_lookup
     [''DeAuthorized'', ''EmergencyStop'', ''EVDisconnected'', ''HardReset'', ''Local'', ''Other'',
      ''PowerLoss'', ''Reboot'', ''Remote'', ''SoftReset'', ''UnlockCommand'']"

definition parseBoolPolicy :: "string \<Rightarrow> string \<Rightarrow> string \<Rightarrow> bool option" where
  "parseBoolPolicy v truthy falsy =
     (if EqualFold v truthy then Some True else if EqualFold v falsy then Some False else None)"

section \<open>Console commands\<close>

definition seconds_to_duration :: "float64 \<Rightarrow> duration" where
  "seconds_to_duration x = to_int64 (f_mul x (Fin 1000000000))"

definition executeTick :: "sim_world \<Rightarrow> string list \<Rightarrow> simulator \<Rightarrow> sim_result" where
  "executeTick w args s =
     (if length args < 2 \<or> length args > 3 then (Some (ErrNew ''usage: tick <seconds> [power-kW]''), s)
      else
        case ParseFloat (args ! 1) of
          None \<Rightarrow> (Some (ErrNew ''seconds must be greater than zero''), s)
        | Some seconds \<Rightarrow>
            if f_le seconds (Fin 0) then (Some (ErrNew ''seconds must be greater than zero''), s)
            else
              case (if length args = 3
                    then (case ParseFloat (args ! 2) of
                            None \<Rightarrow> None
                          | Some p \<Rightarrow> if f_lt p (Fin 0) then None else Some p)
                    else Some (sim_powerKW s)) of
                None \<Rightarrow> (Some (ErrNew ''power-kW must be zero or greater''), s)
              | Some pw \<Rightarrow>
                  sendMeter w (seconds_to_duration seconds)
                    (if f_eq pw (Fin 0) then f_round (72 / 10) else pw) s)"

definition executeAuto :: "string list \<Rightarrow> simulator \<Rightarrow> sim_result" where
  "executeAuto args s =
     (if length args = 2 \<and> EqualFold (args ! 1) ''off'' then (None, stopAuto s)
      else if length args \<noteq> 3
      then (Some (ErrNew ''usage: auto <seconds> <power-kW> | auto off''), s)
      else
        case ParseFloat (args ! 1) of
          None \<Rightarrow> (Some (ErrNew ''seconds must be greater than zero''), s)
        | Some seconds \<Rightarrow>
            if f_le seconds (Fin 0) then (Some (ErrNew ''seconds must be greater than zero''), s)
            else
              case ParseFloat (args ! 2) of
                None \<Rightarrow> (Some (ErrNew ''power-kW must be greater than zero''), s)
              | Some pw \<Rightarrow>
                  if f_le pw (Fin 0) then (Some (ErrNew ''power-kW must be greater than zero''), s)
                  else startAuto (seconds_to_duration seconds) pw s)"

definition executePolicy :: "string list \<Rightarrow> simulator \<Rightarrow> sim_result" where
  "executePolicy args s =
     (if length args \<noteq> 3
      then (Some (ErrNew ''usage: policy remote-start accept|reject | policy remote-stop accept|reject | policy auto-remote on|off''), s)
      else
        let key = ToLower (args ! 1) in
        if key = ''remote-start'' then
          (case parseBoolPolicy (args ! 2) ''accept'' ''reject'' of
             None \<Rightarrow> (Some (ErrNew ''remote-start policy must be accept or reject''), s)
           | Some v \<Rightarrow> (None, s\<lparr>sim_acceptStart := v\<rparr>))
        else if key = ''remote-stop'' then
          (case parseBoolPolicy (args ! 2) ''accept'' ''reject'' of
             None \<Rightarrow> (Some (ErrNew ''remote-stop policy must be accept or reject''), s)
           | Some v \<Rightarrow> (None, s\<lparr>sim_acceptStop := v\<rparr>))
        else if key = ''auto-remote'' then
          (case parseBoolPolicy (args ! 2) ''on'' ''off'' of
             None \<Rightarrow> (Some (ErrNew ''auto-remote policy must be on or off''), s)
           | Some v \<Rightarrow> (None, s\<lparr>sim_autoRemote := v\<rparr>))
        else (Some (ErrNew (''unknown policy '' @ Quote (args ! 1))), s))"

definition console_suspend :: "sim_world \<Rightarrow> string list \<Rightarrow> simulator \<Rightarrow> sim_result" where
  "console_suspend w args s =
     (if length args \<noteq> 2 then (Some (ErrNew ''usage: suspend ev|evse''), s)
      else if EqualFold (args ! 1) ''ev'' then requireTransactionStatus w ''SuspendedEV'' s
      else if EqualFold (args ! 1) ''evse'' then requireTransactionStatus w ''SuspendedEVSE'' s
      else (Some (ErrNew ''usage: suspend ev|evse''), s))"

definition console_stop :: "sim_world \<Rightarrow> string list \<Rightarrow> simulator \<Rightarrow> sim_result" where
  "console_stop w args s =
     (if length args > 2 then (Some (ErrNew ''usage: stop [reason]''), s)
      else if length args = 2 then
        (case parseStopReason (args ! 1) of
           None \<Rightarrow> (Some (ErrNew (''invalid stop reason '' @ Quote (args ! 1))), s)
         | Some reason \<Rightarrow> stopTransaction w reason s)
      else stopTransaction w ''Local'' s)"

definition console_fault :: "sim_world \<Rightarrow> string list \<Rightarrow> simulator \<Rightarrow> sim_result" where
  "console_fault w args s =
     (if length args \<noteq> 2 then (Some (ErrNew ''usage: fault <error-code>''), s)
      else
        case parseErrorCode (args ! 1) of
          None \<Rightarrow> (Some (ErrNew (''invalid fault code '' @ Quote (args ! 1))), s)
        | Some c \<Rightarrow>
            if c = ''NoError'' then (Some (ErrNew (''invalid fault code '' @ Quote (args ! 1))), s)
            else setStatus w ''Faulted'' c s)"

definition console_status :: "sim_world \<Rightarrow> string list \<Rightarrow> simulator \<Rightarrow> sim_result" where
  "console_status w args s =
     (if length args \<noteq> 2 then (Some (ErrNew ''usage: status <ocpp-status>''), s)
      else
        case parseStatus (args ! 1) of
          None \<Rightarrow> (Some (ErrNew (''invalid OCPP status '' @ Quote (args ! 1))), s)
        | Some status \<Rightarrow> setStatus w status ''NoError'' s)"

text \<open>One command: whether the console quits, and the error it prints.\<close>

definition execute :: "sim_world \<Rightarrow> string list \<Rightarrow> simulator \<Rightarrow> bool \<times> sim_result" where
  "execute w args s =
     (case args of
        [] \<Rightarrow> (False, None, s)
      | command # _ \<Rightarrow>
          let c = ToLower command in
          if c = ''help'' \<or> c = ''?'' \<or> c = ''state'' then (False, None, s)
          else if c = ''heartbeat'' then (False, heartbeat w s)
          else if c = ''plug'' then (False, plug w s)
          else if c = ''unplug'' then (False, unplug w s)
          else if c = ''authorize'' then
            (False, if length args \<noteq> 2 then (Some (ErrNew ''usage: authorize <id-tag>''), s)
                    else authorize w (args ! 1) s)
          else if c = ''start'' then
            (False, if length args \<noteq> 2 then (Some (ErrNew ''usage: start <id-tag>''), s)
                    else startTransaction w (args ! 1) False s)
          else if c = ''remote-start'' then (False, executePendingRemoteStart w s)
          else if c = ''tick'' then (False, executeTick w args s)
          else if c = ''meter'' then (False, sendMeter w 0 (sim_powerKW s) s)
          else if c = ''auto'' then (False, executeAuto args s)
          else if c = ''suspend'' then (False, console_suspend w args s)
          else if c = ''resume'' then (False, requireTransactionStatus w ''Charging'' s)
          else if c = ''stop'' then (False, console_stop w args s)
          else if c = ''remote-stop'' then (False, executePendingRemoteStop w s)
          else if c = ''finish'' then
            (False, if sim_transaction s \<noteq> 0
                    then (Some (ErrNew ''stop the active transaction before finish''), s)
                    else setStatus w ''Available'' ''NoError'' s)
          else if c = ''fault'' then (False, console_fault w args s)
          else if c = ''clear-fault'' then
            (False, setStatus w (if sim_plugged s then ''Preparing'' else ''Available'') ''NoError'' s)
          else if c = ''status'' then (False, console_status w args s)
          else if c = ''policy'' then (False, executePolicy args s)
          else if c = ''quit'' \<or> c = ''exit'' then (True, None, s)
          else (False, Some (ErrNew (''unknown command '' @ Quote command @ ''; type help'')), s))"

text \<open>The lines read until end of input, and the scanner's error there.\<close>

fun runConsole :: "sim_world \<Rightarrow> string list \<Rightarrow> go_error option \<Rightarrow> simulator \<Rightarrow> sim_result" where
  "runConsole w [] end_error s = (end_error, s)"
| "runConsole w (line # lines) end_error s =
     (let (quit, err, s1) = execute w (Fields line) s in
      if quit then (None, s1) else runConsole w lines end_error s1)"

section \<open>Requests of the central system\<close>

text \<open>Each handler gives the status it answers.  What it starts in the background is a job.\<close>

definition spawn :: "sim_job \<Rightarrow> simulator \<Rightarrow> simulator" where
  "spawn j s = s\<lparr>sim_jobs := sim_jobs s @ [j]\<rparr>"

definition OnChangeAvailability :: "int \<Rightarrow> string \<Rightarrow> simulator \<Rightarrow> string \<times> simulator" where
  "OnChangeAvailability connectorId kind s =
     (if connectorId \<noteq> 0 \<and> connectorId \<noteq> sim_connectorID s then (''Rejected'', s)
      else if kind = ''Inoperative'' \<and> sim_transaction s \<noteq> 0
      then (''Scheduled'', s\<lparr>sim_unavailableAfterStop := True\<rparr>)
      else
        (''Accepted'',
         spawn (Job_set_status (if kind = ''Inoperative'' then ''Unavailable'' else ''Available''))
           (s\<lparr>sim_unavailableAfterStop := (kind = ''Inoperative'')\<rparr>)))"

definition OnChangeConfiguration :: "string \<Rightarrow> string \<Rightarrow> simulator \<Rightarrow> string \<times> simulator" where
  "OnChangeConfiguration key v s =
     (''Accepted'', s\<lparr>sim_configuration := AList.update key v (sim_configuration s)\<rparr>)"

definition OnClearCache :: "simulator \<Rightarrow> string \<times> simulator" where
  "OnClearCache s = (''Accepted'', s)"

definition sim_OnDataTransfer :: "simulator \<Rightarrow> string \<times> simulator" where
  "sim_OnDataTransfer s = (''Accepted'', s)"

text \<open>\<open>order\<close> is the order in which the range loop meets the keys.\<close>

definition OnGetConfiguration ::
  "string list \<Rightarrow> string list \<Rightarrow> simulator \<Rightarrow> (string \<times> string) list \<times> string list" where
  "OnGetConfiguration order requested s =
     (let keys = (if requested = [] then map fst (range_order order (sim_configuration s)) else requested)
      in (List.map_filter (\<lambda>k. map_option (Pair k) (map_of (sim_configuration s) k)) keys,
          filter (\<lambda>k. map_of (sim_configuration s) k = None) keys))"

definition OnRemoteStartTransaction :: "remote_start_request \<Rightarrow> simulator \<Rightarrow> string \<times> simulator" where
  "OnRemoteStartTransaction request s =
     (let accepted = (sim_acceptStart s \<and> sim_transaction s = 0 \<and> sim_status s \<noteq> ''Faulted''
                      \<and> sim_status s \<noteq> ''Unavailable'');
          s1 = (if accepted then s\<lparr>sim_remoteStart := Some request\<rparr> else s)
      in (if accepted then ''Accepted'' else ''Rejected'',
          if accepted \<and> sim_autoRemote s then spawn Job_remote_start s1 else s1))"

definition OnRemoteStopTransaction :: "int \<Rightarrow> simulator \<Rightarrow> string \<times> simulator" where
  "OnRemoteStopTransaction transactionId s =
     (let accepted = (sim_acceptStop s \<and> sim_transaction s = transactionId);
          s1 = (if accepted then s\<lparr>sim_remoteStop := Some transactionId\<rparr> else s)
      in (if accepted then ''Accepted'' else ''Rejected'',
          if accepted \<and> sim_autoRemote s then spawn Job_remote_stop s1 else s1))"

definition OnReset :: "string \<Rightarrow> simulator \<Rightarrow> string \<times> simulator" where
  "OnReset kind s = (''Accepted'', spawn (Job_reset kind) s)"

definition OnUnlockConnector :: "int \<Rightarrow> simulator \<Rightarrow> string \<times> simulator" where
  "OnUnlockConnector connectorId s =
     (if connectorId \<noteq> sim_connectorID s then ''NotSupported'' else ''Unlocked'', s)"

text \<open>The answer is the name of the log file.\<close>

definition OnGetDiagnostics :: "simulator \<Rightarrow> string \<times> simulator" where
  "OnGetDiagnostics s = (sim_clientID s @ ''-diagnostics.log'', spawn Job_diagnostics s)"

definition OnUpdateFirmware :: "simulator \<Rightarrow> string \<times> simulator" where
  "OnUpdateFirmware s = ([], spawn Job_firmware s)"

definition OnTriggerMessage :: "string \<Rightarrow> simulator \<Rightarrow> string \<times> simulator" where
  "OnTriggerMessage requested s =
     (if requested \<in> {''BootNotification'', ''Heartbeat'', ''StatusNotification'', ''MeterValues''}
      then (''Accepted'', spawn (Job_trigger requested) s)
      else (''NotImplemented'', s))"

section \<open>Background jobs\<close>

definition run_reset :: "sim_world \<Rightarrow> string \<Rightarrow> simulator \<Rightarrow> sim_result" where
  "run_reset w kind s =
     (case (if sim_transaction s \<noteq> 0
            then stopTransaction w (if kind = ''Hard'' then ''HardReset'' else ''SoftReset'') s
            else (None, s)) of
        (Some err, s1) \<Rightarrow> (Some err, s1)
      | (None, s1) \<Rightarrow>
          (case boot w s1 of
             (Some err, s2) \<Rightarrow> (Some err, s2)
           | (None, s2) \<Rightarrow> (None, snd (setStatus w ''Available'' ''NoError'' s2))))"

definition run_trigger :: "sim_world \<Rightarrow> string \<Rightarrow> simulator \<Rightarrow> sim_result" where
  "run_trigger w requested s =
     (if requested = ''BootNotification'' then boot w s
      else if requested = ''Heartbeat'' then heartbeat w s
      else if requested = ''StatusNotification'' then setStatus w (sim_status s) (sim_errorCode s) s
      else if requested = ''MeterValues'' then sendMeter w 0 (sim_powerKW s) s
      else (None, s))"

fun send_all :: "sim_world \<Rightarrow> sim_msg list \<Rightarrow> simulator \<Rightarrow> simulator" where
  "send_all w [] s = s"
| "send_all w (m # ms) s = send_all w ms (send_out w m s)"

text \<open>
  What a job does; \<open>None\<close> is a panic.  The metering job is a loop that
  ends when its channel is closed or a sample fails; its entry here is one tick.  \<open>select\<close> may take a
  tick that was due before the channel closed, so \<open>sim_closed\<close> does not exclude one.  \<open>NewTicker\<close>
  panics when the interval is not positive.
\<close>

definition run_job :: "sim_world \<Rightarrow> sim_job \<Rightarrow> simulator \<Rightarrow> sim_result option" where
  "run_job w j s =
     (case j of
        Job_remote_start \<Rightarrow> Some (executePendingRemoteStart w s)
      | Job_remote_stop \<Rightarrow> Some (executePendingRemoteStop w s)
      | Job_set_status target \<Rightarrow> Some (None, snd (setStatus w target ''NoError'' s))
      | Job_reset kind \<Rightarrow> Some (run_reset w kind s)
      | Job_trigger requested \<Rightarrow> Some (run_trigger w requested s)
      | Job_diagnostics \<Rightarrow>
          Some (None, send_all w (map SentDiagnosticsStatus [''Uploading'', ''Uploaded'']) s)
      | Job_firmware \<Rightarrow>
          Some (None, send_all w (map SentFirmwareStatus
                            [''Downloading'', ''Downloaded'', ''Installing'', ''Installed'']) s)
      | Job_auto ch interval powerKW \<Rightarrow>
          if interval \<le> 0 then None else Some (sendMeter w interval powerKW s))"

section \<open>Start and end of the program\<close>

text \<open>\<open>start\<close> is the error of opening the connection, \<open>ready\<close> whether it was up within ten seconds.\<close>

definition connectAndBoot :: "sim_world \<Rightarrow> go_error option \<Rightarrow> bool \<Rightarrow> string \<Rightarrow> simulator \<Rightarrow> sim_result" where
  "connectAndBoot w start ready url s =
     (case start of
        Some err \<Rightarrow> (Some (ErrWrap (''connect '' @ sim_clientID s @ '' to '' @ url) err), s)
      | None \<Rightarrow>
          if \<not> ready
          then (Some (ErrNew ''charge point connection did not become ready within 10s''), s)
          else
            (case boot w s of
               (Some err, s1) \<Rightarrow> (Some err, s1)
             | (None, s1) \<Rightarrow> setStatus w ''Available'' ''NoError'' s1))"

definition sim_close :: "simulator \<Rightarrow> simulator" where
  "sim_close s = stopAuto s"

definition sim_envInt :: "environment \<Rightarrow> string \<Rightarrow> int \<Rightarrow> int" where
  "sim_envInt getenv key fallback =
     (case Atoi (env_str getenv key (FormatInt fallback)) of None \<Rightarrow> fallback | Some v \<Rightarrow> v)"

definition envFloat :: "environment \<Rightarrow> string \<Rightarrow> float64 \<Rightarrow> float64" where
  "envFloat getenv key fallback =
     (case ParseFloat (env_str getenv key (FormatFloat fallback)) of None \<Rightarrow> fallback | Some v \<Rightarrow> v)"

record sim_flags =
  fl_url :: string
  fl_id :: string
  fl_model :: string
  fl_vendor :: string
  fl_connector :: int
  fl_meterStart :: float64
  fl_voltage :: float64
  fl_soc :: float64

text \<open>The values of the flags when the command line sets none.\<close>

definition flag_defaults :: "environment \<Rightarrow> sim_flags" where
  "flag_defaults getenv =
     \<lparr>fl_url = env_str getenv ''CP_SIM_URL'' ''ws://127.0.0.1:18081'',
      fl_id = env_str getenv ''CP_SIM_ID'' ''CP-SIM-001'',
      fl_model = env_str getenv ''CP_SIM_MODEL'' ''TransEV-Simulator'',
      fl_vendor = env_str getenv ''CP_SIM_VENDOR'' ''TransEV'',
      fl_connector = sim_envInt getenv ''CP_SIM_CONNECTOR'' 1,
      fl_meterStart = envFloat getenv ''CP_SIM_METER_START_WH'' (Fin 100000),
      fl_voltage = envFloat getenv ''CP_SIM_VOLTAGE'' (Fin 230),
      fl_soc = envFloat getenv ''CP_SIM_SOC'' (Fin 35)\<rparr>"

definition flag_error :: "sim_flags \<Rightarrow> string option" where
  "flag_error fl =
     (if fl_connector fl < 1 \<or> f_lt (fl_meterStart fl) (Fin 0) \<or> f_le (fl_voltage fl) (Fin 0)
         \<or> f_lt (fl_soc fl) (Fin 0) \<or> f_lt (Fin 100) (fl_soc fl)
      then Some ''connector must be >= 1, meter/voltage must be valid, and SoC must be between 0 and 100''
      else if TrimSpace (fl_id fl) = [] \<or> TrimSpace (fl_model fl) = [] \<or> length (fl_model fl) > 20
         \<or> TrimSpace (fl_vendor fl) = [] \<or> length (fl_vendor fl) > 20
      then Some ''charger ID must be non-empty; OCPP model and vendor must contain 1 to 20 characters''
      else None)"

text \<open>The parts of a parsed URL that are read; \<open>url.Parse\<close> itself is the argument \<open>parse\<close>.\<close>

record url_parts =
  u_Scheme :: string
  u_Host :: string
  u_RawQuery :: string
  u_Fragment :: string

definition normalizeWebSocketURL :: "(string \<Rightarrow> url_parts option) \<Rightarrow> string \<Rightarrow> go_error + string" where
  "normalizeWebSocketURL parse raw =
     (let v = rev (dropWhile (\<lambda>c. c = CHR ''/'') (rev (TrimSpace raw)));
          bad = Inl (ErrNew (''OCPP URL must be an absolute ws:// or wss:// base URL: '' @ Quote v))
      in case parse v of
           None \<Rightarrow> bad
         | Some u \<Rightarrow>
             if u_Host u = [] \<or> (u_Scheme u \<noteq> ''ws'' \<and> u_Scheme u \<noteq> ''wss'') then bad
             else if u_RawQuery u \<noteq> [] \<or> u_Fragment u \<noteq> []
             then Inl (ErrNew ''OCPP base URL cannot contain a query string or fragment; the charger ID is appended as the final path segment'')
             else Inr v)"

text \<open>
  \<open>main\<close> once the flags are parsed.  An error ends the program through \<open>log.Fatal\<close>.
\<close>

definition sim_main ::
  "sim_world \<Rightarrow> (string \<Rightarrow> url_parts option) \<Rightarrow> go_error option \<Rightarrow> bool \<Rightarrow> string list \<Rightarrow> go_error option
   \<Rightarrow> sim_flags \<Rightarrow> go_error option \<times> simulator option" where
  "sim_main w parse start ready lines end_error fl =
     (case flag_error fl of
        Some m \<Rightarrow> (Some (ErrNew m), None)
      | None \<Rightarrow>
          (case normalizeWebSocketURL parse (fl_url fl) of
             Inl err \<Rightarrow> (Some err, None)
           | Inr url \<Rightarrow>
               let sim = newSimulator (fl_id fl) (fl_model fl) (fl_vendor fl) (fl_connector fl)
                           (fl_meterStart fl) (fl_voltage fl) (fl_soc fl) in
               (case connectAndBoot w start ready url sim of
                  (Some err, s1) \<Rightarrow> (Some err, Some s1)
                | (None, s1) \<Rightarrow>
                    (case runConsole w lines end_error s1 of
                       (Some err, s2) \<Rightarrow> (Some err, Some s2)
                     | (None, s2) \<Rightarrow> (None, Some (sim_close s2))))))"

end
