(* ===== verification/Simulator_Correct.thy ===== *)
theory Simulator_Correct
  imports Simulator
begin

text \<open>
  The transaction messages of the simulator.  \<open>follow\<close> is the conversation a central system
  expects, as an automaton over the messages; the invariant of every run is that the messages sent
  so far are such a conversation, and that the simulator's own state is where it has got to.

  The goroutines share the state under two locks.  \<open>quiet\<close> is what the other goroutines may do
  while one of them holds \<open>opsMu\<close>: anything but touch the transaction or send transaction messages.
  A run interleaves whole operations with quiet steps, and the operations that hold \<open>opsMu\<close> appear
  with arbitrary arguments too, since their callers read those before they wait for the lock.
\<close>

section \<open>The conversation\<close>

type_synonym session = "(int \<times> string) option"

fun session_msg :: "sim_msg \<Rightarrow> bool" where
  "session_msg (SentStart c tag meter conf) = True"
| "session_msg (SentStop meter tid tag reason err) = True"
| "session_msg (SentMeter c tid samples err) = True"
| "session_msg _ = False"

fun follow :: "int \<Rightarrow> session \<Rightarrow> sim_msg \<Rightarrow> session option" where
  "follow own x (SentStart c tag meter conf) =
     (if x \<noteq> None \<or> c \<noteq> own then None
      else case conf of
        Inr (Some (st, tid)) \<Rightarrow> Some (if st = ''Accepted'' \<and> tid > 0 then Some (tid, tag) else None)
      | _ \<Rightarrow> Some None)"
| "follow own x (SentMeter c tid samples err) =
     (if c = own \<and> map_option fst x = Some tid then Some x else None)"
| "follow own x (SentStop meter tid tag reason err) =
     (if x = Some (tid, tag) then Some (if err = None then None else x) else None)"
| "follow own x _ = Some x"

fun conversation :: "int \<Rightarrow> session \<Rightarrow> sim_msg list \<Rightarrow> session option" where
  "conversation own x [] = Some x"
| "conversation own x (m # ms) =
     (case follow own x m of None \<Rightarrow> None | Some y \<Rightarrow> conversation own y ms)"

lemma conversation_append:
  "conversation own x (ms @ ns) =
     (case conversation own x ms of None \<Rightarrow> None | Some y \<Rightarrow> conversation own y ns)"
  by (induction ms arbitrary: x) (auto split: option.splits)

lemma follow_other: "\<not> session_msg m \<Longrightarrow> follow own x m = Some x"
  by (cases m) simp_all

lemma conversation_other: "(\<forall>m\<in>set ms. \<not> session_msg m) \<Longrightarrow> conversation own x ms = Some x"
  by (induction ms) (simp_all add: follow_other)

section \<open>The invariant and the steps that keep it silently\<close>

definition session_of :: "simulator \<Rightarrow> session" where
  "session_of s = (if sim_transaction s = 0 then None else Some (sim_transaction s, sim_idTag s))"

definition in_step :: "int \<Rightarrow> simulator \<Rightarrow> bool" where
  "in_step own s \<longleftrightarrow> sim_connectorID s = own \<and> 0 \<le> sim_transaction s
     \<and> conversation own None (sim_log s) = Some (session_of s)"

definition quiet :: "simulator \<Rightarrow> simulator \<Rightarrow> bool" where
  "quiet s s' \<longleftrightarrow>
     sim_connectorID s' = sim_connectorID s \<and> sim_transaction s' = sim_transaction s
     \<and> sim_idTag s' = sim_idTag s
     \<and> (\<exists>ms. sim_log s' = sim_log s @ ms \<and> (\<forall>m\<in>set ms. \<not> session_msg m))"

definition others_quiet :: "sim_world \<Rightarrow> bool" where
  "others_quiet w \<longleftrightarrow> (\<forall>n s. quiet s (sw_others w n s))"

lemma quietI:
  "sim_connectorID s' = sim_connectorID s \<Longrightarrow> sim_transaction s' = sim_transaction s
   \<Longrightarrow> sim_idTag s' = sim_idTag s \<Longrightarrow> sim_log s' = sim_log s \<Longrightarrow> quiet s s'"
  by (simp add: quiet_def)

lemma quiet_refl [simp]: "quiet s s"
  by (simp add: quiet_def)

lemma quiet_trans: "quiet s t \<Longrightarrow> quiet t u \<Longrightarrow> quiet s u"
  unfolding quiet_def by (auto simp: ball_Un)

lemma quiet_session: "quiet s t \<Longrightarrow> session_of t = session_of s"
  by (simp add: quiet_def session_of_def)

lemma quiet_in_step: "quiet s t \<Longrightarrow> in_step own s \<Longrightarrow> in_step own t"
  by (auto simp: quiet_def in_step_def session_of_def conversation_append conversation_other)

lemma send_out_quiet:
  assumes "others_quiet w" and "\<not> session_msg m"
  shows "quiet s (send_out w m s)"
proof -
  have "quiet s (s\<lparr>sim_log := sim_log s @ [m]\<rparr>)" using assms(2) by (simp add: quiet_def)
  then show ?thesis using assms(1) quiet_trans unfolding others_quiet_def send_out_def by blast
qed

text \<open>A field that no session depends on may be written at will.\<close>

lemma quiet_fields [simp]:
  "quiet s (t\<lparr>sim_booted := b\<rparr>) = quiet s t" "quiet s (t\<lparr>sim_status := st\<rparr>) = quiet s t"
  "quiet s (t\<lparr>sim_errorCode := ec\<rparr>) = quiet s t" "quiet s (t\<lparr>sim_plugged := b\<rparr>) = quiet s t"
  "quiet s (t\<lparr>sim_meterWh := x\<rparr>) = quiet s t" "quiet s (t\<lparr>sim_powerKW := x\<rparr>) = quiet s t"
  "quiet s (t\<lparr>sim_soc := x\<rparr>) = quiet s t" "quiet s (t\<lparr>sim_remoteStart := r\<rparr>) = quiet s t"
  "quiet s (t\<lparr>sim_remoteStop := r'\<rparr>) = quiet s t" "quiet s (t\<lparr>sim_acceptStart := b\<rparr>) = quiet s t"
  "quiet s (t\<lparr>sim_acceptStop := b\<rparr>) = quiet s t" "quiet s (t\<lparr>sim_autoRemote := b\<rparr>) = quiet s t"
  "quiet s (t\<lparr>sim_unavailableAfterStop := b\<rparr>) = quiet s t" "quiet s (t\<lparr>sim_autoCancel := c\<rparr>) = quiet s t"
  "quiet s (t\<lparr>sim_configuration := cf\<rparr>) = quiet s t" "quiet s (t\<lparr>sim_channels := n\<rparr>) = quiet s t"
  "quiet s (t\<lparr>sim_closed := ch\<rparr>) = quiet s t" "quiet s (t\<lparr>sim_jobs := js\<rparr>) = quiet s t"
  by (simp_all add: quiet_def)

lemma stopAuto_quiet [simp]: "quiet s (stopAuto s)"
  by (simp add: stopAuto_def split: option.split)

lemma spawn_quiet [simp]: "quiet s (spawn j t) = quiet s t"
  by (simp add: spawn_def)

lemma setStatus_quiet:
  assumes "others_quiet w" shows "quiet s (snd (setStatus w st ec s))"
  by (simp add: setStatus_def Let_def send_out_quiet [OF assms] split: option.split)

lemma boot_quiet:
  assumes "others_quiet w" shows "quiet s (snd (boot w s))"
  by (simp add: boot_def Let_def send_out_quiet [OF assms] split: option.split sum.split)

lemma heartbeat_quiet:
  assumes "others_quiet w" shows "quiet s (snd (heartbeat w s))"
  by (simp add: heartbeat_def Let_def send_out_quiet [OF assms])

lemma authorize_quiet:
  assumes "others_quiet w" shows "quiet s (snd (authorize w tag s))"
  by (simp add: authorize_def Let_def send_out_quiet [OF assms] split: sum.split)

lemma setStatus_after:
  assumes "others_quiet w" and "quiet s t" shows "quiet s (snd (setStatus w st ec t))"
  using quiet_trans [OF assms(2) setStatus_quiet [OF assms(1)]] .

lemmas silent = setStatus_quiet boot_quiet heartbeat_quiet authorize_quiet setStatus_after

lemma requireTransactionStatus_quiet:
  assumes "others_quiet w" shows "quiet s (snd (requireTransactionStatus w st s))"
  by (simp add: requireTransactionStatus_def silent [OF assms])

lemma plug_quiet:
  assumes "others_quiet w" shows "quiet s (snd (plug w s))"
  by (simp add: plug_def silent [OF assms])

lemma unplug_quiet:
  assumes "others_quiet w" shows "quiet s (snd (unplug w s))"
  by (simp add: unplug_def silent [OF assms])

lemma startAuto_quiet: "quiet s (snd (startAuto interval p s))"
  by (simp add: startAuto_def Let_def)

lemma send_all_quiet:
  assumes "others_quiet w"
  shows "(\<forall>m\<in>set ms. \<not> session_msg m) \<Longrightarrow> quiet s (send_all w ms s)"
proof (induction ms arbitrary: s)
  case (Cons m ms)
  then show ?case using quiet_trans [OF send_out_quiet [OF assms] Cons.IH] by simp
qed simp

section \<open>The three operations that hold the lock\<close>

lemma send_out_session:
  assumes "others_quiet w"
  shows "\<exists>ms. (\<forall>m\<in>set ms. \<not> session_msg m) \<and> sim_log (send_out w m s) = sim_log s @ m # ms"
    and "sim_connectorID (send_out w m s) = sim_connectorID s"
    and "sim_transaction (send_out w m s) = sim_transaction s"
    and "sim_idTag (send_out w m s) = sim_idTag s"
proof -
  have "quiet (s\<lparr>sim_log := sim_log s @ [m]\<rparr>) (send_out w m s)"
    using assms by (simp add: others_quiet_def send_out_def)
  then show "\<exists>ms. (\<forall>m\<in>set ms. \<not> session_msg m) \<and> sim_log (send_out w m s) = sim_log s @ m # ms"
    and "sim_connectorID (send_out w m s) = sim_connectorID s"
    and "sim_transaction (send_out w m s) = sim_transaction s"
    and "sim_idTag (send_out w m s) = sim_idTag s"
    by (auto simp: quiet_def)
qed

text \<open>
  The state after a message whose answer has been taken in: the automaton follows the message to
  the session that the state now holds.
\<close>

lemma in_step_message:
  assumes w: "others_quiet w" and "in_step own s"
    and "follow (sim_connectorID s) (session_of s) m = Some (session_of t)"
    and "sim_log t = sim_log (send_out w m s)" and "sim_connectorID t = sim_connectorID s"
    and "0 \<le> sim_transaction t"
  shows "in_step own t"
  using assms send_out_session(1) [OF w, of m s]
  by (auto simp: in_step_def conversation_append conversation_other)

lemma send_start_in_step:
  assumes w: "others_quiet w" and "in_step own s" and "sim_transaction s = 0"
  shows "in_step own (snd (send_start w tag meter s))"
proof -
  note sent = send_out_session(2-4) [OF w]
  have none: "session_of s = None" using assms(3) by (simp add: session_of_def)
  show ?thesis
  proof (cases "sw_start w (next_msg s)")
    case (Inl err)
    then show ?thesis using assms none
      by (simp add: send_start_def Let_def)
         (rule in_step_message [OF w assms(2)], auto simp: sent session_of_def)
  next
    case (Inr conf)
    show ?thesis
    proof (cases "\<exists>tid. conf = Some (''Accepted'', tid) \<and> tid > 0")
      case True
      then obtain tid where tid: "conf = Some (''Accepted'', tid)" "tid > 0" by blast
      let ?m = "SentStart (sim_connectorID s) tag (to_int64 meter) (Inr conf)"
      let ?t = "send_out w ?m s\<lparr>sim_transaction := tid, sim_idTag := tag, sim_remoteStart := None\<rparr>"
      have "in_step own ?t"
        using tid by (intro in_step_message [OF w assms(2), where m = ?m])
          (auto simp: none sent, simp add: session_of_def)
      then show ?thesis using Inr tid quiet_in_step [OF setStatus_quiet [OF w]]
        by (simp add: send_start_def Let_def)
    next
      case False
      let ?m = "SentStart (sim_connectorID s) tag (to_int64 meter) (Inr conf)"
      have "in_step own (send_out w ?m s)"
        using False assms(3) by (intro in_step_message [OF w assms(2), where m = ?m])
          (auto simp: none sent session_of_def split: option.splits)
      moreover have "snd (send_start w tag meter s) = send_out w ?m s"
        using Inr False by (auto simp: send_start_def Let_def split: option.splits)
      ultimately show ?thesis by simp
    qed
  qed
qed

lemma quiet_transaction: "quiet s t \<Longrightarrow> sim_transaction t = sim_transaction s"
  by (simp add: quiet_def)

lemma startTransaction_in_step:
  assumes w: "others_quiet w" and s: "in_step own s"
  shows "in_step own (snd (startTransaction w tag remote s))"
proof -
  obtain e1 s1 where first: "(if remote then (None, s) else authorize w tag s) = (e1, s1)" by fastforce
  then have q1: "quiet s s1" using authorize_quiet [OF w, of s tag] by (auto split: if_splits)
  obtain e2 s2 where second: "setStatus w ''Preparing'' ''NoError'' (s1\<lparr>sim_plugged := True\<rparr>) = (e2, s2)" by fastforce
  have q2: "quiet s s2" using setStatus_after [OF w, of s "s1\<lparr>sim_plugged := True\<rparr>" "''Preparing''" "''NoError''"] q1 second
    by simp
  have start: "in_step own (snd (send_start w tag m t))" if "quiet s t" "sim_transaction s = 0" for m t
    using send_start_in_step [OF w quiet_in_step [OF that(1) s]] that by (simp add: quiet_transaction)
  show ?thesis
    using s first second start [OF q1] start [OF q2] quiet_in_step [OF q1 s] quiet_in_step [OF q2 s]
    by (simp add: startTransaction_def Let_def split: option.split)
qed

lemma sendMeter_in_step:
  assumes w: "others_quiet w" and s: "in_step own s"
  shows "in_step own (snd (sendMeter w elapsed p s))"
proof -
  have "in_step own (send_out w (SentMeter (sim_connectorID s) (sim_transaction s) samples err)
                   (s\<lparr>sim_meterWh := x, sim_powerKW := p, sim_soc := y\<rparr>))" (is "in_step own (send_out w ?m ?s)")
    if "sim_transaction s \<noteq> 0" for samples err x y
  proof -
    have "quiet s ?s" by simp
    then have i: "in_step own ?s" using s by (rule quiet_in_step)
    have "0 \<le> sim_transaction s" using s by (simp add: in_step_def)
    then show ?thesis using that
      by (intro in_step_message [OF w i, where m = ?m])
        (simp_all add: send_out_session(2-4) [OF w] session_of_def)
  qed
  then show ?thesis using s by (simp add: sendMeter_def Let_def)
qed

lemma stopTransaction_in_step:
  assumes w: "others_quiet w" and s0: "in_step own s0"
  shows "in_step own (snd (stopTransaction w reason s0))"
proof -
  define s where "s = stopAuto s0"
  have s: "in_step own s" unfolding s_def by (rule quiet_in_step [OF stopAuto_quiet s0])
  have nonneg: "0 \<le> sim_transaction s" using s by (simp add: in_step_def)
  define m where "m = (\<lambda>err. SentStop (to_int64 (sim_meterWh s)) (sim_transaction s) (sim_idTag s) reason err)"
  have refused: "in_step own (send_out w (m (Some e)) s)" if "sim_transaction s \<noteq> 0" for e
    using that nonneg by (intro in_step_message [OF w s, where m = "m (Some e)"])
      (simp_all add: m_def send_out_session(2-4) [OF w] session_of_def)
  let ?t = "send_out w (m None) s\<lparr>sim_transaction := 0, sim_idTag := [], sim_powerKW := Fin 0, sim_remoteStop := None\<rparr>"
  have stopped: "in_step own ?t" if "sim_transaction s \<noteq> 0"
    using that by (intro in_step_message [OF w s, where m = "m None"])
      (simp_all add: m_def send_out_session(2-4) [OF w] session_of_def)
  show ?thesis
    using s refused quiet_in_step [OF setStatus_quiet [OF w] stopped]
    by (simp add: stopTransaction_def Let_def s_def [symmetric] m_def split: option.split)
qed

lemma pending_in_step:
  assumes "others_quiet w" and "in_step own s"
  shows "in_step own (snd (executePendingRemoteStart w s))" and "in_step own (snd (executePendingRemoteStop w s))"
  using assms startTransaction_in_step stopTransaction_in_step
  by (simp_all add: executePendingRemoteStart_def executePendingRemoteStop_def split: option.split)

section \<open>Commands, requests and jobs\<close>

lemma executeTick_in_step:
  assumes "others_quiet w" and "in_step own s"
  shows "in_step own (snd (executeTick w args s))"
  using assms sendMeter_in_step [OF assms]
  by (simp add: executeTick_def del: One_nat_def split: option.split)

lemma executeAuto_quiet: "quiet s (snd (executeAuto args s))"
  by (simp add: executeAuto_def startAuto_quiet split: option.split)

lemma executePolicy_quiet: "quiet s (snd (executePolicy args s))"
  by (simp add: executePolicy_def Let_def split: option.split)

lemma console_quiet:
  assumes "others_quiet w"
  shows "quiet s (snd (console_suspend w args s))" "quiet s (snd (console_fault w args s))"
    "quiet s (snd (console_status w args s))"
  by (simp_all add: console_suspend_def console_fault_def console_status_def
      requireTransactionStatus_quiet [OF assms] silent [OF assms] split: option.split)

lemma console_stop_in_step:
  assumes "others_quiet w" and "in_step own s"
  shows "in_step own (snd (console_stop w args s))"
  using assms stopTransaction_in_step [OF assms] by (simp add: console_stop_def split: option.split)

lemma execute_in_step:
  assumes w: "others_quiet w" and s: "in_step own s"
  shows "in_step own (snd (snd (execute w args s)))"
proof (cases args)
  case Nil
  then show ?thesis using s by (simp add: execute_def)
next
  case (Cons command rest)
  note quiet_facts = silent(1-4) [OF w] plug_quiet [OF w] unplug_quiet [OF w] executeAuto_quiet executePolicy_quiet
    console_quiet [OF w] requireTransactionStatus_quiet [OF w]
  note kept = quiet_facts [THEN quiet_in_step, OF s]
  show ?thesis
    by (simp add: execute_def Cons Let_def s kept startTransaction_in_step [OF w s]
        pending_in_step [OF w s] executeTick_in_step [OF w s] sendMeter_in_step [OF w s] console_stop_in_step [OF w s])
qed

lemma runConsole_in_step:
  assumes "others_quiet w"
  shows "in_step own s \<Longrightarrow> in_step own (snd (runConsole w lines e s))"
  by (induction lines arbitrary: s)
     (simp_all add: Let_def split_beta execute_in_step [OF assms])

lemma handler_quiet:
  "quiet s (snd (OnChangeAvailability c kind s))" "quiet s (snd (OnChangeConfiguration k v s))"
  "quiet s (snd (OnClearCache s))" "quiet s (snd (sim_OnDataTransfer s))"
  "quiet s (snd (OnRemoteStartTransaction r s))" "quiet s (snd (OnRemoteStopTransaction tid s))"
  "quiet s (snd (OnReset kind s))" "quiet s (snd (OnUnlockConnector c s))"
  "quiet s (snd (OnGetDiagnostics s))" "quiet s (snd (OnUpdateFirmware s))"
  "quiet s (snd (OnTriggerMessage requested s))"
  by (simp_all add: OnChangeAvailability_def OnChangeConfiguration_def OnClearCache_def
      sim_OnDataTransfer_def OnRemoteStartTransaction_def OnRemoteStopTransaction_def OnReset_def
      OnUnlockConnector_def OnGetDiagnostics_def OnUpdateFirmware_def OnTriggerMessage_def Let_def)

lemma run_reset_in_step:
  assumes w: "others_quiet w" and s: "in_step own s"
  shows "in_step own (snd (run_reset w kind s))"
proof -
  obtain e1 s1 where first: "(if sim_transaction s \<noteq> 0
      then stopTransaction w (if kind = ''Hard'' then ''HardReset'' else ''SoftReset'') s else (None, s)) = (e1, s1)"
    by fastforce
  have s1: "in_step own s1"
    using s first stopTransaction_in_step [OF w s, of "if kind = ''Hard'' then ''HardReset'' else ''SoftReset''"]
    by (cases "sim_transaction s = 0") simp_all
  obtain e2 s2 where second: "boot w s1 = (e2, s2)" by fastforce
  have s2: "in_step own s2" using quiet_in_step [OF boot_quiet [OF w] s1] second by simp
  show ?thesis
    unfolding run_reset_def first using second s1 s2 quiet_in_step [OF setStatus_quiet [OF w] s2]
    by (simp split: option.split)
qed

lemma run_job_in_step:
  assumes w: "others_quiet w" and s: "in_step own s" and run: "run_job w j s = Some r"
  shows "in_step own (snd r)"
proof -
  note kept = silent(1-3) [OF w, THEN quiet_in_step, OF s]
  have trigger: "in_step own (snd (run_trigger w requested s))" for requested
    by (simp add: run_trigger_def kept sendMeter_in_step [OF w s] s)
  have "in_step own (send_all w ms s)" if "\<forall>m\<in>set ms. \<not> session_msg m" for ms
    using quiet_in_step [OF send_all_quiet [OF w that] s] .
  then show ?thesis
    using run kept trigger pending_in_step [OF w s] run_reset_in_step [OF w s] sendMeter_in_step [OF w s]
    by (cases j) (auto simp: run_job_def simp del: send_all.simps split: if_splits)
qed

section \<open>Runs of the simulator\<close>

inductive sim_step :: "sim_world \<Rightarrow> simulator \<Rightarrow> simulator \<Rightarrow> bool" for w where
  Elsewhere: "quiet s s' \<Longrightarrow> sim_step w s s'"
| Connect: "sim_step w s (snd (connectAndBoot w start ready url s))"
| Console: "sim_step w s (snd (snd (execute w args s)))"
| Availability: "sim_step w s (snd (OnChangeAvailability c kind s))"
| Configuration: "sim_step w s (snd (OnChangeConfiguration k v s))"
| Cache: "sim_step w s (snd (OnClearCache s))"
| Data: "sim_step w s (snd (sim_OnDataTransfer s))"
| Remote_start: "sim_step w s (snd (OnRemoteStartTransaction r s))"
| Remote_stop: "sim_step w s (snd (OnRemoteStopTransaction tid s))"
| Reset: "sim_step w s (snd (OnReset kind s))"
| Unlock: "sim_step w s (snd (OnUnlockConnector c s))"
| Diagnostics: "sim_step w s (snd (OnGetDiagnostics s))"
| Firmware: "sim_step w s (snd (OnUpdateFirmware s))"
| Trigger: "sim_step w s (snd (OnTriggerMessage requested s))"
| Job: "j \<in> set (sim_jobs s) \<Longrightarrow> run_job w j s = Some r \<Longrightarrow> sim_step w s (snd r)"
| Start: "sim_step w s (snd (startTransaction w tag remote s))"
| Meter: "sim_step w s (snd (sendMeter w elapsed p s))"
| Stop: "sim_step w s (snd (stopTransaction w reason s))"
| Close: "sim_step w s (sim_close s)"

definition sim_run :: "sim_world \<Rightarrow> simulator \<Rightarrow> simulator \<Rightarrow> bool" where
  "sim_run w = (sim_step w)\<^sup>*\<^sup>*"

lemma connectAndBoot_quiet:
  assumes w: "others_quiet w"
  shows "quiet s (snd (connectAndBoot w start ready url s))"
proof -
  obtain e s1 where b: "boot w s = (e, s1)" by fastforce
  then have "quiet s s1" using boot_quiet [OF w, of s] by simp
  then show ?thesis
    unfolding connectAndBoot_def b using setStatus_after [OF w] by (simp split: option.split)
qed

lemma sim_step_in_step:
  assumes w: "others_quiet w"
  shows "sim_step w s s' \<Longrightarrow> in_step own s \<Longrightarrow> in_step own s'"
proof (induction rule: sim_step.induct)
  case (Job j s r)
  then show ?case using run_job_in_step [OF w] by blast
next
  case (Close s)
  then show ?case unfolding sim_close_def by (rule quiet_in_step [OF stopAuto_quiet])
qed (simp_all add: execute_in_step [OF w] startTransaction_in_step [OF w] sendMeter_in_step [OF w]
      stopTransaction_in_step [OF w] handler_quiet [THEN quiet_in_step]
      quiet_in_step quiet_in_step [OF connectAndBoot_quiet [OF w]])

lemma newSimulator_in_step: "in_step c (newSimulator cid model vendor c m v soc)"
  by (simp add: in_step_def newSimulator_def session_of_def)

text \<open>
  C40. For every interleaving of console commands, requests of the central system and background
  jobs, whatever the central system answers and whatever errors occur, the simulator's transaction
  messages form a proper conversation: StartTransaction is sent only when no transaction is open,
  MeterValues and StopTransaction carry the id that the last accepted StartTransaction gave (and
  StopTransaction its id tag), and the state agrees with the conversation at every moment, so a
  stop that the central system did not answer leaves the transaction open on both sides.
\<close>

theorem simulator_keeps_the_conversation:
  assumes "others_quiet w"
    and "sim_run w (newSimulator cid model vendor c m v soc) s"
  shows "conversation c None (sim_log s) =
           Some (if sim_transaction s = 0 then None else Some (sim_transaction s, sim_idTag s))"
proof -
  have "(sim_step w)\<^sup>*\<^sup>* (newSimulator cid model vendor c m v soc) s"
    using assms(2) by (simp add: sim_run_def)
  then have "in_step c s"
    by (induction rule: rtranclp_induct)
       (use newSimulator_in_step sim_step_in_step [OF assms(1)] in blast)+
  then show ?thesis by (simp add: in_step_def session_of_def)
qed

text \<open>A session in which the first StopTransaction gets no answer.\<close>

definition friendly :: sim_world where
  "friendly =
     \<lparr>sw_boot = (\<lambda>_. Inr (Some ''Accepted'')), sw_heartbeat = (\<lambda>_. None),
      sw_authorize = (\<lambda>_. Inr ''Accepted''), sw_start = (\<lambda>_. Inr (Some (''Accepted'', 77))),
      sw_plain = (\<lambda>n. if n = 6 then Some (ErrNew ''timeout'') else None), sw_others = (\<lambda>_ s. s)\<rparr>"

definition console_start :: simulator where
  "console_start = newSimulator ''CP'' ''m'' ''v'' 1 (Fin 1000) (Fin 230) (Fin 35)"

definition console_stopped :: simulator where
  "console_stopped =
     snd (stopTransaction friendly ''Local'' (snd (startTransaction friendly ''TAG'' False
       (snd (connectAndBoot friendly None True ''ws://h'' console_start)))))"

lemma console_run: "sim_run friendly console_start console_stopped"
  unfolding sim_run_def console_stopped_def
  by (meson Connect Start Stop rtranclp.rtrancl_into_rtrancl rtranclp.rtrancl_refl)

lemma friendly_quiet: "others_quiet friendly"
  by (simp add: others_quiet_def friendly_def)

lemma console_open: "sim_transaction console_stopped = 77 \<and> sim_idTag console_stopped = ''TAG''"
  by code_simp

theorem simulator_keeps_the_conversation_witness:
  "conversation 1 None (sim_log console_stopped) = Some (Some (77, ''TAG''))"
  using simulator_keeps_the_conversation [OF friendly_quiet console_run [unfolded console_start_def]]
  by (simp add: console_open)

end
