(* ===== verification/Mock_Hooks.thy ===== *)
theory Mock_Hooks
  imports Charger_Directory Http_Json
begin

text \<open>
  The mock of the callback and charger-list services (\<open>cmd/mockhooks/main.go\<close>), as a function from
  a request's path and method to the response, with the environment it reads on each request.  Its
  log lines are left out.  The lemmas connect it to the clients of those services: the directory
  reads back the identities the mock is configured with.
\<close>

definition mock_env :: "environment \<Rightarrow> string \<Rightarrow> string \<Rightarrow> string" where
  "mock_env getenv key fallback = (let v = getenv key in if v = [] then fallback else v)"

definition mock_envFloat :: "environment \<Rightarrow> string \<Rightarrow> float64 \<Rightarrow> float64" where
  "mock_envFloat getenv key fallback =
     (let v = getenv key in
      if v = [] then fallback else case ParseFloat v of None \<Rightarrow> fallback | Some f \<Rightarrow> f)"

fun split_at_commas :: "string \<Rightarrow> string \<Rightarrow> string list" where
  "split_at_commas part [] = [rev part]"
| "split_at_commas part (c # s) =
     (if c = CHR '','' then rev part # split_at_commas [] s else split_at_commas (c # part) s)"

definition envCSV :: "environment \<Rightarrow> string \<Rightarrow> string list \<Rightarrow> string list" where
  "envCSV getenv key fallback =
     (let v = getenv key in
      if v = [] then fallback
      else
        let out = filter (\<lambda>p. p \<noteq> []) (map TrimSpace (split_at_commas [] v))
        in if out = [] then fallback else out)"

definition mock_health :: "time \<Rightarrow> http_response" where
  "mock_health now = writeJSON 200 (GMap [(''status'', GStr ''ok''), (''time'', GTime now)])"

definition mock_default_ids :: "string list" where
  "mock_default_ids =
     [''CP-SINGLE-001'', ''CP-LIMIT-AUTO-001'', ''CP-LIMIT-002'', ''CP-HOOKS-002'', ''CP-ANALYTICS-001'']"

definition mock_chargers :: "environment \<Rightarrow> http_response" where
  "mock_chargers getenv =
     writeJSON 200 (GMap [(''data'',
       GList (map (\<lambda>i. GMap [(''uid'', GStr i)]) (envCSV getenv ''MOCK_CHARGER_IDS'' mock_default_ids)))])"

definition registerStartHook :: "environment \<Rightarrow> string \<Rightarrow> http_response" where
  "registerStartHook getenv verb =
     (if verb \<noteq> ''POST'' then writeHeader 405
      else writeJSON 200 (GMap [(''max_kwh'', GFloat (mock_envFloat getenv ''MOCK_START_MAX_KWH'' (Fin (15 / 2))))]))"

definition registerCompletedHook :: "string \<Rightarrow> http_response" where
  "registerCompletedHook verb =
     (if verb \<noteq> ''POST'' then writeHeader 405 else writeJSON 200 (GMap [(''status'', GStr ''ok'')]))"

definition mock_routes :: "environment \<Rightarrow> time \<Rightarrow> string \<Rightarrow> string \<Rightarrow> http_response" where
  "mock_routes getenv now path verb =
     (if path = ''/health'' then mock_health now
      else if path = ''/chargers'' then mock_chargers getenv
      else if path = ''/users/checkstartresponse'' \<or> path = ''/single/checkstartresponse''
      then registerStartHook getenv verb
      else if path = ''/users/deductcalculate'' \<or> path = ''/single/deductcalculate''
      then registerCompletedHook verb
      else writeHeader 404)"

section \<open>The identities the directory reads from the mock\<close>

text \<open>What a client decodes from a written value without numbers or times.\<close>

fun written :: "gov \<Rightarrow> json" where
  "written (GStr s) = JStr s"
| "written (GList xs) = JArr (map written xs)"
| "written (GMap kvs) = JObj (map (\<lambda>kv. (fst kv, written (snd kv))) kvs)"
| "written (GBool b) = JBool b"
| "written _ = JNull"

lemma extract_uids:
  assumes "\<forall>i\<in>set ids. TrimSpace i = i \<and> i \<noteq> []"
  shows "extractIDs (JArr (map (\<lambda>i. JObj [(''uid'', JStr i)]) ids)) = ids"
proof -
  have "Sprint (JStr i) = i" for i by (simp add: Sprint_def)
  then show ?thesis using assms
    by (induction ids) (simp_all add: uid_of_def Let_def walk_keys_def)
qed

lemma envCSV_clean:
  assumes "\<forall>i\<in>set fallback. TrimSpace i = i \<and> i \<noteq> []"
  shows "\<forall>i\<in>set (envCSV getenv key fallback). TrimSpace i = i \<and> i \<noteq> []"
  using assms by (auto simp: envCSV_def Let_def TrimSpace_idem)

lemma default_ids_clean: "\<forall>i\<in>set mock_default_ids. TrimSpace i = i \<and> i \<noteq> []"
  by code_simp

theorem directory_reads_the_mock:
  "\<exists>b. hr_body (mock_routes getenv now ''/chargers'' verb) = Some b
     \<and> extractIDs (written b) = envCSV getenv ''MOCK_CHARGER_IDS'' mock_default_ids"
proof -
  let ?ids = "envCSV getenv ''MOCK_CHARGER_IDS'' mock_default_ids"
  have "encodable (GList (map (\<lambda>i. GMap [(''uid'', GStr i)]) ?ids))" by (simp add: list_all_iff)
  moreover have "extractIDs (JArr (map (\<lambda>i. JObj [(''uid'', JStr i)]) ?ids)) = ?ids"
    by (rule extract_uids [OF envCSV_clean [OF default_ids_clean]])
  ultimately show ?thesis
    by (simp add: mock_routes_def mock_chargers_def writeJSON_def uid_of_def walk_keys_def o_def)
qed

text \<open>A start callback to the mock gets a finite limit, or a body that the manager cannot decode.\<close>

lemma mock_limit_finite:
  "hr_body (registerStartHook getenv ''POST'') = Some (GMap [(''max_kwh'', GFloat f)]) \<Longrightarrow> f_finite f"
  by (auto simp: registerStartHook_def writeJSON_def split: if_splits)

end
