(* ===== verification/Smoke_Tests.thy ===== *)
theory Smoke_Tests
  imports Mock_Hooks
begin

text \<open>
  The scripted test clients \<open>cmd/cpsmoke\<close>, \<open>cmd/cplimitsmoke\<close> and \<open>cmd/cpsinglesmoke\<close>.  Each plays a
  charger and a user of the REST API through one session and ends at the first failure
  (\<open>log.Fatalf\<close>).  The three share their session, so it is one function with the calls that differ as
  arguments.  The answers of the server are in \<open>smoke_world\<close>: to the \<open>n\<close>-th call, and the remote
  requests that reach the charger before the wait for them times out.  Printing is left out.
\<close>

section \<open>The charger's side\<close>

record smoke_handler =
  sh_remoteStartCh :: "(int option \<times> string) list"
  sh_remoteStopCh :: "int list"

definition newSmokeHandler :: smoke_handler where
  "newSmokeHandler = \<lparr>sh_remoteStartCh = [], sh_remoteStopCh = []\<rparr>"

text \<open>A send that is dropped when the channel, of capacity one, is full.\<close>

definition offer :: "'a \<Rightarrow> 'a list \<Rightarrow> 'a list" where
  "offer x ch = (if length ch < 1 then ch @ [x] else ch)"

definition smoke_OnRemoteStart :: "int option \<times> string \<Rightarrow> smoke_handler \<Rightarrow> string \<times> smoke_handler" where
  "smoke_OnRemoteStart r h = (''Accepted'', h\<lparr>sh_remoteStartCh := offer r (sh_remoteStartCh h)\<rparr>)"

definition smoke_OnRemoteStop :: "int \<Rightarrow> smoke_handler \<Rightarrow> string \<times> smoke_handler" where
  "smoke_OnRemoteStop tid h = (''Accepted'', h\<lparr>sh_remoteStopCh := offer tid (sh_remoteStopCh h)\<rparr>)"

definition smoke_OnUnlockConnector :: string where
  "smoke_OnUnlockConnector = ''Unlocked''"

definition smoke_OnGetDiagnostics :: string where
  "smoke_OnGetDiagnostics = ''diagnostics-smoke.log''"

text \<open>ChangeAvailability, ChangeConfiguration, ClearCache, DataTransfer, Reset and TriggerMessage are
  answered with Accepted; GetConfiguration and UpdateFirmware with an empty confirmation.\<close>

definition smoke_OnAny :: string where
  "smoke_OnAny = ''Accepted''"

section \<open>Calls\<close>

datatype smoke_msg =
    Smoke_boot string string
  | Smoke_status int string
  | Smoke_start int string int
  | Smoke_meter int string int
  | Smoke_stop int int

datatype smoke_call =
    Ocpp string smoke_msg
  | Post string gov

text \<open>A reply: the status code, its text, and the body.\<close>

record smoke_world =
  so_connect :: "go_error option"
  so_connected :: bool
  so_ocpp :: "nat \<Rightarrow> go_error option"
  so_post :: "nat \<Rightarrow> go_error + int \<times> string \<times> body"
  so_start :: "(string \<times> int) option"
  so_remote_starts :: "(int option \<times> string) list"
  so_remote_stops :: "int list"

text \<open>\<open>Inl\<close> is a fatal message, \<open>Inr\<close> the text that is printed.\<close>

definition smoke_postJSON :: "string \<Rightarrow> go_error + int \<times> string \<times> body \<Rightarrow> string + string" where
  "smoke_postJSON url reply =
     (case reply of
        Inl err \<Rightarrow> Inl (''POST '' @ url @ '' failed: '' @ error_text err)
      | Inr (c, status_text, respBody) \<Rightarrow>
          if c < 200 \<or> c \<ge> 300
          then Inl (''POST '' @ url @ '' returned '' @ status_text @ '': '' @ body_text respBody)
          else
            (case respBody of
               Body (JObj kvs) t \<Rightarrow>
                 (case map_of (rev kvs) ''status'' of
                    Some (JStr st) \<Rightarrow> Inr st
                  | _ \<Rightarrow> Inr t)
             | _ \<Rightarrow> Inr (body_text respBody)))"

definition call_fatal :: "smoke_world \<Rightarrow> string \<Rightarrow> nat \<Rightarrow> smoke_call \<Rightarrow> string option" where
  "call_fatal w base n c =
     (case c of
        Ocpp what m \<Rightarrow> map_option (\<lambda>err. what @ '' failed: '' @ error_text err) (so_ocpp w n)
      | Post path b \<Rightarrow>
          (case smoke_postJSON (base @ path) (so_post w n) of Inl m \<Rightarrow> Some m | Inr _ \<Rightarrow> None))"

text \<open>The calls in order up to the first fatal one, appended to those already made.\<close>

fun make_calls :: "smoke_world \<Rightarrow> string \<Rightarrow> smoke_call list \<Rightarrow> smoke_call list \<Rightarrow> string option \<times> smoke_call list" where
  "make_calls w base [] done_calls = (None, done_calls)"
| "make_calls w base (c # cs) done_calls =
     (case call_fatal w base (length done_calls) c of
        Some m \<Rightarrow> (Some m, done_calls @ [c])
      | None \<Rightarrow> make_calls w base cs (done_calls @ [c]))"

section \<open>A session\<close>

definition waitRemoteStart :: "smoke_world \<Rightarrow> (int option \<times> string) option" where
  "waitRemoteStart w =
     (case sh_remoteStartCh (fold (\<lambda>r h. snd (smoke_OnRemoteStart r h)) (so_remote_starts w) newSmokeHandler) of
        [] \<Rightarrow> None | r # _ \<Rightarrow> Some r)"

definition waitRemoteStop :: "smoke_world \<Rightarrow> int option" where
  "waitRemoteStop w =
     (case sh_remoteStopCh (fold (\<lambda>t h. snd (smoke_OnRemoteStop t h)) (so_remote_stops w) newSmokeHandler) of
        [] \<Rightarrow> None | t # _ \<Rightarrow> Some t)"

text \<open>From the accepted start to the end; \<open>asking\<close> are the calls that bring about the remote stop.\<close>

definition charge_and_stop ::
  "smoke_world \<Rightarrow> string \<Rightarrow> (int \<Rightarrow> smoke_call list) \<Rightarrow> string \<Rightarrow> int \<Rightarrow> int \<Rightarrow> smoke_call list
   \<Rightarrow> string option \<times> smoke_call list" where
  "charge_and_stop w base asking what connectorID transactionID calls0 =
     (case make_calls w base
             ([Ocpp ''StatusNotification Charging'' (Smoke_status connectorID ''Charging''),
               Ocpp ''MeterValues'' (Smoke_meter connectorID ''2.500'' transactionID)]
              @ asking transactionID) calls0 of
        (Some m, calls1) \<Rightarrow> (Some m, calls1)
      | (None, calls1) \<Rightarrow>
          (case waitRemoteStop w of
             None \<Rightarrow> (Some (''timed out waiting for '' @ what), calls1)
           | Some t \<Rightarrow>
               if t \<noteq> transactionID
               then (Some (''RemoteStop transaction mismatch: got '' @ FormatInt t @ '' want ''
                           @ FormatInt transactionID), calls1)
               else
                 make_calls w base
                   [Ocpp ''StopTransaction'' (Smoke_stop 3500 transactionID),
                    Ocpp ''StatusNotification Available after stop'' (Smoke_status connectorID ''Available'')] calls1))"

definition smoke_session ::
  "smoke_world \<Rightarrow> string \<Rightarrow> smoke_call list \<Rightarrow> (int \<Rightarrow> smoke_call list) \<Rightarrow> string
   \<Rightarrow> string option \<times> smoke_call list" where
  "smoke_session w base opening asking what =
     (case so_connect w of
        Some err \<Rightarrow> (Some (''connect charge point: '' @ error_text err), [])
      | None \<Rightarrow>
          if \<not> so_connected w then (Some ''charge point did not connect within 5s'', [])
          else
            (case make_calls w base opening [] of
               (Some m, calls1) \<Rightarrow> (Some m, calls1)
             | (None, calls1) \<Rightarrow>
                 (case waitRemoteStart w of
                    None \<Rightarrow> (Some ''timed out waiting for RemoteStartTransaction'', calls1)
                  | Some (asked, tag) \<Rightarrow>
                      let connectorID = (case asked of Some c \<Rightarrow> if c > 0 then c else 1 | None \<Rightarrow> 1) in
                      (case make_calls w base [Ocpp ''StartTransaction'' (Smoke_start connectorID tag 1000)] calls1 of
                         (Some m, calls2) \<Rightarrow> (Some m, calls2)
                       | (None, calls2) \<Rightarrow>
                           (case so_start w of
                              None \<Rightarrow> (Some ''StartTransaction returned nil confirmation'', calls2)
                            | Some (st, transactionID) \<Rightarrow>
                                charge_and_stop w base asking what connectorID
                                  transactionID calls2)))))"

section \<open>The three programs\<close>

definition boot_calls :: "string \<Rightarrow> string \<Rightarrow> smoke_call list" where
  "boot_calls model vendor =
     [Ocpp ''BootNotification'' (Smoke_boot model vendor),
      Ocpp ''StatusNotification Available'' (Smoke_status 1 ''Available'')]"

definition start_call :: "string \<Rightarrow> (string \<times> gov) list \<Rightarrow> smoke_call" where
  "start_call clientID extra =
     Post ''/api/start_transaction''
       (GMap ([(''uid'', GStr clientID), (''id_tag'', GStr ''USER001''), (''connector_id'', GInt 1)] @ extra))"

definition stop_call :: "string \<Rightarrow> int \<Rightarrow> smoke_call" where
  "stop_call clientID transactionID =
     Post ''/api/stop_transaction'' (GMap [(''uid'', GStr clientID), (''transaction_id'', GInt transactionID)])"

definition smoke_base :: "environment \<Rightarrow> string" where
  "smoke_base getenv = mock_env getenv ''REST_BASE_URL'' ''http://127.0.0.1:18080''"

text \<open>\<open>retrieve\<close> is the time one minute from now, as \<open>time.RFC3339\<close> prints it.\<close>

definition command_calls :: "string \<Rightarrow> string \<Rightarrow> smoke_call list" where
  "command_calls clientID retrieve =
     (let uid = (''uid'', GStr clientID); post = (\<lambda>p kvs. Post (''/api/'' @ p) (GMap (uid # kvs))) in
      [post ''change_availability'' [(''connector_id'', GInt 1), (''type'', GStr ''Operative'')],
       post ''change_configuration'' [(''key'', GStr ''HeartbeatInterval''), (''value'', GStr ''900'')],
       post ''clear_cache'' [],
       post ''unlock_connector'' [(''connector_id'', GInt 1)],
       post ''reset'' [(''type'', GStr ''Soft'')],
       post ''get_configuration'' [(''key'', GList [GStr ''HeartbeatInterval''])],
       post ''get_diagnostics'' [(''location'', GStr ''https://example.com/diagnostics'')],
       post ''update_firmware'' [(''location'', GStr ''https://example.com/firmware.bin''),
                                 (''retrieve_date'', GStr retrieve)],
       post ''trigger_message'' [(''requested_message'', GStr ''Heartbeat'')]])"

definition cpsmoke_main :: "environment \<Rightarrow> smoke_world \<Rightarrow> string \<Rightarrow> string option \<times> smoke_call list" where
  "cpsmoke_main getenv w retrieve =
     (let clientID = mock_env getenv ''CLIENT_ID'' ''CP-FW-TRIGGER-001'' in
      smoke_session w (smoke_base getenv)
        (boot_calls ''SmokeModel'' ''SmokeVendor'' @ command_calls clientID retrieve @ [start_call clientID []])
        (\<lambda>t. [stop_call clientID t]) ''RemoteStopTransaction'')"

text \<open>Here the stop comes from the server, when the energy crosses the limit.\<close>

definition cplimitsmoke_main :: "environment \<Rightarrow> smoke_world \<Rightarrow> string option \<times> smoke_call list" where
  "cplimitsmoke_main getenv w =
     (let clientID = mock_env getenv ''CLIENT_ID'' ''CP-LIMIT-AUTO-001'' in
      smoke_session w (smoke_base getenv)
        (boot_calls ''LimitSmokeModel'' ''LimitSmokeVendor'' @ [start_call clientID []])
        (\<lambda>t. []) ''AUTO RemoteStopTransaction'')"

definition cpsinglesmoke_main :: "environment \<Rightarrow> smoke_world \<Rightarrow> string option \<times> smoke_call list" where
  "cpsinglesmoke_main getenv w =
     (let clientID = mock_env getenv ''CLIENT_ID'' ''CP-SINGLE-001'' in
      smoke_session w (smoke_base getenv)
        (boot_calls ''SingleSmokeModel'' ''SingleSmokeVendor''
         @ [start_call clientID [(''is_single_session'', GBool True)]])
        (\<lambda>t. [stop_call clientID t]) ''RemoteStopTransaction'')"

section \<open>What a test that completes has seen\<close>

lemma make_calls_None: "make_calls w base cs ds = (None, es) \<Longrightarrow> es = ds @ cs"
  by (induction cs arbitrary: ds) (fastforce split: option.splits)+

lemma offer_keeps_first: "hd (fold offer xs [x]) = x" "fold offer xs [x] \<noteq> []"
  by (induction xs) (simp_all add: offer_def)

text \<open>The wait takes the first request that arrived; the later ones were dropped.\<close>

lemma stop_channel:
  "sh_remoteStopCh (fold (\<lambda>t h. snd (smoke_OnRemoteStop t h)) ts h) = fold offer ts (sh_remoteStopCh h)"
  by (induction ts arbitrary: h) (simp_all add: smoke_OnRemoteStop_def)

lemma waitRemoteStop_first: "waitRemoteStop w = (case so_remote_stops w of [] \<Rightarrow> None | t # _ \<Rightarrow> Some t)"
proof (cases "so_remote_stops w")
  case (Cons t ts)
  then have "fold offer (so_remote_stops w) [] = fold offer ts [t]" by (simp add: offer_def)
  then have "waitRemoteStop w = (case fold offer ts [t] of [] \<Rightarrow> None | t # _ \<Rightarrow> Some t)"
    unfolding waitRemoteStop_def stop_channel newSmokeHandler_def smoke_handler.simps by simp
  then show ?thesis using offer_keeps_first [where x = t and xs = ts] Cons by (cases "fold offer ts [t]") simp_all
qed (simp add: waitRemoteStop_def newSmokeHandler_def)

lemma charge_and_stop_None:
  "charge_and_stop w base asking what c t calls0 = (None, calls) \<Longrightarrow>
     so_remote_stops w \<noteq> [] \<and> hd (so_remote_stops w) = t
     \<and> Ocpp ''MeterValues'' (Smoke_meter c ''2.500'' t) \<in> set calls
     \<and> Ocpp ''StopTransaction'' (Smoke_stop 3500 t) \<in> set calls"
  unfolding charge_and_stop_def
  by (auto simp: waitRemoteStop_first dest!: make_calls_None
      split: prod.splits option.splits if_splits list.splits simp del: make_calls.simps)

text \<open>
  A test that ends without a fatal message has been asked by the server to stop the transaction the
  server had started, by the first remote stop that arrived, and has stopped exactly that one.
\<close>

theorem smoke_session_completed:
  assumes "smoke_session w base opening asking what = (None, calls)"
  shows "\<exists>st t. so_start w = Some (st, t) \<and> so_remote_stops w \<noteq> [] \<and> hd (so_remote_stops w) = t
    \<and> Ocpp ''StopTransaction'' (Smoke_stop 3500 t) \<in> set calls"
  using assms unfolding smoke_session_def
  by (auto simp: Let_def simp del: make_calls.simps dest!: charge_and_stop_None
      split: prod.splits option.splits if_splits)

end
