(* ===== verification/Startup.thy ===== *)
theory Startup
  imports Service Charger_Directory Connections
begin

text \<open>
  How the program is put together and started: \<open>cmd/ocpphal/main.go\<close>, the constructors and the worker
  loop of \<open>hooks/manager.go\<close>, and the database address of \<open>store/postgres.go\<close>.  Opening and pinging
  the database are arguments; servers, signals and log lines are not modelled beyond the order in
  which \<open>main\<close> stops things.
\<close>

section \<open>The database address\<close>

datatype url_part = User_part | Host_part | Path_part | Query_part

definition upper_hex :: "int \<Rightarrow> char" where
  "upper_hex n = (if n < 10 then byte (48 + n) else byte (55 + n))"

definition is_unreserved :: "char \<Rightarrow> bool" where
  "is_unreserved c \<longleftrightarrow>
     (let n = code c in (65 \<le> n \<and> n \<le> 90) \<or> (97 \<le> n \<and> n \<le> 122) \<or> (48 \<le> n \<and> n \<le> 57))
     \<or> c \<in> set ''-_.~''"

text \<open>\<open>shouldEscape\<close> of \<open>net/url\<close>; the quotes among the host characters are bytes 34 and 39.\<close>

definition should_escape :: "url_part \<Rightarrow> char \<Rightarrow> bool" where
  "should_escape part c =
     (if is_unreserved c then False
      else if part = Host_part \<and> (c \<in> set ''!$&()*+,;=:[]<>'' \<or> code c = 34 \<or> code c = 39) then False
      else if c \<in> set ''$&+,/:;=?@'' then
        (case part of
           User_part \<Rightarrow> c \<in> set ''@/?:''
         | Path_part \<Rightarrow> c = CHR ''?''
         | Query_part \<Rightarrow> True
         | Host_part \<Rightarrow> True)
      else True)"

definition escape_char :: "url_part \<Rightarrow> char \<Rightarrow> string" where
  "escape_char part c =
     (if \<not> should_escape part c then [c]
      else if part = Query_part \<and> c = CHR '' '' then ''+''
      else [CHR ''%'', upper_hex (code c div 16), upper_hex (code c mod 16)])"

definition url_escape :: "url_part \<Rightarrow> string \<Rightarrow> string" where
  "url_escape part s = concat (map (escape_char part) s)"

text \<open>\<open>URL.String\<close> of an address with a user, and with a path that does not begin with a slash.\<close>

definition postgresURL :: "Config \<Rightarrow> string" where
  "postgresURL c =
     (let path = (if DBName c = ''*'' then ''*'' else url_escape Path_part (DBName c)) in
      ''postgres://'' @ url_escape User_part (DBUser c) @ '':'' @ url_escape User_part (DBPassword c) @ ''@''
      @ url_escape Host_part (DBHost c @ '':'' @ FormatInt (DBPort c))
      @ (if path \<noteq> [] \<and> hd path \<noteq> CHR ''/'' then ''/'' else []) @ path
      @ ''?sslmode='' @ url_escape Query_part (DBSSLMode c))"

definition NewPostgresStore ::
  "(string \<Rightarrow> go_error + 'pg) \<Rightarrow> ('pg \<Rightarrow> go_error option) \<Rightarrow> Config \<Rightarrow> go_error + 'pg" where
  "NewPostgresStore open_db ping c =
     (let given = TrimSpace (DatabaseURL c); dsn = (if given = [] then postgresURL c else given) in
      case open_db dsn of
        Inl err \<Rightarrow> Inl err
      | Inr db \<Rightarrow> (case ping db of Some err \<Rightarrow> Inl err | None \<Rightarrow> Inr db))"

text \<open>A user name or password cannot end its part of the address early.\<close>

definition hex_digits :: "char set" where
  "hex_digits = set ''0123456789ABCDEF''"

lemma hex_digit_char:
  assumes "0 \<le> n" and "n < 16"
  shows "upper_hex n \<in> hex_digits"
proof -
  have "\<forall>k\<in>set [0..<16]. upper_hex (int k) \<in> hex_digits" by code_simp
  moreover have "nat n \<in> set [0..<16]" using assms by auto
  ultimately show ?thesis using assms(1) by (metis nat_0_le)
qed

lemma code_range: "0 \<le> code c" "code c < 256"
  by (simp_all add: code_def of_char_def)

lemma delimiters_not_hex: "\<forall>c\<in>set ''@/?:''. c \<notin> hex_digits \<and> c \<noteq> CHR ''%'' \<and> should_escape User_part c"
  by code_simp

lemma escaped_credentials_delimited:
  assumes "c \<in> set (url_escape User_part s)"
  shows "c \<notin> set ''@/?:''"
proof -
  obtain d where d: "c \<in> set (escape_char User_part d)" using assms by (auto simp: url_escape_def)
  have hex: "upper_hex (code d div 16) \<in> hex_digits" "upper_hex (code d mod 16) \<in> hex_digits"
    using code_range [of d] by (intro hex_digit_char; simp)+
  have "c \<in> hex_digits \<or> c = CHR ''%'' \<or> \<not> should_escape User_part c"
    using d hex by (auto simp: escape_char_def split: if_splits)
  then show ?thesis using delimiters_not_hex by blast
qed

section \<open>The callback worker\<close>

record hook_manager =
  hm_cfg :: hook_config
  hm_limitStopper :: bool
  hm_workers :: nat
  hm_cancelled :: bool

definition NewManager :: "hook_config \<Rightarrow> hook_manager" where
  "NewManager cfg = \<lparr>hm_cfg = cfg, hm_limitStopper = False, hm_workers = 0, hm_cancelled = False\<rparr>"

definition SetLimitStopper :: "hook_manager \<Rightarrow> hook_manager" where
  "SetLimitStopper m = m\<lparr>hm_limitStopper := True\<rparr>"

definition manager_Start :: "hook_manager \<Rightarrow> hook_manager" where
  "manager_Start m = m\<lparr>hm_workers := Suc (hm_workers m)\<rparr>"

text \<open>Cancelling makes the worker return after the pass it is in, and \<open>Stop\<close> waits for that.\<close>

definition manager_Stop :: "hook_manager \<Rightarrow> hook_manager" where
  "manager_Stop m = m\<lparr>hm_cancelled := True, hm_workers := 0\<rparr>"

text \<open>
  The worker does one pass at once and one for each tick until it is cancelled, so a life of the
  worker is a first pass and a list of later ones, each with what it meets outside and whether the
  limit stopper is set by then.
\<close>

definition hook_loop ::
  "('e, 's) TransactionStore \<Rightarrow> hook_config \<Rightarrow> bool \<times> 'e work_env \<Rightarrow> (bool \<times> 'e work_env) list \<Rightarrow> 's hal \<Rightarrow> 's hal" where
  "hook_loop ts cfg first ticks h =
     fold (\<lambda>(ls, env). processOnce ts cfg ls env) (first # ticks) h"

lemma service_run_trans:
  "service_run ts Q cfg b c \<Longrightarrow> service_run ts Q cfg a b \<Longrightarrow> service_run ts Q cfg a c"
  by (induction rule: service_run.induct) (auto intro: service_run.intros)

lemma hook_loop_is_a_run:
  assumes "\<forall>p\<in>set (first # ticks). quiet_work Q (snd p)"
  shows "service_run ts Q cfg h (hook_loop ts cfg first ticks h)"
proof -
  have "service_run ts Q cfg h (fold (\<lambda>(ls, env). processOnce ts cfg ls env) ps h)"
    if "\<forall>p\<in>set ps. quiet_work Q (snd p)" for ps
    using that
  proof (induction ps arbitrary: h)
    case Nil
    show ?case by (simp add: service_run.refl)
  next
    case (Cons p ps)
    obtain ls env where p: "p = (ls, env)" by fastforce
    have "service_run ts Q cfg h (processOnce ts cfg ls env h)"
      using Cons.prems p by (auto intro: service_run.step [OF service_run.refl] service_step.worker)
    then show ?case using Cons p service_run_trans by fastforce
  qed
  then show ?thesis using assms unfolding hook_loop_def by blast
qed

section \<open>Main\<close>

definition hal_New :: "'s \<Rightarrow> 's hal" where
  "hal_New s =
     \<lparr>hal_store = s, hal_registry = NewRegistry, hal_pending = [], hal_limit_jobs = [],
      hal_boot_running = [], hal_boot_jobs = [], hal_sync_once = [], hal_sync_jobs = []\<rparr>"

record ('pg, 'mem) program =
  pr_cfg :: Config
  pr_directory :: directory
  pr_hal :: "(('pg + 'mem) \<times> TransactionUpdates) hal"
  pr_links :: connectionTracker
  pr_manager :: hook_manager

text \<open>Up to the servers: an error ends the program with status 1.\<close>

definition main_setup ::
  "environment \<Rightarrow> (string \<Rightarrow> go_error + 'pg) \<Rightarrow> ('pg \<Rightarrow> go_error option) \<Rightarrow> 'mem
   \<Rightarrow> go_error + ('pg, 'mem) program" where
  "main_setup getenv open_db ping memory =
     (let cfg = Load getenv in
      case chooseTransactionStore (NewPostgresStore open_db ping) memory cfg of
        Inl err \<Rightarrow> Inl err
      | Inr st \<Rightarrow>
          Inr \<lparr>pr_cfg = cfg, pr_directory = NewService, pr_hal = hal_New (st, NewTransactionUpdates),
               pr_links = newConnectionTracker,
               pr_manager = SetLimitStopper (manager_Start (NewManager (hooks_config cfg)))\<rparr>)"

datatype main_event = Signal | Server_closed | Server_failed

datatype main_action = Hal_stop | Manager_stop | Rest_shutdown

text \<open>The actions after the wait, and the exit status.  \<open>clean\<close>: the REST server shut down in time.\<close>

definition main_end :: "bool \<Rightarrow> main_event \<Rightarrow> main_action list \<times> int" where
  "main_end clean ev =
     (case ev of
        Server_failed \<Rightarrow> ([], 1)
      | _ \<Rightarrow> ([Hal_stop, Manager_stop, Rest_shutdown], if clean then 0 else 1))"

end
