(* ===== verification/Spec2Isabelle.thy ===== *)
theory Spec2Isabelle
  imports Connections Service Outbox_Delivery Postgres_Faults Recovery_Correct Analytics_Correct Frontend_Correct
    Simulator_Correct Smoke_Tests Startup
begin

text \<open>
  A model of the OCPP 1.6 hardware abstraction layer and of what it promises.  The program is a
  central system for charging stations: chargers connect by WebSocket, their transactions are stored
  in PostgreSQL or in memory, the callbacks that announce a start or a completion go through an
  outbox in the same store, and a REST API and two WebSocket endpoints give commands and read the
  state.  The paths below are under \<open>src/\<close>.

  \<^bold>\<open>Parts and their theories.\<close>

  \<^item> Go itself.  \<open>Prelude\<close>: maps as association lists with distinct keys, an unordered \<open>range\<close> as an
    arbitrary order (\<open>range_order\<close>).  \<open>Go_Strings\<close>, \<open>Go_Float\<close> (binary64, exact rationals with NaN,
    infinities and the negative zero), \<open>Go_ParseFloat\<close>, \<open>Go_Time\<close>, \<open>Go_Json\<close>: the parts of the
    standard library that the program uses.
  \<^item> \<open>internal/store\<close>.  \<open>Store_Types\<close>: rows, inputs, errors, the method table of the interface
    \<open>TransactionStore\<close>, and the 32-bit register difference \<open>DeltaWh\<close>.  \<open>Memory_Store\<close>: every method of the
    memory store.  \<open>Postgres_Store\<close>: every method and SQL statement over tables of rows; an environment
    says which statement fails, before or after it took effect, and what other sessions do in between.
    \<open>Tx_Updates\<close>: the fan-out of changes with its channels of capacity one, and the wrapper of a store.
  \<^item> The contract of the interface is the locale \<open>transaction_store\<close> of \<open>Store_Contract\<close>: what each method
    does to an abstract map from transaction ids to rows.  It is interpreted on the memory store, on
    PostgreSQL and on both behind the wrapper, so what \<open>Store_History\<close>, \<open>Hal_Correct\<close>, \<open>Hooks_Correct\<close> and
    \<open>Service\<close> prove once holds for each.
  \<^item> \<open>internal/state\<close>.  \<open>Registry\<close>: the picture of the chargers and the inactivity check, which refines the
    board of the locale \<open>session_board\<close>.
  \<^item> \<open>internal/ocpp16hal\<close>.  \<open>Hal_State\<close>: the state behind the handlers and the locale \<open>hook_sink\<close> for the
    callback interface.  \<open>Hal\<close>: the message handlers of \<open>hal.go\<close>.  \<open>Connections\<close>: which connection of a
    charger is current.  \<open>Remote_Commands\<close>: the requests to a charger, each with its answer, its error or
    the end of its context.  \<open>Single_Session\<close>, \<open>Limit_Stop\<close>, \<open>Recovery\<close>, \<open>Remote_Only\<close>: the files of these
    names; their goroutines are jobs with a clock.
  \<^item> \<open>internal/hooks\<close>.  \<open>Hooks\<close>: queueing, posting, decoding the reply, retrying, reconciling.
  \<^item> \<open>internal/config\<close>, \<open>internal/chargerdir\<close>: \<open>Config\<close> and \<open>Charger_Directory\<close>.
  \<^item> \<open>internal/httpapi\<close>.  \<open>Http_Json\<close>: decoding and encoding of bodies.  \<open>Http_Api\<close>: every REST handler and
    the router.  \<open>Frontend\<close>: the two WebSocket endpoints.  \<open>Analytics\<close>: the usage report of both stores.
  \<^item> \<open>cmd/ocpphal\<close>: \<open>Startup\<close>, how \<open>main\<close> puts the parts together and the life of the callback worker.
    \<open>cmd/cpconsole\<close>: \<open>Simulator\<close>, the charge point simulator.  \<open>cmd/mockhooks\<close>: \<open>Mock_Hooks\<close>.
    \<open>cmd/cpsmoke\<close>, \<open>cmd/cplimitsmoke\<close>, \<open>cmd/cpsinglesmoke\<close>: \<open>Smoke_Tests\<close>.

  \<^bold>\<open>How code becomes definitions.\<close>  A method is a function from its arguments, what it meets outside
  (clock readings, random draws, failures, answers) and the state to a result and the new state.  Errors
  are values of \<open>go_error\<close> in the left part of a sum.  Code under one lock is one step.  A handler runs in
  one piece, because a charger has one request outstanding and other chargers' handlers touch other
  rows; the goroutines are split into their single accesses, and \<open>service_step\<close> interleaves all of it.
  The loops that wait (\<open>Limit_Stop\<close>, \<open>Recovery\<close>) carry a clock and end by a measure on the time left.

  \<^bold>\<open>What is shown.\<close>  \<open>Service\<close>: over any run, one open transaction per connector, rows that are never lost
  nor rewritten in what identifies them, a stop and a start that are recorded with their callback before the
  charger is told, limits that are claimed once and never stuck, and callbacks that reconciliation
  restores.  \<open>Postgres_Faults\<close>: the same methods when statements fail.  \<open>Outbox_Delivery\<close>: how often a
  callback is tried.  \<open>Tx_Updates\<close> and \<open>Frontend_Correct\<close>: no change is missed by a stream, the API
  key guards the chargers.  \<open>Registry\<close>, \<open>Connections\<close>, \<open>Single_Session\<close>, \<open>Limit_Stop\<close>,
  \<open>Recovery_Correct\<close>, \<open>Remote_Only\<close>, \<open>Remote_Commands\<close>: refinement, bounds on requests and times, exactly
  which requests are sent.  \<open>Analytics_Correct\<close>: both stores report the same and count each transaction
  once.  \<open>Simulator_Correct\<close>: the simulator's transaction messages form a proper conversation in every
  interleaving.

  \<^bold>\<open>Bounds and fuel.\<close>  Identifiers and counters are unbounded integers where the program stays far from
  the limits; the subscription counter is a 64-bit word, and the products of durations in the retry delay
  and in the cache lifetime are computed in 64 bits.  A few functions on strings and JSON take fuel: the length
  of the input for \<open>trim_left\<close> and \<open>Fields\<close>, which consume a byte in each step, the size of the value for \<open>Sprint\<close>
  and \<open>decode_any\<close>, which go down one level, 16 digits for a 64-bit address, and 17 for the
  shortest decimal of a float, which is enough for every binary64 value.

  \<^bold>\<open>Assumptions.\<close>  Strings are valid UTF-8 without NUL bytes.  JSON bodies come as decoded values, with their text where
  an error prints it.  URL paths are clean, so the router does not redirect.  Converting a float outside the range
  of \<open>int64\<close> gives the value of amd64.  PostgreSQL has version 14 or later, where \<open>EXTRACT\<close> is exact.

  \<^bold>\<open>Not modelled.\<close>  The OCPP library, the HTTP and WebSocket transports, the database server and the
  context package are outside and appear as the environments above, as does the result of \<open>url.Parse\<close>.
  Logging, printing and the processing of signals have no effect on the state and are left out.
  \<open>cmd/frontendwssmoke\<close> dials a socket and prints three messages.
\<close>

end
